(* ===== verification/Prelude.thy ===== *)
theory Prelude
  imports Complex_Main "HOL-Library.Word" "HOL-Library.Product_Lexorder"
begin

text \<open>
  What every component of the EventHarbor model shares: the names of the basic types, the
  exceptions of the Python code as values, the pieces of Python's string and number library
  that the sources use, and the relational vocabulary (rows, keyed updates, \<open>ORDER BY\<close>,
  \<open>LIMIT\<close>) in which the SQL statements are written.

  \<^item> A \<open>uuid\<close> is its 128-bit value; PostgreSQL compares UUIDs as unsigned big-endian
    numbers, which is the order of the word type.
  \<^item> A \<open>datetime\<close> is an instant, in microseconds since the Unix epoch: the resolution of
    both Python's and PostgreSQL's timestamps.  Every timestamp of the program is
    timezone-aware, so instants are all that is compared or stored.
  \<^item> A \<open>seconds\<close> value stands for a Python float that holds a duration.  It is an exact
    rational: the rounding of binary floating point is not modelled.
  \<^item> A character is a code point below 256.
  \<^item> A function that may raise returns a value of \<open>'a res\<close>, \<open>Inl\<close> for the exception.
\<close>

section \<open>Types\<close>

type_synonym uuid = "128 word"
type_synonym datetime = int
type_synonym seconds = rat
type_synonym bytes = "8 word list"

text \<open>
  The exceptions the modelled code raises or lets through.  \<open>DomainError\<close> carries the four
  fields of the class of errors.py; \<open>RequestValidationError\<close> is FastAPI's refusal of a request
  whose declared bounds do not hold (status 422); \<open>DBAPIError\<close> is the database's refusal of a value or of a
  flush that breaks a constraint (SQLAlchemy's common superclass of its DataError and
  IntegrityError); \<open>MultipleResultsFound\<close> is raised by \<open>one_or_none\<close> and
  \<open>scalar_one_or_none\<close>.
\<close>

datatype py_exn =
    ValueError string
  | RequestValidationError
  | TypeError string
  | RuntimeError string
  | OverflowError
  | InvalidDeliveryTransition string
  | CanonicalJSONError string
  | DomainError (de_status_code: int) (de_code: string) (de_title: string) (de_detail: string)
  | DBAPIError
  | MultipleResultsFound

type_synonym 'a res = "py_exn + 'a"

section \<open>Collections of facts\<close>

named_theorems row_simps "rewriting a table operation to what it does to the set of rows"
named_theorems op_defs "the definitions of the program's operations"

section \<open>Strings\<close>

text \<open>The white space of \<open>str.strip\<close> among the code points below 256.\<close>

definition py_isspace :: "char \<Rightarrow> bool" where
  "py_isspace c \<longleftrightarrow> (of_char c :: nat) \<in> {9, 10, 11, 12, 13, 28, 29, 30, 31, 32, 133, 160}"

definition py_strip :: "string \<Rightarrow> string" where
  "py_strip s = rev (dropWhile py_isspace (rev (dropWhile py_isspace s)))"

text \<open>\<open>str(n)\<close> for an integer: its decimal digits, after a minus sign when negative.\<close>

definition digit_char :: "nat \<Rightarrow> char" where
  "digit_char d = char_of (48 + d)"

fun str_nat :: "nat \<Rightarrow> string" where
  "str_nat n = (if n < 10 then [digit_char n] else str_nat (n div 10) @ [digit_char (n mod 10)])"

declare str_nat.simps [simp del]

definition str_int :: "int \<Rightarrow> string" where
  "str_int i = (if i < 0 then CHR ''-'' # str_nat (nat (- i)) else str_nat (nat i))"

text \<open>\<open>s.encode(''ascii'')\<close> on a string of code points below 128.\<close>

definition ascii_encode :: "string \<Rightarrow> bytes" where
  "ascii_encode s = map of_char s"

text \<open>
  \<open>s.encode(''utf-8'')\<close>: a code point below 128 is one byte, any other code point of the
  model (128 to 255) is two.
\<close>

definition utf8_char :: "char \<Rightarrow> bytes" where
  "utf8_char c = (let n = (of_char c :: nat) in
     if n < 128 then [of_nat n] else [of_nat (192 + n div 64), of_nat (128 + n mod 64)])"

definition utf8_encode :: "string \<Rightarrow> bytes" where
  "utf8_encode s = concat (map utf8_char s)"

text \<open>\<open>str(u)\<close> for a UUID: 32 lower-case hexadecimal digits in groups of 8-4-4-4-12.\<close>

definition hex_digit :: "nat \<Rightarrow> char" where
  "hex_digit n = (if n < 10 then char_of (48 + n) else char_of (87 + n))"

fun hex_digits :: "nat \<Rightarrow> nat \<Rightarrow> string" where
  "hex_digits 0 n = []"
| "hex_digits (Suc k) n = hex_digits k (n div 16) @ [hex_digit (n mod 16)]"

definition uuid_str :: "uuid \<Rightarrow> string" where
  "uuid_str u = (let h = hex_digits 32 (unat u) in
     take 8 h @ ''-'' @ take 4 (drop 8 h) @ ''-'' @ take 4 (drop 12 h) @ ''-'' @
     take 4 (drop 16 h) @ ''-'' @ drop 20 h)"

section \<open>Durations\<close>

text \<open>
  \<open>timedelta(seconds=x)\<close> in microseconds: rounded to the nearest, halves to the even
  neighbour.
\<close>

definition round_half_even :: "rat \<Rightarrow> int" where
  "round_half_even x = (let f = \<lfloor>x\<rfloor>; r = x - of_int f in
     if r < 1 / 2 then f else if r > 1 / 2 then f + 1 else if even f then f else f + 1)"

definition timedelta_seconds :: "seconds \<Rightarrow> int" where
  "timedelta_seconds x = round_half_even (x * 1000000)"

lemma round_half_even_bounds:
  "\<lfloor>x\<rfloor> \<le> round_half_even x" "round_half_even x \<le> \<lfloor>x\<rfloor> + 1"
  by (simp_all add: round_half_even_def Let_def)

lemma round_half_even_of_int [simp]: "round_half_even (of_int n) = n"
  by (simp add: round_half_even_def)

lemma round_half_even_mono:
  assumes "x \<le> y"
  shows "round_half_even x \<le> round_half_even y"
proof (cases "\<lfloor>x\<rfloor> = \<lfloor>y\<rfloor>")
  case True
  with assms show ?thesis by (auto simp: round_half_even_def Let_def)
next
  case False
  with assms have "\<lfloor>x\<rfloor> + 1 \<le> \<lfloor>y\<rfloor>" using floor_mono by fastforce
  then show ?thesis using round_half_even_bounds[of x] round_half_even_bounds[of y] by linarith
qed

lemma timedelta_seconds_mono: "x \<le> y \<Longrightarrow> timedelta_seconds x \<le> timedelta_seconds y"
  by (simp add: timedelta_seconds_def round_half_even_mono)

lemma timedelta_seconds_0 [simp]: "timedelta_seconds 0 = 0"
  using round_half_even_of_int[of 0] by (simp add: timedelta_seconds_def)

lemma timedelta_seconds_nonneg: "0 \<le> x \<Longrightarrow> 0 \<le> timedelta_seconds x"
  using timedelta_seconds_mono[of 0 x] by simp

section \<open>Rendering is injective\<close>

lemma of_char_nat_lt_256 [simp]: "(of_char c :: nat) < 256"
  by (metis of_char_mod_256 mod_less_divisor zero_less_numeral)

lemma of_char_word_eq_iff [simp]: "(of_char c :: 8 word) = of_char d \<longleftrightarrow> c = d"
proof
  assume "(of_char c :: 8 word) = of_char d"
  then have "(of_nat (of_char c) :: 8 word) = of_nat (of_char d)" by (simp only: of_nat_of_char)
  then have "(of_char c :: nat) mod 256 = of_char d mod 256"
    by (simp add: word_of_nat_eq_iff take_bit_eq_mod)
  then show "c = d" by simp
qed simp

lemma ascii_encode_append [simp]: "ascii_encode (s @ t) = ascii_encode s @ ascii_encode t"
  by (simp add: ascii_encode_def)

lemma ascii_encode_inject: "ascii_encode s = ascii_encode t \<longleftrightarrow> s = t"
  unfolding ascii_encode_def by (intro inj_map_eq_map injI) simp

lemma digit_char_code [simp]: "d < 10 \<Longrightarrow> (of_char (digit_char d) :: nat) = 48 + d"
  by (simp add: digit_char_def)

lemma digit_char_inject: "d < 10 \<Longrightarrow> e < 10 \<Longrightarrow> digit_char d = digit_char e \<longleftrightarrow> d = e"
  by (metis digit_char_code add_left_cancel)

lemma str_nat_nonempty [simp]: "str_nat n \<noteq> []"
  by (subst str_nat.simps) simp

lemmas str_nat_nonempty_sym [simp] = str_nat_nonempty[symmetric]

lemma str_nat_digits: "\<forall>c \<in> set (str_nat n). \<exists>d < 10. c = digit_char d"
proof (induction n rule: str_nat.induct)
  case (1 n)
  have "\<exists>d < 10. digit_char (n mod 10) = digit_char d"
    by (rule exI[of _ "n mod 10"]) simp
  then show ?case using "1.IH" by (subst str_nat.simps) auto
qed

lemma str_nat_inject: "str_nat m = str_nat n \<Longrightarrow> m = n"
proof (induction m arbitrary: n rule: str_nat.induct)
  case (1 m)
  show ?case
  proof (cases "m < 10"; cases "n < 10")
    assume "m < 10" "n < 10"
    with "1.prems" show ?thesis by (simp add: str_nat.simps digit_char_inject)
  next
    assume "m < 10" "\<not> n < 10"
    with "1.prems" show ?thesis by (simp add: str_nat.simps[of m] str_nat.simps[of n])
  next
    assume "\<not> m < 10" "n < 10"
    with "1.prems" show ?thesis by (simp add: str_nat.simps[of m] str_nat.simps[of n])
  next
    assume ge: "\<not> m < 10" "\<not> n < 10"
    with "1.prems" have "str_nat (m div 10) = str_nat (n div 10)"
      and "digit_char (m mod 10) = digit_char (n mod 10)"
      by (simp_all add: str_nat.simps[of m] str_nat.simps[of n])
    with "1.IH"[of "n div 10"] ge have "m div 10 = n div 10" "m mod 10 = n mod 10"
      by (simp_all add: digit_char_inject)
    then show ?thesis by (metis div_mult_mod_eq)
  qed
qed

lemma hex_digits_length [simp]: "length (hex_digits k n) = k"
  by (induction k arbitrary: n) auto

lemma hex_digit_inject:
  assumes "m < 16" "n < 16" "hex_digit m = hex_digit n"
  shows "m = n"
proof -
  have code: "(of_char (hex_digit d) :: nat) = (if d < 10 then 48 + d else 87 + d)" if "d < 16" for d
    using that by (auto simp: hex_digit_def)
  have "(of_char (hex_digit m) :: nat) = of_char (hex_digit n)" using assms(3) by simp
  then show ?thesis using assms(1,2) by (auto simp: code split: if_splits)
qed

lemma hex_digits_inject:
  "m < 16 ^ k \<Longrightarrow> n < 16 ^ k \<Longrightarrow> hex_digits k m = hex_digits k n \<Longrightarrow> m = n"
proof (induction k arbitrary: m n)
  case 0
  then show ?case by simp
next
  case (Suc k)
  then have "hex_digits k (m div 16) = hex_digits k (n div 16)"
    and "hex_digit (m mod 16) = hex_digit (n mod 16)" by simp_all
  moreover have "m div 16 < 16 ^ k" "n div 16 < 16 ^ k"
    using Suc.prems by (simp_all add: less_mult_imp_div_less mult.commute)
  ultimately have "m div 16 = n div 16" "m mod 16 = n mod 16"
    using Suc.IH hex_digit_inject[of "m mod 16" "n mod 16"] by auto
  then show ?case by (metis div_mult_mod_eq)
qed

lemma uuid_str_inject: "uuid_str u = uuid_str v \<longleftrightarrow> u = v"
proof
  assume eq: "uuid_str u = uuid_str v"
  define h g where "h = hex_digits 32 (unat u)" and "g = hex_digits 32 (unat v)"
  have len: "length h = 32" "length g = 32" by (simp_all add: h_def g_def)
  have "take 8 h = take 8 g" "take 4 (drop 8 h) = take 4 (drop 8 g)"
    "take 4 (drop 12 h) = take 4 (drop 12 g)" "take 4 (drop 16 h) = take 4 (drop 16 g)"
    "drop 20 h = drop 20 g"
    using eq len by (simp_all add: uuid_str_def Let_def flip: h_def g_def)
  moreover have "xs = take 8 xs @ take 4 (drop 8 xs) @ take 4 (drop 12 xs) @ take 4 (drop 16 xs) @ drop 20 xs"
    for xs :: string
    using take_add[of 8 4 xs] take_add[of 12 4 xs] take_add[of 16 4 xs] append_take_drop_id[of 20 xs]
    by (simp del: append_take_drop_id)
  ultimately have "h = g" by metis
  moreover have "unat u < 16 ^ 32" "unat v < 16 ^ 32"
    using unsigned_less[of u, where ?'a = nat] unsigned_less[of v, where ?'a = nat] by simp_all
  ultimately have "unat u = unat v" unfolding h_def g_def by (metis hex_digits_inject)
  then show "u = v" by (simp add: word_unat_eq_iff)
qed simp

text \<open>A separator that occurs in neither first part separates them.\<close>

lemma append_sep_inject:
  assumes "xs @ sep # us = ys @ sep # vs" "sep \<notin> set xs" "sep \<notin> set ys"
  shows "xs = ys \<and> us = vs"
  using assms
proof (induction xs arbitrary: ys)
  case Nil
  then show ?case by (cases ys) auto
next
  case (Cons x xs)
  then show ?case by (cases ys) auto
qed

section \<open>Relational vocabulary\<close>

text \<open>
  A table is a list of rows.  \<open>update_row\<close> is what a flush does to a changed ORM object:
  \<open>UPDATE ... WHERE id = ...\<close>.  \<open>one_or_none\<close> raises on a second row.  \<open>order_by\<close> sorts
  ascending; \<open>nulls_last\<close> is the place PostgreSQL gives a null in an ascending order.
\<close>

definition update_row :: "('r \<Rightarrow> 'k) \<Rightarrow> 'r \<Rightarrow> 'r list \<Rightarrow> 'r list" where
  "update_row key r rows = map (\<lambda>x. if key x = key r then r else x) rows"

definition insert_row :: "'r \<Rightarrow> 'r list \<Rightarrow> 'r list" where
  "insert_row r rows = rows @ [r]"

definition get_row :: "('r \<Rightarrow> 'k) \<Rightarrow> 'k \<Rightarrow> 'r list \<Rightarrow> 'r option" where
  "get_row key k rows = find (\<lambda>x. key x = k) rows"

fun one_or_none :: "'r list \<Rightarrow> 'r option res" where
  "one_or_none [] = Inr None"
| "one_or_none [r] = Inr (Some r)"
| "one_or_none (r # s # rows) = Inl MultipleResultsFound"

definition order_by :: "('r \<Rightarrow> 'k::linorder) \<Rightarrow> 'r list \<Rightarrow> 'r list" where
  "order_by key rows = sort_key key rows"

definition nulls_last :: "datetime option \<Rightarrow> nat \<times> datetime" where
  "nulls_last t = (case t of Some v \<Rightarrow> (0, v) | None \<Rightarrow> (1, 0))"

definition coalesce :: "'a option \<Rightarrow> 'a option \<Rightarrow> 'a option" where
  "coalesce a b = (case a of Some v \<Rightarrow> Some v | None \<Rightarrow> b)"

text \<open>
  A unique index over the rows that satisfy a condition (\<open>postgresql_where\<close>), and one over
  nullable columns, where rows with a null in the key never collide.
\<close>

definition unique_where :: "('r \<Rightarrow> bool) \<Rightarrow> ('r \<Rightarrow> 'k) \<Rightarrow> 'r list \<Rightarrow> bool" where
  "unique_where P key rows \<longleftrightarrow> distinct (map key (filter P rows))"

abbreviation unique_on :: "('r \<Rightarrow> 'k) \<Rightarrow> 'r list \<Rightarrow> bool" where
  "unique_on key rows \<equiv> unique_where (\<lambda>_. True) key rows"

lemma set_update_row [row_simps]:
  "set (update_row key r rows) =
     {x \<in> set rows. key x \<noteq> key r} \<union> (if \<exists>x \<in> set rows. key x = key r then {r} else {})"
  by (auto simp: update_row_def)

lemma set_insert_row [row_simps]: "set (insert_row r rows) = insert r (set rows)"
  by (simp add: insert_row_def)

lemma map_key_update_row [simp]: "map key (update_row key r rows) = map key rows"
  by (induction rows) (auto simp: update_row_def)

lemma length_update_row [simp]: "length (update_row key r rows) = length rows"
  by (simp add: update_row_def)

lemma update_row_twice [simp]:
  "key s = key r \<Longrightarrow> update_row key s (update_row key r rows) = update_row key s rows"
  by (induction rows) (auto simp: update_row_def)

lemma get_row_Some: "get_row key k rows = Some r \<Longrightarrow> r \<in> set rows \<and> key r = k"
  by (auto simp: get_row_def find_Some_iff)

lemma get_row_None: "get_row key k rows = None \<longleftrightarrow> k \<notin> key ` set rows"
  by (auto simp: get_row_def find_None_iff)

lemma get_row_unique:
  assumes "distinct (map key rows)" "r \<in> set rows"
  shows "get_row key (key r) rows = Some r"
proof -
  obtain s where s: "get_row key (key r) rows = Some s"
    using assms(2) by (metis get_row_None imageI option.exhaust)
  with assms show ?thesis by (auto simp: distinct_map dest!: get_row_Some dest: inj_onD)
qed

lemma get_update_row:
  "distinct (map key rows) \<Longrightarrow>
   get_row key k (update_row key r rows) =
     (if k = key r \<and> get_row key (key r) rows \<noteq> None then Some r else get_row key k rows)"
  by (induction rows) (auto simp: update_row_def get_row_def)

lemma get_insert_row:
  "key r \<notin> key ` set rows \<Longrightarrow>
   get_row key k (insert_row r rows) = (if k = key r then Some r else get_row key k rows)"
  by (induction rows) (auto simp: insert_row_def get_row_def)

lemma find_append_None: "find P xs = None \<Longrightarrow> find P (xs @ ys) = find P ys"
  by (induction xs) (auto split: if_splits)

lemma one_or_none_Some: "one_or_none rows = Inr (Some r) \<longleftrightarrow> rows = [r]"
  by (cases rows rule: one_or_none.cases) auto

lemma one_or_none_None: "one_or_none rows = Inr None \<longleftrightarrow> rows = []"
  by (cases rows rule: one_or_none.cases) auto

text \<open>A filter by a condition that at most one row meets never raises.\<close>

lemma one_or_none_filter:
  assumes "distinct rows" and "\<And>x y. x \<in> set rows \<Longrightarrow> y \<in> set rows \<Longrightarrow> P x \<Longrightarrow> P y \<Longrightarrow> x = y"
  shows "one_or_none (filter P rows) = Inr (find P rows)"
  using assms
proof (induction rows)
  case Nil
  then show ?case by simp
next
  case (Cons x rows)
  show ?case
  proof (cases "P x")
    case True
    with Cons.prems have "filter P rows = []"
      by (metis distinct.simps(2) filter_False list.set_intros)
    with True show ?thesis by simp
  next
    case False
    with Cons show ?thesis by simp
  qed
qed

lemma one_or_none_filter_Some:
  assumes "distinct rows" "r \<in> set rows" "P r"
    and "\<And>x. x \<in> set rows \<Longrightarrow> P x \<Longrightarrow> x = r"
  shows "one_or_none (filter P rows) = Inr (Some r)"
proof -
  have "one_or_none (filter P rows) = Inr (find P rows)"
    using assms by (intro one_or_none_filter) auto
  moreover have "find P rows = Some r"
    using assms by (metis find_None_iff find_Some_iff nth_mem option.exhaust)
  ultimately show ?thesis by simp
qed

lemma unique_where_iff:
  "distinct rows \<Longrightarrow> unique_where P key rows \<longleftrightarrow> inj_on key {x \<in> set rows. P x}"
  by (simp add: unique_where_def distinct_map)

lemma unique_whereD:
  "unique_where P key rows \<Longrightarrow> x \<in> set rows \<Longrightarrow> y \<in> set rows \<Longrightarrow> P x \<Longrightarrow> P y \<Longrightarrow>
   key x = key y \<Longrightarrow> x = y"
  by (auto simp: unique_where_def distinct_map dest: inj_onD)

text \<open>
  Uniqueness after an update and after an insertion: the key of the new row must not be the
  key of another row under the index.
\<close>

lemma unique_where_update:
  assumes "unique_where P key rows" "distinct (map pk rows)"
    and "P r \<Longrightarrow> (\<And>x. x \<in> set rows \<Longrightarrow> P x \<Longrightarrow> pk x \<noteq> pk r \<Longrightarrow> key x \<noteq> key r)"
  shows "unique_where P key (update_row pk r rows)"
proof -
  have "distinct (map pk (update_row pk r rows))" using assms(2) by simp
  then have d: "distinct rows" "distinct (update_row pk r rows)"
    using assms(2) by (metis distinct_map)+
  show ?thesis
    using assms(1,3) d by (auto simp: unique_where_iff row_simps inj_on_def split: if_splits) metis+
qed

text \<open>An update that keeps the key of its row, and does not bring the row under the index.\<close>

lemma unique_where_update_same:
  assumes "unique_where P key rows" "distinct (map pk rows)" "old \<in> set rows"
    and "pk r = pk old" "key r = key old" "P r \<Longrightarrow> P old"
  shows "unique_where P key (update_row pk r rows)"
  using assms(1,2)
proof (rule unique_where_update)
  fix x assume x: "P r" "x \<in> set rows" "P x" "pk x \<noteq> pk r"
  then have "x \<noteq> old" using assms(4) by auto
  then show "key x \<noteq> key r"
    using unique_whereD[OF assms(1) x(2) assms(3) x(3)] assms(5,6) x(1) by auto
qed

lemma unique_where_insert:
  assumes "unique_where P key rows"
    and "P r \<Longrightarrow> (\<And>x. x \<in> set rows \<Longrightarrow> P x \<Longrightarrow> key x \<noteq> key r)"
  shows "unique_where P key (insert_row r rows)"
proof (cases "P r")
  case True
  with assms(2) have "key x \<noteq> key r" if "x \<in> set (filter P rows)" for x using that by simp
  then have "key r \<notin> key ` set (filter P rows)" by (metis imageE)
  with True assms(1) show ?thesis by (simp add: unique_where_def insert_row_def)
next
  case False
  with assms(1) show ?thesis by (simp add: unique_where_def insert_row_def)
qed

lemma unique_where_filter: "unique_where P key rows \<Longrightarrow> unique_where P key (filter Q rows)"
  by (auto simp: unique_where_def distinct_map inj_on_def filter_filter)
     (metis (no_types, lifting) distinct_filter filter_filter filter_cong)

lemma set_order_by [simp]: "set (order_by key rows) = set rows"
  by (simp add: order_by_def)

lemma order_by_Nil_iff [simp]: "order_by key rows = [] \<longleftrightarrow> rows = []"
  by (metis set_empty set_order_by)

lemma take1_order_by:
  assumes "take 1 (order_by key rows) = [r]"
  shows "r \<in> set rows" "\<And>x. x \<in> set rows \<Longrightarrow> key r \<le> key x"
proof -
  from assms obtain rest where ob: "order_by key rows = r # rest"
    by (cases "order_by key rows") auto
  then show "r \<in> set rows" by (metis list.set_intros(1) set_order_by)
  fix x assume "x \<in> set rows"
  then have "x \<in> set (r # rest)" by (metis ob set_order_by)
  moreover have "sorted (map key (r # rest))" using ob by (metis order_by_def sorted_sort_key)
  ultimately show "key r \<le> key x" by auto
qed

lemma take1_cases: "take 1 xs = [] \<and> xs = [] \<or> (\<exists>x ys. xs = x # ys \<and> take 1 xs = [x])"
  by (cases xs) auto

end
