(* ===== verification/State_Machine.thy ===== *)
theory State_Machine
  imports Prelude
begin

text \<open>
  The delivery life cycle of deliveries/state_machine.py: the five delivery states, the three
  states of an attempt, the table of allowed transitions and the guard that every status
  change of the worker goes through.
\<close>

datatype delivery_status = PENDING | IN_PROGRESS | RETRY_WAIT | DELIVERED | DEAD_LETTERED

datatype delivery_attempt_status = AT_IN_PROGRESS | AT_COMPLETED | AT_INDETERMINATE

text \<open>The value of a member of \<open>DeliveryStatus\<close>, which is also how a StrEnum prints.\<close>

fun status_value :: "delivery_status \<Rightarrow> string" where
  "status_value PENDING = ''pending''"
| "status_value IN_PROGRESS = ''in_progress''"
| "status_value RETRY_WAIT = ''retry_wait''"
| "status_value DELIVERED = ''delivered''"
| "status_value DEAD_LETTERED = ''dead_lettered''"

fun attempt_status_value :: "delivery_attempt_status \<Rightarrow> string" where
  "attempt_status_value AT_IN_PROGRESS = ''in_progress''"
| "attempt_status_value AT_COMPLETED = ''completed''"
| "attempt_status_value AT_INDETERMINATE = ''indeterminate''"

fun ALLOWED_TRANSITIONS :: "delivery_status \<Rightarrow> delivery_status set" where
  "ALLOWED_TRANSITIONS PENDING = {IN_PROGRESS, DEAD_LETTERED}"
| "ALLOWED_TRANSITIONS IN_PROGRESS = {DELIVERED, RETRY_WAIT, DEAD_LETTERED}"
| "ALLOWED_TRANSITIONS RETRY_WAIT = {IN_PROGRESS, DEAD_LETTERED}"
| "ALLOWED_TRANSITIONS DELIVERED = {}"
| "ALLOWED_TRANSITIONS DEAD_LETTERED = {}"

definition ensure_transition :: "delivery_status \<Rightarrow> delivery_status \<Rightarrow> unit res" where
  "ensure_transition current target =
     (if target \<notin> ALLOWED_TRANSITIONS current
      then Inl (InvalidDeliveryTransition
             (''cannot transition from '' @ status_value current @ '' to '' @ status_value target))
      else Inr ())"

text \<open>
  The states in which a generation still has work to do: the tuple that maintenance.py names
  \<open>ACTIVE_DELIVERY_STATUSES\<close>, that repositories.py writes out in \<open>get_active\<close> and models.py
  in the partial unique index.
\<close>

definition active_status :: "delivery_status \<Rightarrow> bool" where
  "active_status s \<longleftrightarrow> s \<in> {PENDING, IN_PROGRESS, RETRY_WAIT}"

lemma active_status_simps [simp]:
  "active_status PENDING" "active_status IN_PROGRESS" "active_status RETRY_WAIT"
  "\<not> active_status DELIVERED" "\<not> active_status DEAD_LETTERED"
  by (simp_all add: active_status_def)

lemma ensure_transition_Inr [simp]:
  "ensure_transition s t = Inr u \<longleftrightarrow> t \<in> ALLOWED_TRANSITIONS s"
  by (simp add: ensure_transition_def)

lemma ensure_transition_ok: "t \<in> ALLOWED_TRANSITIONS s \<Longrightarrow> ensure_transition s t = Inr ()"
  by (simp add: ensure_transition_def)

lemma terminal_iff_no_transition: "ALLOWED_TRANSITIONS s = {} \<longleftrightarrow> \<not> active_status s"
  by (cases s) auto

section \<open>The life cycle as a relation\<close>

text \<open>
  One accepted call of the guard is one edge; a path of edges is a life of a delivery
  generation.
\<close>

inductive lifecycle :: "delivery_status \<Rightarrow> delivery_status list \<Rightarrow> bool" where
  lifecycle_nil: "lifecycle s []"
| lifecycle_cons: "ensure_transition s t = Inr () \<Longrightarrow> lifecycle t ts \<Longrightarrow> lifecycle s (t # ts)"

inductive_simps lifecycle_Nil_iff [simp]: "lifecycle s []"
inductive_simps lifecycle_Cons_iff [simp]: "lifecycle s (t # ts)"

lemma lifecycle_terminal_last:
  "lifecycle s ts \<Longrightarrow> \<not> active_status s \<Longrightarrow> ts = []"
  by (induction rule: lifecycle.induct) (use terminal_iff_no_transition in auto)

lemma lifecycle_append:
  "lifecycle s (ts @ us) \<longleftrightarrow> lifecycle s ts \<and> lifecycle (last (s # ts)) us"
  by (induction ts arbitrary: s) auto

text \<open>
  Terminal states are final: in any life that the guard accepts, from any state, a
  delivered or dead-lettered state can only be the last one.
\<close>

lemma lifecycle_terminal_final:
  assumes "lifecycle s (ts @ t # us)" "\<not> active_status t"
  shows "us = []"
  using assms lifecycle_terminal_last[of t us] by (simp add: lifecycle_append)

lemma lifecycle_never_pending:
  "lifecycle s ts \<Longrightarrow> PENDING \<notin> set ts"
proof (induction rule: lifecycle.induct)
  case (lifecycle_cons s t ts)
  then show ?case by (cases s) auto
qed simp

section \<open>The life of a delivery\<close>

lemma lifecycle_delivered:
  "lifecycle s ts \<Longrightarrow> DELIVERED \<in> set ts \<Longrightarrow> s \<noteq> IN_PROGRESS \<Longrightarrow> \<exists>us. ts = us @ [IN_PROGRESS, DELIVERED]"
proof (induction ts arbitrary: s rule: length_induct)
  case (1 ts)
  obtain t us where ts: "ts = t # us" using "1.prems"(2) by (cases ts) auto
  have tr: "t \<in> ALLOWED_TRANSITIONS s" and lc: "lifecycle t us" using "1.prems"(1) ts by simp_all
  have "t = IN_PROGRESS \<or> t = DEAD_LETTERED" using tr "1.prems"(3) by (cases s) auto
  note t = this lc
  have ip: "t = IN_PROGRESS"
  proof (rule ccontr)
    assume "t \<noteq> IN_PROGRESS"
    with t have "us = []" using lifecycle_terminal_last[of t us] by auto
    with t(1) ts \<open>t \<noteq> IN_PROGRESS\<close> "1.prems"(2) show False by auto
  qed
  then have "us \<noteq> []" using "1.prems"(2) ts by auto
  then obtain u vs where u: "us = u # vs" by (cases us) auto
  have us: "us = u # vs" "lifecycle u vs" "u \<in> {DELIVERED, RETRY_WAIT, DEAD_LETTERED}"
    using lc ip u by simp_all
  show ?case
  proof (cases "u = DELIVERED")
    case True
    then have "vs = []" using us(2) lifecycle_terminal_last[of u vs] by auto
    then show ?thesis using ts us ip True by (intro exI[of _ "[]"]) simp
  next
    case False
    then have "DELIVERED \<in> set vs" using "1.prems"(2) ts us ip by auto
    moreover have "length vs < length ts" using ts us by simp
    ultimately obtain ws where "vs = ws @ [IN_PROGRESS, DELIVERED]" using "1.IH" us(2,3) False by blast
    then show ?thesis using ts us ip by (intro exI[of _ "t # u # ws"]) simp
  qed
qed

text \<open>
  C17.  A life of a delivery that the guard accepts, from its creation as pending, never
  returns to pending, stops at the first delivered or dead-lettered state, and reaches
  delivered only from in progress.
\<close>

theorem delivery_lifecycle:
  assumes "lifecycle PENDING ts"
  shows "PENDING \<notin> set ts \<and> (\<forall>us t vs. ts = us @ t # vs \<and> \<not> active_status t \<longrightarrow> vs = []) \<and>
    (DELIVERED \<in> set ts \<longrightarrow> (\<exists>us. ts = us @ [IN_PROGRESS, DELIVERED]))"
  using lifecycle_never_pending[OF assms] lifecycle_terminal_final[of PENDING] lifecycle_delivered[OF assms] assms
  by auto

theorem delivery_lifecycle_witness:
  "lifecycle PENDING [IN_PROGRESS, RETRY_WAIT, IN_PROGRESS, DELIVERED] \<and>
   (\<exists>us. [IN_PROGRESS, RETRY_WAIT, IN_PROGRESS, DELIVERED] = us @ [IN_PROGRESS, DELIVERED])"
proof -
  have "lifecycle PENDING [IN_PROGRESS, RETRY_WAIT, IN_PROGRESS, DELIVERED]" by simp
  then show ?thesis using delivery_lifecycle[of "[IN_PROGRESS, RETRY_WAIT, IN_PROGRESS, DELIVERED]"] by simp
qed

end
