(* ===== verification/Retry.thy ===== *)
theory Retry
  imports State_Machine
begin

text \<open>
  Retry classification and backoff, deliveries/retry.py: the disposition of an HTTP status,
  the bounded full-jitter backoff policy, and the evidence that blocks an unchanged replay.
  The JSON decoder is an argument (\<open>json_loads\<close>, \<open>None\<close> for a decoding error).
\<close>

section \<open>JSON values\<close>

datatype py_float = Finite rat | Infinite bool | NaN

datatype json =
    JNull
  | JBool bool
  | JInt int
  | JFloat py_float
  | JStr string
  | JArr "json list"
  | JObj "(string \<times> json) list"

section \<open>Dispositions\<close>

datatype delivery_disposition = SUCCEEDED | RETRY | TERMINAL_FAILURE

fun disposition_value :: "delivery_disposition \<Rightarrow> string" where
  "disposition_value SUCCEEDED = ''succeeded''"
| "disposition_value RETRY = ''retry''"
| "disposition_value TERMINAL_FAILURE = ''terminal_failure''"

datatype replay_block_code_t = ENDPOINT_DISABLED | PAYLOAD_CORRECTION_REQUIRED

fun block_code_value :: "replay_block_code_t \<Rightarrow> string" where
  "block_code_value ENDPOINT_DISABLED = ''endpoint_disabled''"
| "block_code_value PAYLOAD_CORRECTION_REQUIRED = ''payload_correction_required''"

definition RETRYABLE_STATUS_CODES :: "int set" where
  "RETRYABLE_STATUS_CODES = {408, 425, 429}"

definition RECEIVER_PAYLOAD_ERROR_CODES :: "string set" where
  "RECEIVER_PAYLOAD_ERROR_CODES =
     {''invalid_json'', ''invalid_payload'', ''invalid_data'', ''unsupported_event_type'',
      ''invalid_currency'', ''invalid_quantity_remaining'', ''invalid_reorder_threshold''}"

definition starts_with :: "string \<Rightarrow> string \<Rightarrow> bool" where
  "starts_with s p \<longleftrightarrow> take (length p) s = p"

definition replay_block_code ::
    "(string \<Rightarrow> json option) \<Rightarrow> int option \<Rightarrow> string option \<Rightarrow> replay_block_code_t option" where
  "replay_block_code json_loads http_status_code response_body_excerpt =
     (if http_status_code \<noteq> Some 400 then None
      else case response_body_excerpt of
        None \<Rightarrow> None
      | Some excerpt \<Rightarrow>
          (case json_loads excerpt of
             Some (JObj response) \<Rightarrow>
               (case map_of response ''code'' of
                  Some (JStr code) \<Rightarrow>
                    (if starts_with code ''missing_'' \<or> code \<in> RECEIVER_PAYLOAD_ERROR_CODES
                     then Some PAYLOAD_CORRECTION_REQUIRED else None)
                | _ \<Rightarrow> None)
           | _ \<Rightarrow> None))"

definition classify_status_code :: "int \<Rightarrow> delivery_disposition res" where
  "classify_status_code status_code =
     (if \<not> (100 \<le> status_code \<and> status_code \<le> 599)
      then Inl (ValueError ''status_code must be between 100 and 599'')
      else if 200 \<le> status_code \<and> status_code \<le> 299 then Inr SUCCEEDED
      else if status_code \<in> RETRYABLE_STATUS_CODES \<or> status_code \<ge> 500 then Inr RETRY
      else Inr TERMINAL_FAILURE)"

section \<open>The retry policy\<close>

record retry_policy =
  max_attempts :: int
  base_delay_seconds :: seconds
  max_delay_seconds :: seconds

text \<open>\<open>RetryPolicy(...)\<close>: the constructor runs \<open>__post_init__\<close>.\<close>

definition RetryPolicy :: "int \<Rightarrow> seconds \<Rightarrow> seconds \<Rightarrow> retry_policy res" where
  "RetryPolicy ma bd md =
     (if ma < 1 then Inl (ValueError ''max_attempts must be at least 1'')
      else if bd \<le> 0 then Inl (ValueError ''base_delay_seconds must be positive'')
      else if md < bd then Inl (ValueError ''max_delay_seconds must be at least base_delay_seconds'')
      else Inr \<lparr>max_attempts = ma, base_delay_seconds = bd, max_delay_seconds = md\<rparr>)"

definition default_retry_policy :: retry_policy where
  "default_retry_policy = \<lparr>max_attempts = 8, base_delay_seconds = 10, max_delay_seconds = 3600\<rparr>"

definition has_attempt_remaining :: "retry_policy \<Rightarrow> int \<Rightarrow> bool res" where
  "has_attempt_remaining p completed_attempts =
     (if completed_attempts < 0 then Inl (ValueError ''completed_attempts cannot be negative'')
      else Inr (completed_attempts < max_attempts p))"

text \<open>
  \<open>2.0 ** k\<close> raises \<open>OverflowError\<close> for an integer \<open>k\<close> of 1024 and more, the first power
  of two beyond the range of a Python float.
\<close>

definition delay_seconds :: "retry_policy \<Rightarrow> int \<Rightarrow> seconds \<Rightarrow> seconds res" where
  "delay_seconds p completed_attempts random_fraction =
     (if completed_attempts < 1 then Inl (ValueError ''completed_attempts must be at least 1'')
      else if \<not> (0 \<le> random_fraction \<and> random_fraction \<le> 1)
      then Inl (ValueError ''random_fraction must be between 0 and 1'')
      else if completed_attempts - 1 \<ge> 1024 then Inl OverflowError
      else
        let exponential_delay = base_delay_seconds p * 2 ^ nat (completed_attempts - 1);
            ceiling = min (max_delay_seconds p) exponential_delay
        in Inr (ceiling * random_fraction))"

section \<open>What a constructed policy promises\<close>

text \<open>
  The contract of the retry policy that the worker relies on: a positive budget, and a delay
  that is never negative and never above the configured maximum.
\<close>

definition policy_ok :: "retry_policy \<Rightarrow> bool" where
  "policy_ok p \<longleftrightarrow> 1 \<le> max_attempts p \<and> 0 < base_delay_seconds p \<and>
     base_delay_seconds p \<le> max_delay_seconds p"

lemma RetryPolicy_ok: "RetryPolicy ma bd md = Inr p \<longleftrightarrow>
  policy_ok p \<and> p = \<lparr>max_attempts = ma, base_delay_seconds = bd, max_delay_seconds = md\<rparr>"
  by (auto simp: RetryPolicy_def policy_ok_def)

lemma has_attempt_remaining_nonneg [simp]:
  "0 \<le> n \<Longrightarrow> has_attempt_remaining p n = Inr (n < max_attempts p)"
  by (simp add: has_attempt_remaining_def)

lemma delay_seconds_Inr:
  assumes "1 \<le> n" "n \<le> 1024" "0 \<le> r" "r \<le> 1"
  shows "delay_seconds p n r =
    Inr (min (max_delay_seconds p) (base_delay_seconds p * 2 ^ nat (n - 1)) * r)"
  using assms by (simp add: delay_seconds_def Let_def)

lemma delay_seconds_bounds:
  assumes "policy_ok p" "delay_seconds p n r = Inr d"
  shows "0 \<le> d" "d \<le> max_delay_seconds p" "d \<le> base_delay_seconds p * 2 ^ nat (n - 1)"
proof -
  define e where "e = base_delay_seconds p * 2 ^ nat (n - 1)"
  have e: "0 < e" and m: "0 < max_delay_seconds p"
    using assms(1) by (simp_all add: policy_ok_def e_def)
  have d: "d = min (max_delay_seconds p) e * r" and r: "0 \<le> r" "r \<le> 1"
    using assms(2) by (auto simp: delay_seconds_def Let_def e_def split: if_splits)
  have c: "0 < min (max_delay_seconds p) e" using e m by simp
  then show "0 \<le> d" using d r by simp
  have "d \<le> min (max_delay_seconds p) e" unfolding d using c r by (intro mult_left_le) auto
  then show "d \<le> max_delay_seconds p" "d \<le> base_delay_seconds p * 2 ^ nat (n - 1)"
    by (simp_all flip: e_def)
qed

lemma classify_Inr: "(\<exists>d. classify_status_code c = Inr d) \<longleftrightarrow> 100 \<le> c \<and> c \<le> 599"
  by (auto simp: classify_status_code_def)



end
