(* ===== verification/Models.thy ===== *)
theory Models
  imports Retry
begin

text \<open>
  The persistence model, models.py: the four tables as records, their column types and CHECK
  constraints as a predicate per row, the unique and foreign keys as predicates per table,
  and the flush of the session, which the database refuses with a \<open>DBAPIError\<close> when a
  constraint does not hold afterwards.  The lemmas say which single-row changes keep every
  constraint: the operations of the other theories are combinations of them.
\<close>

section \<open>Rows\<close>

record endpoint =
  ep_id :: uuid
  ep_name :: string
  ep_target_url :: string
  ep_signing_secret :: bytes
  ep_secret_version :: int
  ep_enabled :: bool
  ep_created_at :: datetime
  ep_updated_at :: datetime

record event =
  ev_id :: uuid
  ev_source :: string
  ev_event_type :: string
  ev_idempotency_key :: string
  ev_payload :: "(string \<times> json) list"
  ev_payload_bytes :: bytes
  ev_request_fingerprint_sha256 :: string
  ev_payload_sha256 :: string
  ev_created_at :: datetime

record delivery =
  dl_id :: uuid
  dl_event_id :: uuid
  dl_endpoint_id :: uuid
  dl_replay_generation :: int
  dl_replayed_from_delivery_id :: "uuid option"
  dl_replay_idempotency_key :: "string option"
  dl_status :: delivery_status
  dl_attempt_count :: int
  dl_next_attempt_at :: "datetime option"
  dl_lease_owner :: "string option"
  dl_lease_expires_at :: "datetime option"
  dl_lease_token :: "uuid option"
  dl_delivered_at :: "datetime option"
  dl_last_error :: "string option"
  dl_created_at :: datetime
  dl_updated_at :: datetime

record delivery_attempt =
  at_id :: uuid
  at_delivery_id :: uuid
  at_attempt_number :: int
  at_status :: delivery_attempt_status
  at_lease_token :: uuid
  at_disposition :: "delivery_disposition option"
  at_http_status_code :: "int option"
  at_error_type :: "string option"
  at_error_message :: "string option"
  at_response_body_excerpt :: "string option"
  at_duration_ms :: "int option"
  at_request_timestamp :: "int option"
  at_retry_scheduled_for :: "datetime option"
  at_started_at :: "datetime option"
  at_finished_at :: "datetime option"
  at_resolved_at :: "datetime option"
  at_created_at :: datetime

record db =
  db_endpoints :: "endpoint list"
  db_events :: "event list"
  db_deliveries :: "delivery list"
  db_attempts :: "delivery_attempt list"

definition empty_db :: db where
  "empty_db = \<lparr>db_endpoints = [], db_events = [], db_deliveries = [], db_attempts = []\<rparr>"

section \<open>Column types and CHECK constraints\<close>

text \<open>
  \<open>Integer\<close> is four bytes and \<open>BigInteger\<close> eight, signed; \<open>String(n)\<close> holds at most
  \<open>n\<close> characters, and neither it nor \<open>Text\<close> nor a string of a \<open>JSONB\<close> value can hold the
  character 0, which PostgreSQL refuses.  A CHECK that evaluates to null is satisfied.
\<close>

definition int4 :: "int \<Rightarrow> bool" where
  "int4 i \<longleftrightarrow> - (2 ^ 31) \<le> i \<and> i < 2 ^ 31"

definition int8 :: "int \<Rightarrow> bool" where
  "int8 i \<longleftrightarrow> - (2 ^ 63) \<le> i \<and> i < 2 ^ 63"

definition pg_text :: "string \<Rightarrow> bool" where
  "pg_text s \<longleftrightarrow> CHR 0x00 \<notin> set s"

definition varchar :: "nat \<Rightarrow> string \<Rightarrow> bool" where
  "varchar n s \<longleftrightarrow> length s \<le> n \<and> pg_text s"

text \<open>A value that a \<open>JSONB\<close> column accepts: no character 0, no non-finite number.\<close>

fun jsonb :: "json \<Rightarrow> bool" where
  "jsonb (JStr s) = pg_text s"
| "jsonb (JFloat f) = (case f of Finite _ \<Rightarrow> True | _ \<Rightarrow> False)"
| "jsonb (JArr vs) = list_all jsonb vs"
| "jsonb (JObj kvs) = list_all (\<lambda>kv. pg_text (fst kv) \<and> jsonb (snd kv)) kvs"
| "jsonb _ = True"

definition null_or :: "('a \<Rightarrow> bool) \<Rightarrow> 'a option \<Rightarrow> bool" where
  "null_or P v = (case v of None \<Rightarrow> True | Some x \<Rightarrow> P x)"

definition endpoint_row_ok :: "endpoint \<Rightarrow> bool" where
  "endpoint_row_ok e \<longleftrightarrow>
     varchar 120 (ep_name e) \<and> pg_text (ep_target_url e) \<and> int4 (ep_secret_version e) \<and>
     length (ep_name e) > 0 \<and> length (ep_target_url e) > 0 \<and>
     length (ep_signing_secret e) > 0 \<and> ep_secret_version e \<ge> 1"

definition event_row_ok :: "event \<Rightarrow> bool" where
  "event_row_ok e \<longleftrightarrow>
     varchar 120 (ev_source e) \<and> varchar 255 (ev_event_type e) \<and>
     varchar 255 (ev_idempotency_key e) \<and> jsonb (JObj (ev_payload e)) \<and>
     length (ev_source e) > 0 \<and> length (ev_event_type e) > 0 \<and>
     length (ev_idempotency_key e) > 0 \<and> length (ev_payload_bytes e) > 0 \<and>
     pg_text (ev_request_fingerprint_sha256 e) \<and> pg_text (ev_payload_sha256 e) \<and>
     length (ev_request_fingerprint_sha256 e) = 64 \<and> length (ev_payload_sha256 e) = 64"

definition delivery_row_ok :: "delivery \<Rightarrow> bool" where
  "delivery_row_ok d \<longleftrightarrow>
     int4 (dl_replay_generation d) \<and> int4 (dl_attempt_count d) \<and>
     null_or (varchar 255) (dl_replay_idempotency_key d) \<and> null_or (varchar 160) (dl_lease_owner d) \<and>
     null_or pg_text (dl_last_error d) \<and>
     dl_replay_generation d \<ge> 0 \<and>
     (dl_replayed_from_delivery_id d = None) = (dl_replay_idempotency_key d = None) \<and>
     null_or (\<lambda>k. length k > 0) (dl_replay_idempotency_key d) \<and>
     dl_attempt_count d \<ge> 0 \<and>
     ((dl_lease_owner d = None) = (dl_lease_expires_at d = None) \<and>
      (dl_lease_owner d = None) = (dl_lease_token d = None)) \<and>
     (dl_status d = IN_PROGRESS) = (dl_lease_owner d \<noteq> None) \<and>
     (dl_status d \<noteq> DELIVERED \<or> dl_delivered_at d \<noteq> None)"

definition attempt_row_ok :: "delivery_attempt \<Rightarrow> bool" where
  "attempt_row_ok a \<longleftrightarrow>
     int4 (at_attempt_number a) \<and> null_or int4 (at_http_status_code a) \<and>
     null_or (varchar 120) (at_error_type a) \<and> null_or int4 (at_duration_ms a) \<and>
     null_or int8 (at_request_timestamp a) \<and>
     null_or pg_text (at_error_message a) \<and> null_or pg_text (at_response_body_excerpt a) \<and>
     at_attempt_number a \<ge> 1 \<and>
     null_or (\<lambda>n. n \<ge> 0) (at_duration_ms a) \<and>
     null_or (\<lambda>n. n \<ge> 0) (at_request_timestamp a) \<and>
     null_or (\<lambda>c. 100 \<le> c \<and> c \<le> 599) (at_http_status_code a) \<and>
     (case (at_finished_at a, at_started_at a) of (Some f, Some s) \<Rightarrow> f \<ge> s | _ \<Rightarrow> True) \<and>
     ((at_status a = AT_IN_PROGRESS \<and> at_disposition a = None \<and>
       at_http_status_code a = None \<and> at_error_type a = None \<and>
       at_error_message a = None \<and> at_response_body_excerpt a = None \<and>
       at_duration_ms a = None \<and> at_request_timestamp a = None \<and>
       at_retry_scheduled_for a = None \<and> at_started_at a = None \<and>
       at_finished_at a = None \<and> at_resolved_at a = None) \<or>
      (at_status a = AT_COMPLETED \<and> at_disposition a \<noteq> None \<and>
       at_duration_ms a \<noteq> None \<and> at_request_timestamp a \<noteq> None \<and>
       at_started_at a \<noteq> None \<and> at_finished_at a \<noteq> None \<and> at_resolved_at a \<noteq> None) \<or>
      (at_status a = AT_INDETERMINATE \<and> at_disposition a = None \<and>
       at_http_status_code a = None \<and> at_error_type a \<noteq> None \<and>
       at_response_body_excerpt a = None \<and> at_duration_ms a = None \<and>
       at_request_timestamp a = None \<and> at_retry_scheduled_for a = None \<and>
       at_started_at a = None \<and> at_finished_at a = None \<and> at_resolved_at a \<noteq> None))"

lemma pg_text_append [simp]: "pg_text (s @ t) \<longleftrightarrow> pg_text s \<and> pg_text t"
  by (auto simp: pg_text_def)

lemma pg_text_simps [simp]: "pg_text []" "pg_text (c # s) \<longleftrightarrow> c \<noteq> CHR 0x00 \<and> pg_text s"
  by (auto simp: pg_text_def)

lemma pg_text_take [simp]: "pg_text s \<Longrightarrow> pg_text (take n s)"
  by (auto simp: pg_text_def dest: in_set_takeD)

section \<open>Unique and foreign keys\<close>

definition endpoints_ok :: "endpoint list \<Rightarrow> bool" where
  "endpoints_ok es \<longleftrightarrow> distinct (map ep_id es) \<and> list_all endpoint_row_ok es"

definition events_ok :: "event list \<Rightarrow> bool" where
  "events_ok es \<longleftrightarrow> distinct (map ev_id es) \<and> list_all event_row_ok es \<and>
     unique_on (\<lambda>e. (ev_source e, ev_idempotency_key e)) es"

definition generation_key :: "delivery \<Rightarrow> uuid \<times> uuid \<times> int" where
  "generation_key d = (dl_event_id d, dl_endpoint_id d, dl_replay_generation d)"

definition replay_key :: "delivery \<Rightarrow> uuid option \<times> string option" where
  "replay_key d = (dl_replayed_from_delivery_id d, dl_replay_idempotency_key d)"

definition replay_key_set :: "delivery \<Rightarrow> bool" where
  "replay_key_set d \<longleftrightarrow> dl_replayed_from_delivery_id d \<noteq> None \<and> dl_replay_idempotency_key d \<noteq> None"

definition chain_key :: "delivery \<Rightarrow> uuid \<times> uuid" where
  "chain_key d = (dl_event_id d, dl_endpoint_id d)"

definition is_active :: "delivery \<Rightarrow> bool" where
  "is_active d \<longleftrightarrow> active_status (dl_status d)"

definition deliveries_ok :: "delivery list \<Rightarrow> bool" where
  "deliveries_ok ds \<longleftrightarrow> distinct (map dl_id ds) \<and> list_all delivery_row_ok ds \<and>
     unique_on generation_key ds \<and> unique_where replay_key_set replay_key ds \<and>
     unique_where is_active chain_key ds"

definition attempts_ok :: "delivery_attempt list \<Rightarrow> bool" where
  "attempts_ok as \<longleftrightarrow> distinct (map at_id as) \<and> list_all attempt_row_ok as \<and>
     unique_on (\<lambda>a. (at_delivery_id a, at_attempt_number a)) as \<and>
     unique_on (\<lambda>a. (at_delivery_id a, at_lease_token a)) as \<and>
     unique_where (\<lambda>a. at_status a = AT_IN_PROGRESS) at_delivery_id as"

definition foreign_keys_ok :: "db \<Rightarrow> bool" where
  "foreign_keys_ok db \<longleftrightarrow>
     list_all (\<lambda>d. dl_event_id d \<in> ev_id ` set (db_events db) \<and>
       dl_endpoint_id d \<in> ep_id ` set (db_endpoints db) \<and>
       null_or (\<lambda>p. p \<in> dl_id ` set (db_deliveries db)) (dl_replayed_from_delivery_id d))
       (db_deliveries db) \<and>
     list_all (\<lambda>a. at_delivery_id a \<in> dl_id ` set (db_deliveries db)) (db_attempts db)"

definition db_ok :: "db \<Rightarrow> bool" where
  "db_ok db \<longleftrightarrow> endpoints_ok (db_endpoints db) \<and> events_ok (db_events db) \<and>
     deliveries_ok (db_deliveries db) \<and> attempts_ok (db_attempts db) \<and> foreign_keys_ok db"

text \<open>
  \<open>session.flush()\<close>.  Constraints are checked table by table and each flush of the program
  changes at most one row of a table, so the check of the state after the flush is the check
  PostgreSQL makes.
\<close>

definition flush :: "db \<Rightarrow> db res" where
  "flush db = (if db_ok db then Inr db else Inl DBAPIError)"

section \<open>Table operations\<close>

definition get_endpoint :: "uuid \<Rightarrow> db \<Rightarrow> endpoint option" where
  "get_endpoint i db = get_row ep_id i (db_endpoints db)"

definition get_event :: "uuid \<Rightarrow> db \<Rightarrow> event option" where
  "get_event i db = get_row ev_id i (db_events db)"

definition get_delivery :: "uuid \<Rightarrow> db \<Rightarrow> delivery option" where
  "get_delivery i db = get_row dl_id i (db_deliveries db)"

definition get_attempt :: "uuid \<Rightarrow> db \<Rightarrow> delivery_attempt option" where
  "get_attempt i db = get_row at_id i (db_attempts db)"

definition put_delivery :: "delivery \<Rightarrow> db \<Rightarrow> db" where
  "put_delivery d db = db\<lparr>db_deliveries := update_row dl_id d (db_deliveries db)\<rparr>"

definition put_attempt :: "delivery_attempt \<Rightarrow> db \<Rightarrow> db" where
  "put_attempt a db = db\<lparr>db_attempts := update_row at_id a (db_attempts db)\<rparr>"

definition add_endpoint :: "endpoint \<Rightarrow> db \<Rightarrow> db" where
  "add_endpoint e db = db\<lparr>db_endpoints := insert_row e (db_endpoints db)\<rparr>"

definition add_event :: "event \<Rightarrow> db \<Rightarrow> db" where
  "add_event e db = db\<lparr>db_events := insert_row e (db_events db)\<rparr>"

definition add_delivery :: "delivery \<Rightarrow> db \<Rightarrow> db" where
  "add_delivery d db = db\<lparr>db_deliveries := insert_row d (db_deliveries db)\<rparr>"

definition add_attempt :: "delivery_attempt \<Rightarrow> db \<Rightarrow> db" where
  "add_attempt a db = db\<lparr>db_attempts := insert_row a (db_attempts db)\<rparr>"

lemma put_delivery_sel [simp]:
  "db_endpoints (put_delivery d db) = db_endpoints db" "db_events (put_delivery d db) = db_events db"
  "db_deliveries (put_delivery d db) = update_row dl_id d (db_deliveries db)"
  "db_attempts (put_delivery d db) = db_attempts db"
  by (simp_all add: put_delivery_def)

lemma put_attempt_sel [simp]:
  "db_endpoints (put_attempt a db) = db_endpoints db" "db_events (put_attempt a db) = db_events db"
  "db_deliveries (put_attempt a db) = db_deliveries db"
  "db_attempts (put_attempt a db) = update_row at_id a (db_attempts db)"
  by (simp_all add: put_attempt_def)

lemma add_endpoint_sel [simp]:
  "db_endpoints (add_endpoint e db) = insert_row e (db_endpoints db)"
  "db_events (add_endpoint e db) = db_events db"
  "db_deliveries (add_endpoint e db) = db_deliveries db" "db_attempts (add_endpoint e db) = db_attempts db"
  by (simp_all add: add_endpoint_def)

lemma add_event_sel [simp]:
  "db_endpoints (add_event e db) = db_endpoints db"
  "db_events (add_event e db) = insert_row e (db_events db)"
  "db_deliveries (add_event e db) = db_deliveries db" "db_attempts (add_event e db) = db_attempts db"
  by (simp_all add: add_event_def)

lemma add_delivery_sel [simp]:
  "db_endpoints (add_delivery d db) = db_endpoints db" "db_events (add_delivery d db) = db_events db"
  "db_deliveries (add_delivery d db) = insert_row d (db_deliveries db)"
  "db_attempts (add_delivery d db) = db_attempts db"
  by (simp_all add: add_delivery_def)

lemma add_attempt_sel [simp]:
  "db_endpoints (add_attempt a db) = db_endpoints db" "db_events (add_attempt a db) = db_events db"
  "db_deliveries (add_attempt a db) = db_deliveries db"
  "db_attempts (add_attempt a db) = insert_row a (db_attempts db)"
  by (simp_all add: add_attempt_def)

section \<open>Which changes keep the constraints\<close>

lemma db_okD:
  assumes "db_ok db"
  shows "endpoints_ok (db_endpoints db)" "events_ok (db_events db)"
    "deliveries_ok (db_deliveries db)" "attempts_ok (db_attempts db)" "foreign_keys_ok db"
    "distinct (map ep_id (db_endpoints db))" "distinct (map ev_id (db_events db))"
    "distinct (map dl_id (db_deliveries db))" "distinct (map at_id (db_attempts db))"
  using assms by (simp_all add: db_ok_def endpoints_ok_def events_ok_def deliveries_ok_def attempts_ok_def)

lemma delivery_row_okD: "db_ok db \<Longrightarrow> d \<in> set (db_deliveries db) \<Longrightarrow> delivery_row_ok d"
  by (auto simp: db_ok_def deliveries_ok_def list_all_iff)

lemma attempt_row_okD: "db_ok db \<Longrightarrow> a \<in> set (db_attempts db) \<Longrightarrow> attempt_row_ok a"
  by (auto simp: db_ok_def attempts_ok_def list_all_iff)

lemma delivery_id_unique:
  "db_ok db \<Longrightarrow> d \<in> set (db_deliveries db) \<Longrightarrow> e \<in> set (db_deliveries db) \<Longrightarrow> dl_id d = dl_id e \<Longrightarrow> d = e"
  using db_okD(8)[of db] by (auto simp: distinct_map dest: inj_onD)

lemma attempt_id_unique:
  "db_ok db \<Longrightarrow> a \<in> set (db_attempts db) \<Longrightarrow> b \<in> set (db_attempts db) \<Longrightarrow> at_id a = at_id b \<Longrightarrow> a = b"
  using db_okD(9)[of db] by (auto simp: distinct_map dest: inj_onD)

lemma event_id_unique:
  "db_ok db \<Longrightarrow> a \<in> set (db_events db) \<Longrightarrow> b \<in> set (db_events db) \<Longrightarrow> ev_id a = ev_id b \<Longrightarrow> a = b"
  using db_okD(7)[of db] by (auto simp: distinct_map dest: inj_onD)

lemma distinct_attempts: "db_ok db \<Longrightarrow> distinct (db_attempts db)"
  using db_okD(9)[of db] by (auto simp: distinct_map)

lemma distinct_deliveries: "db_ok db \<Longrightarrow> distinct (db_deliveries db)"
  using db_okD(8)[of db] by (auto simp: distinct_map)

lemma get_delivery_Some:
  "db_ok db \<Longrightarrow> get_delivery i db = Some d \<longleftrightarrow> d \<in> set (db_deliveries db) \<and> dl_id d = i"
  by (metis get_delivery_def get_row_Some get_row_unique db_okD(8))

lemma get_event_Some:
  "db_ok db \<Longrightarrow> get_event i db = Some e \<longleftrightarrow> e \<in> set (db_events db) \<and> ev_id e = i"
  by (metis get_event_def get_row_Some get_row_unique db_okD(7))

lemma get_endpoint_Some:
  "db_ok db \<Longrightarrow> get_endpoint i db = Some e \<longleftrightarrow> e \<in> set (db_endpoints db) \<and> ep_id e = i"
  by (metis get_endpoint_def get_row_Some get_row_unique db_okD(6))

lemma delivery_event_exists:
  assumes "db_ok db" "d \<in> set (db_deliveries db)"
  obtains e where "get_event (dl_event_id d) db = Some e"
  using assms by (auto simp: get_event_Some db_ok_def foreign_keys_ok_def list_all_iff)

lemma delivery_endpoint_exists:
  assumes "db_ok db" "d \<in> set (db_deliveries db)"
  obtains e where "get_endpoint (dl_endpoint_id d) db = Some e"
  using assms by (auto simp: get_endpoint_Some db_ok_def foreign_keys_ok_def list_all_iff)

text \<open>
  The columns of a delivery that no operation changes after the row is created.
\<close>

definition same_identity :: "delivery \<Rightarrow> delivery \<Rightarrow> bool" where
  "same_identity d d' \<longleftrightarrow> dl_id d' = dl_id d \<and> dl_event_id d' = dl_event_id d \<and>
     dl_endpoint_id d' = dl_endpoint_id d \<and> dl_replay_generation d' = dl_replay_generation d \<and>
     dl_replayed_from_delivery_id d' = dl_replayed_from_delivery_id d \<and>
     dl_replay_idempotency_key d' = dl_replay_idempotency_key d \<and>
     dl_created_at d' = dl_created_at d"

lemma put_delivery_ok:
  assumes ok: "db_ok db" and d: "d \<in> set (db_deliveries db)" and same: "same_identity d d'"
    and row: "delivery_row_ok d'" and act: "is_active d' \<Longrightarrow> is_active d"
  shows "db_ok (put_delivery d' db)"
proof -
  note dk = db_okD(3)[OF ok, unfolded deliveries_ok_def] db_okD(8)[OF ok]
  note sd = same[unfolded same_identity_def]
  have "unique_on generation_key (update_row dl_id d' (db_deliveries db))"
    by (rule unique_where_update_same[where old = d]) (use dk sd d in \<open>auto simp: generation_key_def\<close>)
  moreover have "unique_where replay_key_set replay_key (update_row dl_id d' (db_deliveries db))"
    by (rule unique_where_update_same[where old = d])
      (use dk sd d in \<open>auto simp: replay_key_def replay_key_set_def\<close>)
  moreover have "unique_where is_active chain_key (update_row dl_id d' (db_deliveries db))"
    by (rule unique_where_update_same[where old = d]) (use dk sd d act in \<open>auto simp: chain_key_def\<close>)
  moreover have "list_all delivery_row_ok (update_row dl_id d' (db_deliveries db))"
    using dk row by (auto simp: list_all_iff row_simps split: if_splits)
  moreover have "foreign_keys_ok (put_delivery d' db)"
  proof -
    have "dl_id ` set (update_row dl_id d' (db_deliveries db)) = dl_id ` set (db_deliveries db)"
      by (metis image_set map_key_update_row)
    then show ?thesis using db_okD(5)[OF ok] same d
      by (auto simp: foreign_keys_ok_def list_all_iff row_simps same_identity_def)
  qed
  ultimately show ?thesis using db_okD[OF ok] by (simp add: db_ok_def deliveries_ok_def)
qed

lemma put_attempt_ok:
  assumes ok: "db_ok db" and a: "a \<in> set (db_attempts db)"
    and same: "at_id a' = at_id a" "at_delivery_id a' = at_delivery_id a"
      "at_attempt_number a' = at_attempt_number a" "at_lease_token a' = at_lease_token a"
    and row: "attempt_row_ok a'" and act: "at_status a' = AT_IN_PROGRESS \<Longrightarrow> at_status a = AT_IN_PROGRESS"
  shows "db_ok (put_attempt a' db)"
proof -
  note ak = db_okD(4)[OF ok, unfolded attempts_ok_def] db_okD(9)[OF ok]
  have "unique_on (\<lambda>a. (at_delivery_id a, at_attempt_number a)) (update_row at_id a' (db_attempts db))"
    by (rule unique_where_update_same[where old = a]) (use ak same a in auto)
  moreover have "unique_on (\<lambda>a. (at_delivery_id a, at_lease_token a)) (update_row at_id a' (db_attempts db))"
    by (rule unique_where_update_same[where old = a]) (use ak same a in auto)
  moreover have "unique_where (\<lambda>a. at_status a = AT_IN_PROGRESS) at_delivery_id (update_row at_id a' (db_attempts db))"
    by (rule unique_where_update_same[where old = a]) (use ak same a act in auto)
  moreover have "list_all attempt_row_ok (update_row at_id a' (db_attempts db))"
    using ak row by (auto simp: list_all_iff row_simps split: if_splits)
  moreover have "foreign_keys_ok (put_attempt a' db)"
    using db_okD(5)[OF ok] same a by (auto simp: foreign_keys_ok_def list_all_iff row_simps)
  ultimately show ?thesis using db_okD[OF ok] by (simp add: db_ok_def attempts_ok_def)
qed

lemma add_attempt_ok:
  assumes ok: "db_ok db" and row: "attempt_row_ok a"
    and fk: "at_delivery_id a \<in> dl_id ` set (db_deliveries db)"
    and fresh: "at_id a \<notin> at_id ` set (db_attempts db)"
    and others: "\<And>x. x \<in> set (db_attempts db) \<Longrightarrow> at_delivery_id x = at_delivery_id a \<Longrightarrow>
      at_attempt_number x \<noteq> at_attempt_number a \<and> at_lease_token x \<noteq> at_lease_token a \<and>
      (at_status a = AT_IN_PROGRESS \<longrightarrow> at_status x \<noteq> AT_IN_PROGRESS)"
  shows "db_ok (add_attempt a db)"
proof -
  note ak = db_okD(4)[OF ok, unfolded attempts_ok_def]
  have "unique_on (\<lambda>a. (at_delivery_id a, at_attempt_number a)) (insert_row a (db_attempts db))"
    "unique_on (\<lambda>a. (at_delivery_id a, at_lease_token a)) (insert_row a (db_attempts db))"
    "unique_where (\<lambda>a. at_status a = AT_IN_PROGRESS) at_delivery_id (insert_row a (db_attempts db))"
    using ak others by (auto intro!: unique_where_insert)
  moreover have "distinct (map at_id (insert_row a (db_attempts db)))"
    using ak fresh by (simp add: insert_row_def)
  ultimately show ?thesis using db_okD[OF ok] ak row fk
    by (simp add: db_ok_def attempts_ok_def list_all_iff row_simps foreign_keys_ok_def)
qed

lemma add_delivery_ok:
  assumes ok: "db_ok db" and row: "delivery_row_ok d"
    and fk: "dl_event_id d \<in> ev_id ` set (db_events db)" "dl_endpoint_id d \<in> ep_id ` set (db_endpoints db)"
      "null_or (\<lambda>p. p \<in> dl_id ` set (db_deliveries db)) (dl_replayed_from_delivery_id d)"
    and fresh: "dl_id d \<notin> dl_id ` set (db_deliveries db)"
    and others: "\<And>x. x \<in> set (db_deliveries db) \<Longrightarrow> generation_key x \<noteq> generation_key d"
      "\<And>x. x \<in> set (db_deliveries db) \<Longrightarrow> replay_key_set d \<Longrightarrow> replay_key_set x \<Longrightarrow> replay_key x \<noteq> replay_key d"
      "\<And>x. x \<in> set (db_deliveries db) \<Longrightarrow> is_active d \<Longrightarrow> is_active x \<Longrightarrow> chain_key x \<noteq> chain_key d"
  shows "db_ok (add_delivery d db)"
proof -
  note dk = db_okD(3)[OF ok, unfolded deliveries_ok_def]
  have "unique_on generation_key (insert_row d (db_deliveries db))"
    "unique_where replay_key_set replay_key (insert_row d (db_deliveries db))"
    "unique_where is_active chain_key (insert_row d (db_deliveries db))"
    using dk others by (auto intro!: unique_where_insert)
  moreover have "distinct (map dl_id (insert_row d (db_deliveries db)))"
    using dk fresh by (simp add: insert_row_def)
  moreover have "foreign_keys_ok (add_delivery d db)"
    using db_okD(5)[OF ok] fk by (auto simp: foreign_keys_ok_def list_all_iff row_simps null_or_def split: option.splits)
  ultimately show ?thesis using db_okD[OF ok] dk row
    by (simp add: db_ok_def deliveries_ok_def list_all_iff row_simps)
qed

lemma add_event_ok:
  assumes ok: "db_ok db" and row: "event_row_ok e" and fresh: "ev_id e \<notin> ev_id ` set (db_events db)"
    and key: "\<And>x. x \<in> set (db_events db) \<Longrightarrow>
      (ev_source x, ev_idempotency_key x) \<noteq> (ev_source e, ev_idempotency_key e)"
  shows "db_ok (add_event e db)"
proof -
  note ek = db_okD(2)[OF ok, unfolded events_ok_def]
  have "unique_on (\<lambda>e. (ev_source e, ev_idempotency_key e)) (insert_row e (db_events db))"
    using ek key by (intro unique_where_insert) auto
  moreover have "distinct (map ev_id (insert_row e (db_events db)))"
    using ek fresh by (simp add: insert_row_def)
  moreover have "foreign_keys_ok (add_event e db)"
    using db_okD(5)[OF ok] by (auto simp: foreign_keys_ok_def list_all_iff row_simps)
  ultimately show ?thesis using db_okD[OF ok] ek row
    by (simp add: db_ok_def events_ok_def list_all_iff row_simps)
qed

lemma add_endpoint_ok:
  assumes ok: "db_ok db" and row: "endpoint_row_ok e" and fresh: "ep_id e \<notin> ep_id ` set (db_endpoints db)"
  shows "db_ok (add_endpoint e db)"
proof -
  have "endpoints_ok (insert_row e (db_endpoints db))"
    using db_okD(1)[OF ok] row fresh by (simp add: endpoints_ok_def insert_row_def)
  moreover have "foreign_keys_ok (add_endpoint e db)"
    using db_okD(5)[OF ok] by (auto simp: foreign_keys_ok_def list_all_iff row_simps)
  ultimately show ?thesis using db_okD[OF ok] by (simp add: db_ok_def)
qed

lemma empty_db_ok: "db_ok empty_db"
  by (simp add: empty_db_def db_ok_def endpoints_ok_def events_ok_def deliveries_ok_def attempts_ok_def
      foreign_keys_ok_def unique_where_def)

section \<open>The tables as a keyed store\<close>

text \<open>
  What the clients of a table rely on: an update or an insertion is seen by the lookup of
  that row's key and by no other.  \<open>inv\<close> is the uniqueness of the key.
\<close>

locale keyed_store =
  fixes key :: "'r \<Rightarrow> uuid"
    and look :: "uuid \<Rightarrow> db \<Rightarrow> 'r option"
    and put :: "'r \<Rightarrow> db \<Rightarrow> db"
    and inv :: "db \<Rightarrow> bool"
  assumes look_key: "look k db = Some r \<Longrightarrow> key r = k"
    and look_put: "inv db \<Longrightarrow> look k (put r db) =
      (if k = key r \<and> look (key r) db \<noteq> None then Some r else look k db)"
    and inv_put: "inv db \<Longrightarrow> inv (put r db)"
begin

lemma look_put_other: "inv db \<Longrightarrow> k \<noteq> key r \<Longrightarrow> look k (put r db) = look k db"
  by (simp add: look_put)

lemma look_put_same: "inv db \<Longrightarrow> look (key r) db = Some r0 \<Longrightarrow> look (key r) (put r db) = Some r"
  by (simp add: look_put)

lemma put_never_creates: "inv db \<Longrightarrow> look k db = None \<Longrightarrow> look k (put r db) = None"
  by (auto simp: look_put)

lemma put_never_deletes: "inv db \<Longrightarrow> look k db \<noteq> None \<Longrightarrow> look k (put r db) \<noteq> None"
  by (auto simp: look_put)

lemma put_put: "inv db \<Longrightarrow> key r = key s \<Longrightarrow> look k (put s (put r db)) = look k (put s db)"
  by (auto simp: look_put inv_put)

end

interpretation delivery_table: keyed_store dl_id get_delivery put_delivery
  "\<lambda>db. distinct (map dl_id (db_deliveries db))"
proof unfold_locales
  fix db :: db and k r
  assume "distinct (map dl_id (db_deliveries db))"
  then show "get_delivery k (put_delivery r db) =
      (if k = dl_id r \<and> get_delivery (dl_id r) db \<noteq> None then Some r else get_delivery k db)"
    by (simp add: get_delivery_def get_update_row)
qed (auto simp: get_delivery_def dest: get_row_Some)

interpretation attempt_table: keyed_store at_id get_attempt put_attempt
  "\<lambda>db. distinct (map at_id (db_attempts db))"
proof unfold_locales
  fix db :: db and k r
  assume "distinct (map at_id (db_attempts db))"
  then show "get_attempt k (put_attempt r db) =
      (if k = at_id r \<and> get_attempt (at_id r) db \<noteq> None then Some r else get_attempt k db)"
    by (simp add: get_attempt_def get_update_row)
qed (auto simp: get_attempt_def dest: get_row_Some)

end
