(* ===== verification/Repositories.thy ===== *)
theory Repositories
  imports Models
begin

text \<open>
  The repositories, repositories.py: one definition per method, a query as a filter over the
  table in the order of its \<open>ORDER BY\<close>, an insertion as an addition and a flush.
  \<open>scalar_one_or_none\<close> raises on a second row.  A row lock is not visible inside a
  transaction, so \<open>get_for_update\<close> is its query.
\<close>

section \<open>Endpoints and events\<close>

definition endpoint_create :: "endpoint \<Rightarrow> db \<Rightarrow> db res" where
  "endpoint_create e db = flush (add_endpoint e db)"

text \<open>
  \<open>INSERT ... ON CONFLICT (source, idempotency_key) DO NOTHING RETURNING id\<close>: the row's own
  constraints are checked first, then the conflicting row makes the statement do nothing, and
  any other constraint still raises.
\<close>

definition insert_if_absent :: "event \<Rightarrow> db \<Rightarrow> (bool \<times> db) res" where
  "insert_if_absent e db =
     (if \<not> event_row_ok e then Inl DBAPIError
      else if list_ex (\<lambda>x. ev_source x = ev_source e \<and> ev_idempotency_key x = ev_idempotency_key e) (db_events db)
      then Inr (False, db)
      else case flush (add_event e db) of Inl x \<Rightarrow> Inl x | Inr db' \<Rightarrow> Inr (True, db'))"

definition get_by_idempotency_key :: "string \<Rightarrow> string \<Rightarrow> db \<Rightarrow> event option res" where
  "get_by_idempotency_key source idempotency_key db =
     one_or_none (filter (\<lambda>e. ev_source e = source \<and> ev_idempotency_key e = idempotency_key) (db_events db))"

definition event_get_for_update :: "uuid \<Rightarrow> db \<Rightarrow> event option res" where
  "event_get_for_update event_id db = one_or_none (filter (\<lambda>e. ev_id e = event_id) (db_events db))"

section \<open>Deliveries\<close>

definition delivery_create :: "delivery \<Rightarrow> db \<Rightarrow> db res" where
  "delivery_create d db = flush (add_delivery d db)"

definition get_initial :: "uuid \<Rightarrow> uuid \<Rightarrow> db \<Rightarrow> delivery option res" where
  "get_initial event_id endpoint_id db =
     one_or_none (filter (\<lambda>d. dl_event_id d = event_id \<and> dl_endpoint_id d = endpoint_id \<and>
       dl_replay_generation d = 0) (db_deliveries db))"

definition list_for_event :: "uuid \<Rightarrow> db \<Rightarrow> delivery list" where
  "list_for_event event_id db =
     order_by (\<lambda>d. (dl_replay_generation d, dl_created_at d, dl_id d))
       (filter (\<lambda>d. dl_event_id d = event_id) (db_deliveries db))"

definition delivery_get_for_update :: "uuid \<Rightarrow> db \<Rightarrow> delivery option res" where
  "delivery_get_for_update delivery_id db = one_or_none (filter (\<lambda>d. dl_id d = delivery_id) (db_deliveries db))"

definition get_by_replay_request :: "uuid \<Rightarrow> string \<Rightarrow> db \<Rightarrow> delivery option res" where
  "get_by_replay_request source_delivery_id idempotency_key db =
     one_or_none (filter (\<lambda>d. dl_replayed_from_delivery_id d = Some source_delivery_id \<and>
       dl_replay_idempotency_key d = Some idempotency_key) (db_deliveries db))"

definition get_latest :: "uuid \<Rightarrow> uuid \<Rightarrow> db \<Rightarrow> delivery option res" where
  "get_latest event_id endpoint_id db =
     one_or_none (take 1 (order_by (\<lambda>d. - dl_replay_generation d)
       (filter (\<lambda>d. dl_event_id d = event_id \<and> dl_endpoint_id d = endpoint_id) (db_deliveries db))))"

definition get_active :: "uuid \<Rightarrow> uuid \<Rightarrow> db \<Rightarrow> delivery option res" where
  "get_active event_id endpoint_id db =
     one_or_none (filter (\<lambda>d. dl_event_id d = event_id \<and> dl_endpoint_id d = endpoint_id \<and>
       dl_status d \<in> {PENDING, IN_PROGRESS, RETRY_WAIT}) (db_deliveries db))"

definition list_attempts :: "uuid \<Rightarrow> db \<Rightarrow> delivery_attempt list" where
  "list_attempts delivery_id db =
     order_by at_attempt_number (filter (\<lambda>a. at_delivery_id a = delivery_id) (db_attempts db))"

text \<open>The delivery with the collection \<open>attempts\<close> that the relationship loads, in its order.\<close>

definition get_with_attempts :: "uuid \<Rightarrow> db \<Rightarrow> (delivery \<times> delivery_attempt list) option res" where
  "get_with_attempts delivery_id db =
     (case one_or_none (filter (\<lambda>d. dl_id d = delivery_id) (db_deliveries db)) of
        Inl e \<Rightarrow> Inl e
      | Inr None \<Rightarrow> Inr None
      | Inr (Some d) \<Rightarrow>
          Inr (Some (d, order_by at_attempt_number (filter (\<lambda>a. at_delivery_id a = dl_id d) (db_attempts db)))))"

section \<open>What the queries return on a sound database\<close>

lemma unique_query:
  assumes "unique_where P key rows" "distinct rows"
    and "\<And>x. Q x \<Longrightarrow> P x \<and> key x = k"
  shows "one_or_none (filter Q rows) = Inr (find Q rows)"
proof (rule one_or_none_filter[OF assms(2)])
  fix x y assume "x \<in> set rows" "y \<in> set rows" "Q x" "Q y"
  then show "x = y" using unique_whereD[OF assms(1)] assms(3) by metis
qed

lemma distinct_events: "db_ok db \<Longrightarrow> distinct (db_events db)"
  using db_okD(7)[of db] by (auto simp: distinct_map)

lemma db_ok_uniques:
  assumes "db_ok db"
  shows "unique_on (\<lambda>e. (ev_source e, ev_idempotency_key e)) (db_events db)"
    "unique_on generation_key (db_deliveries db)" "unique_where replay_key_set replay_key (db_deliveries db)"
    "unique_where is_active chain_key (db_deliveries db)" "unique_on dl_id (db_deliveries db)"
    "unique_on ev_id (db_events db)"
  using db_okD[OF assms] by (simp_all add: events_ok_def deliveries_ok_def unique_where_def)

lemma get_by_idempotency_key_find:
  "db_ok db \<Longrightarrow> get_by_idempotency_key s k db =
     Inr (find (\<lambda>e. ev_source e = s \<and> ev_idempotency_key e = k) (db_events db))"
  unfolding get_by_idempotency_key_def
  by (rule unique_query[OF db_ok_uniques(1) distinct_events, where k = "(s, k)"]) auto

lemma event_get_for_update_get: "db_ok db \<Longrightarrow> event_get_for_update i db = Inr (get_event i db)"
  unfolding event_get_for_update_def get_event_def get_row_def
  by (rule unique_query[OF db_ok_uniques(6) distinct_events, where k = i]) auto

lemma get_initial_find:
  "db_ok db \<Longrightarrow> get_initial v p db =
     Inr (find (\<lambda>d. dl_event_id d = v \<and> dl_endpoint_id d = p \<and> dl_replay_generation d = 0) (db_deliveries db))"
  unfolding get_initial_def
  by (rule unique_query[OF db_ok_uniques(2) distinct_deliveries, where k = "(v, p, 0)"])
    (auto simp: generation_key_def)

lemma delivery_get_for_update_get: "db_ok db \<Longrightarrow> delivery_get_for_update i db = Inr (get_delivery i db)"
  unfolding delivery_get_for_update_def get_delivery_def get_row_def
  by (rule unique_query[OF db_ok_uniques(5) distinct_deliveries, where k = i]) auto

lemma get_by_replay_request_find:
  "db_ok db \<Longrightarrow> get_by_replay_request i k db =
     Inr (find (\<lambda>d. dl_replayed_from_delivery_id d = Some i \<and> dl_replay_idempotency_key d = Some k) (db_deliveries db))"
  unfolding get_by_replay_request_def
  by (rule unique_query[OF db_ok_uniques(3) distinct_deliveries, where k = "(Some i, Some k)"])
    (auto simp: replay_key_set_def replay_key_def)

lemma get_active_find:
  "db_ok db \<Longrightarrow> get_active v p db =
     Inr (find (\<lambda>d. dl_event_id d = v \<and> dl_endpoint_id d = p \<and> dl_status d \<in> {PENDING, IN_PROGRESS, RETRY_WAIT})
       (db_deliveries db))"
  unfolding get_active_def
  by (rule unique_query[OF db_ok_uniques(4) distinct_deliveries, where k = "(v, p)"])
    (auto simp: is_active_def chain_key_def)

lemma get_latest_cases:
  obtains "get_latest v p db = Inr None" "\<forall>d \<in> set (db_deliveries db). chain_key d \<noteq> (v, p)"
  | d where "get_latest v p db = Inr (Some d)" "d \<in> set (db_deliveries db)" "chain_key d = (v, p)"
    "\<And>x. x \<in> set (db_deliveries db) \<Longrightarrow> chain_key x = (v, p) \<Longrightarrow> dl_replay_generation x \<le> dl_replay_generation d"
proof -
  define rows where "rows = filter (\<lambda>d. dl_event_id d = v \<and> dl_endpoint_id d = p) (db_deliveries db)"
  define key where "key = (\<lambda>d :: delivery. - dl_replay_generation d)"
  have sel: "get_latest v p db = one_or_none (take 1 (order_by key rows))"
    by (simp add: get_latest_def rows_def key_def)
  have rows: "x \<in> set rows \<longleftrightarrow> x \<in> set (db_deliveries db) \<and> chain_key x = (v, p)" for x
    by (auto simp: rows_def chain_key_def)
  show ?thesis
  proof (cases rows)
    case Nil
    then show ?thesis using that(1) sel rows by (auto simp: order_by_def)
  next
    case Cons
    then obtain d where d: "take 1 (order_by key rows) = [d]"
      using take1_cases[of "order_by key rows"] by force
    from take1_order_by[OF d] have "d \<in> set rows" "\<And>x. x \<in> set rows \<Longrightarrow> dl_replay_generation x \<le> dl_replay_generation d"
      by (auto simp: key_def)
    then show ?thesis using that(2)[of d] sel d rows by auto
  qed
qed

end
