(* ===== verification/Serialization.thy ===== *)
theory Serialization
  imports Retry "HOL-Library.Multiset" "HOL-Library.List_Lexorder" "HOL-Library.Char_ord"
begin

text \<open>
  Deterministic JSON encoding, serialization.py: \<open>json.dumps\<close> with sorted keys, compact
  separators, \<open>ensure_ascii=False\<close> and \<open>allow_nan=False\<close>, then UTF-8.  SHA-256 and the text
  of a float (\<open>float.__repr__\<close>) are arguments.  The lemmas show what makes the canonical form
  a key for idempotency: the order of keys does not matter, and nothing else is lost.
\<close>

section \<open>Encoding\<close>

text \<open>The escapes of \<open>ensure_ascii=False\<close>: the quote, the backslash and the control characters.\<close>

definition escape_char :: "char \<Rightarrow> string" where
  "escape_char c =
     (if c = CHR 0x22 then [CHR 0x5C, CHR 0x22]
      else if c = CHR 0x5C then [CHR 0x5C, CHR 0x5C]
      else if c = CHR 0x0A then [CHR 0x5C, CHR ''n'']
      else if c = CHR 0x0D then [CHR 0x5C, CHR ''r'']
      else if c = CHR 0x09 then [CHR 0x5C, CHR ''t'']
      else if c = CHR 0x0C then [CHR 0x5C, CHR ''f'']
      else if c = CHR 0x08 then [CHR 0x5C, CHR ''b'']
      else if (of_char c :: nat) < 32 then CHR 0x5C # CHR ''u'' # hex_digits 4 (of_char c)
      else [c])"

definition dumps_str :: "string \<Rightarrow> string" where
  "dumps_str s = CHR 0x22 # concat (map escape_char s) @ [CHR 0x22]"

fun join_items :: "string list \<Rightarrow> string" where
  "join_items [] = []"
| "join_items [s] = s"
| "join_items (s # t # ss) = s @ '','' @ join_items (t # ss)"

text \<open>\<open>str\<close> of an integer refuses more than 4300 digits with a \<open>ValueError\<close>.\<close>

definition dumps_int :: "int \<Rightarrow> string option" where
  "dumps_int i = (if length (str_nat (nat \<bar>i\<bar>)) > 4300 then None else Some (str_int i))"

text \<open>\<open>None\<close> is the \<open>ValueError\<close> of a value that is not strict JSON.\<close>

function (sequential) dumps :: "(rat \<Rightarrow> string) \<Rightarrow> json \<Rightarrow> string option" where
  "dumps fr JNull = Some ''null''"
| "dumps fr (JBool b) = Some (if b then ''true'' else ''false'')"
| "dumps fr (JInt i) = dumps_int i"
| "dumps fr (JFloat (Finite q)) = Some (fr q)"
| "dumps fr (JFloat _) = None"
| "dumps fr (JStr s) = Some (dumps_str s)"
| "dumps fr (JArr vs) =
     map_option (\<lambda>ss. ''['' @ join_items ss @ '']'') (those (map (dumps fr) vs))"
| "dumps fr (JObj kvs) =
     map_option (\<lambda>ss. ''{'' @ join_items ss @ ''}'')
       (those (map (\<lambda>kv. map_option (\<lambda>s. dumps_str (fst kv) @ '':'' @ s) (dumps fr (snd kv)))
         (sort_key fst kvs)))"
  by pat_completeness auto
termination
proof (relation "measure (\<lambda>(_, v). size v)")
  fix kvs :: "(string \<times> json) list" and kv
  assume "kv \<in> set (sort_key fst kvs)"
  then have "kv \<in> set kvs" by simp
  then have "size_prod (\<lambda>_. 0) size kv \<le> size_list (size_prod (\<lambda>_. 0) size) kvs"
    by (rule size_list_estimation') simp
  then show "((fr, snd kv), fr, JObj kvs) \<in> measure (\<lambda>(_, v). size v)" for fr :: "rat \<Rightarrow> string"
    by (cases kv) simp
qed (auto simp: less_Suc_eq_le size_list_estimation')

definition canonical_json_bytes :: "(rat \<Rightarrow> string) \<Rightarrow> json \<Rightarrow> bytes res" where
  "canonical_json_bytes fr value =
     (case dumps fr value of
        None \<Rightarrow> Inl (CanonicalJSONError ''value is not valid JSON'')
      | Some encoded \<Rightarrow> Inr (utf8_encode encoded))"

definition canonical_sha256 :: "(bytes \<Rightarrow> string) \<Rightarrow> (rat \<Rightarrow> string) \<Rightarrow> json \<Rightarrow> string res" where
  "canonical_sha256 sha256_hex fr value =
     (case canonical_json_bytes fr value of Inl e \<Rightarrow> Inl e | Inr b \<Rightarrow> Inr (sha256_hex b))"

section \<open>Key order does not matter\<close>

text \<open>A dict has no two entries under one key.\<close>

fun wf_json :: "json \<Rightarrow> bool" where
  "wf_json (JArr vs) = list_all wf_json vs"
| "wf_json (JObj kvs) = (distinct (map fst kvs) \<and> list_all (\<lambda>kv. wf_json (snd kv)) kvs)"
| "wf_json _ = True"

text \<open>Equality of JSON values: a dict is the map it represents, whatever its order.\<close>

fun json_equal :: "json \<Rightarrow> json \<Rightarrow> bool" where
  "json_equal (JArr vs) (JArr ws) = list_all2 json_equal vs ws"
| "json_equal (JObj kvs) (JObj kus) =
     (fst ` set kvs = fst ` set kus \<and>
      list_all (\<lambda>kv. list_all (\<lambda>ku. fst kv = fst ku \<longrightarrow> json_equal (snd kv) (snd ku)) kus) kvs)"
| "json_equal v w = (v = w)"

lemma json_equal_refl: "wf_json v \<Longrightarrow> json_equal v v"
proof (induction v)
  case (JArr vs)
  then show ?case by (auto simp: list_all_iff list_all2_conv_all_nth)
next
  case (JObj kvs)
  have "json_equal (snd x) (snd y)" if "x \<in> set kvs" "y \<in> set kvs" "fst x = fst y" for x y
  proof -
    have "x = y" using JObj.prems that by (auto simp: distinct_map dest: inj_onD)
    moreover have "snd x \<in> Basic_BNFs.snds x" by (simp add: snds.simps)
    ultimately show ?thesis using JObj.IH[OF that(1)] JObj.prems that(1) by (simp add: list_all_iff)
  qed
  then show ?case by (simp add: list_all_iff)
qed auto

lemma sort_key_pairs:
  assumes "distinct (map fst xs)"
  shows "set (sort_key fst xs) = set xs" "distinct (map fst (sort_key fst xs))"
    "sorted (map fst (sort_key fst xs))" "map fst (sort_key fst xs) = sorted_list_of_set (fst ` set xs)"
proof -
  show s: "sorted (map fst (sort_key fst xs))" "set (sort_key fst xs) = set xs" by simp_all
  have "mset (map fst (sort_key fst xs)) = mset (map fst xs)" by simp
  then show d: "distinct (map fst (sort_key fst xs))" using assms mset_eq_imp_distinct_iff by blast
  show "map fst (sort_key fst xs) = sorted_list_of_set (fst ` set xs)"
    using sorted_list_of_set.idem_if_sorted_distinct[OF s(1) d] by (simp add: image_image)
qed

text \<open>Two dicts over the same keys are aligned by sorting.\<close>

lemma sort_key_aligned:
  assumes "distinct (map fst xs)" "distinct (map fst ys)"
  shows "list_all2 (\<lambda>x y. fst x = fst y \<and> R (snd x) (snd y)) (sort_key fst xs) (sort_key fst ys) \<longleftrightarrow>
    fst ` set xs = fst ` set ys \<and> (\<forall>x \<in> set xs. \<forall>y \<in> set ys. fst x = fst y \<longrightarrow> R (snd x) (snd y))"
    (is "list_all2 ?E ?xs ?ys \<longleftrightarrow> ?keys \<and> ?vals")
proof
  assume l2: "list_all2 ?E ?xs ?ys"
  then have len: "length ?xs = length ?ys" and nth: "\<And>i. i < length ?xs \<Longrightarrow> ?E (?xs ! i) (?ys ! i)"
    by (auto simp: list_all2_conv_all_nth)
  have keys: "map fst ?xs = map fst ?ys" using len nth by (intro nth_equalityI) auto
  have "?vals"
  proof (intro ballI impI)
    fix x y assume "x \<in> set xs" "y \<in> set ys" and xy: "fst x = fst y"
    then obtain i j where ij: "i < length ?xs" "?xs ! i = x" "j < length ?ys" "?ys ! j = y"
      using sort_key_pairs(1)[OF assms(1)] sort_key_pairs(1)[OF assms(2)] by (metis in_set_conv_nth)
    have "map fst ?ys ! i = map fst ?ys ! j" using ij xy nth len keys by (metis nth_map)
    then have "i = j" using sort_key_pairs(2)[OF assms(2)] ij len by (metis length_map nth_eq_iff_index_eq)
    then show "R (snd x) (snd y)" using nth ij by metis
  qed
  moreover have ?keys using keys by (metis list.set_map set_sort)
  ultimately show "?keys \<and> ?vals" by simp
next
  assume kv: "?keys \<and> ?vals"
  then have keys: "map fst ?xs = map fst ?ys"
    using sort_key_pairs(4)[OF assms(1)] sort_key_pairs(4)[OF assms(2)] by simp
  show "list_all2 ?E ?xs ?ys"
  proof (rule list_all2_all_nthI)
    show len: "length ?xs = length ?ys" using keys by (metis length_map)
    fix i assume i: "i < length ?xs"
    then have "fst (?xs ! i) = fst (?ys ! i)" using keys len by (metis nth_map)
    moreover have "?xs ! i \<in> set xs" "?ys ! i \<in> set ys" using i len by (metis nth_mem set_sort)+
    ultimately show "?E (?xs ! i) (?ys ! i)" using kv by blast
  qed
qed

lemma those_map_cong:
  "list_all2 (\<lambda>x y. f x = g y) xs ys \<Longrightarrow> those (map f xs) = those (map g ys)"
proof -
  assume "list_all2 (\<lambda>x y. f x = g y) xs ys"
  then have "map f xs = map g ys" by (induction rule: list_all2_induct) auto
  then show ?thesis by simp
qed

lemma json_equal_dumps:
  "json_equal v w \<Longrightarrow> wf_json v \<Longrightarrow> wf_json w \<Longrightarrow> dumps fr v = dumps fr w"
proof (induction v w rule: json_equal.induct)
  case (1 vs ws)
  then have "list_all2 (\<lambda>x y. dumps fr x = dumps fr y) vs ws"
    by (auto simp: list_all2_conv_all_nth list_all_length)
  then show ?case by (simp add: those_map_cong)
next
  case (2 kvs kus)
  then have "fst ` set kvs = fst ` set kus \<and>
      (\<forall>x \<in> set kvs. \<forall>y \<in> set kus. fst x = fst y \<longrightarrow> dumps fr (snd x) = dumps fr (snd y))"
    by (auto simp: list_all_iff)
  then have "list_all2 (\<lambda>x y. fst x = fst y \<and> dumps fr (snd x) = dumps fr (snd y))
      (sort_key fst kvs) (sort_key fst kus)"
    using "2.prems" sort_key_aligned[of kvs kus "\<lambda>v w. dumps fr v = dumps fr w"] by simp
  then have "those (map (\<lambda>kv. map_option (\<lambda>s. dumps_str (fst kv) @ '':'' @ s) (dumps fr (snd kv))) (sort_key fst kvs)) =
     those (map (\<lambda>kv. map_option (\<lambda>s. dumps_str (fst kv) @ '':'' @ s) (dumps fr (snd kv))) (sort_key fst kus))"
    by (intro those_map_cong) (auto elim: list_all2_mono)
  then show ?case by simp
qed auto

section \<open>Nothing else is lost\<close>

text \<open>
  What is documented of \<open>float.__repr__\<close> on finite floats: different values have different
  texts, and a text is a number with a fraction point or an exponent, so it is no integer.
\<close>

definition number_char :: "char \<Rightarrow> bool" where
  "number_char c \<longleftrightarrow> c \<in> set ''0123456789+-.e''"

definition float_repr_ok :: "(rat \<Rightarrow> string) \<Rightarrow> bool" where
  "float_repr_ok fr \<longleftrightarrow> inj fr \<and>
     (\<forall>q. list_all number_char (fr q) \<and> (CHR ''.'' \<in> set (fr q) \<or> CHR ''e'' \<in> set (fr q)))"

text \<open>The characters that can follow a value inside a document.\<close>

definition stop_char :: "char \<Rightarrow> bool" where
  "stop_char c \<longleftrightarrow> c = CHR '','' \<or> c = CHR '']'' \<or> c = CHR ''}''"

definition stops :: "string \<Rightarrow> bool" where
  "stops r \<longleftrightarrow> r = [] \<or> stop_char (hd r)"

lemma stops_simps [simp]: "stops []" "stops (CHR '','' # r)" "stops (CHR '']'' # r)" "stops (CHR ''}'' # r)"
  by (simp_all add: stops_def stop_char_def)

text \<open>A token without stop characters ends where the stop begins.\<close>

lemma token_inject:
  assumes "s @ r = t @ r'" "list_all (\<lambda>c. \<not> stop_char c) s" "list_all (\<lambda>c. \<not> stop_char c) t" "stops r" "stops r'"
  shows "s = t \<and> r = r'"
proof -
  have tw: "takeWhile (\<lambda>c. \<not> stop_char c) (u @ q) = u" if "list_all (\<lambda>c. \<not> stop_char c) u" "stops q" for u q
    using that by (cases q) (auto simp: stops_def list_all_iff takeWhile_append2)
  have "s = t" using tw[OF assms(2,4)] tw[OF assms(3,5)] assms(1) by simp
  then show ?thesis using assms(1) by simp
qed

lemma escape_char_head:
  "escape_char c \<noteq> []" "hd (escape_char c) \<noteq> CHR 0x22"
  by (auto simp: escape_char_def)

lemma control_escape:
  assumes "(of_char c :: nat) < 32" "(of_char d :: nat) < 32" "hex_digits 4 (of_char c) @ r = hex_digits 4 (of_char d) @ r'"
  shows "c = d \<and> r = r'"
proof -
  have "hex_digits 4 (of_char c) = hex_digits 4 (of_char d) \<and> r = r'"
    using assms(3) by (simp add: append_eq_append_conv)
  moreover have "(of_char c :: nat) < 16 ^ 4" "(of_char d :: nat) < 16 ^ 4" using assms(1,2) by simp_all
  ultimately show ?thesis using hex_digits_inject by (metis of_char_eq_iff)
qed

lemma escape_char_inject:
  assumes "escape_char c @ r = escape_char d @ r'"
  shows "c = d \<and> r = r'"
  using assms control_escape[of c d r r'] unfolding escape_char_def by (auto split: if_splits)

lemma dumps_str_inject:
  assumes "dumps_str s @ r = dumps_str t @ r'"
  shows "s = t \<and> r = r'"
proof -
  have "concat (map escape_char s) @ CHR 0x22 # r = concat (map escape_char t) @ CHR 0x22 # r' \<Longrightarrow> s = t \<and> r = r'"
  proof (induction s arbitrary: t)
    case Nil
    show ?case
    proof (cases t)
      case (Cons c t')
      then show ?thesis using Nil escape_char_head[of c] by (cases "escape_char c") auto
    qed (use Nil in simp)
  next
    case (Cons c s)
    show ?case
    proof (cases t)
      case Nil
      then show ?thesis using Cons.prems escape_char_head[of c] by (cases "escape_char c") auto
    next
      case (Cons d t')
      then have "c = d \<and> concat (map escape_char s) @ CHR 0x22 # r = concat (map escape_char t') @ CHR 0x22 # r'"
        using Cons.prems escape_char_inject[of c _ d] by simp
      then show ?thesis using Cons.IH[of t'] Cons by simp
    qed
  qed
  then show ?thesis using assms by (simp add: dumps_str_def)
qed

text \<open>Items between commas, closed by a bracket.\<close>

definition tails :: "string list \<Rightarrow> string" where
  "tails ss = concat (map (\<lambda>s. CHR '','' # s) ss)"

lemma join_items_Cons: "join_items (s # ss) = s @ tails ss"
proof (induction ss arbitrary: s)
  case Nil
  then show ?case by (simp add: tails_def)
next
  case (Cons t ss)
  then show ?case using Cons[of t] by (simp add: tails_def)
qed

lemma stops_tails: "stop_char c \<Longrightarrow> stops (tails ss @ c # r)"
  by (cases ss) (auto simp: tails_def stops_def stop_char_def)

lemma tails_inject:
  assumes "list_all2 (\<lambda>x s. f x = Some s) xs ss" "list_all2 (\<lambda>x s. f x = Some s) ys ts"
    and item: "\<And>x y s t r r'. x \<in> set xs \<Longrightarrow> f x = Some s \<Longrightarrow> f y = Some t \<Longrightarrow> y \<in> set ys \<Longrightarrow>
      s @ r = t @ r' \<Longrightarrow> stops r \<Longrightarrow> stops r' \<Longrightarrow> E x y \<and> r = r'"
    and c: "stop_char c" "c \<noteq> CHR '',''" and eq: "tails ss @ c # r = tails ts @ c # r'"
  shows "list_all2 E xs ys \<and> r = r'"
  using assms
proof (induction xs arbitrary: ss ys ts)
  case Nil
  then have ss: "ss = []" by simp
  have "ts = []"
  proof (rule ccontr)
    assume "ts \<noteq> []"
    then obtain t ts' where "ts = t # ts'" by (cases ts) auto
    then show False using Nil.prems(6) c(2) ss by (simp add: tails_def)
  qed
  then show ?case using Nil.prems(2,6) ss by simp
next
  case (Cons x xs)
  then obtain s ss' where ss: "ss = s # ss'" "f x = Some s" "list_all2 (\<lambda>x s. f x = Some s) xs ss'"
    by (auto simp: list_all2_Cons1)
  from Cons.prems(6) c(2) ss obtain t ts' where ts: "ts = t # ts'" by (cases ts) (auto simp: tails_def)
  with Cons.prems(2) obtain y ys' where ys: "ys = y # ys'" "f y = Some t" "list_all2 (\<lambda>x s. f x = Some s) ys' ts'"
    by (auto simp: list_all2_Cons2)
  have "s @ tails ss' @ c # r = t @ tails ts' @ c # r'" using Cons.prems(6) ss ts by (simp add: tails_def)
  from Cons.prems(3)[OF _ ss(2) ys(2) _ this stops_tails[OF c(1)] stops_tails[OF c(1)]]
  have "E x y" "tails ss' @ c # r = tails ts' @ c # r'" using ys by auto
  moreover have "list_all2 E xs ys' \<and> r = r'"
  proof (rule Cons.IH[OF ss(3) ys(3) _ c calculation(2)])
    fix x' y' s' t' q q' assume "x' \<in> set xs" "f x' = Some s'" "f y' = Some t'" "y' \<in> set ys'"
      "s' @ q = t' @ q'" "stops q" "stops q'"
    then show "E x' y' \<and> q = q'" using Cons.prems(3)[of x' s' y' t' q q'] ys(1) by simp
  qed
  ultimately show ?case using ys by simp
qed

lemma those_map_Some: "those (map f xs) = Some ss \<longleftrightarrow> list_all2 (\<lambda>x s. f x = Some s) xs ss"
  by (induction xs arbitrary: ss) (auto simp: list_all2_Cons1 split: option.splits)

lemma join_items_inject:
  assumes "those (map f xs) = Some ss" "those (map f ys) = Some ts"
    and item: "\<And>x y s t r r'. x \<in> set xs \<Longrightarrow> f x = Some s \<Longrightarrow> f y = Some t \<Longrightarrow> y \<in> set ys \<Longrightarrow>
      s @ r = t @ r' \<Longrightarrow> stops r \<Longrightarrow> stops r' \<Longrightarrow> E x y \<and> r = r'"
    and head: "\<And>x s. f x = Some s \<Longrightarrow> s \<noteq> [] \<and> \<not> stop_char (hd s)"
    and c: "stop_char c" "c \<noteq> CHR '',''" and eq: "join_items ss @ c # r = join_items ts @ c # r'"
  shows "list_all2 E xs ys \<and> r = r'"
proof -
  note l2 = assms(1,2)[unfolded those_map_Some]
  have first: "join_items us @ c # q \<noteq> c # q'" if "list_all2 (\<lambda>x s. f x = Some s) (z # zs) us" for z zs us q q'
  proof -
    from that obtain u us' where u: "us = u # us'" "f z = Some u" by (auto simp: list_all2_Cons1)
    then show ?thesis using head[OF u(2)] c(1) by (cases u) (auto simp: join_items_Cons)
  qed
  show ?thesis
  proof (cases xs; cases ys)
    assume "xs = []" "ys = []"
    then show ?thesis using l2 eq by simp
  next
    fix y ys' assume "xs = []" "ys = y # ys'"
    then show ?thesis using l2 eq first[of y ys' ts r' r] by simp
  next
    fix x xs' assume "xs = x # xs'" "ys = []"
    then show ?thesis using l2 eq first[of x xs' ss r r'] by simp
  next
    fix x xs' y ys' assume "xs = x # xs'" "ys = y # ys'"
    then obtain s ss' t ts' where "ss = s # ss'" "ts = t # ts'"
      using l2 by (auto simp: list_all2_Cons1)
    then have "tails ss @ c # r = tails ts @ c # r'"
      using eq by (simp add: tails_def join_items_Cons)
    then show ?thesis by (rule tails_inject[OF l2 _ c, rotated]) (rule item)
  qed
qed

section \<open>The text determines the value\<close>

lemma digit_char_mem: "d < 10 \<Longrightarrow> digit_char d \<in> set ''0123456789''"
proof -
  assume "d < 10"
  moreover have "list_all (\<lambda>d. digit_char d \<in> set ''0123456789'') [0..<10]" by code_simp
  ultimately show ?thesis by (simp only: list_all_iff set_upt atLeastLessThan_iff) simp
qed

lemma str_nat_chars: "c \<in> set (str_nat n) \<Longrightarrow> c \<in> set ''0123456789''"
proof -
  assume "c \<in> set (str_nat n)"
  from bspec[OF str_nat_digits this] obtain d where d: "d < 10" "c = digit_char d" by (elim exE conjE)
  show ?thesis unfolding d(2) using d(1) by (rule digit_char_mem)
qed

lemma str_int_chars: "c \<in> set (str_int i) \<Longrightarrow> c \<in> set ''-0123456789''"
proof -
  assume "c \<in> set (str_int i)"
  then consider "c = CHR ''-''" | n where "c \<in> set (str_nat n)"
    by (auto simp: str_int_def split: if_splits)
  then show ?thesis
  proof cases
    case 2
    from str_nat_chars[OF 2] show ?thesis by simp
  qed simp
qed

lemma str_int_inject: "str_int i = str_int j \<Longrightarrow> i = j"
proof -
  assume eq: "str_int i = str_int j"
  have minus: "CHR ''-'' \<notin> set (str_nat n)" for n
    using str_nat_chars[of "CHR ''-''" n] by auto
  have "(i < 0) = (j < 0)" using eq minus by (auto simp: str_int_def split: if_splits) (metis list.set_intros(1))+
  then show ?thesis using eq str_nat_inject by (fastforce simp: str_int_def split: if_splits)
qed

text \<open>The characters a text of each kind starts with.\<close>

fun kind :: "json \<Rightarrow> nat" where
  "kind JNull = 0" | "kind (JBool b) = (if b then 1 else 2)" | "kind (JInt i) = 3"
| "kind (JFloat f) = 3" | "kind (JStr s) = 4" | "kind (JArr vs) = 5" | "kind (JObj kvs) = 6"

definition head_kind :: "char \<Rightarrow> nat" where
  "head_kind c = (if c = CHR ''n'' then 0 else if c = CHR ''t'' then 1 else if c = CHR ''f'' then 2
     else if number_char c then 3 else if c = CHR 0x22 then 4 else if c = CHR ''['' then 5 else 6)"

lemma number_text:
  assumes "float_repr_ok fr" "dumps fr v = Some s" "kind v = 3"
  shows "s \<noteq> [] \<and> list_all number_char s"
proof (cases v)
  case (JInt i)
  then have "s = str_int i" using assms(2) by (simp add: dumps_int_def split: if_splits)
  moreover have "str_int i \<noteq> []" by (simp add: str_int_def)
  ultimately show ?thesis using str_int_chars by (fastforce simp: list_all_iff number_char_def)
next
  case (JFloat f)
  then obtain q where q: "s = fr q" using assms(2) by (cases f) auto
  then have "list_all number_char s" "CHR ''.'' \<in> set s \<or> CHR ''e'' \<in> set s"
    using assms(1) by (simp_all add: float_repr_ok_def)
  then show ?thesis by auto
qed (use assms(3) in \<open>auto split: if_splits\<close>)

lemma dumps_head:
  assumes "float_repr_ok fr" "dumps fr v = Some s"
  shows "s \<noteq> [] \<and> head_kind (hd s) = kind v"
proof (cases "kind v = 3")
  case True
  have "s \<noteq> []" "number_char (hd s)" using number_text[OF assms True] by (cases s; simp)+
  then show ?thesis using True by (auto simp: head_kind_def number_char_def)
next
  case False
  then show ?thesis using assms(2)
    by (cases v) (auto simp: head_kind_def number_char_def dumps_str_def split: if_splits)
qed

lemma head_kind_not_stop: "head_kind c = k \<Longrightarrow> k < 6 \<or> c = CHR ''{'' \<Longrightarrow> \<not> stop_char c"
  by (auto simp: head_kind_def stop_char_def number_char_def split: if_splits)

lemma dumps_head_not_stop:
  assumes "float_repr_ok fr" "dumps fr v = Some s"
  shows "s \<noteq> [] \<and> \<not> stop_char (hd s)"
proof -
  have "s \<noteq> []" "head_kind (hd s) = kind v" using dumps_head[OF assms] by auto
  moreover have "kind v < 6 \<or> hd s = CHR ''{''" using assms(2) by (cases v) auto
  ultimately show ?thesis using head_kind_not_stop by blast
qed

lemma number_not_stop: "list_all number_char s \<Longrightarrow> list_all (\<lambda>c. \<not> stop_char c) s"
proof -
  have "stop_char c \<Longrightarrow> \<not> number_char c" for c
    unfolding stop_char_def by (elim disjE) (simp_all add: number_char_def)
  then show "list_all number_char s \<Longrightarrow> ?thesis" unfolding list_all_iff by blast
qed

lemma same_kind:
  assumes "float_repr_ok fr" "dumps fr v = Some s" "dumps fr w = Some t" "s @ r = t @ r'"
  shows "kind v = kind w"
proof -
  have "s \<noteq> []" "t \<noteq> []" "head_kind (hd s) = kind v" "head_kind (hd t) = kind w"
    using dumps_head[OF assms(1)] assms(2,3) by auto
  moreover have "hd s = hd t" using assms(4) calculation(1,2) by (metis hd_append2)
  ultimately show ?thesis by simp
qed

lemma number_inject:
  assumes fr: "float_repr_ok fr" and "dumps fr v = Some s" "dumps fr w = Some t" "kind v = 3" "kind w = 3"
    and eq: "s @ r = t @ r'" "stops r" "stops r'"
  shows "v = w \<and> r = r'"
proof -
  have st: "s = t" "r = r'"
    using token_inject[OF eq(1) _ _ eq(2,3)] number_not_stop number_text[OF fr] assms(2-5) by blast+
  have int_not_float: "str_int i \<noteq> fr q" for i q
  proof
    assume "str_int i = fr q"
    then have "CHR ''.'' \<in> set (str_int i) \<or> CHR ''e'' \<in> set (str_int i)" using fr by (simp add: float_repr_ok_def)
    then show False using str_int_chars by fastforce
  qed
  have inj: "fr p = fr q \<Longrightarrow> p = q" for p q using fr by (auto simp: float_repr_ok_def dest: injD)
  have num: "(\<exists>i. u = JInt i \<and> x = str_int i) \<or> (\<exists>q. u = JFloat (Finite q) \<and> x = fr q)"
    if "kind u = 3" "dumps fr u = Some x" for u x
  proof (cases u)
    case (JFloat f)
    then show ?thesis using that(2) by (cases f) auto
  qed (use that in \<open>auto simp: dumps_int_def split: if_splits\<close>)
  from num[OF assms(4,2)] num[OF assms(5,3)] show ?thesis
    using st int_not_float int_not_float[symmetric] inj str_int_inject by (elim disjE exE conjE) simp_all
qed

lemma item_inject:
  assumes val: "\<And>s t r r'. dumps fr (snd x) = Some s \<Longrightarrow> dumps fr (snd y) = Some t \<Longrightarrow> s @ r = t @ r' \<Longrightarrow>
      stops r \<Longrightarrow> stops r' \<Longrightarrow> E (snd x) (snd y) \<and> r = r'"
    and "map_option (\<lambda>s. dumps_str (fst x) @ '':'' @ s) (dumps fr (snd x)) = Some s"
      "map_option (\<lambda>s. dumps_str (fst y) @ '':'' @ s) (dumps fr (snd y)) = Some t"
      "s @ r = t @ r'" "stops r" "stops r'"
  shows "(fst x = fst y \<and> E (snd x) (snd y)) \<and> r = r'"
proof -
  obtain s' t' where st: "dumps fr (snd x) = Some s'" "dumps fr (snd y) = Some t'"
    "s = dumps_str (fst x) @ '':'' @ s'" "t = dumps_str (fst y) @ '':'' @ t'" using assms(2,3) by auto
  then have "dumps_str (fst x) @ CHR '':'' # s' @ r = dumps_str (fst y) @ CHR '':'' # t' @ r'"
    using assms(4) by simp
  from dumps_str_inject[OF this] have "fst x = fst y" "s' @ r = t' @ r'" by simp_all
  then show ?thesis using val[OF st(1,2) _ assms(5,6)] by simp
qed

lemma dumps_inject:
  assumes fr: "float_repr_ok fr"
  shows "dumps fr v = Some s \<Longrightarrow> dumps fr w = Some t \<Longrightarrow> s @ r = t @ r' \<Longrightarrow> stops r \<Longrightarrow> stops r' \<Longrightarrow>
    wf_json v \<Longrightarrow> wf_json w \<Longrightarrow> json_equal v w \<and> r = r'"
proof (induction v arbitrary: w s t r r')
  case (JArr vs)
  then obtain ws where w: "w = JArr ws" using same_kind[OF fr JArr.prems(1-3)] by (cases w) (auto split: if_splits)
  obtain ss ts where st: "those (map (dumps fr) vs) = Some ss" "s = ''['' @ join_items ss @ '']''"
    "those (map (dumps fr) ws) = Some ts" "t = ''['' @ join_items ts @ '']''" using JArr.prems(1,2) w by auto
  have "list_all2 json_equal vs ws \<and> r = r'"
  proof (rule join_items_inject[OF st(1,3) _ dumps_head_not_stop[OF fr]])
    show "join_items ss @ CHR '']'' # r = join_items ts @ CHR '']'' # r'" using JArr.prems(3) st by simp
    fix x y s t q q' assume "x \<in> set vs" "y \<in> set ws" "dumps fr x = Some s" "dumps fr y = Some t"
      "s @ q = t @ q'" "stops q" "stops q'"
    moreover from this have "wf_json x" "wf_json y" using JArr.prems(6,7) w by (auto simp: list_all_iff)
    ultimately show "json_equal x y \<and> q = q'" using JArr.IH by blast
  qed (simp_all add: stop_char_def)
  then show ?case by (simp add: w)
next
  case (JObj kvs)
  let ?f = "\<lambda>kv. map_option (\<lambda>s. dumps_str (fst kv) @ '':'' @ s) (dumps fr (snd kv))"
  obtain kus where w: "w = JObj kus" using same_kind[OF fr JObj.prems(1-3)] by (cases w) (auto split: if_splits)
  obtain ss ts where st: "those (map ?f (sort_key fst kvs)) = Some ss" "s = ''{'' @ join_items ss @ ''}''"
    "those (map ?f (sort_key fst kus)) = Some ts" "t = ''{'' @ join_items ts @ ''}''" using JObj.prems(1,2) w by auto
  have "list_all2 (\<lambda>x y. fst x = fst y \<and> json_equal (snd x) (snd y)) (sort_key fst kvs) (sort_key fst kus) \<and> r = r'"
  proof (rule join_items_inject[OF st(1,3)])
    show "join_items ss @ CHR ''}'' # r = join_items ts @ CHR ''}'' # r'" using JObj.prems(3) st by simp
    fix x y s t q q' assume xy: "x \<in> set (sort_key fst kvs)" "y \<in> set (sort_key fst kus)"
      and eqs: "?f x = Some s" "?f y = Some t" "s @ q = t @ q'" "stops q" "stops q'"
    have "wf_json (snd x)" "wf_json (snd y)" "x \<in> set kvs" "snd x \<in> Basic_BNFs.snds x"
      using xy JObj.prems(6,7) w by (auto simp: list_all_iff snds.simps)
    then show "(fst x = fst y \<and> json_equal (snd x) (snd y)) \<and> q = q'"
      by (intro item_inject[OF _ eqs]) (rule JObj.IH)
  qed (auto simp: stop_char_def dumps_str_def)
  then show ?case using sort_key_aligned[of kvs kus json_equal] JObj.prems(6,7)
    by (simp add: w list_all_iff)
next
  case JNull
  have "w = JNull" using same_kind[OF fr JNull.prems(1-3)] by (cases w) (auto split: if_splits)
  then show ?case using JNull.prems by simp
next
  case (JBool b)
  have "w = JBool b" using same_kind[OF fr JBool.prems(1-3)] by (cases w) (auto split: if_splits)
  then show ?case using JBool.prems by simp
next
  case (JStr x)
  obtain y where "w = JStr y" using same_kind[OF fr JStr.prems(1-3)] by (cases w) (auto split: if_splits)
  then show ?case using JStr.prems dumps_str_inject[of x r y r'] by simp
next
  case (JInt i)
  have "kind w = 3" using same_kind[OF fr JInt.prems(1-3)] by simp
  then show ?case using number_inject[OF fr JInt.prems(1,2) _ _ JInt.prems(3-5)] by (cases w) auto
next
  case (JFloat f)
  have "kind w = 3" using same_kind[OF fr JFloat.prems(1-3)] by simp
  then show ?case using number_inject[OF fr JFloat.prems(1,2) _ _ JFloat.prems(3-5)] by (cases w) auto
qed

section \<open>Canonical bytes\<close>

lemma utf8_char_inject:
  assumes "utf8_char c @ r = utf8_char d @ r'"
  shows "c = d \<and> r = r'"
proof -
  let ?n = "of_char c :: nat" and ?m = "of_char d :: nat"
  have b: "?n < 256" "?m < 256" by (rule of_char_nat_lt_256)+
  have of_nat_eq: "(of_nat i :: 8 word) = of_nat j \<longleftrightarrow> i = j" if "i < 256" "j < 256" for i j
    using that by (simp add: word_of_nat_eq_iff take_bit_eq_mod)
  have div: "192 + ?n div 64 < 256" "192 + ?m div 64 < 256" "128 + ?n mod 64 < 256" "128 + ?m mod 64 < 256"
  proof -
    have "k div 64 < 4" if "k < 256" for k :: nat using that by (simp add: less_mult_imp_div_less)
    from this[OF b(1)] this[OF b(2)] show "192 + ?n div 64 < 256" "192 + ?m div 64 < 256" by linarith+
  qed simp_all
  have "?n = ?m \<and> r = r'"
  proof (cases "?n < 128"; cases "?m < 128")
    assume "\<not> ?n < 128" "\<not> ?m < 128"
    then have "192 + ?n div 64 = 192 + ?m div 64" "128 + ?n mod 64 = 128 + ?m mod 64" "r = r'"
      using assms of_nat_eq[OF div(1,2)] of_nat_eq[OF div(3,4)] by (simp_all add: utf8_char_def Let_def del: of_nat_add)
    then show ?thesis by (metis add_left_cancel div_mult_mod_eq)
  next
    assume a: "?n < 128" "\<not> ?m < 128"
    then have "?n = 192 + ?m div 64"
      using assms of_nat_eq[OF b(1) div(2)] by (simp add: utf8_char_def Let_def del: of_nat_add of_nat_of_char)
    with a show ?thesis by simp
  next
    assume a: "\<not> ?n < 128" "?m < 128"
    then have "192 + ?n div 64 = ?m"
      using assms of_nat_eq[OF div(1) b(2)] by (simp add: utf8_char_def Let_def del: of_nat_add of_nat_of_char)
    with a show ?thesis by simp
  next
    assume "?n < 128" "?m < 128"
    then show ?thesis using assms of_nat_eq[OF b] by (simp add: utf8_char_def Let_def del: of_nat_of_char)
  qed
  then show ?thesis by simp
qed

lemma utf8_encode_inject: "utf8_encode s = utf8_encode t \<Longrightarrow> s = t"
proof (induction s arbitrary: t)
  case Nil
  then show ?case by (cases t) (auto simp: utf8_encode_def utf8_char_def Let_def split: if_splits)
next
  case (Cons c s)
  then obtain d t' where t: "t = d # t'"
    by (cases t) (auto simp: utf8_encode_def utf8_char_def Let_def split: if_splits)
  with Cons.prems have "c = d \<and> utf8_encode s = utf8_encode t'"
    by (intro utf8_char_inject) (simp add: utf8_encode_def)
  with Cons.IH t show ?case by simp
qed

lemma canonical_json_bytes_iff:
  assumes "float_repr_ok fr" "wf_json v" "wf_json w"
    "canonical_json_bytes fr v = Inr a" "canonical_json_bytes fr w = Inr b"
  shows "a = b \<longleftrightarrow> json_equal v w"
proof -
  obtain s t where st: "dumps fr v = Some s" "a = utf8_encode s" "dumps fr w = Some t" "b = utf8_encode t"
    using assms(4,5) by (auto simp: canonical_json_bytes_def split: option.splits)
  have "json_equal v w" if "s = t"
    using dumps_inject[OF assms(1) st(1,3), of "[]" "[]"] that assms(2,3) by simp
  moreover have "s = t" if "json_equal v w"
    using json_equal_dumps[OF that assms(2,3), of fr] st by simp
  ultimately show ?thesis using st utf8_encode_inject by metis
qed

text \<open>A rendering of rationals with the promised properties.\<close>

definition fraction_repr :: "rat \<Rightarrow> string" where
  "fraction_repr q = (case quotient_of q of (n, d) \<Rightarrow> str_int n @ ''.'' @ str_int d)"

lemma fraction_repr_ok: "float_repr_ok fraction_repr"
proof -
  have dot: "CHR ''.'' \<notin> set (str_int i)" for i using str_int_chars[of "CHR ''.''" i] by auto
  have chars: "list_all number_char (str_int i)" for i
    unfolding list_all_iff number_char_def using str_int_chars by fastforce
  have "inj fraction_repr"
  proof (rule injI)
    fix p q assume eq: "fraction_repr p = fraction_repr q"
    obtain n d m e where nd: "quotient_of p = (n, d)" "quotient_of q = (m, e)" by (metis surj_pair)
    have "str_int n @ CHR ''.'' # str_int d = str_int m @ CHR ''.'' # str_int e"
      using eq by (simp add: fraction_repr_def nd)
    from append_sep_inject[OF this dot dot] have "n = m" "d = e" using str_int_inject by blast+
    then show "p = q" using nd by (metis quotient_of_inject)
  qed
  moreover have "list_all number_char (fraction_repr q) \<and> CHR ''.'' \<in> set (fraction_repr q)" for q
    using chars by (simp add: fraction_repr_def number_char_def split: prod.splits)
  ultimately show ?thesis by (simp add: float_repr_ok_def)
qed

text \<open>
  C20.  Canonical bytes are the value itself, up to the order of keys: two values have the
  same canonical bytes exactly when they are the same JSON value.  So a publisher may reorder
  the keys of its request, and no two different requests share a fingerprint preimage.
\<close>

theorem canonical_bytes_equal_iff:
  assumes "float_repr_ok fr" "wf_json v" "wf_json w"
    "canonical_json_bytes fr v = Inr a" "canonical_json_bytes fr w = Inr b"
  shows "a = b \<longleftrightarrow> json_equal v w"
  by (rule canonical_json_bytes_iff[OF assms])

theorem canonical_bytes_equal_iff_witness:
  "canonical_json_bytes fraction_repr (JObj [(''b'', JInt 1), (''a'', JNull)]) =
   canonical_json_bytes fraction_repr (JObj [(''a'', JNull), (''b'', JInt 1)])"
proof -
  let ?v = "JObj [(''b'', JInt 1), (''a'', JNull)]" and ?w = "JObj [(''a'', JNull), (''b'', JInt 1)]"
  have "\<not> isl (canonical_json_bytes fraction_repr ?v)" "\<not> isl (canonical_json_bytes fraction_repr ?w)"
    by code_simp+
  then obtain a b where e: "canonical_json_bytes fraction_repr ?v = Inr a" "canonical_json_bytes fraction_repr ?w = Inr b"
    by (metis Inr_Inl_False isl_def sum.exhaust)
  then show ?thesis using canonical_bytes_equal_iff[OF fraction_repr_ok _ _ e] by (simp add: insert_commute)
qed

end
