(* ===== verification/Signing.thy ===== *)
theory Signing
  imports Prelude
begin

text \<open>
  Webhook signatures, deliveries/signing.py.  HMAC-SHA256 is an argument: \<open>hmac secret content\<close>
  is its lower-case hexadecimal digest.
\<close>

definition SIGNATURE_VERSION :: string where
  "SIGNATURE_VERSION = ''v1''"

definition signed_content :: "int \<Rightarrow> bytes \<Rightarrow> bytes" where
  "signed_content timestamp payload = ascii_encode (str_int timestamp) @ ascii_encode ''.'' @ payload"

definition sign_payload :: "(bytes \<Rightarrow> bytes \<Rightarrow> string) \<Rightarrow> bytes \<Rightarrow> int \<Rightarrow> bytes \<Rightarrow> string res" where
  "sign_payload hmac secret timestamp payload =
     (if secret = [] then Inl (ValueError ''secret cannot be empty'')
      else if timestamp < 0 then Inl (ValueError ''timestamp cannot be negative'')
      else Inr (SIGNATURE_VERSION @ ''='' @ hmac secret (signed_content timestamp payload)))"

text \<open>
  \<open>hmac.compare_digest\<close> on two strings: a \<open>TypeError\<close> unless both are ASCII, else equality.
\<close>

definition is_ascii :: "string \<Rightarrow> bool" where
  "is_ascii s \<longleftrightarrow> list_all (\<lambda>c. (of_char c :: nat) < 128) s"

definition compare_digest :: "string \<Rightarrow> string \<Rightarrow> bool res" where
  "compare_digest a b =
     (if is_ascii a \<and> is_ascii b then Inr (a = b)
      else Inl (TypeError ''comparing strings with non-ASCII characters is not supported''))"

definition verify_signature ::
    "(bytes \<Rightarrow> bytes \<Rightarrow> string) \<Rightarrow> bytes \<Rightarrow> int \<Rightarrow> bytes \<Rightarrow> string \<Rightarrow> bool res" where
  "verify_signature hmac secret timestamp payload signature =
     (case sign_payload hmac secret timestamp payload of
        Inl e \<Rightarrow> Inl e
      | Inr expected \<Rightarrow> compare_digest expected signature)"

section \<open>The signed content determines what is signed\<close>

text \<open>
  The separator cannot be confused with the payload, because a rendered timestamp has no dot.
\<close>

lemma dot_not_digit: "CHR ''.'' \<notin> set (str_nat n)"
proof
  assume "CHR ''.'' \<in> set (str_nat n)"
  then obtain d where "d < 10" "CHR ''.'' = digit_char d" using str_nat_digits by blast
  then have "(of_char CHR ''.'' :: nat) = 48 + d" by simp
  then show False by simp
qed

lemma signed_content_inject:
  assumes "0 \<le> t" "0 \<le> t'" "signed_content t p = signed_content t' p'"
  shows "t = t' \<and> p = p'"
proof -
  have nd: "(of_char CHR ''.'' :: 8 word) \<notin> set (ascii_encode (str_nat n))" for n
    using dot_not_digit[of n] by (auto simp del: of_char_Char simp: ascii_encode_def)
  have "ascii_encode (str_nat (nat t)) @ of_char CHR ''.'' # p =
        ascii_encode (str_nat (nat t')) @ of_char CHR ''.'' # p'"
    using assms by (simp add: signed_content_def str_int_def ascii_encode_def)
  from append_sep_inject[OF this nd nd] have "str_nat (nat t) = str_nat (nat t')" "p = p'"
    by (simp_all add: ascii_encode_inject)
  with assms(1,2) show ?thesis by (metis str_nat_inject eq_nat_nat_iff)
qed

lemma sign_payload_Inr:
  "secret \<noteq> [] \<Longrightarrow> 0 \<le> t \<Longrightarrow>
   sign_payload hmac secret t p = Inr (SIGNATURE_VERSION @ ''='' @ hmac secret (signed_content t p))"
  by (simp add: sign_payload_def)

lemma is_ascii_signature: "is_ascii (SIGNATURE_VERSION @ ''='' @ h) \<longleftrightarrow> is_ascii h"
  by (simp add: is_ascii_def SIGNATURE_VERSION_def)

section \<open>Signatures\<close>

text \<open>
  C19.  A signature verifies for exactly what was signed: the verifier with the same secret
  accepts the signer's output, and accepts it for another timestamp or payload only if HMAC
  gives two different messages the same digest.
\<close>

theorem signature_binds:
  assumes "secret \<noteq> []" "0 \<le> t" "0 \<le> t'" "\<And>c. is_ascii (hmac secret c)"
  shows "\<exists>sig. sign_payload hmac secret t p = Inr sig \<and>
    verify_signature hmac secret t p sig = Inr True \<and>
    (verify_signature hmac secret t' p' sig = Inr True \<longrightarrow>
       t' = t \<and> p' = p \<or> (\<exists>c c'. c \<noteq> c' \<and> hmac secret c = hmac secret c'))"
proof -
  define sig where "sig = SIGNATURE_VERSION @ ''='' @ hmac secret (signed_content t p)"
  have sign: "sign_payload hmac secret t p = Inr sig" using assms by (simp add: sign_payload_Inr sig_def)
  moreover have "verify_signature hmac secret t p sig = Inr True"
  proof -
    have "is_ascii sig" unfolding sig_def is_ascii_signature by (rule assms(4))
    then show ?thesis by (simp add: verify_signature_def sign compare_digest_def)
  qed
  moreover have "t' = t \<and> p' = p \<or> (\<exists>c c'. c \<noteq> c' \<and> hmac secret c = hmac secret c')"
    if "verify_signature hmac secret t' p' sig = Inr True"
  proof -
    have "hmac secret (signed_content t' p') = hmac secret (signed_content t p)"
      using that assms by (auto simp: verify_signature_def sign_payload_Inr compare_digest_def sig_def split: if_splits)
    then show ?thesis using signed_content_inject[OF assms(3,2)] by blast
  qed
  ultimately show ?thesis by blast
qed

theorem signature_binds_witness:
  "(\<forall>c. is_ascii ((\<lambda>k m. replicate (length m) CHR ''a'') [1 :: 8 word] (c :: bytes))) \<and>
   (\<exists>sig. sign_payload (\<lambda>k m. replicate (length m) CHR ''a'') [1] 5 [123, 125] = Inr sig \<and>
     verify_signature (\<lambda>k m. replicate (length m) CHR ''a'') [1] 5 [123, 125] sig = Inr True)"
proof -
  have a: "is_ascii ((\<lambda>k m. replicate (length m) CHR ''a'') [1 :: 8 word] (c :: bytes))" for c
    by (simp add: is_ascii_def list_all_iff)
  then show ?thesis
    using signature_binds[of "[1]" 5 5 "\<lambda>k m. replicate (length m) CHR ''a''" "[123, 125]" "[]", OF _ _ _ a] by auto
qed

end
