(* ===== verification/Services.thy ===== *)
theory Services
  imports Repositories Serialization Signing
begin

text \<open>
  The application services, services.py: registration of endpoints, idempotent publication of
  events, manual replay and the read side.  Each operation runs in the transaction of its
  caller, so it is a function from the database to an exception or a result with the new
  database.  \<open>uuid4()\<close>, the clock, the secret factory, SHA-256, the text of a float and the JSON
  decoder are arguments.
\<close>

section \<open>Requests\<close>

record endpoint_create_request =
  ec_name :: string
  ec_url :: string

record event_publish_request =
  pr_endpoint_id :: uuid
  pr_type :: string
  pr_data :: "(string \<times> json) list"

definition LOCAL_SOURCE :: string where
  "LOCAL_SOURCE = ''local-api''"

definition RECEIVER_LAB_ROUTES :: "string list" where
  "RECEIVER_LAB_ROUTES = [''orders'', ''shipping'', ''inventory'']"

section \<open>Timestamps\<close>

text \<open>
  \<open>isoformat()\<close> of an instant in UTC ends in its offset, \<open>+00:00\<close>; \<open>_json_timestamp\<close>
  replaces that offset by \<open>Z\<close>.  The date and time are \<open>isoformat\<close> here.  The
  civil date of a day number is in the proleptic Gregorian calendar of Python's datetime;
  years are counted from March, so that the leap day ends a year.
\<close>

definition civil_from_days :: "int \<Rightarrow> int \<times> int \<times> int" where
  "civil_from_days days =
     (let z = days + 719468;
          era = z div 146097;
          doe = z mod 146097;
          yoe = (doe - doe div 1460 + doe div 36524 - doe div 146096) div 365;
          doy = doe - (365 * yoe + yoe div 4 - yoe div 100);
          mp = (5 * doy + 2) div 153;
          d = doy - (153 * mp + 2) div 5 + 1;
          m = (if mp < 10 then mp + 3 else mp - 9)
      in (yoe + era * 400 + (if m \<le> 2 then 1 else 0), m, d))"

fun pad_digits :: "nat \<Rightarrow> int \<Rightarrow> string" where
  "pad_digits 0 n = []"
| "pad_digits (Suc k) n = pad_digits k (n div 10) @ [digit_char (nat (n mod 10))]"

definition isoformat :: "datetime \<Rightarrow> string" where
  "isoformat t =
     (let us = t mod 1000000;
          s = t div 1000000;
          tod = s mod 86400
      in case civil_from_days (s div 86400) of (y, m, d) \<Rightarrow>
        pad_digits 4 y @ ''-'' @ pad_digits 2 m @ ''-'' @ pad_digits 2 d @ ''T'' @
        pad_digits 2 (tod div 3600) @ '':'' @ pad_digits 2 (tod div 60 mod 60) @ '':'' @ pad_digits 2 (tod mod 60) @
        (if us = 0 then [] else ''.'' @ pad_digits 6 us))"

definition utc_isoformat :: "datetime \<Rightarrow> string" where
  "utc_isoformat t = isoformat t @ ''+00:00''"

definition json_timestamp :: "datetime \<Rightarrow> string" where
  "json_timestamp t = isoformat t @ ''Z''"

section \<open>Endpoints\<close>

definition rstrip_slash :: "string \<Rightarrow> string" where
  "rstrip_slash s = rev (dropWhile (\<lambda>c. c = CHR ''/'') (rev s))"

definition allowed_urls :: "string \<Rightarrow> string list" where
  "allowed_urls receiver_lab_url =
     (let receiver_base = rstrip_slash receiver_lab_url
      in receiver_base # map (\<lambda>route. receiver_base @ ''/'' @ route) RECEIVER_LAB_ROUTES)"

record created_endpoint =
  cr_endpoint :: endpoint
  cr_plaintext_signing_secret :: string

definition create_endpoint ::
    "string \<Rightarrow> string \<Rightarrow> uuid \<Rightarrow> datetime \<Rightarrow> datetime \<Rightarrow> endpoint_create_request \<Rightarrow> db \<Rightarrow> (created_endpoint \<times> db) res" where
  "create_endpoint receiver_lab_url plaintext_secret new_id created_at updated_at request db =
     (if rstrip_slash (ec_url request) \<notin> set (allowed_urls receiver_lab_url)
      then Inl (DomainError 422 ''receiver_url_not_allowed'' ''Endpoint URL is not allowed''
        (''This local milestone accepts only the configured Receiver Lab routes under '' @
         rstrip_slash receiver_lab_url @ ''.''))
      else
        let endpoint = \<lparr>ep_id = new_id, ep_name = ec_name request, ep_target_url = ec_url request,
              ep_signing_secret = utf8_encode plaintext_secret, ep_secret_version = 1, ep_enabled = True,
              ep_created_at = created_at, ep_updated_at = updated_at\<rparr>
        in (case endpoint_create endpoint db of
              Inl e \<Rightarrow> Inl e
            | Inr db' \<Rightarrow> Inr (\<lparr>cr_endpoint = endpoint, cr_plaintext_signing_secret = plaintext_secret\<rparr>, db')))"

section \<open>Publishing\<close>

record codec =
  cd_sha256 :: "bytes \<Rightarrow> string"
  cd_float_repr :: "rat \<Rightarrow> string"
  cd_json_loads :: "string \<Rightarrow> json option"

record publish_env =
  pu_event_id :: uuid
  pu_delivery_id :: uuid
  pu_now :: datetime
  pu_db_now :: datetime

record published_event =
  pb_event :: event
  pb_delivery :: delivery
  pb_idempotent_replay :: bool

definition request_document :: "event_publish_request \<Rightarrow> json" where
  "request_document request =
     JObj [(''endpoint_id'', JStr (uuid_str (pr_endpoint_id request))),
           (''type'', JStr (pr_type request)), (''data'', JObj (pr_data request))]"

definition payload_document :: "uuid \<Rightarrow> datetime \<Rightarrow> event_publish_request \<Rightarrow> json" where
  "payload_document event_id created_at request =
     JObj [(''id'', JStr (uuid_str event_id)), (''type'', JStr (pr_type request)),
           (''created_at'', JStr (json_timestamp created_at)), (''data'', JObj (pr_data request))]"

text \<open>
  A delivery as \<open>Delivery(...)\<close> and the column defaults make it: pending, due at once
  (\<open>next_attempt_at\<close> is the database's \<open>now()\<close>).
\<close>

definition new_delivery :: "uuid \<Rightarrow> uuid \<Rightarrow> uuid \<Rightarrow> int \<Rightarrow> uuid option \<Rightarrow> string option \<Rightarrow> datetime \<Rightarrow> datetime \<Rightarrow> delivery" where
  "new_delivery new_id event_id endpoint_id generation replayed_from request_key created_at db_now =
     \<lparr>dl_id = new_id, dl_event_id = event_id, dl_endpoint_id = endpoint_id,
      dl_replay_generation = generation, dl_replayed_from_delivery_id = replayed_from,
      dl_replay_idempotency_key = request_key, dl_status = PENDING, dl_attempt_count = 0,
      dl_next_attempt_at = Some db_now, dl_lease_owner = None, dl_lease_expires_at = None,
      dl_lease_token = None, dl_delivered_at = None, dl_last_error = None,
      dl_created_at = created_at, dl_updated_at = created_at\<rparr>"

definition resolve_idempotent_replay :: "uuid \<Rightarrow> string \<Rightarrow> string \<Rightarrow> db \<Rightarrow> published_event res" where
  "resolve_idempotent_replay endpoint_id idempotency_key fingerprint db =
     (case get_by_idempotency_key LOCAL_SOURCE idempotency_key db of
        Inl e \<Rightarrow> Inl e
      | Inr None \<Rightarrow> Inl (RuntimeError ''conflicting event could not be read after ON CONFLICT'')
      | Inr (Some event) \<Rightarrow>
          if ev_request_fingerprint_sha256 event \<noteq> fingerprint
          then Inl (DomainError 409 ''idempotency_key_reused'' ''Idempotency key was reused''
            ''The same Idempotency-Key was already used with a different request.'')
          else
            (case get_initial (ev_id event) endpoint_id db of
               Inl e \<Rightarrow> Inl e
             | Inr None \<Rightarrow> Inl (RuntimeError ''accepted event is missing its initial delivery'')
             | Inr (Some d) \<Rightarrow> Inr \<lparr>pb_event = event, pb_delivery = d, pb_idempotent_replay = True\<rparr>))"

definition candidate_event ::
    "codec \<Rightarrow> publish_env \<Rightarrow> event_publish_request \<Rightarrow> string \<Rightarrow> string \<Rightarrow> bytes \<Rightarrow> event" where
  "candidate_event cd env request idempotency_key fingerprint payload_bytes =
     \<lparr>ev_id = pu_event_id env, ev_source = LOCAL_SOURCE, ev_event_type = pr_type request,
      ev_idempotency_key = idempotency_key, ev_payload = pr_data request, ev_payload_bytes = payload_bytes,
      ev_request_fingerprint_sha256 = fingerprint, ev_payload_sha256 = cd_sha256 cd payload_bytes,
      ev_created_at = pu_now env\<rparr>"

definition publish ::
    "codec \<Rightarrow> publish_env \<Rightarrow> event_publish_request \<Rightarrow> string \<Rightarrow> db \<Rightarrow> (published_event \<times> db) res" where
  "publish cd env request idempotency_key db =
     (case get_endpoint (pr_endpoint_id request) db of
        None \<Rightarrow> Inl (DomainError 404 ''endpoint_not_found'' ''Endpoint not found''
                 (''Endpoint '' @ uuid_str (pr_endpoint_id request) @ '' does not exist.''))
      | Some endpoint \<Rightarrow>
          (case canonical_sha256 (cd_sha256 cd) (cd_float_repr cd) (request_document request) of
             Inl _ \<Rightarrow> Inl (DomainError 422 ''invalid_event_data'' ''Event data is not valid JSON''
                       ''Event data must contain only finite, JSON-compatible values.'')
           | Inr fingerprint \<Rightarrow>
               (case canonical_json_bytes (cd_float_repr cd)
                       (payload_document (pu_event_id env) (pu_now env) request) of
                  Inl e \<Rightarrow> Inl e
                | Inr payload_bytes \<Rightarrow>
                    (case insert_if_absent
                            (candidate_event cd env request idempotency_key fingerprint payload_bytes) db of
                       Inl e \<Rightarrow> Inl e
                     | Inr (False, db1) \<Rightarrow>
                         (case resolve_idempotent_replay (pr_endpoint_id request) idempotency_key fingerprint db1 of
                            Inl e \<Rightarrow> Inl e
                          | Inr p \<Rightarrow> Inr (p, db1))
                     | Inr (True, db1) \<Rightarrow>
                         if \<not> ep_enabled endpoint
                         then Inl (DomainError 409 ''endpoint_disabled'' ''Endpoint is disabled''
                           (''Endpoint '' @ uuid_str (pr_endpoint_id request) @ '' cannot accept new deliveries.''))
                         else
                           let delivery = new_delivery (pu_delivery_id env) (pu_event_id env) (ep_id endpoint) 0
                                 None None (pu_now env) (pu_db_now env)
                           in (case delivery_create delivery db1 of
                                 Inl e \<Rightarrow> Inl e
                               | Inr db2 \<Rightarrow>
                                   (case get_event (pu_event_id env) db2 of
                                      None \<Rightarrow> Inl (RuntimeError
                                        ''inserted event could not be read in its transaction'')
                                    | Some event \<Rightarrow>
                                        Inr (\<lparr>pb_event = event, pb_delivery = delivery,
                                              pb_idempotent_replay = False\<rparr>, db2)))))))"

section \<open>Replaying\<close>

record replay_env =
  rp_delivery_id :: uuid
  rp_now :: datetime
  rp_db_now :: datetime

record replayed_delivery =
  rd_source_delivery :: delivery
  rd_delivery :: delivery
  rd_idempotent_replay :: bool

text \<open>\<open>attempts[-1]\<close> when there are attempts.\<close>

definition last_block_code :: "codec \<Rightarrow> delivery_attempt list \<Rightarrow> replay_block_code_t option" where
  "last_block_code cd attempts =
     (if attempts = [] then None
      else replay_block_code (cd_json_loads cd) (at_http_status_code (last attempts))
        (at_response_body_excerpt (last attempts)))"

text \<open>The last part of \<open>replay\<close>: the endpoint must accept deliveries, then the successor is created.\<close>

definition create_replay :: "replay_env \<Rightarrow> delivery \<Rightarrow> string \<Rightarrow> db \<Rightarrow> (replayed_delivery \<times> db) res" where
  "create_replay env source idempotency_key db =
     (case get_endpoint (dl_endpoint_id source) db of
        None \<Rightarrow> Inl (RuntimeError ''delivery references an endpoint that does not exist'')
      | Some endpoint \<Rightarrow>
          if \<not> ep_enabled endpoint
          then Inl (DomainError 409 ''endpoint_disabled'' ''Endpoint is disabled''
            (''Endpoint '' @ uuid_str (ep_id endpoint) @ '' cannot accept a replay delivery.''))
          else
            let d = new_delivery (rp_delivery_id env) (dl_event_id source) (dl_endpoint_id source)
                  (dl_replay_generation source + 1) (Some (dl_id source)) (Some idempotency_key)
                  (rp_now env) (rp_db_now env)
            in (case delivery_create d db of
                  Inl e \<Rightarrow> Inl e
                | Inr db' \<Rightarrow> Inr (\<lparr>rd_source_delivery = source, rd_delivery = d, rd_idempotent_replay = False\<rparr>, db')))"

text \<open>The guards on the chain of the source: only its latest, dead-lettered generation may be replayed.\<close>

definition replay_source ::
    "codec \<Rightarrow> replay_env \<Rightarrow> uuid \<Rightarrow> delivery \<Rightarrow> string \<Rightarrow> db \<Rightarrow> (replayed_delivery \<times> db) res" where
  "replay_source cd env delivery_id source idempotency_key db =
     (case get_latest (dl_event_id source) (dl_endpoint_id source) db of
        Inl e \<Rightarrow> Inl e
      | Inr None \<Rightarrow> Inl (RuntimeError ''delivery chain has no latest generation'')
      | Inr (Some latest) \<Rightarrow>
          if dl_id latest \<noteq> dl_id source
          then Inl (DomainError 409 ''replay_source_superseded'' ''Replay source has been superseded''
            (''Delivery '' @ uuid_str delivery_id @ '' has already been superseded by delivery '' @
             uuid_str (dl_id latest) @ ''.''))
          else if dl_status source \<noteq> DEAD_LETTERED
          then Inl (DomainError 409 ''delivery_not_replayable'' ''Delivery is not replayable''
            (''Delivery '' @ uuid_str delivery_id @ '' has status '' @ status_value (dl_status source) @
             ''; only the latest dead-lettered generation can be replayed.''))
          else
            (case last_block_code cd (list_attempts (dl_id source) db) of
               Some code \<Rightarrow>
                 Inl (DomainError 409 (block_code_value code) ''Payload correction is required''
                   (''The receiver permanently rejected this immutable payload. Publish a '' @
                    ''corrected event instead of replaying the unchanged body.''))
             | None \<Rightarrow>
                 (case get_active (dl_event_id source) (dl_endpoint_id source) db of
                    Inl e \<Rightarrow> Inl e
                  | Inr (Some active) \<Rightarrow>
                      Inl (DomainError 409 ''active_delivery_exists'' ''An active delivery already exists''
                        (''Delivery '' @ uuid_str (dl_id active) @ '' is already active for this event and endpoint.''))
                  | Inr None \<Rightarrow> create_replay env source idempotency_key db)))"

definition replay ::
    "codec \<Rightarrow> replay_env \<Rightarrow> uuid \<Rightarrow> string \<Rightarrow> db \<Rightarrow> (replayed_delivery \<times> db) res" where
  "replay cd env delivery_id idempotency_key db =
     (case get_delivery delivery_id db of
        None \<Rightarrow> Inl (DomainError 404 ''delivery_not_found'' ''Delivery not found''
                 (''Delivery '' @ uuid_str delivery_id @ '' does not exist.''))
      | Some candidate \<Rightarrow>
          (case event_get_for_update (dl_event_id candidate) db of
             Inl e \<Rightarrow> Inl e
           | Inr None \<Rightarrow> Inl (RuntimeError ''delivery references an event that could not be locked'')
           | Inr (Some _) \<Rightarrow>
               (case delivery_get_for_update delivery_id db of
                  Inl e \<Rightarrow> Inl e
                | Inr None \<Rightarrow> Inl (RuntimeError ''delivery disappeared after its event was locked'')
                | Inr (Some source) \<Rightarrow>
                    (case get_by_replay_request (dl_id source) idempotency_key db of
                       Inl e \<Rightarrow> Inl e
                     | Inr (Some existing) \<Rightarrow>
                         Inr (\<lparr>rd_source_delivery = source, rd_delivery = existing, rd_idempotent_replay = True\<rparr>, db)
                     | Inr None \<Rightarrow> replay_source cd env delivery_id source idempotency_key db))))"

section \<open>Queries\<close>

definition event_details :: "uuid \<Rightarrow> db \<Rightarrow> (event \<times> delivery list) res" where
  "event_details event_id db =
     (case get_event event_id db of
        None \<Rightarrow> Inl (DomainError 404 ''event_not_found'' ''Event not found''
                 (''Event '' @ uuid_str event_id @ '' does not exist.''))
      | Some event \<Rightarrow> Inr (event, list_for_event event_id db))"

definition delivery_attempts_query :: "uuid \<Rightarrow> db \<Rightarrow> (delivery \<times> delivery_attempt list) res" where
  "delivery_attempts_query delivery_id db =
     (case get_with_attempts delivery_id db of
        Inl e \<Rightarrow> Inl e
      | Inr None \<Rightarrow> Inl (DomainError 404 ''delivery_not_found'' ''Delivery not found''
                     (''Delivery '' @ uuid_str delivery_id @ '' does not exist.''))
      | Inr (Some da) \<Rightarrow> Inr da)"

end
