(* ===== verification/Transport.thy ===== *)
theory Transport
  imports Models Signing
begin

text \<open>
  The outbound transport, deliveries/transport.py, with the run identifier filter of
  demo_runs.py whose result it sends as a header.  The HTTP client, the HMAC, the
  replacing UTF-8 decoder and the e-mail date parser are arguments; the two clocks are the
  values they returned.
\<close>

section \<open>Demo run identifiers\<close>

definition ascii_alnum :: "char \<Rightarrow> bool" where
  "ascii_alnum c \<longleftrightarrow> (let n = (of_char c :: nat) in
     65 \<le> n \<and> n \<le> 90 \<or> 97 \<le> n \<and> n \<le> 122 \<or> 48 \<le> n \<and> n \<le> 57)"

text \<open>The full match of \<open>^[A-Za-z0-9][A-Za-z0-9._-]{0,127}$\<close>.\<close>

fun DEMO_RUN_ID_PATTERN :: "string \<Rightarrow> bool" where
  "DEMO_RUN_ID_PATTERN [] = False"
| "DEMO_RUN_ID_PATTERN (c # cs) =
     (ascii_alnum c \<and> length cs \<le> 127 \<and>
      list_all (\<lambda>d. ascii_alnum d \<or> d \<in> {CHR ''.'', CHR ''_'', CHR ''-''}) cs)"

definition normalized_demo_run_id :: "json option \<Rightarrow> string option" where
  "normalized_demo_run_id value =
     (case value of
        Some (JStr s) \<Rightarrow> if DEMO_RUN_ID_PATTERN s then Some s else None
      | _ \<Rightarrow> None)"

section \<open>Numbers in a header\<close>

text \<open>
  \<open>float(s)\<close> on a stripped string: an optional sign, then \<open>inf\<close>, \<open>infinity\<close> or \<open>nan\<close> in
  any case, or a decimal literal whose digits may be separated by single underscores.
  \<open>None\<close> is the \<open>ValueError\<close>.  A value that rounds beyond the largest float is infinite.
\<close>

definition is_digit :: "char \<Rightarrow> bool" where
  "is_digit c \<longleftrightarrow> 48 \<le> (of_char c :: nat) \<and> (of_char c :: nat) \<le> 57"

definition digit_value :: "char \<Rightarrow> nat" where
  "digit_value c = of_char c - 48"

fun take_digits :: "string \<Rightarrow> nat list \<times> string" where
  "take_digits [] = ([], [])"
| "take_digits (c # cs) =
     (if is_digit c then
        (case cs of
           u # d # ds \<Rightarrow>
             if u = CHR ''_'' \<and> is_digit d
             then (let (vs, rest) = take_digits (d # ds) in (digit_value c # vs, rest))
             else (let (vs, rest) = take_digits cs in (digit_value c # vs, rest))
         | _ \<Rightarrow> (let (vs, rest) = take_digits cs in (digit_value c # vs, rest)))
      else ([], c # cs))"

definition digits_value :: "nat list \<Rightarrow> nat" where
  "digits_value vs = foldl (\<lambda>n d. 10 * n + d) 0 vs"

definition lower_char :: "char \<Rightarrow> char" where
  "lower_char c = (let n = (of_char c :: nat) in if 65 \<le> n \<and> n \<le> 90 then char_of (n + 32) else c)"

fun split_sign :: "string \<Rightarrow> bool \<times> string" where
  "split_sign (c # cs) = (if c = CHR ''-'' then (True, cs) else if c = CHR ''+'' then (False, cs) else (False, c # cs))"
| "split_sign [] = (False, [])"

definition parse_exponent :: "string \<Rightarrow> int option" where
  "parse_exponent s =
     (case s of
        [] \<Rightarrow> Some 0
      | e # es \<Rightarrow>
          if lower_char e = CHR ''e'' then
            (let (neg, body) = split_sign es; (vs, rest) = take_digits body in
             if vs = [] \<or> rest \<noteq> [] then None
             else Some (if neg then - int (digits_value vs) else int (digits_value vs)))
          else None)"

definition pow10 :: "int \<Rightarrow> rat" where
  "pow10 e = (if 0 \<le> e then 10 ^ nat e else 1 / 10 ^ nat (- e))"

definition parse_decimal :: "string \<Rightarrow> rat option" where
  "parse_decimal s =
     (let (is, rest) = take_digits s;
          (fs, rest') = (case rest of c # cs \<Rightarrow> if c = CHR ''.'' then take_digits cs else ([], rest) | [] \<Rightarrow> ([], []))
      in if is = [] \<and> fs = [] then None
         else map_option (\<lambda>e. of_nat (digits_value (is @ fs)) * pow10 (e - int (length fs)))
           (parse_exponent rest'))"

definition max_float_bound :: rat where
  "max_float_bound = 2 ^ 1024 - 2 ^ 970"

definition parse_float :: "string \<Rightarrow> py_float option" where
  "parse_float s =
     (let (neg, body) = split_sign s; low = map lower_char body in
      if low = ''inf'' \<or> low = ''infinity'' then Some (Infinite neg)
      else if low = ''nan'' then Some NaN
      else map_option (\<lambda>v. if v \<ge> max_float_bound then Infinite neg else Finite (if neg then - v else v))
        (parse_decimal body))"

section \<open>Values\<close>

definition RESPONSE_BODY_EXCERPT_BYTES :: nat where
  "RESPONSE_BODY_EXCERPT_BYTES = 2048"

definition ERROR_MESSAGE_CHARACTERS :: nat where
  "ERROR_MESSAGE_CHARACTERS = 1024"

record outbound_webhook =
  ow_attempt_id :: uuid
  ow_delivery_id :: uuid
  ow_event_id :: uuid
  ow_event_type :: string
  ow_endpoint_url :: string
  ow_signing_secret :: bytes
  ow_payload_bytes :: bytes
  ow_attempt_number :: int
  ow_lease_token :: uuid
  ow_demo_run_id :: "string option"

record attempt_result =
  ar_disposition :: delivery_disposition
  ar_http_status_code :: "int option"
  ar_error_type :: "string option"
  ar_error_message :: "string option"
  ar_response_body_excerpt :: "string option"
  ar_request_timestamp :: int
  ar_retry_after_seconds :: "seconds option"
  ar_started_at :: datetime
  ar_finished_at :: datetime
  ar_duration_ms :: int

text \<open>
  \<open>parsedate_to_datetime\<close> gives a naive or an aware datetime; a naive one is its wall-clock
  reading, which the code then takes to be UTC.
\<close>

datatype parsed_date = Naive datetime | Aware datetime

definition parse_retry_after ::
    "(string \<Rightarrow> parsed_date option) \<Rightarrow> string option \<Rightarrow> seconds \<Rightarrow> datetime \<Rightarrow> seconds option" where
  "parse_retry_after parsedate value cap_seconds reference_time =
     (case value of
        None \<Rightarrow> None
      | Some v \<Rightarrow>
          let stripped_value = py_strip v in
          (case parse_float stripped_value of
             None \<Rightarrow>
               (case parsedate stripped_value of
                  None \<Rightarrow> None
                | Some d \<Rightarrow>
                    let retry_at = (case d of Naive t \<Rightarrow> t | Aware t \<Rightarrow> t);
                        seconds = of_int (retry_at - reference_time) / 1000000
                    in Some (min (max seconds 0) cap_seconds))
           | Some (Finite seconds) \<Rightarrow> if seconds < 0 then None else Some (min seconds cap_seconds)
           | Some _ \<Rightarrow> None))"

definition bounded_error_message :: "string \<Rightarrow> string" where
  "bounded_error_message message = take ERROR_MESSAGE_CHARACTERS message"

section \<open>Sending\<close>

text \<open>
  What one \<open>client.post\<close> does: it times out, fails with another \<open>httpx.RequestError\<close>
  (each with the text of the exception), raises something else, or gives a response.
\<close>

record http_response =
  rs_status_code :: int
  rs_headers :: "(string \<times> string) list"
  rs_content :: bytes

datatype post_outcome =
    TimeoutException string
  | RequestError string
  | OtherException py_exn
  | Response http_response

record http_env =
  he_hmac :: "bytes \<Rightarrow> bytes \<Rightarrow> string"
  he_post :: "string \<Rightarrow> bytes \<Rightarrow> (string \<times> string) list \<Rightarrow> post_outcome"
  he_decode_replace :: "bytes \<Rightarrow> string"
  he_parsedate :: "string \<Rightarrow> parsed_date option"
  he_started_at :: datetime
  he_finished_at :: datetime
  he_started_monotonic :: seconds
  he_finished_monotonic :: seconds

text \<open>
  \<open>response.headers.get(name)\<close>: header names compare without case, and the values of a
  repeated header are joined.
\<close>

fun join_comma :: "string list \<Rightarrow> string" where
  "join_comma [] = []"
| "join_comma [v] = v"
| "join_comma (v # w # vs) = v @ '', '' @ join_comma (w # vs)"

definition header_get :: "string \<Rightarrow> (string \<times> string) list \<Rightarrow> string option" where
  "header_get name headers =
     (case map snd (filter (\<lambda>h. map lower_char (fst h) = map lower_char name) headers) of
        [] \<Rightarrow> None
      | vs \<Rightarrow> Some (join_comma vs))"

text \<open>\<open>int(t.timestamp())\<close>: towards zero.\<close>

definition unix_seconds :: "datetime \<Rightarrow> int" where
  "unix_seconds t = (if t \<ge> 0 then t div 1000000 else - ((- t) div 1000000))"

definition app_version :: string where
  "app_version = ''0.1.0''"

definition webhook_headers :: "outbound_webhook \<Rightarrow> int \<Rightarrow> string \<Rightarrow> (string \<times> string) list" where
  "webhook_headers w request_timestamp signature =
     [(''Content-Type'', ''application/json''),
      (''User-Agent'', ''EventHarbor/'' @ app_version),
      (''X-EventHarbor-Event-Id'', uuid_str (ow_event_id w)),
      (''X-EventHarbor-Delivery-Id'', uuid_str (ow_delivery_id w)),
      (''X-EventHarbor-Event-Type'', ow_event_type w),
      (''X-EventHarbor-Attempt'', str_int (ow_attempt_number w)),
      (''X-EventHarbor-Timestamp'', str_int request_timestamp),
      (''X-EventHarbor-Signature'', signature)] @
     (case ow_demo_run_id w of None \<Rightarrow> [] | Some r \<Rightarrow> [(''X-EventHarbor-Demo-Run-Id'', r)])"

definition elapsed_ms :: "http_env \<Rightarrow> int" where
  "elapsed_ms env = max 0 (round_half_even ((he_finished_monotonic env - he_started_monotonic env) * 1000))"

definition failed_result :: "http_env \<Rightarrow> int \<Rightarrow> string \<Rightarrow> string \<Rightarrow> attempt_result" where
  "failed_result env request_timestamp error_type message =
     \<lparr>ar_disposition = RETRY, ar_http_status_code = None, ar_error_type = Some error_type,
      ar_error_message = Some (bounded_error_message message), ar_response_body_excerpt = None,
      ar_request_timestamp = request_timestamp, ar_retry_after_seconds = None,
      ar_started_at = he_started_at env, ar_finished_at = he_finished_at env,
      ar_duration_ms = elapsed_ms env\<rparr>"

definition send_webhook :: "http_env \<Rightarrow> seconds \<Rightarrow> outbound_webhook \<Rightarrow> attempt_result res" where
  "send_webhook env retry_after_cap_seconds w =
     (let request_timestamp = unix_seconds (he_started_at env) in
      case sign_payload (he_hmac env) (ow_signing_secret w) request_timestamp (ow_payload_bytes w) of
        Inl e \<Rightarrow> Inl e
      | Inr signature \<Rightarrow>
          (case he_post env (ow_endpoint_url w) (ow_payload_bytes w)
                  (webhook_headers w request_timestamp signature) of
             TimeoutException m \<Rightarrow> Inr (failed_result env request_timestamp ''timeout'' m)
           | RequestError m \<Rightarrow> Inr (failed_result env request_timestamp ''network_error'' m)
           | OtherException e \<Rightarrow> Inl e
           | Response r \<Rightarrow>
               (case classify_status_code (rs_status_code r) of
                  Inl e \<Rightarrow> Inl e
                | Inr disposition \<Rightarrow>
                    Inr \<lparr>ar_disposition = disposition, ar_http_status_code = Some (rs_status_code r),
                      ar_error_type = None, ar_error_message = None,
                      ar_response_body_excerpt =
                        Some (he_decode_replace env (take RESPONSE_BODY_EXCERPT_BYTES (rs_content r))),
                      ar_request_timestamp = request_timestamp,
                      ar_retry_after_seconds =
                        (if disposition = RETRY
                         then parse_retry_after (he_parsedate env) (header_get ''Retry-After'' (rs_headers r))
                                retry_after_cap_seconds (he_finished_at env)
                         else None),
                      ar_started_at = he_started_at env, ar_finished_at = he_finished_at env,
                      ar_duration_ms = elapsed_ms env\<rparr>)))"

section \<open>Evidence the database accepts\<close>

text \<open>
  What the attempts table demands of a completed result.  The code does not check it: it
  holds of what \<open>send_webhook\<close> returns when the clock did not step back during the request
  and no text of the peer holds the character 0.
\<close>

definition result_storable :: "attempt_result \<Rightarrow> bool" where
  "result_storable r \<longleftrightarrow>
     null_or (\<lambda>c. 100 \<le> c \<and> c \<le> 599) (ar_http_status_code r) \<and>
     null_or (varchar 120) (ar_error_type r) \<and> null_or pg_text (ar_error_message r) \<and>
     null_or pg_text (ar_response_body_excerpt r) \<and>
     0 \<le> ar_request_timestamp r \<and> int8 (ar_request_timestamp r) \<and>
     ar_started_at r \<le> ar_finished_at r \<and> 0 \<le> ar_duration_ms r \<and> int4 (ar_duration_ms r) \<and>
     null_or (\<lambda>s. 0 \<le> s) (ar_retry_after_seconds r)"

definition env_storable :: "http_env \<Rightarrow> bool" where
  "env_storable env \<longleftrightarrow>
     0 \<le> he_started_at env \<and> he_started_at env \<le> he_finished_at env \<and>
     he_finished_at env < 2 ^ 63 \<and> elapsed_ms env < 2 ^ 31"

lemma parse_retry_after_bounds:
  assumes "0 \<le> cap" "parse_retry_after pd v cap t = Some s"
  shows "0 \<le> s" "s \<le> cap"
  using assms
  by (auto simp: parse_retry_after_def Let_def split: option.splits py_float.splits if_splits)

lemma unix_seconds_bounds: "0 \<le> t \<Longrightarrow> 0 \<le> unix_seconds t \<and> unix_seconds t \<le> t"
  by (auto simp: unix_seconds_def div_le_dividend intro: order_trans)

lemma failed_result_storable:
  assumes "env_storable env" "pg_text m" "e \<in> {''timeout'', ''network_error''}"
  shows "result_storable (failed_result env (unix_seconds (he_started_at env)) e m)"
  using assms unix_seconds_bounds[of "he_started_at env"]
  by (auto simp: result_storable_def failed_result_def env_storable_def null_or_def varchar_def int8_def int4_def
      bounded_error_message_def elapsed_ms_def)

text \<open>The peer answered with text the database can hold, or the request failed with such text.\<close>

definition outcome_storable :: "http_env \<Rightarrow> post_outcome \<Rightarrow> bool" where
  "outcome_storable env out \<longleftrightarrow>
     (case out of
        TimeoutException m \<Rightarrow> pg_text m
      | RequestError m \<Rightarrow> pg_text m
      | OtherException e \<Rightarrow> False
      | Response r \<Rightarrow> 100 \<le> rs_status_code r \<and> rs_status_code r \<le> 599 \<and>
          pg_text (he_decode_replace env (take RESPONSE_BODY_EXCERPT_BYTES (rs_content r))))"

lemma response_storable:
  assumes "env_storable env" "0 \<le> cap" "100 \<le> rs_status_code r" "rs_status_code r \<le> 599"
    "pg_text x" "classify_status_code (rs_status_code r) = Inr disp"
  shows "result_storable \<lparr>ar_disposition = disp, ar_http_status_code = Some (rs_status_code r),
    ar_error_type = None, ar_error_message = None, ar_response_body_excerpt = Some x,
    ar_request_timestamp = unix_seconds (he_started_at env),
    ar_retry_after_seconds = (if disp = RETRY then parse_retry_after pd v cap t else None),
    ar_started_at = he_started_at env, ar_finished_at = he_finished_at env, ar_duration_ms = elapsed_ms env\<rparr>"
proof -
  have ra: "null_or (\<lambda>s. 0 \<le> s) (parse_retry_after pd v cap t)"
    using parse_retry_after_bounds(1)[OF assms(2)] by (auto simp: null_or_def split: option.splits)
  show ?thesis using assms unix_seconds_bounds[of "he_started_at env"] ra
    by (auto simp: result_storable_def env_storable_def null_or_def int8_def int4_def elapsed_ms_def)
qed

end
