(* ===== verification/Worker.thy ===== *)
theory Worker
  imports Transport Config
begin

text \<open>
  The delivery worker, deliveries/worker.py: the claim transaction, the finalize transaction
  and the loop that runs them around the HTTP request.  A transaction is a function from the
  committed database to an exception or a result with the database it commits; an exception
  rolls back (\<open>run_tx\<close>).  Values that come from outside (clock readings, \<open>uuid4()\<close>, the
  rows that concurrent transactions hold locked, the random fraction) are arguments.
\<close>

section \<open>Transactions\<close>

definition run_tx :: "(db \<Rightarrow> ('a \<times> db) res) \<Rightarrow> db \<Rightarrow> 'a res \<times> db" where
  "run_tx tx db = (case tx db of Inl e \<Rightarrow> (Inl e, db) | Inr (r, db') \<Rightarrow> (Inr r, db'))"

section \<open>The worker\<close>

record delivery_resolution =
  dr_delivery_id :: uuid
  dr_reason :: string

datatype claim = Resolution delivery_resolution | Webhook outbound_webhook

record worker =
  wk_settings :: settings
  wk_worker_id :: string
  wk_retry_policy :: retry_policy

definition DeliveryWorker :: "settings \<Rightarrow> string \<Rightarrow> worker res" where
  "DeliveryWorker s worker_id =
     (case RetryPolicy (worker_max_attempts s) (worker_base_delay_seconds s) (worker_max_delay_seconds s) of
        Inl e \<Rightarrow> Inl e
      | Inr p \<Rightarrow> Inr \<lparr>wk_settings = s, wk_worker_id = take 160 worker_id, wk_retry_policy = p\<rparr>)"

record claim_env =
  ce_now :: datetime
  ce_statement_now :: datetime
  ce_locked_deliveries :: "uuid list"
  ce_locked_endpoints :: "uuid list"
  ce_lease_token :: uuid
  ce_attempt_id :: uuid

section \<open>Claiming\<close>

text \<open>
  The WHERE clause of the claim, and its row lock: \<open>FOR UPDATE SKIP LOCKED\<close> over the join
  passes over a pair of which a concurrent transaction holds either row.
\<close>

definition due :: "datetime \<Rightarrow> delivery \<Rightarrow> bool" where
  "due now d \<longleftrightarrow>
     (dl_status d \<in> {PENDING, RETRY_WAIT} \<and>
      (case dl_next_attempt_at d of None \<Rightarrow> False | Some t \<Rightarrow> t \<le> now) \<and> dl_lease_token d = None) \<or>
     (dl_status d = IN_PROGRESS \<and> (case dl_lease_expires_at d of None \<Rightarrow> False | Some t \<Rightarrow> t \<le> now))"

definition claimable :: "claim_env \<Rightarrow> db \<Rightarrow> delivery \<Rightarrow> bool" where
  "claimable env db d \<longleftrightarrow> due (ce_statement_now env) d \<and>
     dl_endpoint_id d \<in> ep_id ` set (db_endpoints db) \<and>
     dl_id d \<notin> set (ce_locked_deliveries env) \<and> dl_endpoint_id d \<notin> set (ce_locked_endpoints env)"

definition claim_order :: "delivery \<Rightarrow> (nat \<times> datetime) \<times> uuid" where
  "claim_order d = (nulls_last (coalesce (dl_lease_expires_at d) (dl_next_attempt_at d)), dl_id d)"

definition claim_select :: "claim_env \<Rightarrow> db \<Rightarrow> delivery list" where
  "claim_select env db = take 1 (order_by claim_order (filter (claimable env db) (db_deliveries db)))"

text \<open>
  The assignments that the claim shares between its branches: the fields of a dead-lettered
  delivery, the evidence of an expired attempt and its trace in the delivery.
\<close>

definition note_expiry :: "delivery \<Rightarrow> string \<Rightarrow> delivery" where
  "note_expiry d reason = d\<lparr>dl_last_error := Some (take 2048 (''lease_expired: '' @ reason))\<rparr>"

definition dead_letter :: "delivery \<Rightarrow> datetime \<Rightarrow> delivery" where
  "dead_letter d now =
     d\<lparr>dl_status := DEAD_LETTERED, dl_next_attempt_at := None, dl_lease_owner := None,
       dl_lease_token := None, dl_lease_expires_at := None, dl_updated_at := now\<rparr>"

definition indeterminate_attempt :: "delivery_attempt \<Rightarrow> string \<Rightarrow> datetime \<Rightarrow> delivery_attempt" where
  "indeterminate_attempt a reason now =
     a\<lparr>at_status := AT_INDETERMINATE, at_error_type := Some ''lease_expired'',
       at_error_message := Some (take 2048 (reason @ ''; the endpoint may have received the request'')),
       at_resolved_at := Some now\<rparr>"

definition unclaimable_due_reason :: "worker \<Rightarrow> delivery \<Rightarrow> bool \<Rightarrow> string option res" where
  "unclaimable_due_reason w d endpoint_enabled =
     (case has_attempt_remaining (wk_retry_policy w) (dl_attempt_count d) of
        Inl e \<Rightarrow> Inl e
      | Inr remaining \<Rightarrow>
          let exhausted = \<not> remaining in
          if \<not> endpoint_enabled \<and> exhausted
          then Inr (Some ''endpoint is disabled and the maximum attempt count is already exhausted'')
          else if \<not> endpoint_enabled
          then Inr (Some ''endpoint is disabled before the delivery can be claimed'')
          else if exhausted
          then Inr (Some ''maximum attempt count is already exhausted before claim'')
          else Inr None)"

definition dead_letter_without_attempt ::
    "delivery \<Rightarrow> string \<Rightarrow> datetime \<Rightarrow> db \<Rightarrow> (delivery_resolution \<times> db) res" where
  "dead_letter_without_attempt d reason now db =
     (case ensure_transition (dl_status d) DEAD_LETTERED of
        Inl e \<Rightarrow> Inl e
      | Inr _ \<Rightarrow>
          (case flush (put_delivery
                  ((dead_letter d now)\<lparr>dl_last_error := Some (take 2048 reason)\<rparr>) db) of
             Inl e \<Rightarrow> Inl e
           | Inr db' \<Rightarrow> Inr (\<lparr>dr_delivery_id = dl_id d, dr_reason = reason\<rparr>, db')))"

definition expired_reason :: "bool \<Rightarrow> bool \<Rightarrow> string" where
  "expired_reason endpoint_enabled exhausted =
     (if \<not> endpoint_enabled then ''endpoint disabled while the worker lease was outstanding''
      else if exhausted then ''worker lease expired and the maximum attempt count was exhausted''
      else ''worker lease expired before its outcome was committed; redelivery reserved'')"

text \<open>
  The attempt and the delivery are changed in the session; the result carries the delivery
  object as the caller sees it next.  The caller flushes when there is no resolution.
\<close>

definition resolve_expired_attempt ::
    "worker \<Rightarrow> delivery \<Rightarrow> bool \<Rightarrow> datetime \<Rightarrow> db \<Rightarrow> (delivery_resolution option \<times> delivery \<times> db) res" where
  "resolve_expired_attempt w d endpoint_enabled now db =
     (case one_or_none (filter (\<lambda>a. at_delivery_id a = dl_id d \<and>
              at_attempt_number a = dl_attempt_count d \<and>
              Some (at_lease_token a) = dl_lease_token d \<and> at_status a = AT_IN_PROGRESS)
            (db_attempts db)) of
        Inl e \<Rightarrow> Inl e
      | Inr None \<Rightarrow> Inl (RuntimeError (''delivery '' @ uuid_str (dl_id d) @
            '' has an expired lease without in-progress evidence''))
      | Inr (Some a) \<Rightarrow>
          (case has_attempt_remaining (wk_retry_policy w) (dl_attempt_count d) of
             Inl e \<Rightarrow> Inl e
           | Inr remaining \<Rightarrow>
               let exhausted = \<not> remaining;
                   reason = expired_reason endpoint_enabled exhausted;
                   db1 = put_attempt (indeterminate_attempt a reason now) db;
                   d1 = note_expiry d reason
               in if endpoint_enabled \<and> \<not> exhausted then Inr (None, d1, put_delivery d1 db1)
                  else
                    (case ensure_transition (dl_status d1) DEAD_LETTERED of
                       Inl e \<Rightarrow> Inl e
                     | Inr _ \<Rightarrow>
                         let d2 = dead_letter d1 now
                         in (case flush (put_delivery d2 db1) of
                               Inl e \<Rightarrow> Inl e
                             | Inr db2 \<Rightarrow>
                                 Inr (Some \<lparr>dr_delivery_id = dl_id d, dr_reason = reason\<rparr>, d2, db2)))))"

definition reserved_delivery :: "worker \<Rightarrow> claim_env \<Rightarrow> delivery \<Rightarrow> delivery" where
  "reserved_delivery w env d =
     d\<lparr>dl_status := IN_PROGRESS, dl_attempt_count := dl_attempt_count d + 1,
       dl_next_attempt_at := None, dl_lease_owner := Some (wk_worker_id w),
       dl_lease_token := Some (ce_lease_token env),
       dl_lease_expires_at := Some (ce_now env + timedelta_seconds (worker_lease_seconds (wk_settings w))),
       dl_updated_at := ce_now env\<rparr>"

definition reserved_attempt :: "claim_env \<Rightarrow> delivery \<Rightarrow> delivery_attempt" where
  "reserved_attempt env d =
     \<lparr>at_id = ce_attempt_id env, at_delivery_id = dl_id d, at_attempt_number = dl_attempt_count d,
      at_status = AT_IN_PROGRESS, at_lease_token = ce_lease_token env, at_disposition = None,
      at_http_status_code = None, at_error_type = None, at_error_message = None,
      at_response_body_excerpt = None, at_duration_ms = None, at_request_timestamp = None,
      at_retry_scheduled_for = None, at_started_at = None, at_finished_at = None,
      at_resolved_at = None, at_created_at = ce_now env\<rparr>"

definition webhook_of :: "claim_env \<Rightarrow> delivery \<Rightarrow> endpoint \<Rightarrow> event \<Rightarrow> outbound_webhook" where
  "webhook_of env d endpoint event =
     \<lparr>ow_attempt_id = ce_attempt_id env, ow_delivery_id = dl_id d, ow_event_id = ev_id event,
      ow_event_type = ev_event_type event, ow_endpoint_url = ep_target_url endpoint,
      ow_signing_secret = ep_signing_secret endpoint, ow_payload_bytes = ev_payload_bytes event,
      ow_attempt_number = dl_attempt_count d, ow_lease_token = ce_lease_token env,
      ow_demo_run_id = normalized_demo_run_id (map_of (ev_payload event) ''run_id'')\<rparr>"

text \<open>The second half of \<open>claim_one\<close>: reserve the lease, the number and the evidence.\<close>

definition reserve_attempt ::
    "worker \<Rightarrow> claim_env \<Rightarrow> delivery \<Rightarrow> endpoint \<Rightarrow> db \<Rightarrow> (claim option \<times> db) res" where
  "reserve_attempt w env d endpoint db =
     (let d' = reserved_delivery w env d in
      case get_event (dl_event_id d') db of
        None \<Rightarrow> Inl (RuntimeError ''delivery references missing event'')
      | Some event \<Rightarrow>
          (case flush (add_attempt (reserved_attempt env d') (put_delivery d' db)) of
             Inl e \<Rightarrow> Inl e
           | Inr db' \<Rightarrow> Inr (Some (Webhook (webhook_of env d' endpoint event)), db')))"

definition claim_one :: "worker \<Rightarrow> claim_env \<Rightarrow> db \<Rightarrow> (claim option \<times> db) res" where
  "claim_one w env db =
     (case one_or_none (claim_select env db) of
        Inl e \<Rightarrow> Inl e
      | Inr None \<Rightarrow> Inr (None, db)
      | Inr (Some d) \<Rightarrow>
          (case get_endpoint (dl_endpoint_id d) db of
             None \<Rightarrow> Inl (RuntimeError ''delivery references missing endpoint'')
           | Some endpoint \<Rightarrow>
               if dl_status d = IN_PROGRESS then
                 (case resolve_expired_attempt w d (ep_enabled endpoint) (ce_now env) db of
                    Inl e \<Rightarrow> Inl e
                  | Inr (Some resolution, _, db') \<Rightarrow> Inr (Some (Resolution resolution), db')
                  | Inr (None, d1, db1) \<Rightarrow>
                      (case flush db1 of
                         Inl e \<Rightarrow> Inl e
                       | Inr db2 \<Rightarrow> reserve_attempt w env d1 endpoint db2))
               else
                 (case unclaimable_due_reason w d (ep_enabled endpoint) of
                    Inl e \<Rightarrow> Inl e
                  | Inr (Some reason) \<Rightarrow>
                      (case dead_letter_without_attempt d reason (ce_now env) db of
                         Inl e \<Rightarrow> Inl e
                       | Inr (resolution, db') \<Rightarrow> Inr (Some (Resolution resolution), db'))
                  | Inr None \<Rightarrow>
                      (case ensure_transition (dl_status d) IN_PROGRESS of
                         Inl e \<Rightarrow> Inl e
                       | Inr _ \<Rightarrow> reserve_attempt w env d endpoint db))))"

section \<open>Finalizing\<close>

definition last_error :: "attempt_result \<Rightarrow> string option" where
  "last_error r =
     (if ar_disposition r = SUCCEEDED then None
      else case ar_error_type r of
        Some error_type \<Rightarrow>
          let detail = (case ar_error_message r of
                          Some m \<Rightarrow> if m = [] then ''outbound request failed'' else m
                        | None \<Rightarrow> ''outbound request failed'')
          in Some (take 2048 (error_type @ '': '' @ detail))
      | None \<Rightarrow>
          (case ar_http_status_code r of
             Some code \<Rightarrow> Some (''HTTP '' @ str_int code)
           | None \<Rightarrow> Some ''outbound request failed''))"

text \<open>The decision before the transaction: the target status and the retry delay.\<close>

definition finalize_plan ::
    "worker \<Rightarrow> outbound_webhook \<Rightarrow> attempt_result \<Rightarrow> seconds \<Rightarrow> (delivery_status \<times> seconds option) res" where
  "finalize_plan w webhook r random_fraction =
     (if ar_disposition r = SUCCEEDED then Inr (DELIVERED, None)
      else if ar_disposition r = RETRY then
        (case has_attempt_remaining (wk_retry_policy w) (ow_attempt_number webhook) of
           Inl e \<Rightarrow> Inl e
         | Inr False \<Rightarrow> Inr (DEAD_LETTERED, None)
         | Inr True \<Rightarrow>
             (case delay_seconds (wk_retry_policy w) (ow_attempt_number webhook) random_fraction of
                Inl e \<Rightarrow> Inl e
              | Inr delay \<Rightarrow>
                  Inr (RETRY_WAIT,
                    Some (case ar_retry_after_seconds r of None \<Rightarrow> delay | Some ra \<Rightarrow> max delay ra))))
      else Inr (DEAD_LETTERED, None))"

definition completed_attempt ::
    "delivery_attempt \<Rightarrow> attempt_result \<Rightarrow> datetime option \<Rightarrow> datetime \<Rightarrow> delivery_attempt" where
  "completed_attempt a r retry_scheduled_for now =
     a\<lparr>at_status := AT_COMPLETED, at_disposition := Some (ar_disposition r),
       at_http_status_code := ar_http_status_code r, at_error_type := ar_error_type r,
       at_error_message := ar_error_message r, at_response_body_excerpt := ar_response_body_excerpt r,
       at_duration_ms := Some (ar_duration_ms r), at_request_timestamp := Some (ar_request_timestamp r),
       at_retry_scheduled_for := retry_scheduled_for, at_started_at := Some (ar_started_at r),
       at_finished_at := Some (ar_finished_at r), at_resolved_at := Some now\<rparr>"

definition finalized_delivery ::
    "delivery \<Rightarrow> delivery_status \<Rightarrow> attempt_result \<Rightarrow> datetime option \<Rightarrow> datetime \<Rightarrow> delivery" where
  "finalized_delivery d target r retry_scheduled_for now =
     d\<lparr>dl_status := target, dl_next_attempt_at := retry_scheduled_for,
       dl_delivered_at := (if target = DELIVERED then Some now else None),
       dl_last_error := last_error r, dl_lease_owner := None, dl_lease_token := None,
       dl_lease_expires_at := None, dl_updated_at := now\<rparr>"

definition finalize ::
    "worker \<Rightarrow> outbound_webhook \<Rightarrow> attempt_result \<Rightarrow> seconds \<Rightarrow> datetime \<Rightarrow> db \<Rightarrow> (bool \<times> db) res" where
  "finalize w webhook r random_fraction database_now db =
     (case finalize_plan w webhook r random_fraction of
        Inl e \<Rightarrow> Inl e
      | Inr (target, retry_delay) \<Rightarrow>
          (case one_or_none (filter (\<lambda>d. dl_id d = ow_delivery_id webhook \<and> dl_status d = IN_PROGRESS \<and>
                  dl_lease_owner d = Some (wk_worker_id w) \<and>
                  dl_lease_token d = Some (ow_lease_token webhook)) (db_deliveries db)) of
             Inl e \<Rightarrow> Inl e
           | Inr None \<Rightarrow> Inr (False, db)
           | Inr (Some d) \<Rightarrow>
               if dl_attempt_count d \<noteq> ow_attempt_number webhook then Inr (False, db)
               else
                 (case one_or_none (filter (\<lambda>a. at_id a = ow_attempt_id webhook \<and>
                         at_delivery_id a = ow_delivery_id webhook \<and>
                         at_attempt_number a = ow_attempt_number webhook \<and>
                         at_lease_token a = ow_lease_token webhook \<and>
                         at_status a = AT_IN_PROGRESS) (db_attempts db)) of
                    Inl e \<Rightarrow> Inl e
                  | Inr None \<Rightarrow> Inl (RuntimeError (''delivery '' @ uuid_str (dl_id d) @
                        '' owns a lease without matching attempt evidence''))
                  | Inr (Some a) \<Rightarrow>
                      (case ensure_transition (dl_status d) target of
                         Inl e \<Rightarrow> Inl e
                       | Inr _ \<Rightarrow>
                           let retry_scheduled_for =
                                 map_option (\<lambda>s. database_now + timedelta_seconds s) retry_delay
                           in (case flush (put_delivery
                                     (finalized_delivery d target r retry_scheduled_for database_now)
                                     (put_attempt (completed_attempt a r retry_scheduled_for database_now) db)) of
                                 Inl e \<Rightarrow> Inl e
                               | Inr db' \<Rightarrow> Inr (True, db'))))))"

section \<open>The loop\<close>

text \<open>
  One pass: the claim commits, then the request goes out with no transaction open (other
  transactions may commit meanwhile: \<open>interference\<close>), then the result is finalized.  The
  exception of any stage leaves what was committed before it.
\<close>

record pass_env =
  pe_claim :: claim_env
  pe_http :: http_env
  pe_interference :: "db \<Rightarrow> db"
  pe_random_fraction :: seconds
  pe_database_now :: datetime

definition run_once :: "worker \<Rightarrow> pass_env \<Rightarrow> db \<Rightarrow> bool res \<times> db" where
  "run_once w env db =
     (case run_tx (claim_one w (pe_claim env)) db of
        (Inl e, db1) \<Rightarrow> (Inl e, db1)
      | (Inr None, db1) \<Rightarrow> (Inr False, db1)
      | (Inr (Some (Resolution _)), db1) \<Rightarrow> (Inr True, db1)
      | (Inr (Some (Webhook webhook)), db1) \<Rightarrow>
          let db2 = pe_interference env db1 in
          (case send_webhook (pe_http env) (worker_retry_after_cap_seconds (wk_settings w)) webhook of
             Inl e \<Rightarrow> (Inl e, db2)
           | Inr r \<Rightarrow>
               (case run_tx (finalize w webhook r (pe_random_fraction env) (pe_database_now env)) db2 of
                  (Inl e, db3) \<Rightarrow> (Inl e, db3)
                | (Inr _, db3) \<Rightarrow> (Inr True, db3))))"

text \<open>
  One turn of \<open>run_forever\<close>: whether the loop sleeps before the next turn.  An exception is
  logged and never ends the loop.
\<close>

definition worker_turn :: "worker \<Rightarrow> pass_env \<Rightarrow> db \<Rightarrow> bool \<times> db" where
  "worker_turn w env db =
     (case run_once w env db of
        (Inl _, db') \<Rightarrow> (True, db')
      | (Inr worked, db') \<Rightarrow> (\<not> worked, db'))"

fun run_forever :: "worker \<Rightarrow> pass_env list \<Rightarrow> db \<Rightarrow> db" where
  "run_forever w [] db = db"
| "run_forever w (env # envs) db = run_forever w envs (snd (worker_turn w env db))"

end
