(* ===== verification/Ledger.thy ===== *)
theory Ledger
  imports Worker
begin

text \<open>
  The attempt ledger: the invariant that ties the deliveries to their attempt rows beyond
  what the database constraints say, and the proof that the worker's two transactions keep
  it, never raise and do exactly what the reliability contract promises.  The invariant is
  stated per delivery over the set of its attempts, so a transaction that touches one
  delivery is checked on that delivery alone.
\<close>

section \<open>The invariant\<close>

definition attempts_for :: "uuid \<Rightarrow> db \<Rightarrow> delivery_attempt set" where
  "attempts_for i db = {a \<in> set (db_attempts db). at_delivery_id a = i}"

text \<open>An attempt row that carries the lease its delivery holds.\<close>

definition holds_lease :: "delivery \<Rightarrow> delivery_attempt \<Rightarrow> bool" where
  "holds_lease d a \<longleftrightarrow> dl_status d = IN_PROGRESS \<and> at_status a = AT_IN_PROGRESS \<and>
     at_attempt_number a = dl_attempt_count d \<and> dl_lease_token d = Some (at_lease_token a)"

definition ledger_row :: "int \<Rightarrow> delivery_attempt set \<Rightarrow> delivery \<Rightarrow> bool" where
  "ledger_row m A d \<longleftrightarrow>
     at_attempt_number ` A = {1..dl_attempt_count d} \<and>
     (dl_status d = IN_PROGRESS \<longrightarrow> (\<exists>a \<in> A. holds_lease d a)) \<and>
     (\<forall>a \<in> A. at_status a = AT_IN_PROGRESS \<longrightarrow> holds_lease d a) \<and>
     (dl_next_attempt_at d \<noteq> None \<longleftrightarrow> dl_status d \<in> {PENDING, RETRY_WAIT}) \<and>
     dl_attempt_count d \<le> m \<and>
     (dl_status d = PENDING \<longrightarrow> dl_attempt_count d = 0) \<and>
     (dl_status d = DELIVERED \<longrightarrow> (\<exists>a \<in> A. at_disposition a = Some SUCCEEDED)) \<and>
     (\<forall>a \<in> A. at_disposition a = Some SUCCEEDED \<longrightarrow>
        dl_status d = DELIVERED \<and> at_attempt_number a = dl_attempt_count d)"

definition ledger_ok :: "int \<Rightarrow> db \<Rightarrow> bool" where
  "ledger_ok m db \<longleftrightarrow> db_ok db \<and> (\<forall>d \<in> set (db_deliveries db). ledger_row m (attempts_for (dl_id d) db) d)"

text \<open>A delivery whose next attempt may be reserved: nothing outstanding, nothing delivered.\<close>

definition reservable :: "int \<Rightarrow> delivery_attempt set \<Rightarrow> delivery \<Rightarrow> bool" where
  "reservable m A d \<longleftrightarrow> at_attempt_number ` A = {1..dl_attempt_count d} \<and> dl_attempt_count d < m \<and>
     (\<forall>a \<in> A. at_status a \<noteq> AT_IN_PROGRESS \<and> at_disposition a \<noteq> Some SUCCEEDED)"

text \<open>What the constructor gives a worker whose identifier has no character 0.\<close>

definition worker_ok :: "worker \<Rightarrow> bool" where
  "worker_ok w \<longleftrightarrow> policy_ok (wk_retry_policy w) \<and> max_attempts (wk_retry_policy w) \<le> 100 \<and>
     varchar 160 (wk_worker_id w)"

text \<open>\<open>uuid4()\<close> returns identifiers that are not in use.\<close>

definition claim_env_fresh :: "claim_env \<Rightarrow> db \<Rightarrow> bool" where
  "claim_env_fresh env db \<longleftrightarrow> ce_attempt_id env \<notin> at_id ` set (db_attempts db) \<and>
     ce_lease_token env \<notin> at_lease_token ` set (db_attempts db)"

section \<open>Frame lemmas\<close>

lemma attempts_for_put_delivery [simp]: "attempts_for i (put_delivery d db) = attempts_for i db"
  by (simp add: attempts_for_def)

lemma attempts_for_add_attempt [simp]:
  "attempts_for i (add_attempt a db) =
     (if at_delivery_id a = i then insert a (attempts_for i db) else attempts_for i db)"
  by (auto simp: attempts_for_def row_simps)

lemma attempts_for_put_attempt:
  assumes "db_ok db" "a \<in> set (db_attempts db)" "at_id a' = at_id a" "at_delivery_id a' = at_delivery_id a"
  shows "attempts_for i (put_attempt a' db) =
     (if at_delivery_id a = i then insert a' (attempts_for i db - {a}) else attempts_for i db)"
  using assms attempt_id_unique[OF assms(1)] by (auto simp: attempts_for_def row_simps)

lemma ledger_okD:
  assumes "ledger_ok m db"
  shows "db_ok db" "d \<in> set (db_deliveries db) \<Longrightarrow> ledger_row m (attempts_for (dl_id d) db) d"
  using assms by (auto simp: ledger_ok_def)

lemma ledger_rowD:
  assumes "ledger_row m A d"
  shows "at_attempt_number ` A = {1..dl_attempt_count d}"
    "dl_status d = IN_PROGRESS \<Longrightarrow> \<exists>a \<in> A. holds_lease d a"
    "a \<in> A \<Longrightarrow> at_status a = AT_IN_PROGRESS \<Longrightarrow> holds_lease d a"
    "dl_next_attempt_at d \<noteq> None \<longleftrightarrow> dl_status d \<in> {PENDING, RETRY_WAIT}"
    "dl_attempt_count d \<le> m"
    "dl_status d = PENDING \<Longrightarrow> dl_attempt_count d = 0"
    "dl_status d = DELIVERED \<Longrightarrow> \<exists>a \<in> A. at_disposition a = Some SUCCEEDED"
    "a \<in> A \<Longrightarrow> at_disposition a = Some SUCCEEDED \<Longrightarrow>
       dl_status d = DELIVERED \<and> at_attempt_number a = dl_attempt_count d"
  using assms unfolding ledger_row_def by blast+

text \<open>A change of one delivery and of its own attempts leaves every other delivery's ledger.\<close>

lemma ledger_ok_step:
  assumes ok: "ledger_ok m db" and d: "d \<in> set (db_deliveries db)" "dl_id d' = dl_id d"
    and db': "db_ok db'" "db_deliveries db' = update_row dl_id d' (db_deliveries db)"
    and others: "\<And>i. i \<noteq> dl_id d \<Longrightarrow> attempts_for i db' = attempts_for i db"
    and row: "ledger_row m (attempts_for (dl_id d) db') d'"
  shows "ledger_ok m db'"
  unfolding ledger_ok_def
proof (intro conjI ballI)
  fix x assume "x \<in> set (db_deliveries db')"
  then consider "x = d'" | "x \<in> set (db_deliveries db)" "dl_id x \<noteq> dl_id d"
    using d db'(2) by (auto simp: row_simps split: if_splits)
  then show "ledger_row m (attempts_for (dl_id x) db') x"
    by cases (use row d others ledger_okD(2)[OF ok] in auto)
qed (rule db'(1))

lemma same_delivery_attempt_eq:
  assumes "db_ok db" "a \<in> attempts_for i db" "b \<in> attempts_for i db"
    "at_attempt_number a = at_attempt_number b"
  shows "a = b"
proof -
  have "unique_on (\<lambda>a. (at_delivery_id a, at_attempt_number a)) (db_attempts db)"
    using db_okD(4)[OF assms(1)] by (simp add: attempts_ok_def)
  then show ?thesis using assms(2-4) by (auto simp: attempts_for_def elim: unique_whereD)
qed

text \<open>The evidence query of both transactions finds the row that holds the lease.\<close>

lemma lease_holder_unique:
  assumes "ledger_ok m db" "d \<in> set (db_deliveries db)" "dl_status d = IN_PROGRESS"
  obtains a where "a \<in> attempts_for (dl_id d) db" "holds_lease d a"
    "\<And>b. b \<in> attempts_for (dl_id d) db \<Longrightarrow> at_attempt_number b = dl_attempt_count d \<Longrightarrow> b = a"
proof -
  from ledger_okD(2)[OF assms(1,2)] assms(3) obtain a where
    a: "a \<in> attempts_for (dl_id d) db" "holds_lease d a" by (auto simp: ledger_row_def)
  show ?thesis using that[OF a] same_delivery_attempt_eq[OF ledger_okD(1)[OF assms(1)] _ a(1)] a(2)
    by (auto simp: holds_lease_def)
qed

lemma expired_evidence_found:
  assumes "ledger_ok m db" "a \<in> attempts_for (dl_id d) db" "holds_lease d a"
    "\<And>b. b \<in> attempts_for (dl_id d) db \<Longrightarrow> at_attempt_number b = dl_attempt_count d \<Longrightarrow> b = a"
  shows "one_or_none (filter (\<lambda>a. at_delivery_id a = dl_id d \<and>
      at_attempt_number a = dl_attempt_count d \<and>
      Some (at_lease_token a) = dl_lease_token d \<and> at_status a = AT_IN_PROGRESS)
    (db_attempts db)) = Inr (Some a)"
proof (rule one_or_none_filter_Some)
  show "distinct (db_attempts db)" by (rule distinct_attempts[OF ledger_okD(1)[OF assms(1)]])
  fix x assume "x \<in> set (db_attempts db)" "at_delivery_id x = dl_id d \<and> at_attempt_number x = dl_attempt_count d \<and>
      Some (at_lease_token x) = dl_lease_token d \<and> at_status x = AT_IN_PROGRESS"
  then show "x = a" using assms(4)[of x] by (simp add: attempts_for_def)
qed (use assms(2,3) in \<open>auto simp: attempts_for_def holds_lease_def\<close>)

section \<open>Reserving an attempt\<close>

lemma reserved_delivery_row_ok:
  assumes "worker_ok w" "delivery_row_ok d" "dl_attempt_count d < max_attempts (wk_retry_policy w)"
  shows "delivery_row_ok (reserved_delivery w env d)"
  using assms by (auto simp: delivery_row_ok_def reserved_delivery_def worker_ok_def int4_def null_or_def)

lemma reserved_attempt_row_ok:
  "1 \<le> dl_attempt_count d \<Longrightarrow> dl_attempt_count d \<le> 100 \<Longrightarrow> attempt_row_ok (reserved_attempt env d)"
  by (simp add: attempt_row_ok_def reserved_attempt_def int4_def null_or_def)

lemma reserved_same_identity: "same_identity d (reserved_delivery w env d)"
  by (simp add: same_identity_def reserved_delivery_def)

lemma reserve_attempt_db_ok:
  assumes w: "worker_ok w" and ok: "db_ok db" and d: "d \<in> set (db_deliveries db)" "is_active d"
    and res: "reservable (max_attempts (wk_retry_policy w)) (attempts_for (dl_id d) db) d"
    and fresh: "claim_env_fresh env db"
  shows "db_ok (add_attempt (reserved_attempt env (reserved_delivery w env d))
    (put_delivery (reserved_delivery w env d) db))"
proof (rule add_attempt_ok)
  have row: "delivery_row_ok d" using ok d(1) by (rule delivery_row_okD)
  have lt: "dl_attempt_count d < max_attempts (wk_retry_policy w)" and ge: "0 \<le> dl_attempt_count d"
    using res row by (simp_all add: reservable_def delivery_row_ok_def)
  show "db_ok (put_delivery (reserved_delivery w env d) db)"
    by (rule put_delivery_ok[OF ok d(1) reserved_same_identity])
      (use reserved_delivery_row_ok[OF w row lt] d(2) in auto)
  show "attempt_row_ok (reserved_attempt env (reserved_delivery w env d))"
    by (rule reserved_attempt_row_ok) (use lt ge w in \<open>auto simp: reserved_delivery_def worker_ok_def\<close>)
  fix x assume "x \<in> set (db_attempts (put_delivery (reserved_delivery w env d) db))"
    and "at_delivery_id x = at_delivery_id (reserved_attempt env (reserved_delivery w env d))"
  then have x: "x \<in> attempts_for (dl_id d) db" "x \<in> set (db_attempts db)"
    by (auto simp: attempts_for_def reserved_attempt_def reserved_delivery_def)
  then have "at_attempt_number x \<le> dl_attempt_count d" "at_status x \<noteq> AT_IN_PROGRESS"
    using res by (auto simp: reservable_def)
  moreover have "at_lease_token x \<noteq> ce_lease_token env"
    using fresh x(2) by (metis claim_env_fresh_def imageI)
  ultimately show "at_attempt_number x \<noteq> at_attempt_number (reserved_attempt env (reserved_delivery w env d)) \<and>
      at_lease_token x \<noteq> at_lease_token (reserved_attempt env (reserved_delivery w env d)) \<and>
      (at_status (reserved_attempt env (reserved_delivery w env d)) = AT_IN_PROGRESS \<longrightarrow>
       at_status x \<noteq> AT_IN_PROGRESS)"
    by (auto simp: reserved_attempt_def reserved_delivery_def)
qed (use d fresh in \<open>auto simp: reserved_attempt_def reserved_delivery_def row_simps claim_env_fresh_def\<close>)

lemma reserve_attempt_ledger_row:
  assumes "reservable m A d" "0 \<le> dl_attempt_count d"
  shows "ledger_row m (insert (reserved_attempt env (reserved_delivery w env d)) A) (reserved_delivery w env d)"
proof -
  have "insert (dl_attempt_count d + 1) {1..dl_attempt_count d} = {1..dl_attempt_count d + 1}"
    using assms(2) by auto
  with assms show ?thesis
    by (auto simp: ledger_row_def reservable_def holds_lease_def reserved_attempt_def reserved_delivery_def)
qed

section \<open>Expired leases\<close>

lemma indeterminate_attempt_sel [simp]:
  "at_id (indeterminate_attempt a r t) = at_id a"
  "at_delivery_id (indeterminate_attempt a r t) = at_delivery_id a"
  "at_attempt_number (indeterminate_attempt a r t) = at_attempt_number a"
  "at_lease_token (indeterminate_attempt a r t) = at_lease_token a"
  "at_status (indeterminate_attempt a r t) = AT_INDETERMINATE"
  "at_disposition (indeterminate_attempt a r t) = at_disposition a"
  by (simp_all add: indeterminate_attempt_def)

lemma pg_text_expired_reason [simp]: "pg_text (expired_reason en ex)"
  by (simp add: expired_reason_def)

lemma indeterminate_attempt_row_ok:
  "attempt_row_ok a \<Longrightarrow> at_status a = AT_IN_PROGRESS \<Longrightarrow> pg_text reason \<Longrightarrow>
   attempt_row_ok (indeterminate_attempt a reason now)"
  by (auto simp: attempt_row_ok_def indeterminate_attempt_def null_or_def varchar_def)

lemma note_expiry_row_ok: "delivery_row_ok d \<Longrightarrow> pg_text reason \<Longrightarrow> delivery_row_ok (note_expiry d reason)"
  by (auto simp: delivery_row_ok_def note_expiry_def null_or_def)

lemma dead_letter_row_ok: "delivery_row_ok d \<Longrightarrow> delivery_row_ok (dead_letter d now)"
  by (auto simp: delivery_row_ok_def dead_letter_def null_or_def)

lemma resolve_db_ok:
  assumes ok: "ledger_ok m db" and d: "d \<in> set (db_deliveries db)" "dl_status d = IN_PROGRESS"
    and a: "a \<in> attempts_for (dl_id d) db" "holds_lease d a"
    and d': "same_identity d d'" "delivery_row_ok d'"
  shows "db_ok (put_delivery d' (put_attempt (indeterminate_attempt a (expired_reason en ex) now) db))"
proof (rule put_delivery_ok)
  note dbok = ledger_okD(1)[OF ok]
  show "db_ok (put_attempt (indeterminate_attempt a (expired_reason en ex) now) db)"
    by (rule put_attempt_ok[OF dbok, of a])
      (use a attempt_row_okD[OF dbok] indeterminate_attempt_row_ok in
        \<open>auto simp: attempts_for_def holds_lease_def indeterminate_attempt_def\<close>)
  show "d \<in> set (db_deliveries (put_attempt (indeterminate_attempt a (expired_reason en ex) now) db))"
    using d by simp
qed (use d d' in \<open>auto simp: is_active_def\<close>)

lemma resolved_attempts:
  assumes ok: "ledger_ok m db" and a: "a \<in> attempts_for (dl_id d) db"
  shows "attempts_for i (put_delivery d' (put_attempt (indeterminate_attempt a reason now) db)) =
    (if i = dl_id d then insert (indeterminate_attempt a reason now) (attempts_for i db - {a})
     else attempts_for i db)"
proof -
  have "a \<in> set (db_attempts db)" "at_delivery_id a = dl_id d" using a by (simp_all add: attempts_for_def)
  then show ?thesis
    using attempts_for_put_attempt[OF ledger_okD(1)[OF ok], of a "indeterminate_attempt a reason now" i]
    by simp
qed

lemma resolved_reservable:
  assumes ok: "ledger_ok m db" and d: "d \<in> set (db_deliveries db)" "dl_attempt_count d < n"
    and a: "a \<in> attempts_for (dl_id d) db" "holds_lease d a"
    "\<And>b. b \<in> attempts_for (dl_id d) db \<Longrightarrow> at_attempt_number b = dl_attempt_count d \<Longrightarrow> b = a"
  shows "reservable n (insert (indeterminate_attempt a reason now) (attempts_for (dl_id d) db - {a})) d"
proof -
  note row = ledger_rowD[OF ledger_okD(2)[OF ok d(1)]]
  define a' where "a' = indeterminate_attempt a reason now"
  have "attempt_row_ok a"
    using a(1) by (intro attempt_row_okD[OF ledger_okD(1)[OF ok]]) (simp add: attempts_for_def)
  then have disp: "at_disposition a = None"
    using a(2) by (simp add: holds_lease_def attempt_row_ok_def)
  have num: "at_attempt_number ` insert a' (attempts_for (dl_id d) db - {a}) = {1..dl_attempt_count d}"
  proof -
    have "at_attempt_number a' = at_attempt_number a" by (simp add: a'_def)
    then have "at_attempt_number ` insert a' (attempts_for (dl_id d) db - {a}) =
        at_attempt_number ` attempts_for (dl_id d) db" using a(1) by (auto simp: image_iff)
    then show ?thesis using row(1) by simp
  qed
  have open_other: "at_status b \<noteq> AT_IN_PROGRESS" if "b \<in> attempts_for (dl_id d) db" "b \<noteq> a" for b
    using row(3)[OF that(1)] a(3)[OF that(1)] that(2) by (auto simp: holds_lease_def)
  have succ: "at_disposition b \<noteq> Some SUCCEEDED" if "b \<in> attempts_for (dl_id d) db" for b
    using row(8)[OF that] a(2) by (auto simp: holds_lease_def)
  show ?thesis unfolding reservable_def a'_def[symmetric]
    using num d(2) open_other succ disp by (auto simp: a'_def)
qed

lemma dead_letter_ledger_row:
  assumes "at_attempt_number ` A = {1..dl_attempt_count d}" "dl_attempt_count d \<le> m"
    "\<forall>a \<in> A. at_status a \<noteq> AT_IN_PROGRESS \<and> at_disposition a \<noteq> Some SUCCEEDED"
    "dl_status d' = DEAD_LETTERED" "dl_attempt_count d' = dl_attempt_count d" "dl_next_attempt_at d' = None"
  shows "ledger_row m A d'"
  using assms by (auto simp: ledger_row_def)

end
