(* ===== verification/Claiming.thy ===== *)
theory Claiming
  imports Ledger
begin

text \<open>
  The claim transaction against its specification.  \<open>claim_spec\<close> says in five rules what one
  claim may do to the ledger; \<open>claim_one_refines\<close> shows that the code always returns, and
  returns what one of the rules allows; every rule keeps the ledger invariant.
\<close>

section \<open>Specification\<close>

text \<open>The delivery a claim works on: the first due one, by due time and then identifier.\<close>

definition first_due :: "claim_env \<Rightarrow> db \<Rightarrow> delivery \<Rightarrow> bool" where
  "first_due env db d \<longleftrightarrow> d \<in> set (db_deliveries db) \<and> claimable env db d \<and>
     (\<forall>x \<in> set (db_deliveries db). claimable env db x \<longrightarrow> claim_order d \<le> claim_order x)"

definition budget_left :: "worker \<Rightarrow> delivery \<Rightarrow> bool" where
  "budget_left w d \<longleftrightarrow> dl_attempt_count d < max_attempts (wk_retry_policy w)"

definition claimed_db :: "worker \<Rightarrow> claim_env \<Rightarrow> delivery \<Rightarrow> db \<Rightarrow> db" where
  "claimed_db w env d db =
     add_attempt (reserved_attempt env (reserved_delivery w env d)) (put_delivery (reserved_delivery w env d) db)"

definition expire_db :: "delivery \<Rightarrow> delivery_attempt \<Rightarrow> string \<Rightarrow> datetime \<Rightarrow> db \<Rightarrow> db" where
  "expire_db d' a reason now db = put_delivery d' (put_attempt (indeterminate_attempt a reason now) db)"

inductive claim_spec :: "worker \<Rightarrow> claim_env \<Rightarrow> db \<Rightarrow> claim option \<Rightarrow> db \<Rightarrow> bool" for w env where
  claim_idle:
    "\<forall>d \<in> set (db_deliveries db). \<not> claimable env db d \<Longrightarrow> claim_spec w env db None db"
| claim_refused:
    "first_due env db d \<Longrightarrow> dl_status d \<in> {PENDING, RETRY_WAIT} \<Longrightarrow>
     get_endpoint (dl_endpoint_id d) db = Some e \<Longrightarrow> \<not> (ep_enabled e \<and> budget_left w d) \<Longrightarrow>
     pg_text reason \<Longrightarrow>
     claim_spec w env db (Some (Resolution \<lparr>dr_delivery_id = dl_id d, dr_reason = reason\<rparr>))
       (put_delivery ((dead_letter d (ce_now env))\<lparr>dl_last_error := Some reason\<rparr>) db)"
| claim_due:
    "first_due env db d \<Longrightarrow> dl_status d \<in> {PENDING, RETRY_WAIT} \<Longrightarrow>
     get_endpoint (dl_endpoint_id d) db = Some e \<Longrightarrow> ep_enabled e \<Longrightarrow> budget_left w d \<Longrightarrow>
     get_event (dl_event_id d) db = Some ev \<Longrightarrow>
     claim_spec w env db (Some (Webhook (webhook_of env (reserved_delivery w env d) e ev)))
       (claimed_db w env d db)"
| claim_expired_dead:
    "first_due env db d \<Longrightarrow> dl_status d = IN_PROGRESS \<Longrightarrow>
     get_endpoint (dl_endpoint_id d) db = Some e \<Longrightarrow> \<not> (ep_enabled e \<and> budget_left w d) \<Longrightarrow>
     a \<in> attempts_for (dl_id d) db \<Longrightarrow> holds_lease d a \<Longrightarrow>
     reason = expired_reason (ep_enabled e) (\<not> budget_left w d) \<Longrightarrow>
     claim_spec w env db (Some (Resolution \<lparr>dr_delivery_id = dl_id d, dr_reason = reason\<rparr>))
       (expire_db (dead_letter (note_expiry d reason) (ce_now env)) a reason (ce_now env) db)"
| claim_expired_again:
    "first_due env db d \<Longrightarrow> dl_status d = IN_PROGRESS \<Longrightarrow>
     get_endpoint (dl_endpoint_id d) db = Some e \<Longrightarrow> ep_enabled e \<Longrightarrow> budget_left w d \<Longrightarrow>
     get_event (dl_event_id d) db = Some ev \<Longrightarrow>
     a \<in> attempts_for (dl_id d) db \<Longrightarrow> holds_lease d a \<Longrightarrow>
     reason = expired_reason True False \<Longrightarrow>
     claim_spec w env db (Some (Webhook (webhook_of env (reserved_delivery w env d) e ev)))
       (claimed_db w env (note_expiry d reason) (expire_db (note_expiry d reason) a reason (ce_now env) db))"

section \<open>The code refines the specification\<close>

lemma claim_select_cases:
  obtains "claim_select env db = []" "\<forall>d \<in> set (db_deliveries db). \<not> claimable env db d"
  | d where "claim_select env db = [d]" "first_due env db d"
proof -
  define rows where "rows = filter (claimable env db) (db_deliveries db)"
  have sel: "claim_select env db = take 1 (order_by claim_order rows)"
    by (simp add: claim_select_def rows_def)
  show ?thesis
  proof (cases rows)
    case Nil
    then have "claim_select env db = []" using sel by (simp add: order_by_def)
    moreover have "\<forall>d \<in> set (db_deliveries db). \<not> claimable env db d"
      using Nil by (simp add: rows_def filter_empty_conv)
    ultimately show ?thesis by (rule that(1))
  next
    case Cons
    then obtain d where d: "take 1 (order_by claim_order rows) = [d]"
      using take1_cases[of "order_by claim_order rows"] by force
    then have "first_due env db d"
      using take1_order_by[OF d] by (auto simp: first_due_def rows_def)
    then show ?thesis using sel d that(2) by simp
  qed
qed

lemma due_status:
  "claimable env db d \<Longrightarrow> dl_status d \<in> {PENDING, RETRY_WAIT} \<or> dl_status d = IN_PROGRESS"
  by (auto simp: claimable_def due_def)

lemma unclaimable_due_reason_cases:
  assumes "0 \<le> dl_attempt_count d"
  shows "en \<and> budget_left w d \<Longrightarrow> unclaimable_due_reason w d en = Inr None"
    and "\<not> (en \<and> budget_left w d) \<Longrightarrow>
      \<exists>reason. unclaimable_due_reason w d en = Inr (Some reason) \<and> pg_text reason \<and> length reason \<le> 2048"
  using assms by (auto simp: unclaimable_due_reason_def budget_left_def Let_def)

lemma dead_letter_same_identity:
  "same_identity d ((dead_letter d now)\<lparr>dl_last_error := r\<rparr>)" "same_identity d (note_expiry d s)"
  "same_identity d (dead_letter (note_expiry d s) now)" "same_identity d (dead_letter d now)"
  by (simp_all add: same_identity_def dead_letter_def note_expiry_def)

lemma refused_db_ok:
  assumes "db_ok db" "d \<in> set (db_deliveries db)" "pg_text reason"
  shows "db_ok (put_delivery ((dead_letter d now)\<lparr>dl_last_error := Some reason\<rparr>) db)"
proof (rule put_delivery_ok[OF assms(1,2) dead_letter_same_identity(1)])
  have "delivery_row_ok (dead_letter d now)"
    using delivery_row_okD[OF assms(1,2)] by (rule dead_letter_row_ok)
  then show "delivery_row_ok ((dead_letter d now)\<lparr>dl_last_error := Some reason\<rparr>)"
    using assms(3) by (auto simp: delivery_row_ok_def null_or_def)
qed (simp add: is_active_def dead_letter_def)

lemma dead_letter_without_attempt_result:
  assumes "db_ok db" "d \<in> set (db_deliveries db)" "dl_status d \<in> {PENDING, RETRY_WAIT}"
    "pg_text reason" "length reason \<le> 2048"
  shows "dead_letter_without_attempt d reason now db =
    Inr (\<lparr>dr_delivery_id = dl_id d, dr_reason = reason\<rparr>,
      put_delivery ((dead_letter d now)\<lparr>dl_last_error := Some reason\<rparr>) db)"
proof -
  have "ensure_transition (dl_status d) DEAD_LETTERED = Inr ()" using assms(3) by auto
  then show ?thesis using refused_db_ok[OF assms(1,2,4), of now] assms(5)
    by (simp add: dead_letter_without_attempt_def flush_def ensure_transition_ok)
qed

lemma reserve_attempt_result:
  assumes "worker_ok w" "db_ok db" "d \<in> set (db_deliveries db)" "is_active d"
    "reservable (max_attempts (wk_retry_policy w)) (attempts_for (dl_id d) db) d"
    "claim_env_fresh env db" "get_event (dl_event_id d) db = Some ev"
  shows "reserve_attempt w env d e db =
    Inr (Some (Webhook (webhook_of env (reserved_delivery w env d) e ev)), claimed_db w env d db)"
    "db_ok (claimed_db w env d db)"
proof -
  show ok: "db_ok (claimed_db w env d db)"
    unfolding claimed_db_def by (rule reserve_attempt_db_ok[OF assms(1-6)])
  have "dl_event_id (reserved_delivery w env d) = dl_event_id d" by (simp add: reserved_delivery_def)
  then show "reserve_attempt w env d e db =
    Inr (Some (Webhook (webhook_of env (reserved_delivery w env d) e ev)), claimed_db w env d db)"
    using ok assms(7) by (simp add: reserve_attempt_def Let_def flush_def claimed_db_def)
qed

lemma ledger_reservable:
  assumes "ledger_ok m db" "d \<in> set (db_deliveries db)" "dl_status d \<in> {PENDING, RETRY_WAIT}"
    "dl_attempt_count d < m"
  shows "reservable m (attempts_for (dl_id d) db) d"
proof -
  note row = ledger_rowD[OF ledger_okD(2)[OF assms(1,2)]]
  have "at_status a \<noteq> AT_IN_PROGRESS \<and> at_disposition a \<noteq> Some SUCCEEDED"
    if "a \<in> attempts_for (dl_id d) db" for a
    using row(3)[OF that] row(8)[OF that] assms(3) by (auto simp: holds_lease_def)
  then show ?thesis using row(1) assms(4) by (simp add: reservable_def)
qed

text \<open>The common hypotheses of the claim: a usable worker, a sound ledger, fresh identifiers.\<close>

definition claim_pre :: "worker \<Rightarrow> claim_env \<Rightarrow> db \<Rightarrow> bool" where
  "claim_pre w env db \<longleftrightarrow> worker_ok w \<and> ledger_ok (max_attempts (wk_retry_policy w)) db \<and>
     claim_env_fresh env db"

lemma expire_facts:
  assumes pre: "claim_pre w env db" and d: "d \<in> set (db_deliveries db)" "dl_status d = IN_PROGRESS"
    and a: "a \<in> attempts_for (dl_id d) db" "holds_lease d a"
    and d': "same_identity d d'" "delivery_row_ok d'"
  shows "db_ok (expire_db d' a (expired_reason en ex) now db)"
    "attempts_for i (expire_db d' a (expired_reason en ex) now db) =
      (if i = dl_id d then insert (indeterminate_attempt a (expired_reason en ex) now) (attempts_for i db - {a})
       else attempts_for i db)"
    "db_deliveries (expire_db d' a (expired_reason en ex) now db) = update_row dl_id d' (db_deliveries db)"
    "claim_env_fresh env (expire_db d' a (expired_reason en ex) now db)"
proof -
  have ok: "ledger_ok (max_attempts (wk_retry_policy w)) db" using pre by (simp add: claim_pre_def)
  show "db_ok (expire_db d' a (expired_reason en ex) now db)"
    unfolding expire_db_def by (rule resolve_db_ok[OF ok d a d'])
  show "attempts_for i (expire_db d' a (expired_reason en ex) now db) =
      (if i = dl_id d then insert (indeterminate_attempt a (expired_reason en ex) now) (attempts_for i db - {a})
       else attempts_for i db)"
    unfolding expire_db_def by (rule resolved_attempts[OF ok a(1)])
  show "db_deliveries (expire_db d' a (expired_reason en ex) now db) = update_row dl_id d' (db_deliveries db)"
    by (simp add: expire_db_def)
  have "a \<in> set (db_attempts db)" using a(1) by (simp add: attempts_for_def)
  then show "claim_env_fresh env (expire_db d' a (expired_reason en ex) now db)"
    using pre by (auto simp: claim_pre_def claim_env_fresh_def expire_db_def row_simps)
qed

lemma note_expiry_sel [simp]:
  "dl_id (note_expiry d r) = dl_id d" "dl_attempt_count (note_expiry d r) = dl_attempt_count d"
  "dl_status (note_expiry d r) = dl_status d" "dl_event_id (note_expiry d r) = dl_event_id d"
  "dl_endpoint_id (note_expiry d r) = dl_endpoint_id d"
  by (simp_all add: note_expiry_def)

lemma resolve_expired_attempt_result:
  assumes pre: "claim_pre w env db" and d: "d \<in> set (db_deliveries db)" "dl_status d = IN_PROGRESS"
    and a: "a \<in> attempts_for (dl_id d) db" "holds_lease d a"
      "\<And>b. b \<in> attempts_for (dl_id d) db \<Longrightarrow> at_attempt_number b = dl_attempt_count d \<Longrightarrow> b = a"
    and reason: "reason = expired_reason en (\<not> budget_left w d)"
  shows "en \<and> budget_left w d \<Longrightarrow> resolve_expired_attempt w d en now db =
      Inr (None, note_expiry d reason, expire_db (note_expiry d reason) a reason now db)"
    and "\<not> (en \<and> budget_left w d) \<Longrightarrow> resolve_expired_attempt w d en now db =
      Inr (Some \<lparr>dr_delivery_id = dl_id d, dr_reason = reason\<rparr>, dead_letter (note_expiry d reason) now,
        expire_db (dead_letter (note_expiry d reason) now) a reason now db)"
proof -
  have ok: "ledger_ok (max_attempts (wk_retry_policy w)) db" using pre by (simp add: claim_pre_def)
  have row: "delivery_row_ok d" using ledger_okD(1)[OF ok] d(1) by (rule delivery_row_okD)
  have found: "one_or_none (filter (\<lambda>a. at_delivery_id a = dl_id d \<and> at_attempt_number a = dl_attempt_count d \<and>
      Some (at_lease_token a) = dl_lease_token d \<and> at_status a = AT_IN_PROGRESS) (db_attempts db)) = Inr (Some a)"
    by (rule expired_evidence_found[OF ok a])
  have rem: "has_attempt_remaining (wk_retry_policy w) (dl_attempt_count d) = Inr (budget_left w d)"
    using row by (simp add: delivery_row_ok_def budget_left_def)
  have fl: "db_ok (expire_db (dead_letter (note_expiry d reason) now) a reason now db)"
    unfolding reason by (intro expire_facts(1)[OF pre d a(1,2)] dead_letter_same_identity
        dead_letter_row_ok note_expiry_row_ok row pg_text_expired_reason)
  note eqs = resolve_expired_attempt_def found rem Let_def reason
  { assume "en \<and> budget_left w d"
    then show "resolve_expired_attempt w d en now db =
      Inr (None, note_expiry d reason, expire_db (note_expiry d reason) a reason now db)"
      by (simp add: eqs expire_db_def) }
  { assume "\<not> (en \<and> budget_left w d)"
    then show "resolve_expired_attempt w d en now db =
      Inr (Some \<lparr>dr_delivery_id = dl_id d, dr_reason = reason\<rparr>, dead_letter (note_expiry d reason) now,
        expire_db (dead_letter (note_expiry d reason) now) a reason now db)"
      using fl d(2) by (auto simp: eqs expire_db_def ensure_transition_ok flush_def) }
qed

text \<open>Every claim returns, and returns what the specification allows.\<close>

lemma claim_one_refines:
  assumes pre: "claim_pre w env db"
  shows "\<exists>r db'. claim_one w env db = Inr (r, db') \<and> claim_spec w env db r db'"
proof (cases rule: claim_select_cases[of env db])
  case 1
  then show ?thesis by (auto simp: claim_one_def intro: claim_idle)
next
  case (2 d)
  have ok: "ledger_ok (max_attempts (wk_retry_policy w)) db" and w: "worker_ok w" and fresh: "claim_env_fresh env db"
    using pre by (simp_all add: claim_pre_def)
  note dbok = ledger_okD(1)[OF ok]
  have d: "d \<in> set (db_deliveries db)" using 2(2) by (simp add: first_due_def)
  obtain e where e: "get_endpoint (dl_endpoint_id d) db = Some e" by (rule delivery_endpoint_exists[OF dbok d])
  obtain ev where ev: "get_event (dl_event_id d) db = Some ev" by (rule delivery_event_exists[OF dbok d])
  have row: "delivery_row_ok d" using dbok d by (rule delivery_row_okD)
  then have cnt: "0 \<le> dl_attempt_count d" by (simp add: delivery_row_ok_def)
  note start = claim_one_def 2(1) e
  have "dl_status d \<in> {PENDING, RETRY_WAIT} \<or> dl_status d = IN_PROGRESS"
    using 2(2) by (auto simp: first_due_def dest: due_status)
  then consider (refused) "dl_status d \<in> {PENDING, RETRY_WAIT}" "\<not> (ep_enabled e \<and> budget_left w d)"
    | (due) "dl_status d \<in> {PENDING, RETRY_WAIT}" "ep_enabled e" "budget_left w d"
    | (dead) "dl_status d = IN_PROGRESS" "\<not> (ep_enabled e \<and> budget_left w d)"
    | (again) "dl_status d = IN_PROGRESS" "ep_enabled e" "budget_left w d" by blast
  then show ?thesis
  proof cases
    case refused
    obtain reason where r: "unclaimable_due_reason w d (ep_enabled e) = Inr (Some reason)"
      "pg_text reason" "length reason \<le> 2048"
      using unclaimable_due_reason_cases(2)[OF cnt refused(2)] by blast
    have "claim_one w env db = Inr (Some (Resolution \<lparr>dr_delivery_id = dl_id d, dr_reason = reason\<rparr>),
        put_delivery ((dead_letter d (ce_now env))\<lparr>dl_last_error := Some reason\<rparr>) db)"
      using refused(1) dead_letter_without_attempt_result[OF dbok d refused(1) r(2,3)] r(1) by (auto simp: start)
    then show ?thesis using claim_refused[OF 2(2) refused(1) e refused(2) r(2)] by blast
  next
    case due
    have "reservable (max_attempts (wk_retry_policy w)) (attempts_for (dl_id d) db) d"
      using ledger_reservable[OF ok d due(1)] due(3) by (simp add: budget_left_def)
    from reserve_attempt_result(1)[OF w dbok d _ this fresh ev, of e] due
      unclaimable_due_reason_cases(1)[OF cnt, of "ep_enabled e" w]
    have "claim_one w env db = Inr (Some (Webhook (webhook_of env (reserved_delivery w env d) e ev)), claimed_db w env d db)"
      by (auto simp: start is_active_def ensure_transition_ok)
    then show ?thesis using claim_due[OF 2(2) due(1) e due(2,3) ev] by blast
  next
    case dead
    obtain a where a: "a \<in> attempts_for (dl_id d) db" "holds_lease d a"
      "\<And>b. b \<in> attempts_for (dl_id d) db \<Longrightarrow> at_attempt_number b = dl_attempt_count d \<Longrightarrow> b = a"
      using lease_holder_unique[OF ok d dead(1)] by blast
    note res = resolve_expired_attempt_result(2)[OF pre d dead(1) a refl dead(2), of "ce_now env"]
    show ?thesis
      using dead(1) res claim_expired_dead[OF 2(2) dead(1) e dead(2) a(1,2) refl]
      by (auto simp: start simp del: disj_not1)
  next
    case again
    obtain a where a: "a \<in> attempts_for (dl_id d) db" "holds_lease d a"
      "\<And>b. b \<in> attempts_for (dl_id d) db \<Longrightarrow> at_attempt_number b = dl_attempt_count d \<Longrightarrow> b = a"
      using lease_holder_unique[OF ok d again(1)] by blast
    define reason where "reason = expired_reason True False"
    define d1 where "d1 = note_expiry d reason"
    define db1 where "db1 = expire_db d1 a reason (ce_now env) db"
    have res: "resolve_expired_attempt w d (ep_enabled e) (ce_now env) db = Inr (None, d1, db1)"
      using resolve_expired_attempt_result(1)[OF pre d again(1) a refl, of "ep_enabled e" "ce_now env"] again
      by (simp add: reason_def d1_def db1_def)
    have d1: "same_identity d d1" "delivery_row_ok d1"
      unfolding d1_def reason_def
      by (intro dead_letter_same_identity note_expiry_row_ok row pg_text_expired_reason)+
    note ex = expire_facts[OF pre d again(1) a(1,2) d1, where en = True and ex = False and now = "ce_now env",
        folded reason_def, folded db1_def]
    have mem: "d1 \<in> set (db_deliveries db1)" using d d1(1) by (auto simp: ex(3) row_simps same_identity_def)
    have ids: "dl_id d1 = dl_id d" "dl_attempt_count d1 = dl_attempt_count d" "dl_event_id d1 = dl_event_id d"
      by (simp_all add: d1_def)
    have "reservable (max_attempts (wk_retry_policy w)) (attempts_for (dl_id d1) db1) d1"
      using resolved_reservable[OF ok d _ a(1-3), where reason = reason and now = "ce_now env"] again(3)
      by (simp add: ids ex(2) reservable_def budget_left_def)
    moreover have "get_event (dl_event_id d1) db1 = Some ev"
      using ev by (simp add: ids get_event_def db1_def expire_db_def)
    moreover have "is_active d1" using again(1) by (simp add: is_active_def d1_def)
    ultimately have "reserve_attempt w env d1 e db1 =
        Inr (Some (Webhook (webhook_of env (reserved_delivery w env d1) e ev)), claimed_db w env d1 db1)"
      using reserve_attempt_result(1)[OF w ex(1) mem _ _ ex(4), of ev e] by blast
    moreover have "webhook_of env (reserved_delivery w env d1) e ev = webhook_of env (reserved_delivery w env d) e ev"
      by (simp add: webhook_of_def reserved_delivery_def d1_def note_expiry_def)
    ultimately have "claim_one w env db =
        Inr (Some (Webhook (webhook_of env (reserved_delivery w env d) e ev)), claimed_db w env d1 db1)"
      using again res ex(1) by (simp add: start flush_def)
    then show ?thesis
      using claim_expired_again[OF 2(2) again(1) e again(2,3) ev a(1,2) refl]
      by (auto simp: d1_def db1_def reason_def)
  qed
qed

section \<open>The specification keeps the ledger\<close>

lemma holds_lease_unique:
  assumes "ledger_ok m db" "a \<in> attempts_for (dl_id d) db" "holds_lease d a"
    "b \<in> attempts_for (dl_id d) db" "at_attempt_number b = dl_attempt_count d"
  shows "b = a"
  using same_delivery_attempt_eq[OF ledger_okD(1)[OF assms(1)] assms(4,2)] assms(3,5)
  by (simp add: holds_lease_def)

lemma claimed_db_sel [simp]:
  "db_deliveries (claimed_db w env d db) = update_row dl_id (reserved_delivery w env d) (db_deliveries db)"
  "db_endpoints (claimed_db w env d db) = db_endpoints db" "db_events (claimed_db w env d db) = db_events db"
  by (simp_all add: claimed_db_def)

lemma expire_db_sel [simp]:
  "db_deliveries (expire_db d a r now db) = update_row dl_id d (db_deliveries db)"
  "db_endpoints (expire_db d a r now db) = db_endpoints db" "db_events (expire_db d a r now db) = db_events db"
  by (simp_all add: expire_db_def)

lemma reserved_sel [simp]:
  "dl_id (reserved_delivery w env d) = dl_id d"
  "at_delivery_id (reserved_attempt env d) = dl_id d"
  by (simp_all add: reserved_delivery_def reserved_attempt_def)

lemma attempts_for_claimed_db:
  "attempts_for i (claimed_db w env d db) =
     (if dl_id d = i then insert (reserved_attempt env (reserved_delivery w env d)) (attempts_for i db)
      else attempts_for i db)"
  by (simp add: claimed_db_def)

lemma claim_spec_ledger:
  assumes pre: "claim_pre w env db" and spec: "claim_spec w env db r db'"
  shows "ledger_ok (max_attempts (wk_retry_policy w)) db'"
proof -
  let ?m = "max_attempts (wk_retry_policy w)"
  have ok: "ledger_ok ?m db" and w: "worker_ok w" and fresh: "claim_env_fresh env db"
    using pre by (simp_all add: claim_pre_def)
  note dbok = ledger_okD(1)[OF ok]
  from spec show ?thesis
  proof cases
    case claim_idle
    then show ?thesis using ok by simp
  next
    case (claim_refused d e reason)
    have d: "d \<in> set (db_deliveries db)" using claim_refused by (simp add: first_due_def)
    note row = ledger_rowD[OF ledger_okD(2)[OF ok d]]
    have "\<forall>a \<in> attempts_for (dl_id d) db. at_status a \<noteq> AT_IN_PROGRESS \<and> at_disposition a \<noteq> Some SUCCEEDED"
      using row(3,8) claim_refused(4) by (fastforce simp: holds_lease_def)
    then have "ledger_row ?m (attempts_for (dl_id d) db) ((dead_letter d (ce_now env))\<lparr>dl_last_error := Some reason\<rparr>)"
      by (intro dead_letter_ledger_row[OF row(1,5)]) (simp_all add: dead_letter_def)
    moreover have "db_ok db'" unfolding claim_refused(2)
      using dbok d claim_refused(7) by (rule refused_db_ok)
    ultimately show ?thesis
      by (intro ledger_ok_step[OF ok d, where d' = "(dead_letter d (ce_now env))\<lparr>dl_last_error := Some reason\<rparr>"])
        (simp_all add: claim_refused(2) dead_letter_def)
  next
    case (claim_due d e ev)
    have d: "d \<in> set (db_deliveries db)" using claim_due by (simp add: first_due_def)
    have cnt: "0 \<le> dl_attempt_count d" using delivery_row_okD[OF dbok d] by (simp add: delivery_row_ok_def)
    have act: "is_active d" using claim_due(4) by (auto simp: is_active_def)
    have res: "reservable ?m (attempts_for (dl_id d) db) d"
      using ledger_reservable[OF ok d claim_due(4)] claim_due(7) by (simp add: budget_left_def)
    note row = reserve_attempt_ledger_row[OF res cnt, where env = env and w = w]
    show ?thesis unfolding claim_due(2)
      by (rule ledger_ok_step[OF ok d, where d' = "reserved_delivery w env d"])
        (use row reserve_attempt_result(2)[OF w dbok d act res fresh claim_due(8)] in
          \<open>simp_all add: attempts_for_claimed_db\<close>)
  next
    case (claim_expired_dead d e a reason)
    have d: "d \<in> set (db_deliveries db)" using claim_expired_dead by (simp add: first_due_def)
    define d' where "d' = dead_letter (note_expiry d reason) (ce_now env)"
    have d': "same_identity d d'" "delivery_row_ok d'"
      unfolding d'_def claim_expired_dead(9)
      by (intro dead_letter_same_identity dead_letter_row_ok note_expiry_row_ok delivery_row_okD[OF dbok d]
          pg_text_expired_reason)+
    note ex = expire_facts[OF pre d claim_expired_dead(4,7,8) d', where now = "ce_now env" and
        en = "ep_enabled e" and ex = "\<not> budget_left w d", folded claim_expired_dead(9)]
    have "reservable (dl_attempt_count d + 1)
        (insert (indeterminate_attempt a reason (ce_now env)) (attempts_for (dl_id d) db - {a})) d"
      by (rule resolved_reservable[OF ok d _ claim_expired_dead(7,8)])
        (use holds_lease_unique[OF ok claim_expired_dead(7,8)] in auto)
    then have "ledger_row ?m (attempts_for (dl_id d) (expire_db d' a reason (ce_now env) db)) d'"
      unfolding ex(2) using ledger_rowD(5)[OF ledger_okD(2)[OF ok d]]
      by (intro dead_letter_ledger_row[of _ d]) (simp_all add: reservable_def d'_def dead_letter_def note_expiry_def)
    then show ?thesis unfolding claim_expired_dead(2) d'_def[symmetric]
      by (intro ledger_ok_step[OF ok d, where d' = d']) (use ex d'(1) in \<open>simp_all add: same_identity_def\<close>)
  next
    case (claim_expired_again d e ev a reason)
    have d: "d \<in> set (db_deliveries db)" using claim_expired_again by (simp add: first_due_def)
    define d1 where "d1 = note_expiry d reason"
    define db1 where "db1 = expire_db d1 a reason (ce_now env) db"
    have d1: "same_identity d d1" "delivery_row_ok d1"
      unfolding d1_def claim_expired_again(11)
      by (intro dead_letter_same_identity note_expiry_row_ok delivery_row_okD[OF dbok d] pg_text_expired_reason)+
    note ex = expire_facts[OF pre d claim_expired_again(4,9,10) d1, where now = "ce_now env" and
        en = True and ex = False, folded claim_expired_again(11), folded db1_def]
    have ids: "dl_id d1 = dl_id d" "dl_attempt_count d1 = dl_attempt_count d" "dl_event_id d1 = dl_event_id d"
      by (simp_all add: d1_def)
    have mem: "d1 \<in> set (db_deliveries db1)" using d ids(1) by (auto simp: ex(3) row_simps)
    have act: "is_active d1" using claim_expired_again(4) by (simp add: is_active_def d1_def)
    have cnt: "0 \<le> dl_attempt_count d1" using d1(2) by (simp add: delivery_row_ok_def)
    have "reservable ?m (insert (indeterminate_attempt a reason (ce_now env)) (attempts_for (dl_id d) db - {a})) d"
      by (rule resolved_reservable[OF ok d _ claim_expired_again(9,10)])
        (use holds_lease_unique[OF ok claim_expired_again(9,10)] claim_expired_again(7) in \<open>auto simp: budget_left_def\<close>)
    then have res: "reservable ?m (attempts_for (dl_id d1) db1) d1"
      by (simp add: ids ex(2) reservable_def)
    have ev: "get_event (dl_event_id d1) db1 = Some ev"
      using claim_expired_again(8) by (simp add: ids get_event_def db1_def)
    note row = reserve_attempt_ledger_row[OF res cnt, where env = env and w = w]
    show ?thesis unfolding claim_expired_again(2) d1_def[symmetric] db1_def[symmetric]
      by (rule ledger_ok_step[OF ok d, where d' = "reserved_delivery w env d1"])
        (use row reserve_attempt_result(2)[OF w ex(1) mem act res ex(4) ev] in
          \<open>simp_all add: attempts_for_claimed_db ids ex(2,3)\<close>)
  qed
qed

end
