(* ===== verification/Finalizing.thy ===== *)
theory Finalizing
  imports Claiming
begin

text \<open>
  The finalize transaction against its specification.  A result is recorded exactly when the
  worker still owns the lease and the number it was sent under; then the evidence and the
  state of the delivery change together, and in every other case nothing changes.
\<close>

section \<open>The decision\<close>

text \<open>What the delivery becomes and how long it waits, as the reliability contract words it.\<close>

definition plan_ok :: "worker \<Rightarrow> outbound_webhook \<Rightarrow> attempt_result \<Rightarrow> delivery_status \<Rightarrow> seconds option \<Rightarrow> bool" where
  "plan_ok w h r target delay \<longleftrightarrow>
     target = (if ar_disposition r = SUCCEEDED then DELIVERED
               else if ar_disposition r = RETRY \<and> ow_attempt_number h < max_attempts (wk_retry_policy w)
               then RETRY_WAIT else DEAD_LETTERED) \<and>
     (delay \<noteq> None) = (target = RETRY_WAIT) \<and>
     null_or (\<lambda>s. 0 \<le> s \<and>
       s \<le> max (max_delay_seconds (wk_retry_policy w)) (case ar_retry_after_seconds r of None \<Rightarrow> 0 | Some ra \<Rightarrow> ra) \<and>
       null_or (\<lambda>ra. ra \<le> s) (ar_retry_after_seconds r)) delay"

lemma finalize_plan_total:
  assumes w: "worker_ok w" and n: "1 \<le> ow_attempt_number h" and rf: "0 \<le> rf" "rf \<le> 1"
  shows "\<exists>target delay. finalize_plan w h r rf = Inr (target, delay) \<and> plan_ok w h r target delay"
proof (cases "ar_disposition r = RETRY \<and> ow_attempt_number h < max_attempts (wk_retry_policy w)")
  case True
  then have "ow_attempt_number h \<le> 1024" using w by (simp add: worker_ok_def)
  from delay_seconds_Inr[OF n this rf]
  obtain d where d: "delay_seconds (wk_retry_policy w) (ow_attempt_number h) rf = Inr d" by blast
  have "policy_ok (wk_retry_policy w)" using w by (simp add: worker_ok_def)
  note b = delay_seconds_bounds[OF this d]
  show ?thesis using True n d b
    by (auto simp: finalize_plan_def plan_ok_def null_or_def split: option.splits)
next
  case False
  then show ?thesis using n
    by (auto simp: finalize_plan_def plan_ok_def null_or_def)
qed

lemma plan_target:
  "plan_ok w h r target delay \<Longrightarrow> target \<in> {DELIVERED, RETRY_WAIT, DEAD_LETTERED}"
  "plan_ok w h r target delay \<Longrightarrow> target = DELIVERED \<longleftrightarrow> ar_disposition r = SUCCEEDED"
  "plan_ok w h r target delay \<Longrightarrow> (delay \<noteq> None) = (target = RETRY_WAIT)"
  by (auto simp: plan_ok_def)

section \<open>Specification\<close>

definition owns_lease :: "worker \<Rightarrow> outbound_webhook \<Rightarrow> delivery \<Rightarrow> bool" where
  "owns_lease w h d \<longleftrightarrow> dl_id d = ow_delivery_id h \<and> dl_status d = IN_PROGRESS \<and>
     dl_lease_owner d = Some (wk_worker_id w) \<and> dl_lease_token d = Some (ow_lease_token h) \<and>
     dl_attempt_count d = ow_attempt_number h"

definition finalized_db ::
    "delivery \<Rightarrow> delivery_attempt \<Rightarrow> delivery_status \<Rightarrow> attempt_result \<Rightarrow> datetime option \<Rightarrow> datetime \<Rightarrow> db \<Rightarrow> db" where
  "finalized_db d a target r sched now db =
     put_delivery (finalized_delivery d target r sched now) (put_attempt (completed_attempt a r sched now) db)"

definition retry_at :: "datetime \<Rightarrow> seconds option \<Rightarrow> datetime option" where
  "retry_at now delay = map_option (\<lambda>s. now + timedelta_seconds s) delay"

inductive finalize_spec ::
    "worker \<Rightarrow> outbound_webhook \<Rightarrow> attempt_result \<Rightarrow> datetime \<Rightarrow> db \<Rightarrow> bool \<Rightarrow> db \<Rightarrow> bool" for w h r now where
  finalize_stale:
    "\<forall>d \<in> set (db_deliveries db). \<not> owns_lease w h d \<Longrightarrow> finalize_spec w h r now db False db"
| finalize_recorded:
    "d \<in> set (db_deliveries db) \<Longrightarrow> owns_lease w h d \<Longrightarrow>
     a \<in> attempts_for (dl_id d) db \<Longrightarrow> holds_lease d a \<Longrightarrow> at_id a = ow_attempt_id h \<Longrightarrow>
     plan_ok w h r target delay \<Longrightarrow>
     finalize_spec w h r now db True (finalized_db d a target r (retry_at now delay) now db)"

text \<open>
  The webhook names the attempt row it was reserved with: lease tokens are not reused.
\<close>

definition genuine :: "outbound_webhook \<Rightarrow> db \<Rightarrow> bool" where
  "genuine h db \<longleftrightarrow> (\<forall>a \<in> set (db_attempts db). at_lease_token a = ow_lease_token h \<longrightarrow>
     at_id a = ow_attempt_id h \<and> at_delivery_id a = ow_delivery_id h \<and> at_attempt_number a = ow_attempt_number h)"

definition finalize_pre :: "worker \<Rightarrow> outbound_webhook \<Rightarrow> attempt_result \<Rightarrow> seconds \<Rightarrow> db \<Rightarrow> bool" where
  "finalize_pre w h r rf db \<longleftrightarrow> worker_ok w \<and> ledger_ok (max_attempts (wk_retry_policy w)) db \<and>
     genuine h db \<and> 1 \<le> ow_attempt_number h \<and> 0 \<le> rf \<and> rf \<le> 1 \<and> result_storable r"

section \<open>Row constraints\<close>

lemma digit_char_not_0: "d < 10 \<Longrightarrow> digit_char d \<noteq> CHR 0x00"
proof
  assume "d < 10" "digit_char d = CHR 0x00"
  then have "(of_char (digit_char d) :: nat) = 0" by simp
  then show False using \<open>d < 10\<close> by simp
qed

lemma pg_text_str_nat [simp]: "pg_text (str_nat n)"
  using str_nat_digits[of n] digit_char_not_0 unfolding pg_text_def by metis

lemma pg_text_str_int [simp]: "pg_text (str_int i)"
  by (simp add: str_int_def)

lemma pg_text_last_error: "result_storable r \<Longrightarrow> null_or pg_text (last_error r)"
  by (auto simp: last_error_def result_storable_def null_or_def varchar_def Let_def split: option.splits)

lemma completed_attempt_row_ok:
  "attempt_row_ok a \<Longrightarrow> result_storable r \<Longrightarrow> attempt_row_ok (completed_attempt a r sched now)"
  by (auto simp: attempt_row_ok_def completed_attempt_def result_storable_def null_or_def int4_def split: option.splits)

lemma finalized_delivery_row_ok:
  "delivery_row_ok d \<Longrightarrow> result_storable r \<Longrightarrow> target \<noteq> IN_PROGRESS \<Longrightarrow>
   delivery_row_ok (finalized_delivery d target r sched now)"
  using pg_text_last_error[of r] by (auto simp: delivery_row_ok_def finalized_delivery_def null_or_def)

lemma completed_attempt_sel [simp]:
  "at_id (completed_attempt a r s t) = at_id a" "at_delivery_id (completed_attempt a r s t) = at_delivery_id a"
  "at_attempt_number (completed_attempt a r s t) = at_attempt_number a"
  "at_lease_token (completed_attempt a r s t) = at_lease_token a"
  "at_status (completed_attempt a r s t) = AT_COMPLETED"
  "at_disposition (completed_attempt a r s t) = Some (ar_disposition r)"
  by (simp_all add: completed_attempt_def)

lemma finalized_same_identity: "same_identity d (finalized_delivery d target r sched now)"
  by (simp add: same_identity_def finalized_delivery_def)

lemma finalized_db_ok:
  assumes ok: "db_ok db" and d: "d \<in> set (db_deliveries db)" "dl_status d = IN_PROGRESS"
    and a: "a \<in> attempts_for (dl_id d) db"
    and r: "result_storable r" "target \<noteq> IN_PROGRESS"
  shows "db_ok (finalized_db d a target r sched now db)"
proof -
  have mem: "a \<in> set (db_attempts db)" using a by (simp add: attempts_for_def)
  have "db_ok (put_attempt (completed_attempt a r sched now) db)"
    by (rule put_attempt_ok[OF ok mem])
      (use completed_attempt_row_ok[OF attempt_row_okD[OF ok mem] r(1)] in auto)
  then show ?thesis unfolding finalized_db_def
    by (rule put_delivery_ok[OF _ _ finalized_same_identity])
      (use d finalized_delivery_row_ok[OF delivery_row_okD[OF ok d(1)] r] in \<open>auto simp: is_active_def\<close>)
qed

section \<open>The code refines the specification\<close>

lemma owner_query:
  assumes ok: "db_ok db"
  shows "one_or_none (filter (\<lambda>d. dl_id d = i \<and> P d) (db_deliveries db)) =
    Inr (find (\<lambda>d. dl_id d = i \<and> P d) (db_deliveries db))"
  by (rule one_or_none_filter) (use distinct_deliveries[OF ok] delivery_id_unique[OF ok] in auto)

lemma evidence_query:
  assumes "db_ok db" "a \<in> set (db_attempts db)" "P a"
  shows "one_or_none (filter (\<lambda>x. at_id x = at_id a \<and> P x) (db_attempts db)) = Inr (Some a)"
  by (rule one_or_none_filter_Some)
    (use assms distinct_attempts[OF assms(1)] attempt_id_unique[OF assms(1)] in auto)

lemma find_Some_mem: "find P xs = Some x \<Longrightarrow> x \<in> set xs \<and> P x"
  by (auto simp: find_Some_iff)

lemma finalize_refines:
  assumes pre: "finalize_pre w h r rf db"
  shows "\<exists>b db'. finalize w h r rf now db = Inr (b, db') \<and> finalize_spec w h r now db b db'"
proof -
  let ?own = "\<lambda>d. dl_id d = ow_delivery_id h \<and> dl_status d = IN_PROGRESS \<and>
      dl_lease_owner d = Some (wk_worker_id w) \<and> dl_lease_token d = Some (ow_lease_token h)"
  have ok: "ledger_ok (max_attempts (wk_retry_policy w)) db" and gen: "genuine h db"
    and st: "result_storable r" and base: "worker_ok w" "1 \<le> ow_attempt_number h" "0 \<le> rf" "rf \<le> 1"
    using pre by (simp_all add: finalize_pre_def)
  note dbok = ledger_okD(1)[OF ok]
  obtain target delay where plan: "finalize_plan w h r rf = Inr (target, delay)" "plan_ok w h r target delay"
    using finalize_plan_total[OF base] by blast
  note start = finalize_def plan(1) owner_query[OF dbok]
  show ?thesis
  proof (cases "find ?own (db_deliveries db)")
    case None
    then have "\<forall>d \<in> set (db_deliveries db). \<not> owns_lease w h d" by (auto simp: find_None_iff owns_lease_def)
    then show ?thesis using None finalize_stale[of db w h r now] by (auto simp: start)
  next
    case (Some d)
    then have d: "d \<in> set (db_deliveries db)" and own: "?own d" by (blast dest: find_Some_mem)+
    show ?thesis
    proof (cases "dl_attempt_count d = ow_attempt_number h")
      case False
      then have "\<not> owns_lease w h x" if "x \<in> set (db_deliveries db)" for x
        using delivery_id_unique[OF dbok that d] own by (auto simp: owns_lease_def)
      then show ?thesis using Some False finalize_stale[of db w h r now] by (auto simp: start)
    next
      case True
      obtain a where a: "a \<in> attempts_for (dl_id d) db" "holds_lease d a"
        using lease_holder_unique[OF ok d] own by blast
      then have mem: "a \<in> set (db_attempts db)" by (simp add: attempts_for_def)
      have tok: "at_lease_token a = ow_lease_token h" "at_status a = AT_IN_PROGRESS"
        using a(2) own by (auto simp: holds_lease_def)
      then have ids: "at_id a = ow_attempt_id h" "at_delivery_id a = ow_delivery_id h"
          "at_attempt_number a = ow_attempt_number h"
        using gen mem by (auto simp: genuine_def)
      have ev: "one_or_none (filter (\<lambda>x. at_id x = ow_attempt_id h \<and> at_delivery_id x = ow_delivery_id h \<and>
          at_attempt_number x = ow_attempt_number h \<and> at_lease_token x = ow_lease_token h \<and>
          at_status x = AT_IN_PROGRESS) (db_attempts db)) = Inr (Some a)"
        using evidence_query[OF dbok mem, of "\<lambda>x. at_delivery_id x = ow_delivery_id h \<and>
          at_attempt_number x = ow_attempt_number h \<and> at_lease_token x = ow_lease_token h \<and>
          at_status x = AT_IN_PROGRESS"] ids tok by simp
      have tr: "ensure_transition IN_PROGRESS target = Inr ()" "target \<noteq> IN_PROGRESS"
        using plan_target(1)[OF plan(2)] by auto
      have "db_ok (finalized_db d a target r (retry_at now delay) now db)"
        using own by (intro finalized_db_ok[OF dbok d _ a(1) st tr(2)]) simp
      then have "finalize w h r rf now db = Inr (True, finalized_db d a target r (retry_at now delay) now db)"
        using Some True ev own
        by (simp add: start tr(1) flush_def finalized_db_def retry_at_def Let_def)
      moreover have "owns_lease w h d" using own True by (simp add: owns_lease_def)
      ultimately show ?thesis using finalize_recorded[OF d _ a ids(1) plan(2)] by blast
    qed
  qed
qed

section \<open>The specification keeps the ledger\<close>

lemma finalized_ledger_row:
  assumes row: "ledger_row m A d" and a: "a \<in> A" "holds_lease d a"
    "\<And>b. b \<in> A \<Longrightarrow> at_attempt_number b = dl_attempt_count d \<Longrightarrow> b = a"
    and plan: "plan_ok w h r target delay"
  shows "ledger_row m (insert (completed_attempt a r (retry_at now delay) now) (A - {a}))
    (finalized_delivery d target r (retry_at now delay) now)"
proof -
  note R = ledger_rowD[OF row]
  let ?a = "completed_attempt a r (retry_at now delay) now"
  have num: "at_attempt_number ` insert ?a (A - {a}) = {1..dl_attempt_count d}"
  proof -
    have "at_attempt_number ` insert ?a (A - {a}) = at_attempt_number ` A" using a(1) by (auto simp: image_iff)
    then show ?thesis using R(1) by simp
  qed
  have open_other: "at_status b \<noteq> AT_IN_PROGRESS" if "b \<in> A" "b \<noteq> a" for b
    using R(3)[OF that(1)] a(3)[OF that(1)] that(2) by (auto simp: holds_lease_def)
  have succ: "at_disposition b \<noteq> Some SUCCEEDED" if "b \<in> A" for b
    using R(8)[OF that] a(2) by (auto simp: holds_lease_def)
  have tgt: "target \<in> {DELIVERED, RETRY_WAIT, DEAD_LETTERED}" "target = DELIVERED \<longleftrightarrow> ar_disposition r = SUCCEEDED"
    "(retry_at now delay \<noteq> None) = (target = RETRY_WAIT)"
    using plan_target[OF plan] by (auto simp: retry_at_def)
  have cnt: "at_attempt_number a = dl_attempt_count d" using a(2) by (simp add: holds_lease_def)
  show ?thesis
    unfolding ledger_row_def using num open_other succ tgt R(5) cnt
    by (auto simp: finalized_delivery_def)
qed

lemma finalize_spec_ledger:
  assumes pre: "finalize_pre w h r rf db" and spec: "finalize_spec w h r now db b db'"
  shows "ledger_ok (max_attempts (wk_retry_policy w)) db'"
  using spec
proof cases
  case finalize_stale
  then show ?thesis using pre by (simp add: finalize_pre_def)
next
  case (finalize_recorded d a target delay)
  let ?d = "finalized_delivery d target r (retry_at now delay) now"
  have ok: "ledger_ok (max_attempts (wk_retry_policy w)) db" and st: "result_storable r"
    using pre by (simp_all add: finalize_pre_def)
  note dbok = ledger_okD(1)[OF ok]
  have ip: "dl_status d = IN_PROGRESS" using finalize_recorded(4) by (simp add: owns_lease_def)
  have mem: "a \<in> set (db_attempts db)" "at_delivery_id a = dl_id d"
    using finalize_recorded(5) by (simp_all add: attempts_for_def)
  have att: "attempts_for i db' = (if i = dl_id d
      then insert (completed_attempt a r (retry_at now delay) now) (attempts_for i db - {a}) else attempts_for i db)" for i
    using attempts_for_put_attempt[OF dbok mem(1), of "completed_attempt a r (retry_at now delay) now" i] mem(2)
    by (simp add: finalize_recorded(2) finalized_db_def)
  have row: "ledger_row (max_attempts (wk_retry_policy w)) (attempts_for (dl_id d) db') ?d"
    using finalized_ledger_row[OF ledger_okD(2)[OF ok finalize_recorded(3)] finalize_recorded(5,6)
        holds_lease_unique[OF ok finalize_recorded(5,6)] finalize_recorded(8)] by (simp add: att)
  have dbok': "db_ok db'" unfolding finalize_recorded(2)
    using plan_target(1)[OF finalize_recorded(8)]
    by (intro finalized_db_ok[OF dbok finalize_recorded(3) ip finalize_recorded(5) st]) auto
  have "db_deliveries db' = update_row dl_id ?d (db_deliveries db)" "dl_id ?d = dl_id d"
    by (simp_all add: finalize_recorded(2) finalized_db_def finalized_delivery_def)
  then show ?thesis
    by (intro ledger_ok_step[OF ok finalize_recorded(3) _ dbok' _ _ row]) (simp_all add: att)
qed

section \<open>Evidence the database refuses\<close>

text \<open>
  A result with a character 0 in its excerpt breaks the row constraint of the attempts table,
  whatever the state: \<open>finalize\<close> records nothing and either ignores the result or raises.
\<close>

lemma unstorable_excerpt:
  assumes "a \<in> set (db_attempts db)" "ar_response_body_excerpt r = Some x" "\<not> pg_text x"
  shows "\<not> db_ok (put_delivery d (put_attempt (completed_attempt a r sched now) db))"
proof
  assume "db_ok (put_delivery d (put_attempt (completed_attempt a r sched now) db))"
  then have "attempt_row_ok (completed_attempt a r sched now)"
    using assms(1) by (intro attempt_row_okD) (auto simp: row_simps)
  then show False using assms(2,3) by (simp add: attempt_row_ok_def completed_attempt_def null_or_def)
qed

lemma finalize_unstorable:
  assumes "ar_response_body_excerpt r = Some x" "\<not> pg_text x"
  shows "finalize w h r rf now db \<noteq> Inr (True, db')"
proof
  assume fin: "finalize w h r rf now db = Inr (True, db')"
  then obtain d a where "a \<in> set (db_attempts db)"
    "\<exists>d' sched. db_ok (put_delivery d' (put_attempt (completed_attempt a r sched now) db))"
    by (auto simp: finalize_def flush_def Let_def one_or_none_Some filter_eq_Cons_iff
        split: sum.splits option.splits if_splits prod.splits)
  then show False using unstorable_excerpt[OF _ assms] by blast
qed

section \<open>Results of a lost lease\<close>

lemma no_owner_ignored:
  assumes ok: "db_ok db" and w: "worker_ok w" "1 \<le> ow_attempt_number h" "0 \<le> rf" "rf \<le> 1"
    and none: "\<forall>d \<in> set (db_deliveries db). dl_id d = ow_delivery_id h \<longrightarrow> dl_lease_token d \<noteq> Some (ow_lease_token h)"
  shows "finalize w h r rf now db = Inr (False, db)"
proof -
  obtain target delay where plan: "finalize_plan w h r rf = Inr (target, delay)"
    using finalize_plan_total[OF w] by blast
  have "find (\<lambda>d. dl_id d = ow_delivery_id h \<and> dl_status d = IN_PROGRESS \<and> dl_lease_owner d = Some (wk_worker_id w) \<and>
      dl_lease_token d = Some (ow_lease_token h)) (db_deliveries db) = None"
    using none by (auto simp: find_None_iff)
  then show ?thesis by (simp add: finalize_def plan owner_query[OF ok])
qed

text \<open>After a claim, its delivery holds the lease token of that claim and no other.\<close>

lemma claim_lease_token:
  assumes ok: "db_ok db" "db_ok db'" and spec: "claim_spec w env db (Some (Webhook h)) db'"
    and d: "d \<in> set (db_deliveries db')" "dl_id d = ow_delivery_id h"
  shows "dl_lease_token d = Some (ce_lease_token env)"
proof -
  have "\<exists>x \<in> set (db_deliveries db'). dl_id x = ow_delivery_id h \<and> dl_lease_token x = Some (ce_lease_token env)"
    using spec
  proof cases
    case (claim_due x e ev)
    then show ?thesis by (auto simp: first_due_def row_simps webhook_of_def reserved_delivery_def)
  next
    case (claim_expired_again x e ev a reason)
    then show ?thesis by (auto simp: first_due_def row_simps webhook_of_def reserved_delivery_def)
  qed
  then show ?thesis using delivery_id_unique[OF ok(2) d(1)] d(2) by metis
qed

end
