(* ===== verification/Acceptance.thy ===== *)
theory Acceptance
  imports Services Finalizing
begin

text \<open>
  Accepting work: publication and replay against their specifications, and the invariant of
  the replay chains.  An event has one endpoint and one initial delivery, made from the request
  its fingerprint was computed from; a later generation is the replay of the one before it; and
  every generation but the latest is dead-lettered.
\<close>

section \<open>The chain invariant\<close>

text \<open>The request an event was accepted for, as its rows record it.\<close>

definition accepted_request :: "event \<Rightarrow> delivery \<Rightarrow> event_publish_request" where
  "accepted_request e d =
     \<lparr>pr_endpoint_id = dl_endpoint_id d, pr_type = ev_event_type e, pr_data = ev_payload e\<rparr>"

definition initial_of :: "codec \<Rightarrow> event \<Rightarrow> delivery \<Rightarrow> bool" where
  "initial_of cd e d \<longleftrightarrow> dl_event_id d = ev_id e \<and> dl_replay_generation d = 0 \<and>
     canonical_sha256 (cd_sha256 cd) (cd_float_repr cd) (request_document (accepted_request e d)) =
       Inr (ev_request_fingerprint_sha256 e)"

definition event_accepted :: "codec \<Rightarrow> delivery set \<Rightarrow> event \<Rightarrow> bool" where
  "event_accepted cd D e \<longleftrightarrow> wf_json (JObj (ev_payload e)) \<and> (\<exists>d \<in> D. initial_of cd e d)"

text \<open>The place of a delivery among the others: its parent, and what a later generation implies.\<close>

definition generation_ok :: "delivery set \<Rightarrow> delivery \<Rightarrow> bool" where
  "generation_ok D d \<longleftrightarrow>
     (dl_replay_generation d = 0 \<longleftrightarrow> dl_replayed_from_delivery_id d = None) \<and>
     (\<forall>p. dl_replayed_from_delivery_id d = Some p \<longrightarrow>
        (\<exists>x \<in> D. dl_id x = p \<and> chain_key x = chain_key d \<and> dl_replay_generation d = dl_replay_generation x + 1)) \<and>
     (\<forall>x \<in> D. dl_event_id x = dl_event_id d \<longrightarrow> dl_endpoint_id x = dl_endpoint_id d) \<and>
     (\<forall>x \<in> D. chain_key x = chain_key d \<and> dl_replay_generation d < dl_replay_generation x \<longrightarrow>
        dl_status d = DEAD_LETTERED)"

definition chain_ok :: "codec \<Rightarrow> db \<Rightarrow> bool" where
  "chain_ok cd db \<longleftrightarrow>
     (\<forall>e \<in> set (db_events db). event_accepted cd (set (db_deliveries db)) e) \<and>
     (\<forall>d \<in> set (db_deliveries db). generation_ok (set (db_deliveries db)) d)"

lemma chain_okD:
  assumes "chain_ok cd db"
  shows "e \<in> set (db_events db) \<Longrightarrow> event_accepted cd (set (db_deliveries db)) e"
    "d \<in> set (db_deliveries db) \<Longrightarrow> generation_ok (set (db_deliveries db)) d"
  using assms by (auto simp: chain_ok_def)

lemma empty_chain_ok: "chain_ok cd empty_db"
  by (simp add: chain_ok_def empty_db_def)

lemma initial_of_same_identity: "same_identity d d' \<Longrightarrow> initial_of cd e d' = initial_of cd e d"
  by (simp add: initial_of_def same_identity_def accepted_request_def)

text \<open>
  The worker's changes: one delivery keeps its identity and, once dead-lettered, its status.
\<close>

lemma chain_ok_put:
  assumes ok: "chain_ok cd db" and d: "d \<in> set (db_deliveries db)" and same: "same_identity d d'"
    and dead: "dl_status d = DEAD_LETTERED \<Longrightarrow> dl_status d' = DEAD_LETTERED"
    and db': "db_events db' = db_events db" "db_deliveries db' = update_row dl_id d' (db_deliveries db)"
    and uniq: "db_ok db"
  shows "chain_ok cd db'"
proof -
  define D where "D = set (db_deliveries db)"
  define f where "f = (\<lambda>x. if x = d then d' else x)"
  have img: "set (db_deliveries db') = f ` D"
  proof -
    have "(if dl_id x = dl_id d' then d' else x) = f x" if "x \<in> D" for x
      using delivery_id_unique[OF uniq _ d, of x] same that by (auto simp: f_def D_def same_identity_def)
    then show ?thesis using db'(2) by (auto simp: update_row_def D_def)
  qed
  have f: "same_identity x (f x)" "dl_status x = DEAD_LETTERED \<Longrightarrow> dl_status (f x) = DEAD_LETTERED" for x
    using same dead by (auto simp: f_def same_identity_def)
  then have keys: "chain_key (f x) = chain_key x" "dl_id (f x) = dl_id x"
    "dl_replay_generation (f x) = dl_replay_generation x" "dl_event_id (f x) = dl_event_id x"
    "dl_endpoint_id (f x) = dl_endpoint_id x"
    "dl_replayed_from_delivery_id (f x) = dl_replayed_from_delivery_id x" for x
    by (auto simp: same_identity_def chain_key_def)
  have "event_accepted cd (f ` D) e" if "e \<in> set (db_events db)" for e
    using chain_okD(1)[OF ok that] initial_of_same_identity[OF f(1)] by (auto simp: event_accepted_def D_def)
  moreover have "generation_ok (f ` D) (f x)" if "x \<in> D" for x
  proof -
    have g: "generation_ok D x" using chain_okD(2)[OF ok] that by (simp add: D_def)
    then show ?thesis unfolding generation_ok_def by (simp add: keys) (metis f(2))
  qed
  ultimately show ?thesis unfolding chain_ok_def img db'(1) by blast
qed

section \<open>Publication\<close>

definition fingerprint_of :: "codec \<Rightarrow> event_publish_request \<Rightarrow> string res" where
  "fingerprint_of cd request = canonical_sha256 (cd_sha256 cd) (cd_float_repr cd) (request_document request)"

definition payload_of :: "codec \<Rightarrow> publish_env \<Rightarrow> event_publish_request \<Rightarrow> bytes res" where
  "payload_of cd env request =
     canonical_json_bytes (cd_float_repr cd) (payload_document (pu_event_id env) (pu_now env) request)"

definition same_request :: "event_publish_request \<Rightarrow> event_publish_request \<Rightarrow> bool" where
  "same_request a b \<longleftrightarrow> pr_endpoint_id a = pr_endpoint_id b \<and> pr_type a = pr_type b \<and>
     json_equal (JObj (pr_data a)) (JObj (pr_data b))"

definition event_with_key :: "string \<Rightarrow> db \<Rightarrow> event option" where
  "event_with_key k db = find (\<lambda>e. ev_source e = LOCAL_SOURCE \<and> ev_idempotency_key e = k) (db_events db)"

lemma request_document_equal:
  "json_equal (request_document a) (request_document b) \<longleftrightarrow> same_request a b"
  by (auto simp: request_document_def same_request_def uuid_str_inject)

lemma fingerprint_bytes:
  assumes "fingerprint_of cd r = Inr fp"
  obtains b where "canonical_json_bytes (cd_float_repr cd) (request_document r) = Inr b" "fp = cd_sha256 cd b"
  using assms by (auto simp: fingerprint_of_def canonical_sha256_def split: sum.splits)

text \<open>SHA-256 does not collide on the two requests.\<close>

definition no_collision :: "codec \<Rightarrow> event_publish_request \<Rightarrow> event_publish_request \<Rightarrow> bool" where
  "no_collision cd a b \<longleftrightarrow>
     (case (canonical_json_bytes (cd_float_repr cd) (request_document a),
            canonical_json_bytes (cd_float_repr cd) (request_document b)) of
        (Inr x, Inr y) \<Rightarrow> cd_sha256 cd x = cd_sha256 cd y \<longrightarrow> x = y
      | _ \<Rightarrow> True)"

lemma wf_request_document: "wf_json (request_document r) = wf_json (JObj (pr_data r))"
  by (simp add: request_document_def)

lemma fingerprint_iff:
  assumes "float_repr_ok (cd_float_repr cd)" "no_collision cd a b" "wf_json (JObj (pr_data a))" "wf_json (JObj (pr_data b))"
    "fingerprint_of cd a = Inr fp" "fingerprint_of cd b = Inr fq"
  shows "fp = fq \<longleftrightarrow> same_request a b"
proof -
  obtain x y where x: "canonical_json_bytes (cd_float_repr cd) (request_document a) = Inr x" "fp = cd_sha256 cd x"
    and y: "canonical_json_bytes (cd_float_repr cd) (request_document b) = Inr y" "fq = cd_sha256 cd y"
    using fingerprint_bytes[OF assms(5)] fingerprint_bytes[OF assms(6)] by metis
  have "fp = fq \<longleftrightarrow> x = y" using assms(2) x y by (auto simp: no_collision_def)
  also have "\<dots> \<longleftrightarrow> same_request a b"
    using canonical_json_bytes_iff[OF assms(1) _ _ x(1) y(1)] assms(3,4) request_document_equal
    by (simp only: wf_request_document)
  finally show ?thesis .
qed

text \<open>A document can be encoded when each of its values can.\<close>

lemma those_None: "those xs = None \<longleftrightarrow> None \<in> set xs"
  by (induction xs) (auto split: option.splits)

lemma dumps_obj_None: "dumps fr (JObj kvs) = None \<longleftrightarrow> (\<exists>kv \<in> set kvs. dumps fr (snd kv) = None)"
  by (auto simp: those_None)

definition encodable :: "codec \<Rightarrow> event_publish_request \<Rightarrow> bool" where
  "encodable cd r \<longleftrightarrow> dumps (cd_float_repr cd) (JObj (pr_data r)) \<noteq> None"

lemma document_encodable:
  "dumps (cd_float_repr cd) (request_document r) = None \<longleftrightarrow> \<not> encodable cd r"
  "dumps (cd_float_repr cd) (payload_document i t r) = None \<longleftrightarrow> \<not> encodable cd r"
  unfolding request_document_def payload_document_def encodable_def dumps_obj_None[of _ "_ # _"]
  by (simp_all del: dumps.simps(8) add: dumps.simps)

lemma fingerprint_encodable: "(\<exists>fp. fingerprint_of cd r = Inr fp) \<longleftrightarrow> encodable cd r"
  using document_encodable(1)[of cd r]
  by (auto simp: fingerprint_of_def canonical_sha256_def canonical_json_bytes_def split: option.splits)

lemma payload_encodable: "(\<exists>b. payload_of cd env r = Inr b) \<longleftrightarrow> encodable cd r"
  using document_encodable(2)[of cd "pu_event_id env" "pu_now env" r]
  by (auto simp: payload_of_def canonical_json_bytes_def split: option.splits)

section \<open>The specification of publication\<close>

definition codec_ok :: "codec \<Rightarrow> bool" where
  "codec_ok cd \<longleftrightarrow> float_repr_ok (cd_float_repr cd) \<and>
     (\<forall>b. length (cd_sha256 cd b) = 64 \<and> pg_text (cd_sha256 cd b))"

text \<open>The columns accept the request: what the schema and the header checks give, and no character 0.\<close>

definition request_storable :: "event_publish_request \<Rightarrow> string \<Rightarrow> bool" where
  "request_storable r key \<longleftrightarrow> varchar 255 (pr_type r) \<and> pr_type r \<noteq> [] \<and> varchar 255 key \<and> key \<noteq> [] \<and>
     jsonb (JObj (pr_data r)) \<and> wf_json (JObj (pr_data r))"

definition publish_pre :: "codec \<Rightarrow> publish_env \<Rightarrow> event_publish_request \<Rightarrow> string \<Rightarrow> db \<Rightarrow> bool" where
  "publish_pre cd env r key db \<longleftrightarrow> db_ok db \<and> chain_ok cd db \<and> codec_ok cd \<and> request_storable r key \<and>
     pu_event_id env \<notin> ev_id ` set (db_events db) \<and> pu_delivery_id env \<notin> dl_id ` set (db_deliveries db) \<and>
     (\<forall>e. event_with_key key db = Some e \<longrightarrow>
        (\<forall>d \<in> set (db_deliveries db). initial_of cd e d \<longrightarrow> no_collision cd r (accepted_request e d)))"

definition accepted_delivery :: "publish_env \<Rightarrow> event_publish_request \<Rightarrow> delivery" where
  "accepted_delivery env r = new_delivery (pu_delivery_id env) (pu_event_id env) (pr_endpoint_id r) 0 None None
     (pu_now env) (pu_db_now env)"

inductive publish_spec ::
    "codec \<Rightarrow> publish_env \<Rightarrow> event_publish_request \<Rightarrow> string \<Rightarrow> db \<Rightarrow> published_event res \<Rightarrow> db \<Rightarrow> bool"
    for cd env r key db where
  publish_unknown:
    "get_endpoint (pr_endpoint_id r) db = None \<Longrightarrow>
     publish_spec cd env r key db (Inl (DomainError 404 ''endpoint_not_found'' t x)) db"
| publish_invalid:
    "get_endpoint (pr_endpoint_id r) db = Some p \<Longrightarrow> \<not> encodable cd r \<Longrightarrow>
     publish_spec cd env r key db (Inl (DomainError 422 ''invalid_event_data'' t x)) db"
| publish_again:
    "get_endpoint (pr_endpoint_id r) db = Some p \<Longrightarrow> event_with_key key db = Some e \<Longrightarrow>
     d \<in> set (db_deliveries db) \<Longrightarrow> initial_of cd e d \<Longrightarrow> same_request r (accepted_request e d) \<Longrightarrow>
     publish_spec cd env r key db (Inr \<lparr>pb_event = e, pb_delivery = d, pb_idempotent_replay = True\<rparr>) db"
| publish_reused:
    "get_endpoint (pr_endpoint_id r) db = Some p \<Longrightarrow> event_with_key key db = Some e \<Longrightarrow>
     d \<in> set (db_deliveries db) \<Longrightarrow> initial_of cd e d \<Longrightarrow> \<not> same_request r (accepted_request e d) \<Longrightarrow>
     publish_spec cd env r key db (Inl (DomainError 409 ''idempotency_key_reused'' t x)) db"
| publish_disabled:
    "get_endpoint (pr_endpoint_id r) db = Some p \<Longrightarrow> event_with_key key db = None \<Longrightarrow> \<not> ep_enabled p \<Longrightarrow>
     publish_spec cd env r key db (Inl (DomainError 409 ''endpoint_disabled'' t x)) db"
| publish_accepted:
    "get_endpoint (pr_endpoint_id r) db = Some p \<Longrightarrow> event_with_key key db = None \<Longrightarrow> ep_enabled p \<Longrightarrow>
     fingerprint_of cd r = Inr fp \<Longrightarrow> payload_of cd env r = Inr b \<Longrightarrow> e = candidate_event cd env r key fp b \<Longrightarrow>
     publish_spec cd env r key db
       (Inr \<lparr>pb_event = e, pb_delivery = accepted_delivery env r, pb_idempotent_replay = False\<rparr>)
       (add_delivery (accepted_delivery env r) (add_event e db))"

lemma canonical_obj_nonempty: "canonical_json_bytes fr (JObj kvs) = Inr b \<Longrightarrow> b \<noteq> []"
proof -
  assume "canonical_json_bytes fr (JObj kvs) = Inr b"
  then obtain s where s: "dumps fr (JObj kvs) = Some s" "b = utf8_encode s"
    by (auto simp: canonical_json_bytes_def simp del: dumps.simps split: option.splits)
  then have "s \<noteq> []" by auto
  moreover have "utf8_char c \<noteq> []" for c by (simp add: utf8_char_def Let_def)
  ultimately show "b \<noteq> []" using s(2) by (cases s) (auto simp: utf8_encode_def)
qed

lemma payload_nonempty: "payload_of cd env r = Inr b \<Longrightarrow> b \<noteq> []"
  unfolding payload_of_def payload_document_def by (rule canonical_obj_nonempty)

lemma candidate_row_ok:
  assumes "codec_ok cd" "request_storable r key" "fingerprint_of cd r = Inr fp" "b \<noteq> []"
  shows "event_row_ok (candidate_event cd env r key fp b)"
proof -
  obtain c where "fp = cd_sha256 cd c" using fingerprint_bytes[OF assms(3)] by metis
  then show ?thesis using assms(1,2,4)
    by (auto simp: event_row_ok_def candidate_event_def codec_ok_def request_storable_def LOCAL_SOURCE_def varchar_def)
qed

lemma new_delivery_row_ok:
  assumes "0 \<le> g" "g < 2 ^ 31" "(p = None) = (k = None)" "null_or (varchar 255) k" "k \<noteq> Some []"
  shows "delivery_row_ok (new_delivery i v q g p k t now)"
  using assms by (auto simp: delivery_row_ok_def new_delivery_def int4_def null_or_def split: option.splits)

lemma new_delivery_sel [simp]:
  "dl_id (new_delivery i v q g p k t now) = i" "dl_event_id (new_delivery i v q g p k t now) = v"
  "dl_endpoint_id (new_delivery i v q g p k t now) = q" "dl_replay_generation (new_delivery i v q g p k t now) = g"
  "dl_replayed_from_delivery_id (new_delivery i v q g p k t now) = p"
  "dl_replay_idempotency_key (new_delivery i v q g p k t now) = k"
  "dl_status (new_delivery i v q g p k t now) = PENDING" "dl_attempt_count (new_delivery i v q g p k t now) = 0"
  "dl_next_attempt_at (new_delivery i v q g p k t now) = Some now"
  by (simp_all add: new_delivery_def)

text \<open>Publication refines its specification: in particular it never fails unexpectedly.\<close>

lemma insert_if_absent_result:
  assumes "event_row_ok e" "db_ok db" "ev_source e = LOCAL_SOURCE" "ev_id e \<notin> ev_id ` set (db_events db)"
  shows "insert_if_absent e db =
    Inr (if event_with_key (ev_idempotency_key e) db = None then (True, add_event e db) else (False, db))"
proof (cases "event_with_key (ev_idempotency_key e) db")
  case None
  then have none: "\<And>x. x \<in> set (db_events db) \<Longrightarrow>
      \<not> (ev_source x = ev_source e \<and> ev_idempotency_key x = ev_idempotency_key e)"
    using assms(3) by (auto simp: event_with_key_def find_None_iff)
  then have "db_ok (add_event e db)" using assms(2,1,4) by (intro add_event_ok) auto
  moreover have "\<not> list_ex (\<lambda>x. ev_source x = ev_source e \<and> ev_idempotency_key x = ev_idempotency_key e) (db_events db)"
    using none by (auto simp: list_ex_iff)
  ultimately show ?thesis using None assms(1) by (simp add: insert_if_absent_def flush_def)
next
  case (Some x)
  then have "x \<in> set (db_events db) \<and> ev_source x = LOCAL_SOURCE \<and> ev_idempotency_key x = ev_idempotency_key e"
    unfolding event_with_key_def by (rule find_Some_mem)
  then have "list_ex (\<lambda>x. ev_source x = ev_source e \<and> ev_idempotency_key x = ev_idempotency_key e) (db_events db)"
    using assms(3) by (auto simp: list_ex_iff)
  then show ?thesis using Some assms(1) by (simp add: insert_if_absent_def)
qed

lemma accepted_db_ok:
  assumes pre: "publish_pre cd env r key db" and p: "get_endpoint (pr_endpoint_id r) db = Some p"
    and none: "event_with_key key db = None" and e: "event_row_ok e" "ev_id e = pu_event_id env"
      "ev_source e = LOCAL_SOURCE" "ev_idempotency_key e = key"
  shows "db_ok (add_event e db)" "db_ok (add_delivery (accepted_delivery env r) (add_event e db))"
proof -
  have ok: "db_ok db" and fresh: "pu_event_id env \<notin> ev_id ` set (db_events db)"
    "pu_delivery_id env \<notin> dl_id ` set (db_deliveries db)" using pre by (simp_all add: publish_pre_def)
  show ok1: "db_ok (add_event e db)"
    using none e fresh(1) by (intro add_event_ok[OF ok]) (auto simp: event_with_key_def find_None_iff)
  have no_del: "dl_event_id x \<noteq> pu_event_id env" if "x \<in> set (db_deliveries db)" for x
    using db_okD(5)[OF ok] that fresh(1) unfolding foreign_keys_ok_def list_all_iff by metis
  have pe: "pr_endpoint_id r \<in> ep_id ` set (db_endpoints db)"
    using p ok by (metis get_endpoint_Some imageI)
  show "db_ok (add_delivery (accepted_delivery env r) (add_event e db))"
  proof (rule add_delivery_ok[OF ok1])
    show "delivery_row_ok (accepted_delivery env r)"
      unfolding accepted_delivery_def by (rule new_delivery_row_ok) (auto simp: null_or_def)
  qed (use no_del pe fresh e in \<open>auto simp: accepted_delivery_def row_simps null_or_def generation_key_def
      replay_key_set_def chain_key_def\<close>)
qed

lemma resolve_idempotent_replay_result:
  assumes ok: "db_ok db" and e: "event_with_key key db = Some e" and d: "d \<in> set (db_deliveries db)" "initial_of cd e d"
  shows "fp \<noteq> ev_request_fingerprint_sha256 e \<Longrightarrow>
      \<exists>t x. resolve_idempotent_replay i key fp db = Inl (DomainError 409 ''idempotency_key_reused'' t x)"
    and "fp = ev_request_fingerprint_sha256 e \<Longrightarrow> i = dl_endpoint_id d \<Longrightarrow> resolve_idempotent_replay i key fp db =
      Inr \<lparr>pb_event = e, pb_delivery = d, pb_idempotent_replay = True\<rparr>"
proof -
  have key: "get_by_idempotency_key LOCAL_SOURCE key db = Inr (Some e)"
    using e by (simp add: get_by_idempotency_key_find[OF ok] event_with_key_def)
  show "\<exists>t x. resolve_idempotent_replay i key fp db = Inl (DomainError 409 ''idempotency_key_reused'' t x)"
    if "fp \<noteq> ev_request_fingerprint_sha256 e" using that by (simp add: resolve_idempotent_replay_def key)
  let ?P = "\<lambda>x. dl_event_id x = ev_id e \<and> dl_endpoint_id x = dl_endpoint_id d \<and> dl_replay_generation x = 0"
  have "?P d" using d(2) by (simp add: initial_of_def)
  then have "one_or_none (filter ?P (db_deliveries db)) = Inr (Some d)"
    using unique_whereD[OF db_ok_uniques(2)[OF ok] _ d(1)]
    by (intro one_or_none_filter_Some[OF distinct_deliveries[OF ok] d(1)]) (auto simp: generation_key_def)
  then show "resolve_idempotent_replay i key fp db = Inr \<lparr>pb_event = e, pb_delivery = d, pb_idempotent_replay = True\<rparr>"
    if "fp = ev_request_fingerprint_sha256 e" "i = dl_endpoint_id d"
    using that by (simp add: resolve_idempotent_replay_def key get_initial_def)
qed

lemma publish_refines:
  assumes pre: "publish_pre cd env r key db"
  shows "publish_spec cd env r key db (fst (run_tx (publish cd env r key) db)) (snd (run_tx (publish cd env r key) db))"
proof -
  have ok: "db_ok db" and ch: "chain_ok cd db" and cd: "codec_ok cd" and st: "request_storable r key"
    and fresh: "pu_event_id env \<notin> ev_id ` set (db_events db)" using pre by (simp_all add: publish_pre_def)
  show ?thesis
  proof (cases "get_endpoint (pr_endpoint_id r) db")
    case None
    then show ?thesis using publish_spec.publish_unknown[OF None] by (simp add: publish_def run_tx_def)
  next
    case p: (Some p)
    show ?thesis
    proof (cases "encodable cd r")
      case False
      then have "\<exists>x. canonical_sha256 (cd_sha256 cd) (cd_float_repr cd) (request_document r) = Inl x"
        using fingerprint_encodable[of cd r] unfolding fingerprint_of_def by (metis sum.exhaust)
      then show ?thesis using p publish_spec.publish_invalid[OF p False] by (auto simp: publish_def run_tx_def)
    next
      case True
      obtain fp b where fp: "fingerprint_of cd r = Inr fp" and b: "payload_of cd env r = Inr b"
        using True fingerprint_encodable payload_encodable by metis
      define e where "e = candidate_event cd env r key fp b"
      have row: "event_row_ok e" unfolding e_def by (rule candidate_row_ok[OF cd st fp payload_nonempty[OF b]])
      have sel: "ev_id e = pu_event_id env" "ev_source e = LOCAL_SOURCE" "ev_idempotency_key e = key"
        by (simp_all add: e_def candidate_event_def)
      note ins = insert_if_absent_result[OF row ok sel(2), unfolded sel, OF fresh]
      note start = publish_def run_tx_def p fp[unfolded fingerprint_of_def] b[unfolded payload_of_def] e_def[symmetric] ins
      show ?thesis
      proof (cases "event_with_key key db")
        case (Some e0)
        then have "e0 \<in> set (db_events db)" unfolding event_with_key_def by (blast dest: find_Some_mem)
        from chain_okD(1)[OF ch this] obtain d0 where wf: "wf_json (JObj (ev_payload e0))"
          and d0: "d0 \<in> set (db_deliveries db)" "initial_of cd e0 d0" by (auto simp: event_accepted_def)
        have fp0: "fingerprint_of cd (accepted_request e0 d0) = Inr (ev_request_fingerprint_sha256 e0)"
          using d0(2) by (simp add: initial_of_def fingerprint_of_def)
        have iff: "fp = ev_request_fingerprint_sha256 e0 \<longleftrightarrow> same_request r (accepted_request e0 d0)"
          by (rule fingerprint_iff[OF _ _ _ _ fp fp0])
            (use pre Some d0 cd st wf in \<open>auto simp: publish_pre_def codec_ok_def request_storable_def accepted_request_def\<close>)
        note res = resolve_idempotent_replay_result[OF ok Some d0]
        show ?thesis
        proof (cases "fp = ev_request_fingerprint_sha256 e0")
          case True
          then have same: "same_request r (accepted_request e0 d0)" using iff by simp
          then have "pr_endpoint_id r = dl_endpoint_id d0" by (simp add: same_request_def accepted_request_def)
          from res(2)[OF True this] publish_spec.publish_again[OF p Some d0 same] Some
          show ?thesis by (simp add: start)
        next
          case False
          then have "\<not> same_request r (accepted_request e0 d0)" using iff by simp
          from publish_spec.publish_reused[OF p Some d0 this] res(1)[OF False, of "pr_endpoint_id r"] Some
          show ?thesis by (auto simp: start)
        qed
      next
        case None
        note oks = accepted_db_ok[OF pre p None row sel]
        show ?thesis
        proof (cases "ep_enabled p")
          case True
          have "ep_id p = pr_endpoint_id r" using p ok by (simp add: get_endpoint_Some)
          moreover have "get_event (pu_event_id env) (add_delivery (accepted_delivery env r) (add_event e db)) = Some e"
            using oks(2) sel(1) by (simp add: get_event_Some row_simps)
          ultimately show ?thesis
            using publish_spec.publish_accepted[OF p None True fp b e_def] None True oks(2)
            by (simp add: start delivery_create_def flush_def accepted_delivery_def[symmetric] Let_def)
        next
          case False
          then show ?thesis using publish_spec.publish_disabled[OF p None False] None by (simp add: start)
        qed
      qed
    qed
  qed
qed

section \<open>Publication keeps the invariants\<close>

text \<open>A new delivery under an identifier not in use has no attempts.\<close>

lemma attempts_for_add_delivery [simp]: "attempts_for i (add_delivery d db) = attempts_for i db"
  by (simp add: attempts_for_def)

lemma attempts_for_add_event [simp]: "attempts_for i (add_event e db) = attempts_for i db"
  by (simp add: attempts_for_def)

lemma no_attempts:
  assumes "db_ok db" "i \<notin> dl_id ` set (db_deliveries db)"
  shows "attempts_for i db = {}"
  using db_okD(5)[OF assms(1)] assms(2) by (auto simp: foreign_keys_ok_def list_all_iff attempts_for_def)

lemma ledger_ok_add_delivery:
  assumes ok: "ledger_ok m db" and m: "0 \<le> m" and fresh: "i \<notin> dl_id ` set (db_deliveries db)"
    and db': "db_ok db'" "db_deliveries db' = insert_row (new_delivery i v p g q k t now) (db_deliveries db)"
      "db_attempts db' = db_attempts db"
  shows "ledger_ok m db'"
proof -
  have att: "attempts_for j db' = attempts_for j db" for j using db'(3) by (simp add: attempts_for_def)
  have "ledger_row m (attempts_for i db') (new_delivery i v p g q k t now)"
    using no_attempts[OF ledger_okD(1)[OF ok] fresh] m by (simp add: att ledger_row_def)
  then show ?thesis using ledger_okD(2)[OF ok] db'(1)
    by (auto simp: ledger_ok_def db'(2) row_simps att)
qed

lemma chain_ok_accept:
  assumes ok: "chain_ok cd db" "db_ok db" and wf: "wf_json (JObj (ev_payload e))" and d: "initial_of cd e d"
    "dl_replayed_from_delivery_id d = None" and fresh: "ev_id e \<notin> ev_id ` set (db_events db)"
    and db': "db_events db' = insert_row e (db_events db)" "db_deliveries db' = insert_row d (db_deliveries db)"
  shows "chain_ok cd db'"
proof -
  have other: "dl_event_id x \<noteq> dl_event_id d" if "x \<in> set (db_deliveries db)" for x
    using db_okD(5)[OF ok(2)] that fresh d unfolding foreign_keys_ok_def list_all_iff initial_of_def by metis
  have gen: "generation_ok (insert d (set (db_deliveries db))) x" if "x \<in> set (db_deliveries db)" for x
    using chain_okD(2)[OF ok(1) that] other[OF that] unfolding generation_ok_def chain_key_def by auto
  have "generation_ok (insert d (set (db_deliveries db))) d"
    using d other unfolding generation_ok_def initial_of_def chain_key_def by auto
  then show ?thesis using chain_okD(1)[OF ok(1)] gen wf d(1)
    by (auto simp: chain_ok_def db' row_simps event_accepted_def)
qed

lemma publish_spec_keeps:
  assumes pre: "publish_pre cd env r key db" and ok: "ledger_ok m db" "0 \<le> m"
    and spec: "publish_spec cd env r key db out db'"
  shows "ledger_ok m db' \<and> chain_ok cd db'"
  using spec
proof cases
  case (publish_accepted p fp b e)
  have ch: "chain_ok cd db" "codec_ok cd" "request_storable r key"
    and fresh: "pu_event_id env \<notin> ev_id ` set (db_events db)" "pu_delivery_id env \<notin> dl_id ` set (db_deliveries db)"
    using pre by (simp_all add: publish_pre_def)
  have e: "ev_id e = pu_event_id env" "ev_source e = LOCAL_SOURCE" "ev_idempotency_key e = key"
    "ev_payload e = pr_data r" "ev_event_type e = pr_type r" "ev_request_fingerprint_sha256 e = fp"
    by (simp_all add: publish_accepted(8) candidate_event_def)
  have row: "event_row_ok e"
    using candidate_row_ok[OF ch(2,3) publish_accepted(6) payload_nonempty[OF publish_accepted(7)]]
    by (simp add: publish_accepted(8))
  have dbok: "db_ok db'" unfolding publish_accepted(2)
    by (rule accepted_db_ok(2)[OF pre publish_accepted(3,4) row e(1-3)])
  have req: "accepted_request e (accepted_delivery env r) = r"
    by (simp add: accepted_request_def accepted_delivery_def e)
  have init: "initial_of cd e (accepted_delivery env r)"
    using publish_accepted(6) by (simp add: initial_of_def req fingerprint_of_def e) (simp add: accepted_delivery_def)
  have "ledger_ok m db'"
    by (rule ledger_ok_add_delivery[OF ok fresh(2) dbok])
      (simp_all add: publish_accepted(2) accepted_delivery_def)
  moreover have "chain_ok cd db'"
    by (rule chain_ok_accept[OF ch(1) ledger_okD(1)[OF ok(1)] _ init])
      (use ch(3) fresh in \<open>simp_all add: publish_accepted(2) e request_storable_def accepted_delivery_def\<close>)
  ultimately show ?thesis by simp
qed (use pre ok in \<open>auto simp: publish_pre_def\<close>)

section \<open>Replay\<close>

definition newest :: "db \<Rightarrow> delivery \<Rightarrow> bool" where
  "newest db s \<longleftrightarrow> (\<forall>x \<in> set (db_deliveries db). chain_key x = chain_key s \<longrightarrow>
     dl_replay_generation x \<le> dl_replay_generation s)"

definition replay_request :: "uuid \<Rightarrow> string \<Rightarrow> delivery \<Rightarrow> bool" where
  "replay_request i key d \<longleftrightarrow> dl_replayed_from_delivery_id d = Some i \<and> dl_replay_idempotency_key d = Some key"

definition successor :: "replay_env \<Rightarrow> delivery \<Rightarrow> string \<Rightarrow> delivery" where
  "successor env s key = new_delivery (rp_delivery_id env) (dl_event_id s) (dl_endpoint_id s)
     (dl_replay_generation s + 1) (Some (dl_id s)) (Some key) (rp_now env) (rp_db_now env)"

definition replay_pre :: "codec \<Rightarrow> replay_env \<Rightarrow> string \<Rightarrow> db \<Rightarrow> bool" where
  "replay_pre cd env key db \<longleftrightarrow> db_ok db \<and> chain_ok cd db \<and> varchar 255 key \<and> key \<noteq> [] \<and>
     rp_delivery_id env \<notin> dl_id ` set (db_deliveries db) \<and>
     (\<forall>d \<in> set (db_deliveries db). dl_replay_generation d < 2 ^ 31 - 1)"

inductive replay_spec ::
    "codec \<Rightarrow> replay_env \<Rightarrow> uuid \<Rightarrow> string \<Rightarrow> db \<Rightarrow> replayed_delivery res \<Rightarrow> db \<Rightarrow> bool" for cd env i key db where
  replay_unknown:
    "get_delivery i db = None \<Longrightarrow> replay_spec cd env i key db (Inl (DomainError 404 ''delivery_not_found'' t x)) db"
| replay_again:
    "get_delivery i db = Some s \<Longrightarrow> d \<in> set (db_deliveries db) \<Longrightarrow> replay_request i key d \<Longrightarrow>
     replay_spec cd env i key db (Inr \<lparr>rd_source_delivery = s, rd_delivery = d, rd_idempotent_replay = True\<rparr>) db"
| replay_superseded:
    "get_delivery i db = Some s \<Longrightarrow> \<forall>d \<in> set (db_deliveries db). \<not> replay_request i key d \<Longrightarrow> \<not> newest db s \<Longrightarrow>
     replay_spec cd env i key db (Inl (DomainError 409 ''replay_source_superseded'' t x)) db"
| replay_not_replayable:
    "get_delivery i db = Some s \<Longrightarrow> \<forall>d \<in> set (db_deliveries db). \<not> replay_request i key d \<Longrightarrow> newest db s \<Longrightarrow>
     dl_status s \<noteq> DEAD_LETTERED \<Longrightarrow>
     replay_spec cd env i key db (Inl (DomainError 409 ''delivery_not_replayable'' t x)) db"
| replay_blocked:
    "get_delivery i db = Some s \<Longrightarrow> \<forall>d \<in> set (db_deliveries db). \<not> replay_request i key d \<Longrightarrow> newest db s \<Longrightarrow>
     dl_status s = DEAD_LETTERED \<Longrightarrow> last_block_code cd (list_attempts i db) = Some code \<Longrightarrow>
     replay_spec cd env i key db (Inl (DomainError 409 (block_code_value code) t x)) db"
| replay_disabled:
    "get_delivery i db = Some s \<Longrightarrow> \<forall>d \<in> set (db_deliveries db). \<not> replay_request i key d \<Longrightarrow> newest db s \<Longrightarrow>
     dl_status s = DEAD_LETTERED \<Longrightarrow> last_block_code cd (list_attempts i db) = None \<Longrightarrow>
     get_endpoint (dl_endpoint_id s) db = Some p \<Longrightarrow> \<not> ep_enabled p \<Longrightarrow>
     replay_spec cd env i key db (Inl (DomainError 409 ''endpoint_disabled'' t x)) db"
| replay_accepted:
    "get_delivery i db = Some s \<Longrightarrow> \<forall>d \<in> set (db_deliveries db). \<not> replay_request i key d \<Longrightarrow> newest db s \<Longrightarrow>
     dl_status s = DEAD_LETTERED \<Longrightarrow> last_block_code cd (list_attempts i db) = None \<Longrightarrow>
     get_endpoint (dl_endpoint_id s) db = Some p \<Longrightarrow> ep_enabled p \<Longrightarrow>
     replay_spec cd env i key db
       (Inr \<lparr>rd_source_delivery = s, rd_delivery = successor env s key, rd_idempotent_replay = False\<rparr>)
       (add_delivery (successor env s key) db)"

text \<open>The chain of a newest dead-lettered generation has no active member.\<close>

lemma newest_dead_no_active:
  assumes ok: "db_ok db" "chain_ok cd db" and s: "s \<in> set (db_deliveries db)" "newest db s" "dl_status s = DEAD_LETTERED"
    and x: "x \<in> set (db_deliveries db)" "chain_key x = chain_key s"
  shows "\<not> is_active x"
proof (cases "dl_replay_generation x = dl_replay_generation s")
  case True
  then have "x = s" using unique_whereD[OF db_ok_uniques(2)[OF ok(1)] x(1) s(1)] x(2)
    by (simp add: generation_key_def chain_key_def)
  then show ?thesis using s(3) by (simp add: is_active_def)
next
  case False
  then have "dl_replay_generation x < dl_replay_generation s" using s(2) x by (fastforce simp: newest_def)
  then have "dl_status x = DEAD_LETTERED"
    using chain_okD(2)[OF ok(2) x(1)] s(1) x(2) by (auto simp: generation_ok_def)
  then show ?thesis by (simp add: is_active_def)
qed

lemma successor_db_ok:
  assumes pre: "replay_pre cd env key db" and s: "s \<in> set (db_deliveries db)" "newest db s" "dl_status s = DEAD_LETTERED"
    and none: "\<forall>d \<in> set (db_deliveries db). \<not> replay_request (dl_id s) key d"
  shows "db_ok (add_delivery (successor env s key) db)"
proof -
  have ok: "db_ok db" "chain_ok cd db" and fresh: "rp_delivery_id env \<notin> dl_id ` set (db_deliveries db)"
    and key: "varchar 255 key" "key \<noteq> []" and g: "dl_replay_generation s < 2 ^ 31 - 1"
    using pre s(1) by (auto simp: replay_pre_def)
  have row: "delivery_row_ok s" using ok(1) s(1) by (rule delivery_row_okD)
  have fk: "dl_event_id s \<in> ev_id ` set (db_events db)" "dl_endpoint_id s \<in> ep_id ` set (db_endpoints db)"
    using db_okD(5)[OF ok(1)] s(1) by (auto simp: foreign_keys_ok_def list_all_iff)
  show ?thesis
  proof (rule add_delivery_ok[OF ok(1)])
    show "delivery_row_ok (successor env s key)" unfolding successor_def
      by (rule new_delivery_row_ok) (use row g key in \<open>auto simp: delivery_row_ok_def null_or_def\<close>)
    fix x assume x: "x \<in> set (db_deliveries db)"
    show "generation_key x \<noteq> generation_key (successor env s key)"
      using s(2) x by (fastforce simp: newest_def generation_key_def chain_key_def successor_def)
    show "replay_key x \<noteq> replay_key (successor env s key)"
      using none x by (auto simp: replay_key_def successor_def replay_request_def)
    assume "is_active x"
    then show "chain_key x \<noteq> chain_key (successor env s key)"
      using newest_dead_no_active[OF ok s x] by (auto simp: chain_key_def successor_def)
  qed (use fk fresh s(1) in \<open>auto simp: successor_def null_or_def\<close>)
qed

lemma latest_is_newest:
  assumes ok: "db_ok db" and s: "s \<in> set (db_deliveries db)"
  obtains l where "get_latest (dl_event_id s) (dl_endpoint_id s) db = Inr (Some l)" "dl_id l = dl_id s \<longleftrightarrow> newest db s"
proof (cases rule: get_latest_cases[of "dl_event_id s" "dl_endpoint_id s" db])
  case 1
  then show ?thesis using s by (auto simp: chain_key_def)
next
  case (2 l)
  have ch: "chain_key s = (dl_event_id s, dl_endpoint_id s)" by (simp add: chain_key_def)
  have "dl_id l = dl_id s \<longleftrightarrow> newest db s"
  proof
    assume "dl_id l = dl_id s"
    then have "l = s" using delivery_id_unique[OF ok 2(2) s] by simp
    then show "newest db s" using 2(4) ch by (auto simp: newest_def)
  next
    assume "newest db s"
    then have "dl_replay_generation l = dl_replay_generation s"
      using 2(2-4) s ch by (simp add: newest_def antisym)
    then show "dl_id l = dl_id s" using unique_whereD[OF db_ok_uniques(2)[OF ok] 2(2) s] 2(3) ch
      by (simp add: generation_key_def chain_key_def)
  qed
  then show ?thesis using that 2(1) by blast
qed

lemma replay_refines:
  assumes pre: "replay_pre cd env key db"
  shows "replay_spec cd env i key db (fst (run_tx (replay cd env i key) db)) (snd (run_tx (replay cd env i key) db))"
proof (cases "get_delivery i db")
  case None
  then show ?thesis using replay_spec.replay_unknown[OF None] by (simp add: replay_def run_tx_def)
next
  case g: (Some s)
  have ok: "db_ok db" "chain_ok cd db" using pre by (simp_all add: replay_pre_def)
  have s: "s \<in> set (db_deliveries db)" "dl_id s = i" using g ok(1) by (simp_all add: get_delivery_Some)
  obtain ev where ev: "get_event (dl_event_id s) db = Some ev" by (rule delivery_event_exists[OF ok(1) s(1)])
  obtain p where p: "get_endpoint (dl_endpoint_id s) db = Some p" by (rule delivery_endpoint_exists[OF ok(1) s(1)])
  note start = replay_def run_tx_def g event_get_for_update_get[OF ok(1)] ev delivery_get_for_update_get[OF ok(1)]
    get_by_replay_request_find[OF ok(1)] s(2)
  show ?thesis
  proof (cases "find (replay_request i key) (db_deliveries db)")
    case (Some d)
    then have "d \<in> set (db_deliveries db)" "replay_request i key d" by (blast dest: find_Some_mem)+
    from replay_spec.replay_again[OF g this] Some show ?thesis by (simp add: start replay_request_def[abs_def])
  next
    case None
    then have none: "\<forall>d \<in> set (db_deliveries db). \<not> replay_request i key d" by (auto simp: find_None_iff)
    obtain l where l: "get_latest (dl_event_id s) (dl_endpoint_id s) db = Inr (Some l)" "dl_id l = dl_id s \<longleftrightarrow> newest db s"
      by (rule latest_is_newest[OF ok(1) s(1)])
    have src: "replay cd env i key db = replay_source cd env i s key db"
      using None by (simp add: start replay_request_def[abs_def])
    note start = src run_tx_def replay_source_def l(1)
    consider (old) "\<not> newest db s" | (alive) "newest db s" "dl_status s \<noteq> DEAD_LETTERED"
      | (blocked) code where "newest db s" "dl_status s = DEAD_LETTERED" "last_block_code cd (list_attempts i db) = Some code"
      | (ready) "newest db s" "dl_status s = DEAD_LETTERED" "last_block_code cd (list_attempts i db) = None"
      by fastforce
    then show ?thesis
    proof cases
      case old
      from replay_spec.replay_superseded[OF g none old] old l(2) show ?thesis by (simp add: start)
    next
      case alive
      from replay_spec.replay_not_replayable[OF g none alive] alive l(2) show ?thesis by (simp add: start)
    next
      case blocked
      from replay_spec.replay_blocked[OF g none blocked] blocked l(2) s(2) show ?thesis by (simp add: start)
    next
      case ready
      have "get_active (dl_event_id s) (dl_endpoint_id s) db = Inr None"
        unfolding get_active_find[OF ok(1)]
        using newest_dead_no_active[OF ok s(1) ready(1,2)]
        by (simp add: find_None_iff is_active_def chain_key_def active_status_def)
      then have cr: "replay cd env i key db = create_replay env s key db"
        using ready l(2) s(2) by (simp add: start)
      show ?thesis
      proof (cases "ep_enabled p")
        case True
        have "db_ok (add_delivery (successor env s key) db)"
          using none s(2) by (intro successor_db_ok[OF pre s(1) ready(1,2)]) simp
        with replay_spec.replay_accepted[OF g none ready p True] True show ?thesis
          by (simp add: cr run_tx_def create_replay_def p Let_def delivery_create_def flush_def successor_def[symmetric])
      next
        case False
        from replay_spec.replay_disabled[OF g none ready p False] False show ?thesis
          by (simp add: cr run_tx_def create_replay_def p)
      qed
    qed
  qed
qed

lemma replay_spec_keeps:
  assumes pre: "replay_pre cd env key db" and ok: "ledger_ok m db" "0 \<le> m"
    and spec: "replay_spec cd env i key db out db'"
  shows "ledger_ok m db' \<and> chain_ok cd db'"
  using spec
proof cases
  case (replay_accepted s p)
  have ch: "chain_ok cd db" and fresh: "rp_delivery_id env \<notin> dl_id ` set (db_deliveries db)"
    using pre by (simp_all add: replay_pre_def)
  have s: "s \<in> set (db_deliveries db)" "dl_id s = i"
    using replay_accepted(3) ledger_okD(1)[OF ok(1)] by (simp_all add: get_delivery_Some)
  let ?n = "successor env s key" and ?D = "set (db_deliveries db)"
  have dbok: "db_ok db'" unfolding replay_accepted(2)
    using replay_accepted(4) s(2) by (intro successor_db_ok[OF pre s(1) replay_accepted(5,6)]) simp
  have "ledger_ok m db'"
    by (rule ledger_ok_add_delivery[OF ok fresh dbok]) (simp_all add: replay_accepted(2) successor_def)
  moreover have "chain_ok cd db'"
  proof -
    have sel: "chain_key ?n = chain_key s" "dl_replay_generation ?n = dl_replay_generation s + 1"
      "dl_event_id ?n = dl_event_id s" "dl_endpoint_id ?n = dl_endpoint_id s"
      "dl_replayed_from_delivery_id ?n = Some (dl_id s)"
      by (simp_all add: successor_def chain_key_def)
    have gs: "generation_ok ?D s" using ch s(1) by (rule chain_okD(2))
    have nonneg: "0 \<le> dl_replay_generation s"
      using delivery_row_okD[OF ledger_okD(1)[OF ok(1)] s(1)] by (simp add: delivery_row_ok_def)
    have "generation_ok (insert ?n ?D) ?n"
      unfolding generation_ok_def sel
    proof (intro conjI)
      show "\<forall>x \<in> insert ?n ?D. dl_event_id x = dl_event_id s \<longrightarrow> dl_endpoint_id x = dl_endpoint_id s"
        using gs by (simp add: generation_ok_def sel)
      show "\<forall>x \<in> insert ?n ?D. chain_key x = chain_key s \<and> dl_replay_generation s + 1 < dl_replay_generation x \<longrightarrow>
          dl_status ?n = DEAD_LETTERED"
        using replay_accepted(5) by (fastforce simp: newest_def sel)
    qed (use nonneg s(1) in auto)
    moreover have "generation_ok (insert ?n ?D) x" if x: "x \<in> ?D" for x
    proof -
      have "dl_status x = DEAD_LETTERED" if "chain_key x = chain_key s"
      proof (cases "x = s")
        case False
        have "dl_replay_generation x < dl_replay_generation s"
        proof -
          have "dl_replay_generation x \<noteq> dl_replay_generation s"
            using unique_whereD[OF db_ok_uniques(2)[OF ledger_okD(1)[OF ok(1)]] x s(1)] False that
            by (auto simp: generation_key_def chain_key_def)
          then show ?thesis using replay_accepted(5) x that by (fastforce simp: newest_def)
        qed
        then show ?thesis using chain_okD(2)[OF ch x] s(1) that by (auto simp: generation_ok_def)
      qed (use replay_accepted(6) in simp)
      moreover have "dl_event_id s = dl_event_id x \<longrightarrow> dl_endpoint_id s = dl_endpoint_id x"
        using gs x by (auto simp: generation_ok_def)
      ultimately show ?thesis using chain_okD(2)[OF ch x] unfolding generation_ok_def by (auto simp: sel)
    qed
    ultimately show ?thesis using chain_okD(1)[OF ch]
      by (auto simp: chain_ok_def replay_accepted(2) row_simps event_accepted_def)
  qed
  ultimately show ?thesis by simp
qed (use pre ok in \<open>auto simp: replay_pre_def\<close>)

section \<open>What a success leaves behind\<close>

lemma initial_unique:
  assumes ok: "db_ok db" "chain_ok cd db" and d: "d \<in> set (db_deliveries db)" "initial_of cd e d"
    and x: "x \<in> set (db_deliveries db)" "initial_of cd e x"
  shows "d = x"
proof -
  have "dl_endpoint_id d = dl_endpoint_id x"
    using chain_okD(2)[OF ok(2) x(1)] d x(2) by (auto simp: generation_ok_def initial_of_def)
  then show ?thesis using unique_whereD[OF db_ok_uniques(2)[OF ok(1)] d(1) x(1)] d(2) x(2)
    by (simp add: generation_key_def initial_of_def)
qed

lemma publish_result:
  assumes pre: "publish_pre cd env r key db" and spec: "publish_spec cd env r key db (Inr p) db1"
  obtains q where "get_endpoint (pr_endpoint_id r) db1 = Some q" "encodable cd r"
    "event_with_key key db1 = Some (pb_event p)" "pb_delivery p \<in> set (db_deliveries db1)"
    "initial_of cd (pb_event p) (pb_delivery p)" "same_request r (accepted_request (pb_event p) (pb_delivery p))"
  using spec
proof cases
  case (publish_again q e d)
  have "wf_json (request_document r)" "wf_json (request_document (accepted_request e d))"
    "json_equal (request_document r) (request_document (accepted_request e d))"
  proof -
    have "e \<in> set (db_events db)" using publish_again(4) unfolding event_with_key_def by (blast dest: find_Some_mem)
    then have "wf_json (JObj (ev_payload e))" using pre chain_okD(1) by (auto simp: publish_pre_def event_accepted_def)
    then show "wf_json (request_document (accepted_request e d))" by (simp only: wf_request_document accepted_request_def) simp
    show "wf_json (request_document r)" using pre by (simp only: wf_request_document publish_pre_def request_storable_def)
    show "json_equal (request_document r) (request_document (accepted_request e d))"
      using publish_again(7) by (simp only: request_document_equal)
  qed
  then have "dumps (cd_float_repr cd) (request_document r) = dumps (cd_float_repr cd) (request_document (accepted_request e d))"
    by (metis json_equal_dumps)
  moreover have "\<exists>fp. fingerprint_of cd (accepted_request e d) = Inr fp"
    using publish_again(6) by (simp add: initial_of_def fingerprint_of_def)
  ultimately have "encodable cd r" using fingerprint_encodable document_encodable(1) by metis
  then show ?thesis using that[of q] publish_again by simp
next
  case (publish_accepted q fp b e)
  have e: "ev_id e = pu_event_id env" "ev_source e = LOCAL_SOURCE" "ev_idempotency_key e = key"
    "ev_event_type e = pr_type r" "ev_payload e = pr_data r" "ev_request_fingerprint_sha256 e = fp"
    by (simp_all add: publish_accepted(8) candidate_event_def)
  have req: "accepted_request e (accepted_delivery env r) = r"
    by (simp add: accepted_request_def accepted_delivery_def e)
  have "initial_of cd e (accepted_delivery env r)"
    using publish_accepted(6) by (simp add: initial_of_def req fingerprint_of_def e) (simp add: accepted_delivery_def)
  moreover have "event_with_key key db1 = Some e"
    using publish_accepted(4) e by (simp add: publish_accepted(2) event_with_key_def insert_row_def find_append_None)
  moreover have "same_request r r" using pre json_equal_refl[of "JObj (pr_data r)"]
    by (simp add: same_request_def publish_pre_def request_storable_def del: json_equal.simps wf_json.simps)
  ultimately show ?thesis using that[of q] publish_accepted req fingerprint_encodable
    by (auto simp: get_endpoint_def row_simps)
qed

lemma replay_result:
  assumes pre: "replay_pre cd env key db" and ok1: "db_ok db1" and spec: "replay_spec cd env i key db (Inr p) db1"
  shows "get_delivery i db1 = Some (rd_source_delivery p)" "rd_delivery p \<in> set (db_deliveries db1)"
    "replay_request i key (rd_delivery p)"
proof -
  have ok: "db_ok db" using pre by (simp add: replay_pre_def)
  from spec show "get_delivery i db1 = Some (rd_source_delivery p)" "rd_delivery p \<in> set (db_deliveries db1)"
    "replay_request i key (rd_delivery p)"
    using ok ok1 by (cases; auto simp: get_delivery_Some row_simps replay_request_def successor_def)+
qed

end
