(* ===== verification/Maintenance.thy ===== *)
theory Maintenance
  imports Acceptance
begin

text \<open>
  Retention, maintenance.py: the bounded deletion of old events all of whose deliveries are
  terminal.  The statements of the transaction are separate, because at PostgreSQL's default
  isolation each of them sees what other transactions committed meanwhile (\<open>others\<close>).
\<close>

section \<open>Statements\<close>

definition MAINTENANCE_LOCK_ID :: int where
  "MAINTENANCE_LOCK_ID = 4815162342"

definition ACTIVE_DELIVERY_STATUSES :: "delivery_status list" where
  "ACTIVE_DELIVERY_STATUSES = [PENDING, IN_PROGRESS, RETRY_WAIT]"

definition has_active_delivery :: "db \<Rightarrow> event \<Rightarrow> bool" where
  "has_active_delivery db e \<longleftrightarrow>
     list_ex (\<lambda>d. dl_event_id d = ev_id e \<and> dl_status d \<in> set ACTIVE_DELIVERY_STATUSES) (db_deliveries db)"

definition candidate_events :: "datetime \<Rightarrow> nat \<Rightarrow> db \<Rightarrow> uuid list" where
  "candidate_events cutoff limit db =
     map ev_id (take limit (order_by (\<lambda>e. (ev_created_at e, ev_id e))
       (filter (\<lambda>e. ev_created_at e < cutoff \<and> \<not> has_active_delivery db e) (db_events db))))"

text \<open>
  \<open>DELETE FROM deliveries WHERE event_id IN ...\<close>: attempts go with their delivery
  (\<open>ON DELETE CASCADE\<close>); a remaining delivery that references a deleted one is refused.
\<close>

definition delete_deliveries :: "uuid list \<Rightarrow> db \<Rightarrow> db res" where
  "delete_deliveries event_ids db =
     (let kept = filter (\<lambda>d. dl_event_id d \<notin> set event_ids) (db_deliveries db)
      in if list_all (\<lambda>d. null_or (\<lambda>p. p \<in> dl_id ` set kept) (dl_replayed_from_delivery_id d)) kept
         then Inr (db\<lparr>db_deliveries := kept,
                db_attempts := filter (\<lambda>a. at_delivery_id a \<in> dl_id ` set kept) (db_attempts db)\<rparr>)
         else Inl DBAPIError)"

text \<open>\<open>DELETE FROM events WHERE id IN ... RETURNING id\<close>, refused while a delivery references one.\<close>

definition delete_events :: "uuid list \<Rightarrow> db \<Rightarrow> (uuid list \<times> db) res" where
  "delete_events event_ids db =
     (if list_ex (\<lambda>d. dl_event_id d \<in> set event_ids) (db_deliveries db) then Inl DBAPIError
      else Inr (map ev_id (filter (\<lambda>e. ev_id e \<in> set event_ids) (db_events db)),
                db\<lparr>db_events := filter (\<lambda>e. ev_id e \<notin> set event_ids) (db_events db)\<rparr>))"

definition delete_terminal_event_batch ::
    "(db \<Rightarrow> db) \<Rightarrow> datetime \<Rightarrow> nat \<Rightarrow> db \<Rightarrow> (nat \<times> db) res" where
  "delete_terminal_event_batch others cutoff limit db =
     (let event_ids = candidate_events cutoff limit db in
      if event_ids = [] then Inr (0, others db)
      else
        (case delete_deliveries event_ids (others db) of
           Inl e \<Rightarrow> Inl e
         | Inr db1 \<Rightarrow>
             (case delete_events event_ids db1 of
                Inl e \<Rightarrow> Inl e
              | Inr (deleted, db2) \<Rightarrow> Inr (length deleted, db2))))"

section \<open>The loop\<close>

record cleanup_result =
  cl_lock_acquired :: bool
  cl_deleted_events :: int
  cl_batches :: int

function purge_loop ::
    "(int \<Rightarrow> db \<Rightarrow> db) \<Rightarrow> datetime \<Rightarrow> int \<Rightarrow> int \<Rightarrow> int \<Rightarrow> int \<Rightarrow> db \<Rightarrow> (int \<times> int \<times> db) res" where
  "purge_loop others cutoff batch_size max_events deleted_events batches db =
     (if deleted_events < max_events then
        (case delete_terminal_event_batch (others batches) cutoff
                (nat (min batch_size (max_events - deleted_events))) db of
           Inl e \<Rightarrow> Inl e
         | Inr (deleted, db') \<Rightarrow>
             if deleted = 0 then Inr (deleted_events, batches, db')
             else purge_loop others cutoff batch_size max_events (deleted_events + int deleted) (batches + 1) db')
      else Inr (deleted_events, batches, db))"
  by pat_completeness auto
termination
  by (relation "measure (\<lambda>(_, _, _, max_events, deleted_events, _, _). nat (max_events - deleted_events))") auto

declare purge_loop.simps [simp del]

text \<open>\<open>Aware\<close> is a timezone-aware cutoff; the advisory lock is taken or not.\<close>

definition purge_expired_demo_events ::
    "(int \<Rightarrow> db \<Rightarrow> db) \<Rightarrow> bool \<Rightarrow> parsed_date \<Rightarrow> int \<Rightarrow> int \<Rightarrow> db \<Rightarrow> (cleanup_result \<times> db) res" where
  "purge_expired_demo_events others lock_acquired cutoff batch_size max_events db =
     (case cutoff of
        Naive _ \<Rightarrow> Inl (ValueError ''cutoff must be timezone-aware'')
      | Aware instant \<Rightarrow>
          if batch_size < 1 then Inl (ValueError ''batch_size must be at least one'')
          else if max_events < 1 then Inl (ValueError ''max_events must be at least one'')
          else if \<not> lock_acquired
          then Inr (\<lparr>cl_lock_acquired = False, cl_deleted_events = 0, cl_batches = 0\<rparr>, db)
          else
            (case purge_loop others instant batch_size max_events 0 0 db of
               Inl e \<Rightarrow> Inl e
             | Inr (deleted_events, batches, db') \<Rightarrow>
                 Inr (\<lparr>cl_lock_acquired = True, cl_deleted_events = deleted_events, cl_batches = batches\<rparr>, db')))"

definition run_cleanup ::
    "settings \<Rightarrow> datetime \<Rightarrow> (int \<Rightarrow> db \<Rightarrow> db) \<Rightarrow> bool \<Rightarrow> db \<Rightarrow> (cleanup_result \<times> db) res" where
  "run_cleanup s now others lock_acquired db =
     purge_expired_demo_events others lock_acquired
       (Aware (now - retention_days s * 86400 * 1000000))
       (retention_batch_size s) (retention_max_events_per_run s) db"

section \<open>What a batch removes\<close>

definition expired :: "datetime \<Rightarrow> db \<Rightarrow> event \<Rightarrow> bool" where
  "expired cutoff db e \<longleftrightarrow> ev_created_at e < cutoff \<and>
     (\<forall>d \<in> set (db_deliveries db). dl_event_id d = ev_id e \<longrightarrow> \<not> is_active d)"

definition without :: "uuid set \<Rightarrow> db \<Rightarrow> db" where
  "without I db = db\<lparr>db_events := filter (\<lambda>e. ev_id e \<notin> I) (db_events db),
     db_deliveries := filter (\<lambda>d. dl_event_id d \<notin> I) (db_deliveries db),
     db_attempts := filter (\<lambda>a. \<exists>d \<in> set (db_deliveries db). dl_event_id d \<notin> I \<and> dl_id d = at_delivery_id a)
       (db_attempts db)\<rparr>"

lemma has_active_delivery_iff:
  "has_active_delivery db e \<longleftrightarrow> (\<exists>d \<in> set (db_deliveries db). dl_event_id d = ev_id e \<and> is_active d)"
  by (auto simp: has_active_delivery_def list_ex_iff is_active_def active_status_def ACTIVE_DELIVERY_STATUSES_def)

lemma expired_iff: "expired cutoff db e \<longleftrightarrow> ev_created_at e < cutoff \<and> \<not> has_active_delivery db e"
  by (auto simp: expired_def has_active_delivery_iff)

lemma without_sel [simp]:
  "db_endpoints (without I db) = db_endpoints db"
  "set (db_events (without I db)) = {e \<in> set (db_events db). ev_id e \<notin> I}"
  "set (db_deliveries (without I db)) = {d \<in> set (db_deliveries db). dl_event_id d \<notin> I}"
  by (auto simp: without_def)

lemma without_without: "without I (without J db) = without (I \<union> J) db"
  by (rule db.equality) (auto simp: without_def intro!: filter_cong)

lemma without_none: "db_ok db \<Longrightarrow> without {} db = db"
proof -
  assume ok: "db_ok db"
  have "\<forall>a \<in> set (db_attempts db). \<exists>d \<in> set (db_deliveries db). dl_id d = at_delivery_id a"
    using db_okD(5)[OF ok] unfolding foreign_keys_ok_def list_all_iff by (metis imageE)
  then have "filter (\<lambda>a. \<exists>d \<in> set (db_deliveries db). dl_id d = at_delivery_id a) (db_attempts db) = db_attempts db"
    by (simp add: filter_id_conv)
  then show ?thesis by (simp add: without_def)
qed

lemma expired_without:
  "ev_id e \<notin> I \<Longrightarrow> expired cutoff (without I db) e \<longleftrightarrow> expired cutoff db e"
  by (auto simp: expired_def)

lemma attempts_for_without:
  assumes "db_ok db" "d \<in> set (db_deliveries db)" "dl_event_id d \<notin> I"
  shows "attempts_for (dl_id d) (without I db) = attempts_for (dl_id d) db"
  using assms by (auto simp: attempts_for_def without_def)

text \<open>Parents share the event of their child, so removing whole events breaks no reference.\<close>

lemma parent_same_event:
  assumes "db_ok db" "chain_ok cd db" "d \<in> set (db_deliveries db)" "dl_replayed_from_delivery_id d = Some p"
  obtains x where "x \<in> set (db_deliveries db)" "dl_id x = p" "dl_event_id x = dl_event_id d"
  using chain_okD(2)[OF assms(2,3)] assms(4) by (auto simp: generation_ok_def chain_key_def)

lemma parent_kept:
  assumes "db_ok db" "chain_ok cd db" "d \<in> set (db_deliveries db)" "dl_event_id d \<notin> I"
  shows "null_or (\<lambda>p. p \<in> dl_id ` {x \<in> set (db_deliveries db). dl_event_id x \<notin> I}) (dl_replayed_from_delivery_id d)"
proof (cases "dl_replayed_from_delivery_id d")
  case (Some p)
  obtain x where "x \<in> set (db_deliveries db)" "dl_id x = p" "dl_event_id x = dl_event_id d"
    by (rule parent_same_event[OF assms(1-3) Some])
  then show ?thesis using Some assms(4) by (auto simp: null_or_def)
qed (simp add: null_or_def)

lemma without_foreign_keys:
  assumes ok: "db_ok db" "chain_ok cd db"
  shows "foreign_keys_ok (without I db)"
proof -
  have "null_or (\<lambda>p. p \<in> dl_id ` set (db_deliveries (without I db))) (dl_replayed_from_delivery_id d)"
    if "d \<in> set (db_deliveries db)" "dl_event_id d \<notin> I" for d
    using parent_kept[OF ok that] by simp
  moreover have "dl_event_id d \<in> ev_id ` set (db_events (without I db))"
    "dl_endpoint_id d \<in> ep_id ` set (db_endpoints (without I db))"
    if "d \<in> set (db_deliveries db)" "dl_event_id d \<notin> I" for d
    using db_okD(5)[OF ok(1)] that by (auto simp: foreign_keys_ok_def list_all_iff)
  moreover have "at_delivery_id a \<in> dl_id ` set (db_deliveries (without I db))" if "a \<in> set (db_attempts (without I db))" for a
    using that by (fastforce simp: without_def image_iff)
  ultimately show ?thesis unfolding foreign_keys_ok_def list_all_iff by simp
qed

lemma without_db_ok:
  assumes ok: "db_ok db" "chain_ok cd db"
  shows "db_ok (without I db)"
proof -
  note D = db_okD[OF ok(1), unfolded events_ok_def deliveries_ok_def attempts_ok_def]
  have "events_ok (db_events (without I db))" "deliveries_ok (db_deliveries (without I db))"
    "attempts_ok (db_attempts (without I db))"
    using D by (auto simp: events_ok_def deliveries_ok_def attempts_ok_def without_def list_all_iff distinct_map_filter
        intro!: unique_where_filter)
  then show ?thesis using D(1) without_foreign_keys[OF ok] by (simp add: db_ok_def)
qed

lemma without_keeps:
  assumes ok: "ledger_ok m db" "chain_ok cd db"
  shows "ledger_ok m (without I db)" "chain_ok cd (without I db)"
proof -
  note dbok = ledger_okD(1)[OF ok(1)]
  show "ledger_ok m (without I db)"
    unfolding ledger_ok_def
    using without_db_ok[OF dbok ok(2)] ledger_okD(2)[OF ok(1)] attempts_for_without[OF dbok] by auto
  have "generation_ok (set (db_deliveries (without I db))) d"
    if "d \<in> set (db_deliveries db)" "dl_event_id d \<notin> I" for d
    using chain_okD(2)[OF ok(2) that(1)] that(2) by (fastforce simp: generation_ok_def chain_key_def)
  moreover have "event_accepted cd (set (db_deliveries (without I db))) e"
    if "e \<in> set (db_events db)" "ev_id e \<notin> I" for e
    using chain_okD(1)[OF ok(2) that(1)] that(2) by (auto simp: event_accepted_def initial_of_def)
  ultimately show "chain_ok cd (without I db)" by (simp add: chain_ok_def)
qed

section \<open>A serial run\<close>

lemma delete_deliveries_result:
  assumes ok: "db_ok db" "chain_ok cd db"
  shows "delete_deliveries ids db = Inr ((without (set ids) db)\<lparr>db_events := db_events db\<rparr>)"
proof -
  let ?kept = "filter (\<lambda>d. dl_event_id d \<notin> set ids) (db_deliveries db)"
  have "null_or (\<lambda>p. p \<in> dl_id ` set ?kept) (dl_replayed_from_delivery_id d)" if "d \<in> set ?kept" for d
    using parent_kept[OF ok, of d "set ids"] that by simp
  moreover have "at_delivery_id a \<in> dl_id ` set ?kept \<longleftrightarrow>
      (\<exists>d \<in> set (db_deliveries db). dl_event_id d \<notin> set ids \<and> dl_id d = at_delivery_id a)" for a :: delivery_attempt
    by (auto simp: image_iff)
  then have "db\<lparr>db_deliveries := ?kept, db_attempts := filter (\<lambda>a. at_delivery_id a \<in> dl_id ` set ?kept) (db_attempts db)\<rparr> =
      (without (set ids) db)\<lparr>db_events := db_events db\<rparr>"
    by (intro db.equality) (simp_all add: without_def del: set_filter)
  ultimately show ?thesis by (simp add: delete_deliveries_def Let_def list_all_iff del: set_filter)
qed

lemma delete_events_result:
  "delete_events ids ((without (set ids) db)\<lparr>db_events := db_events db\<rparr>) =
     Inr (map ev_id (filter (\<lambda>e. ev_id e \<in> set ids) (db_events db)), without (set ids) db)"
  by (auto simp: delete_events_def without_def list_ex_iff)

lemma candidate_events_sub:
  assumes "i \<in> set (candidate_events cutoff limit db)"
  shows "\<exists>e \<in> set (db_events db). ev_id e = i \<and> expired cutoff db e"
  using assms by (auto simp: candidate_events_def expired_iff dest!: in_set_takeD)

lemma candidate_events_distinct:
  assumes "db_ok db"
  shows "distinct (candidate_events cutoff limit db)" "length (candidate_events cutoff limit db) \<le> limit"
    "candidate_events cutoff limit db = [] \<longleftrightarrow> limit = 0 \<or> (\<forall>e \<in> set (db_events db). \<not> expired cutoff db e)"
proof -
  define rows where "rows = filter (\<lambda>e. ev_created_at e < cutoff \<and> \<not> has_active_delivery db e) (db_events db)"
  define es where "es = order_by (\<lambda>e :: event. (ev_created_at e, ev_id e)) rows"
  have ce: "candidate_events cutoff limit db = take limit (map ev_id es)"
    by (simp add: candidate_events_def es_def rows_def take_map)
  have "distinct (map ev_id rows)" using db_okD(7)[OF assms] by (simp add: rows_def distinct_map_filter)
  moreover have "mset (map ev_id es) = mset (map ev_id rows)" by (simp add: es_def order_by_def)
  ultimately have "distinct (map ev_id es)" using mset_eq_imp_distinct_iff by blast
  then show "distinct (candidate_events cutoff limit db)" by (simp add: ce distinct_take)
  show "length (candidate_events cutoff limit db) \<le> limit" by (simp add: ce)
  show "candidate_events cutoff limit db = [] \<longleftrightarrow> limit = 0 \<or> (\<forall>e \<in> set (db_events db). \<not> expired cutoff db e)"
    by (auto simp: ce es_def rows_def expired_iff filter_empty_conv)
qed

lemma batch_result:
  assumes ok: "db_ok db" "chain_ok cd db"
  shows "delete_terminal_event_batch (\<lambda>x. x) cutoff limit db =
    Inr (length (candidate_events cutoff limit db), without (set (candidate_events cutoff limit db)) db)"
proof -
  let ?ids = "candidate_events cutoff limit db"
  have "length (filter (\<lambda>e. ev_id e \<in> set ?ids) (db_events db)) = card (set ?ids)"
  proof -
    have "set (map ev_id (filter (\<lambda>e. ev_id e \<in> set ?ids) (db_events db))) = set ?ids"
      using candidate_events_sub[of _ cutoff limit db] by (auto simp: image_iff)
    moreover have "distinct (map ev_id (filter (\<lambda>e. ev_id e \<in> set ?ids) (db_events db)))"
      using db_okD(7)[OF ok(1)] by (simp add: distinct_map_filter)
    ultimately show ?thesis by (metis distinct_card length_map)
  qed
  moreover have "card (set ?ids) = length ?ids"
    using candidate_events_distinct(1)[OF ok(1)] by (rule distinct_card)
  ultimately show ?thesis using without_none[OF ok(1)]
    by (auto simp: delete_terminal_event_batch_def Let_def delete_deliveries_result[OF ok] delete_events_result)
qed

text \<open>
  What a run has removed when it stops: only expired events, as many as it says and no more
  than allowed, and all of them unless it stopped at the bound.
\<close>

definition purged :: "datetime \<Rightarrow> int \<Rightarrow> db \<Rightarrow> int \<Rightarrow> db \<Rightarrow> bool" where
  "purged cutoff room db n db' \<longleftrightarrow>
     (\<exists>I. db' = without I db \<and> (\<forall>i \<in> I. \<exists>e \<in> set (db_events db). ev_id e = i \<and> expired cutoff db e) \<and>
        finite I \<and> n = int (card I) \<and> n \<le> room \<and>
        (n < room \<longrightarrow> (\<forall>e \<in> set (db_events db'). \<not> expired cutoff db' e)))"

lemma purge_loop_result:
  assumes "ledger_ok m db" "chain_ok cd db" "1 \<le> bs" "deleted \<le> mx"
  shows "\<exists>n b db'. purge_loop (\<lambda>_ x. x) cutoff bs mx deleted batches db = Inr (deleted + n, b, db') \<and>
    purged cutoff (mx - deleted) db n db'"
  using assms
proof (induction "nat (mx - deleted)" arbitrary: deleted batches db rule: less_induct)
  case less
  note ok = ledger_okD(1)[OF less.prems(1)] less.prems(2)
  let ?limit = "nat (min bs (mx - deleted))"
  let ?ids = "candidate_events cutoff ?limit db"
  note step = batch_result[OF ok, of cutoff ?limit]
  show ?case
  proof (cases "deleted < mx")
    case False
    then have "purged cutoff (mx - deleted) db 0 db"
      using less.prems(4) without_none[OF ok(1)] unfolding purged_def by (intro exI[of _ "{}"]) auto
    then show ?thesis using False by (subst purge_loop.simps) auto
  next
    case lt: True
    then have lim: "?limit \<noteq> 0" using less.prems(3) by simp
    show ?thesis
    proof (cases "?ids = []")
      case True
      then have "purged cutoff (mx - deleted) db 0 db"
        using candidate_events_distinct(3)[OF ok(1), of cutoff ?limit] lim lt without_none[OF ok(1)]
        unfolding purged_def by (intro exI[of _ "{}"]) auto
      then show ?thesis using lt step True without_none[OF ok(1)] by (subst purge_loop.simps) auto
    next
      case False
      define db1 where "db1 = without (set ?ids) db"
      define k where "k = int (length ?ids)"
      have k: "0 < k" "k \<le> mx - deleted"
        using False candidate_events_distinct(2)[OF ok(1), of cutoff ?limit] lt by (auto simp: k_def)
      have "nat (mx - (deleted + k)) < nat (mx - deleted)" using k lt by simp
      from less.hyps[OF this _ _ less.prems(3), of db1] k without_keeps[OF less.prems(1,2)]
      obtain n b db' where IH: "purge_loop (\<lambda>_ x. x) cutoff bs mx (deleted + k) (batches + 1) db1 = Inr (deleted + k + n, b, db')"
        "purged cutoff (mx - (deleted + k)) db1 n db'" unfolding db1_def by fastforce
      have "purge_loop (\<lambda>_ x. x) cutoff bs mx deleted batches db = Inr (deleted + (k + n), b, db')"
        using lt step False IH(1) by (subst purge_loop.simps) (simp add: db1_def k_def algebra_simps)
      moreover have "purged cutoff (mx - deleted) db (k + n) db'"
      proof -
        obtain I where I: "db' = without I db1" "\<forall>i \<in> I. \<exists>e \<in> set (db_events db1). ev_id e = i \<and> expired cutoff db1 e"
          "finite I" "n = int (card I)" "n \<le> mx - (deleted + k)"
          "n < mx - (deleted + k) \<longrightarrow> (\<forall>e \<in> set (db_events db'). \<not> expired cutoff db' e)"
          using IH(2) unfolding purged_def by blast
        have disj: "I \<inter> set ?ids = {}" using I(2) by (auto simp: db1_def)
        have card: "k + n = int (card (I \<union> set ?ids))"
          using disj I(3,4) candidate_events_distinct(1)[OF ok(1)] by (simp add: card_Un_disjoint k_def distinct_card)
        have sub: "\<forall>i \<in> I \<union> set ?ids. \<exists>e \<in> set (db_events db). ev_id e = i \<and> expired cutoff db e"
          using I(2) candidate_events_sub[of _ cutoff ?limit db] expired_without[of _ "set ?ids" cutoff db]
          by (fastforce simp: db1_def)
        show ?thesis unfolding purged_def
          using card sub I by (intro exI[of _ "I \<union> set ?ids"]) (auto simp: db1_def without_without)
      qed
      ultimately show ?thesis by blast
    qed
  qed
qed

lemma purged_keeps:
  assumes ok: "ledger_ok m db" "chain_ok cd db" and p: "purged cutoff room db n db'"
  shows "ledger_ok m db'" "chain_ok cd db'"
    "d \<in> set (db_deliveries db) \<Longrightarrow> is_active d \<Longrightarrow> d \<in> set (db_deliveries db')"
    "e \<in> set (db_events db) \<Longrightarrow> cutoff \<le> ev_created_at e \<Longrightarrow> e \<in> set (db_events db')"
proof -
  obtain I where I: "db' = without I db" "\<forall>i \<in> I. \<exists>e \<in> set (db_events db). ev_id e = i \<and> expired cutoff db e"
    using p unfolding purged_def by blast
  show "ledger_ok m db'" "chain_ok cd db'" unfolding I(1) by (rule without_keeps[OF ok])+
  show "d \<in> set (db_deliveries db')" if "d \<in> set (db_deliveries db)" "is_active d"
    using I(2) that by (auto simp: I(1) expired_def)
  show "e \<in> set (db_events db')" if "e \<in> set (db_events db)" "cutoff \<le> ev_created_at e"
  proof -
    have "ev_id e \<notin> I"
    proof
      assume "ev_id e \<in> I"
      then obtain x where "x \<in> set (db_events db)" "ev_id x = ev_id e" "expired cutoff db x" using I(2) by blast
      then show False using event_id_unique[OF ledger_okD(1)[OF ok(1)] that(1)] that(2) by (force simp: expired_def)
    qed
    then show ?thesis using that(1) by (simp add: I(1))
  qed
qed

end
