(* ===== verification/Transitions.thy ===== *)
theory Transitions
  imports Prelude
begin

text \<open>
  Transition systems: an invariant of the initial states that every step keeps holds in every
  reachable state, and a relation that every step establishes holds along every run.  The
  service (System) and the Receiver Lab are the two instances.
\<close>

locale transition_system =
  fixes init :: "'s \<Rightarrow> bool" and step :: "'s \<Rightarrow> 's \<Rightarrow> bool" and inv :: "'s \<Rightarrow> bool"
  assumes inv_init: "init s \<Longrightarrow> inv s"
    and inv_step: "inv s \<Longrightarrow> step s s' \<Longrightarrow> inv s'"
begin

lemma inv_steps: "step\<^sup>*\<^sup>* s s' \<Longrightarrow> inv s \<Longrightarrow> inv s'"
  by (induction rule: rtranclp_induct) (auto intro: inv_step)

lemma reachable_inv: "init s \<Longrightarrow> step\<^sup>*\<^sup>* s s' \<Longrightarrow> inv s'"
  using inv_init inv_steps by blast

end

text \<open>A relation between the states of a run that holds across every step and composes.\<close>

locale evolving_system = transition_system +
  fixes evolves :: "'a \<Rightarrow> 'a \<Rightarrow> bool"
  assumes evolves_refl: "evolves s s"
    and evolves_trans: "inv s \<Longrightarrow> evolves s t \<Longrightarrow> evolves t u \<Longrightarrow> evolves s u"
    and evolves_step: "inv s \<Longrightarrow> step s t \<Longrightarrow> evolves s t"
begin

lemma evolves_steps:
  assumes "step\<^sup>*\<^sup>* s t" "inv s"
  shows "evolves s t"
  using assms(1)
proof (induction rule: rtranclp_induct)
  case base
  show ?case by (rule evolves_refl)
next
  case (step t u)
  then show ?case using evolves_trans[OF assms(2)] evolves_step inv_steps assms(2) by blast
qed

end

end
