(* ===== verification/System.thy ===== *)
theory System
  imports Maintenance Transitions
begin

text \<open>
  The whole service as a transition system: publishers, operators, any number of workers and
  the retention job run concurrently, one committed transaction at a time, over one database.
  Requests in flight and the candidates of a running retention batch are part of the state, so
  every interleaving of a claim, its HTTP request, its result, a crash and the other
  transactions is a sequence of steps.  \<open>sy_used\<close> are the identifiers \<open>uuid4()\<close> has returned.
\<close>

section \<open>States and steps\<close>

record system =
  sy_db :: db
  sy_inflight :: "(worker \<times> outbound_webhook) list"
  sy_candidates :: "uuid list"
  sy_used :: "uuid set"

definition initial :: "system \<Rightarrow> bool" where
  "initial s \<longleftrightarrow> sy_db s = empty_db \<and> sy_inflight s = [] \<and> sy_candidates s = []"

text \<open>The workers of a deployment share one configuration, so one budget \<open>m\<close>.\<close>

definition deployed :: "int \<Rightarrow> worker \<Rightarrow> bool" where
  "deployed m w \<longleftrightarrow> worker_ok w \<and> max_attempts (wk_retry_policy w) = m"

definition sent :: "worker \<Rightarrow> claim option \<Rightarrow> (worker \<times> outbound_webhook) list" where
  "sent w r = (case r of Some (Webhook h) \<Rightarrow> [(w, h)] | _ \<Rightarrow> [])"

inductive step :: "codec \<Rightarrow> int \<Rightarrow> system \<Rightarrow> system \<Rightarrow> bool" for cd m where
  step_register:
    "create_endpoint url secret i t u request (sy_db s) = Inr (created, db') \<Longrightarrow> i \<notin> sy_used s \<Longrightarrow>
     step cd m s (s\<lparr>sy_db := db', sy_used := insert i (sy_used s)\<rparr>)"
| step_operator:
    "e \<in> set (db_endpoints (sy_db s)) \<Longrightarrow>
     step cd m s (s\<lparr>sy_db := (sy_db s)\<lparr>db_endpoints :=
       update_row ep_id (e\<lparr>ep_enabled := enabled\<rparr>) (db_endpoints (sy_db s))\<rparr>\<rparr>)"
| step_publish:
    "publish_pre cd env r key (sy_db s) \<Longrightarrow> pu_event_id env \<notin> sy_used s \<Longrightarrow> pu_delivery_id env \<notin> sy_used s \<Longrightarrow>
     run_tx (publish cd env r key) (sy_db s) = (out, db') \<Longrightarrow>
     step cd m s (s\<lparr>sy_db := db', sy_used := sy_used s \<union> {pu_event_id env, pu_delivery_id env}\<rparr>)"
| step_replay:
    "replay_pre cd env key (sy_db s) \<Longrightarrow> rp_delivery_id env \<notin> sy_used s \<Longrightarrow>
     run_tx (replay cd env i key) (sy_db s) = (out, db') \<Longrightarrow>
     step cd m s (s\<lparr>sy_db := db', sy_used := insert (rp_delivery_id env) (sy_used s)\<rparr>)"
| step_claim:
    "deployed m w \<Longrightarrow> ce_lease_token env \<notin> sy_used s \<Longrightarrow> ce_attempt_id env \<notin> sy_used s \<Longrightarrow>
     claim_one w env (sy_db s) = Inr (r, db') \<Longrightarrow>
     step cd m s (s\<lparr>sy_db := db', sy_inflight := sent w r @ sy_inflight s,
       sy_used := sy_used s \<union> {ce_lease_token env, ce_attempt_id env}\<rparr>)"
| step_finalize:
    "(w, h) \<in> set (sy_inflight s) \<Longrightarrow> 0 \<le> rf \<Longrightarrow> rf \<le> 1 \<Longrightarrow> result_storable r \<Longrightarrow>
     run_tx (finalize w h r rf now) (sy_db s) = (out, db') \<Longrightarrow>
     step cd m s (s\<lparr>sy_db := db', sy_inflight := remove1 (w, h) (sy_inflight s)\<rparr>)"
| step_lost:
    "step cd m s (s\<lparr>sy_inflight := remove1 wh (sy_inflight s)\<rparr>)"
| step_retention_select:
    "step cd m s (s\<lparr>sy_candidates := candidate_events cutoff limit (sy_db s)\<rparr>)"
| step_retention_delete:
    "delete_deliveries (sy_candidates s) (sy_db s) = Inr db1 \<Longrightarrow>
     delete_events (sy_candidates s) db1 = Inr (deleted, db2) \<Longrightarrow>
     step cd m s (s\<lparr>sy_db := db2, sy_candidates := []\<rparr>)"

inductive_cases step_cases: "step cd m s s'"

text \<open>
  The invariant: a sound ledger, sound chains, and every request in flight still names the
  evidence it was reserved with.
\<close>

definition db_ids :: "db \<Rightarrow> uuid set" where
  "db_ids db = ep_id ` set (db_endpoints db) \<union> ev_id ` set (db_events db) \<union> dl_id ` set (db_deliveries db) \<union>
     at_id ` set (db_attempts db) \<union> at_lease_token ` set (db_attempts db)"

definition inflight_ok :: "int \<Rightarrow> system \<Rightarrow> worker \<times> outbound_webhook \<Rightarrow> bool" where
  "inflight_ok m s wh \<longleftrightarrow> deployed m (fst wh) \<and> genuine (snd wh) (sy_db s) \<and>
     1 \<le> ow_attempt_number (snd wh) \<and> ow_lease_token (snd wh) \<in> sy_used s"

definition system_inv :: "codec \<Rightarrow> int \<Rightarrow> system \<Rightarrow> bool" where
  "system_inv cd m s \<longleftrightarrow> ledger_ok m (sy_db s) \<and> chain_ok cd (sy_db s) \<and> db_ids (sy_db s) \<subseteq> sy_used s \<and>
     (\<forall>wh \<in> set (sy_inflight s). inflight_ok m s wh)"

section \<open>What the transactions do to identities\<close>

text \<open>The identity of an attempt row: what \<open>genuine\<close> reads.\<close>

definition attempt_identity :: "delivery_attempt \<Rightarrow> uuid \<times> uuid \<times> int \<times> uuid" where
  "attempt_identity a = (at_id a, at_delivery_id a, at_attempt_number a, at_lease_token a)"

lemma genuine_mono:
  assumes "genuine h db" "\<And>a. a \<in> set (db_attempts db') \<Longrightarrow>
    attempt_identity a \<in> attempt_identity ` set (db_attempts db) \<or> at_lease_token a \<noteq> ow_lease_token h"
  shows "genuine h db'"
  unfolding genuine_def
proof (intro ballI impI)
  fix a assume a: "a \<in> set (db_attempts db')" "at_lease_token a = ow_lease_token h"
  then obtain b where "b \<in> set (db_attempts db)" "attempt_identity a = attempt_identity b" using assms(2) by blast
  then show "at_id a = ow_attempt_id h \<and> at_delivery_id a = ow_delivery_id h \<and> at_attempt_number a = ow_attempt_number h"
    using assms(1) a(2) by (auto simp: genuine_def attempt_identity_def)
qed

lemma attempt_identity_update:
  assumes "a \<in> set rows" "attempt_identity a' = attempt_identity a" "x \<in> set (update_row at_id a' rows)"
  shows "attempt_identity x \<in> attempt_identity ` set rows"
  using assms by (auto simp: row_simps attempt_identity_def split: if_splits)

lemma claimed_identities:
  assumes "x \<in> set (db_attempts (claimed_db w env d db))"
  shows "x \<in> set (db_attempts db) \<or> x = reserved_attempt env (reserved_delivery w env d)"
  using assms by (auto simp: claimed_db_def row_simps)

section \<open>How a table evolves\<close>

text \<open>
  Between two states of a run a frozen row (\<open>F\<close>) stays as it is or disappears, and a key that
  was in use and is not in the table does not come back.
\<close>

definition table_evolves :: "('r \<Rightarrow> uuid) \<Rightarrow> ('r \<Rightarrow> bool) \<Rightarrow> uuid set \<Rightarrow> 'r list \<Rightarrow> 'r list \<Rightarrow> bool" where
  "table_evolves key F U rows rows' \<longleftrightarrow>
     (\<forall>r \<in> set rows. F r \<longrightarrow> r \<in> set rows' \<or> key r \<notin> key ` set rows') \<and>
     key ` set rows' \<subseteq> key ` set rows \<union> - U"

lemma table_evolves_refl: "table_evolves key F U rows rows"
  by (auto simp: table_evolves_def)

lemma table_evolves_trans:
  assumes "key ` set rows \<subseteq> U" "U \<subseteq> V" "table_evolves key F U rows rows1" "table_evolves key F V rows1 rows2"
  shows "table_evolves key F U rows rows2"
  unfolding table_evolves_def
proof (intro conjI ballI impI)
  show "key ` set rows2 \<subseteq> key ` set rows \<union> - U" using assms(2-4) unfolding table_evolves_def by blast
  fix r assume r: "r \<in> set rows" "F r"
  then consider "r \<in> set rows1" | "key r \<notin> key ` set rows1" using assms(3) unfolding table_evolves_def by blast
  then show "r \<in> set rows2 \<or> key r \<notin> key ` set rows2"
  proof cases
    case 1
    then show ?thesis using r(2) assms(4) unfolding table_evolves_def by blast
  next
    case 2
    moreover have "key r \<in> V" using r(1) assms(1,2) by blast
    ultimately show ?thesis using assms(4) unfolding table_evolves_def by blast
  qed
qed

lemma table_evolves_update:
  assumes "distinct (map key rows)" "d \<in> set rows" "\<not> F d" "key d' = key d"
  shows "table_evolves key F U rows (update_row key d' rows)"
proof -
  have "key ` set (update_row key d' rows) = key ` set rows" by (metis image_set map_key_update_row)
  moreover have "r \<in> set (update_row key d' rows)" if "r \<in> set rows" "F r" for r
  proof -
    have "key r \<noteq> key d'" using that assms by (metis distinct_map inj_onD)
    then show ?thesis using that(1) by (auto simp: row_simps)
  qed
  ultimately show ?thesis by (simp add: table_evolves_def)
qed

lemma table_evolves_insert: "key r \<notin> U \<Longrightarrow> table_evolves key F U rows (insert_row r rows)"
  by (auto simp: table_evolves_def row_simps)

lemma table_evolves_filter:
  assumes "distinct (map key rows)"
  shows "table_evolves key F U rows (filter P rows)"
proof -
  have "key r \<notin> key ` set (filter P rows)" if "r \<in> set rows" "r \<notin> set (filter P rows)" for r
  proof
    assume "key r \<in> key ` set (filter P rows)"
    then obtain x where "x \<in> set (filter P rows)" "key x = key r" by force
    then show False using that assms by (metis distinct_map filter_is_subset inj_onD subsetD)
  qed
  then show ?thesis unfolding table_evolves_def by fastforce
qed

section \<open>The worker's transactions\<close>

lemma due_is_active: "first_due env db d \<Longrightarrow> is_active d"
  by (auto simp: first_due_def claimable_def due_def is_active_def)

text \<open>A transaction of the worker changes at most one delivery, an active one, and not its identity.\<close>

definition touches_one :: "db \<Rightarrow> db \<Rightarrow> bool" where
  "touches_one db db' \<longleftrightarrow> db_events db' = db_events db \<and> db_endpoints db' = db_endpoints db \<and>
     (db_deliveries db' = db_deliveries db \<or>
      (\<exists>d \<in> set (db_deliveries db). \<exists>d'. is_active d \<and> same_identity d d' \<and>
         db_deliveries db' = update_row dl_id d' (db_deliveries db)))"

lemma touches_oneI:
  "d \<in> set (db_deliveries db) \<Longrightarrow> is_active d \<Longrightarrow> same_identity d d' \<Longrightarrow>
   db_deliveries db' = update_row dl_id d' (db_deliveries db) \<Longrightarrow> db_events db' = db_events db \<Longrightarrow>
   db_endpoints db' = db_endpoints db \<Longrightarrow> touches_one db db'"
  unfolding touches_one_def by blast

lemma first_dueD: "first_due env db d \<Longrightarrow> d \<in> set (db_deliveries db)" "first_due env db d \<Longrightarrow> is_active d"
  by (auto simp: first_due_def due_is_active)

lemma claim_touches_one:
  assumes "claim_spec w env db r db'"
  shows "touches_one db db'"
  using assms
proof cases
  case claim_idle
  then show ?thesis by (simp add: touches_one_def)
next
  case (claim_refused d e reason)
  show ?thesis by (rule touches_oneI[OF first_dueD[OF claim_refused(3)] dead_letter_same_identity(1)])
      (simp_all add: claim_refused(2))
next
  case (claim_due d e ev)
  show ?thesis by (rule touches_oneI[OF first_dueD[OF claim_due(3)] reserved_same_identity])
      (simp_all add: claim_due(2))
next
  case (claim_expired_dead d e a reason)
  show ?thesis by (rule touches_oneI[OF first_dueD[OF claim_expired_dead(3)] dead_letter_same_identity(3)])
      (simp_all add: claim_expired_dead(2))
next
  case (claim_expired_again d e ev a reason)
  have "same_identity d (reserved_delivery w env (note_expiry d reason))"
    by (simp add: same_identity_def reserved_delivery_def note_expiry_def)
  from touches_oneI[OF first_dueD[OF claim_expired_again(3)] this] show ?thesis
    by (simp add: claim_expired_again(2))
qed

lemma finalize_touches_one:
  assumes "finalize_spec w h r now db b db'"
  shows "touches_one db db'"
  using assms
proof cases
  case finalize_stale
  then show ?thesis by (simp add: touches_one_def)
next
  case (finalize_recorded d a target delay)
  show ?thesis
    by (rule touches_oneI[OF finalize_recorded(3) _ finalized_same_identity])
      (use finalize_recorded(4) in \<open>simp_all add: finalize_recorded(2) finalized_db_def owns_lease_def is_active_def\<close>)
qed

lemma touches_one_chain:
  assumes "chain_ok cd db" "db_ok db" "touches_one db db'"
  shows "chain_ok cd db'"
proof -
  have ev: "db_events db' = db_events db" using assms(3) by (simp add: touches_one_def)
  from assms(3) consider "db_deliveries db' = db_deliveries db"
    | d d' where "d \<in> set (db_deliveries db)" "is_active d" "same_identity d d'"
        "db_deliveries db' = update_row dl_id d' (db_deliveries db)" unfolding touches_one_def by blast
  then show ?thesis
  proof cases
    case 1
    then show ?thesis using assms(1) ev by (simp add: chain_ok_def)
  next
    case (2 d d')
    show ?thesis by (rule chain_ok_put[OF assms(1) 2(1,3) _ ev 2(4) assms(2)]) (use 2(2) in \<open>auto simp: is_active_def\<close>)
  qed
qed

lemma touches_one_evolves:
  assumes "db_ok db" "touches_one db db'"
  shows "table_evolves dl_id (\<lambda>d. \<not> is_active d) U (db_deliveries db) (db_deliveries db')"
    "dl_id ` set (db_deliveries db') = dl_id ` set (db_deliveries db)"
proof -
  from assms(2) consider "db_deliveries db' = db_deliveries db"
    | d d' where "d \<in> set (db_deliveries db)" "is_active d" "same_identity d d'"
        "db_deliveries db' = update_row dl_id d' (db_deliveries db)" unfolding touches_one_def by blast
  then have "table_evolves dl_id (\<lambda>d. \<not> is_active d) U (db_deliveries db) (db_deliveries db') \<and>
    dl_id ` set (db_deliveries db') = dl_id ` set (db_deliveries db)"
  proof cases
    case (2 d d')
    have "dl_id ` set (db_deliveries db') = dl_id ` set (db_deliveries db)"
      unfolding 2(4) by (metis image_set map_key_update_row)
    moreover have "dl_id d' = dl_id d" using 2(3) by (simp add: same_identity_def)
    ultimately show ?thesis unfolding 2(4) using table_evolves_update[OF db_okD(8)[OF assms(1)] 2(1)] 2(2) by simp
  qed (simp add: table_evolves_refl)
  then show "table_evolves dl_id (\<lambda>d. \<not> is_active d) U (db_deliveries db) (db_deliveries db')"
    "dl_id ` set (db_deliveries db') = dl_id ` set (db_deliveries db)" by simp_all
qed

section \<open>The attempts after a transaction of the worker\<close>

abbreviation closed :: "delivery_attempt \<Rightarrow> bool" where
  "closed a \<equiv> at_status a \<noteq> AT_IN_PROGRESS"

definition attempts_step :: "uuid set \<Rightarrow> uuid set \<Rightarrow> db \<Rightarrow> db \<Rightarrow> bool" where
  "attempts_step U N db db' \<longleftrightarrow> table_evolves at_id closed U (db_attempts db) (db_attempts db') \<and>
     (\<forall>a \<in> set (db_attempts db'). attempt_identity a \<in> attempt_identity ` set (db_attempts db) \<or>
        at_id a \<in> N \<and> at_lease_token a \<in> N)"

lemma attempts_step_same: "db_attempts db' = db_attempts db \<Longrightarrow> attempts_step U N db db'"
  by (auto simp: attempts_step_def table_evolves_refl)

lemma attempts_step_close:
  assumes "db_ok db" "a \<in> set (db_attempts db)" "\<not> closed a" "attempt_identity a' = attempt_identity a"
    "db_attempts db' = update_row at_id a' (db_attempts db)"
  shows "attempts_step U N db db'"
proof -
  have "at_id a' = at_id a" using assms(4) by (simp add: attempt_identity_def)
  then show ?thesis unfolding attempts_step_def assms(5)
    using table_evolves_update[OF db_okD(9)[OF assms(1)] assms(2)] assms(3)
      attempt_identity_update[OF assms(2,4)] by simp
qed

lemma attempts_step_reserve:
  assumes "attempts_step U N db db1" "at_id ` set (db_attempts db) \<subseteq> U" "ce_attempt_id env \<notin> U"
    "ce_attempt_id env \<in> N" "ce_lease_token env \<in> N"
  shows "attempts_step U N db (claimed_db w env d db1)"
proof -
  let ?a = "reserved_attempt env (reserved_delivery w env d)"
  have a: "at_id ?a = ce_attempt_id env" "at_lease_token ?a = ce_lease_token env" by (simp_all add: reserved_attempt_def)
  have rows: "db_attempts (claimed_db w env d db1) = insert_row ?a (db_attempts db1)" by (simp add: claimed_db_def)
  have "table_evolves at_id closed U (db_attempts db1) (insert_row ?a (db_attempts db1))"
    using a assms(3) by (intro table_evolves_insert) simp
  then have "table_evolves at_id closed U (db_attempts db) (insert_row ?a (db_attempts db1))"
    using assms(1,2) unfolding attempts_step_def by (blast intro: table_evolves_trans)
  then show ?thesis using assms(1,4,5) a unfolding attempts_step_def rows by (auto simp: row_simps)
qed

lemma attempts_forD: "a \<in> attempts_for i db \<Longrightarrow> a \<in> set (db_attempts db)"
  by (simp add: attempts_for_def)

lemma claim_attempts_step:
  assumes ok: "db_ok db" and spec: "claim_spec w env db r db'"
    and N: "N = {ce_lease_token env, ce_attempt_id env}" "ce_attempt_id env \<notin> U" "at_id ` set (db_attempts db) \<subseteq> U"
  shows "attempts_step U N db db'"
  using spec
proof cases
  case (claim_due d e ev)
  show ?thesis unfolding claim_due(2)
    by (rule attempts_step_reserve[OF attempts_step_same]) (use N in auto)
next
  case (claim_expired_dead d e a reason)
  show ?thesis
    by (rule attempts_step_close[OF ok attempts_forD[OF claim_expired_dead(7)], where a' = "indeterminate_attempt a reason (ce_now env)"])
      (use claim_expired_dead(8) in \<open>simp_all add: claim_expired_dead(2) expire_db_def holds_lease_def attempt_identity_def\<close>)
next
  case (claim_expired_again d e ev a reason)
  have "attempts_step U N db (expire_db (note_expiry d reason) a reason (ce_now env) db)"
    by (rule attempts_step_close[OF ok attempts_forD[OF claim_expired_again(9)], where a' = "indeterminate_attempt a reason (ce_now env)"])
      (use claim_expired_again(10) in \<open>simp_all add: expire_db_def holds_lease_def attempt_identity_def\<close>)
  then show ?thesis unfolding claim_expired_again(2) by (rule attempts_step_reserve) (use N in auto)
qed (auto intro: attempts_step_same)

lemma finalize_attempts_step:
  assumes ok: "db_ok db" and spec: "finalize_spec w h r now db b db'"
  shows "attempts_step U N db db'"
  using spec
proof cases
  case (finalize_recorded d a target delay)
  show ?thesis
    by (rule attempts_step_close[OF ok attempts_forD[OF finalize_recorded(5)],
          where a' = "completed_attempt a r (retry_at now delay) now"])
      (use finalize_recorded(6) in \<open>simp_all add: finalize_recorded(2) finalized_db_def holds_lease_def attempt_identity_def\<close>)
qed (auto intro: attempts_step_same)

text \<open>A fresh claim names the row it reserved.\<close>

lemma genuine_claimed:
  assumes "\<forall>a \<in> set (db_attempts db). at_lease_token a \<noteq> ce_lease_token env"
    "dl_id d1 = dl_id d" "dl_attempt_count d1 = dl_attempt_count d"
  shows "genuine (webhook_of env (reserved_delivery w env d) e ev) (claimed_db w env d1 db)"
  using assms by (auto simp: genuine_def claimed_db_def row_simps webhook_of_def reserved_attempt_def reserved_delivery_def)

lemma claim_genuine:
  assumes ok: "db_ok db" and fresh: "ce_lease_token env \<notin> at_lease_token ` set (db_attempts db)"
    and spec: "claim_spec w env db (Some (Webhook h)) db'"
  shows "genuine h db' \<and> 1 \<le> ow_attempt_number h \<and> ow_lease_token h = ce_lease_token env"
proof -
  have cnt: "0 \<le> dl_attempt_count d" if "first_due env db d" for d
    using delivery_row_okD[OF ok first_dueD(1)[OF that]] by (simp add: delivery_row_ok_def)
  have old: "at_lease_token a \<noteq> ce_lease_token env" if "a \<in> set (db_attempts db)" for a
    using fresh that by (metis imageI)
  show ?thesis using spec
  proof cases
    case (claim_due d e ev)
    have "genuine h db'" unfolding claim_due(1,2) using old by (intro genuine_claimed) auto
    then show ?thesis using cnt[OF claim_due(3)] by (simp add: claim_due(1) webhook_of_def reserved_delivery_def)
  next
    case (claim_expired_again d e ev a reason)
    have "\<forall>x \<in> set (db_attempts (expire_db (note_expiry d reason) a reason (ce_now env) db)).
        at_lease_token x \<noteq> ce_lease_token env"
      using old attempts_forD[OF claim_expired_again(9)] by (auto simp: expire_db_def row_simps)
    then have "genuine h db'" unfolding claim_expired_again(1,2) by (intro genuine_claimed) auto
    then show ?thesis using cnt[OF claim_expired_again(3)]
      by (simp add: claim_expired_again(1) webhook_of_def reserved_delivery_def)
  qed
qed

section \<open>One transaction of the system\<close>

definition db_step :: "codec \<Rightarrow> int \<Rightarrow> uuid set \<Rightarrow> uuid set \<Rightarrow> db \<Rightarrow> db \<Rightarrow> bool" where
  "db_step cd m U N db db' \<longleftrightarrow> ledger_ok m db' \<and> chain_ok cd db' \<and> attempts_step U N db db' \<and>
     table_evolves dl_id (\<lambda>d. \<not> is_active d) U (db_deliveries db) (db_deliveries db') \<and>
     table_evolves ev_id (\<lambda>_. True) U (db_events db) (db_events db') \<and>
     ep_id ` set (db_endpoints db') \<subseteq> ep_id ` set (db_endpoints db) \<union> N \<and>
     ev_id ` set (db_events db') \<subseteq> ev_id ` set (db_events db) \<union> N \<and>
     dl_id ` set (db_deliveries db') \<subseteq> dl_id ` set (db_deliveries db) \<union> N"

definition system_evolves :: "system \<Rightarrow> system \<Rightarrow> bool" where
  "system_evolves s s' \<longleftrightarrow> sy_used s \<subseteq> sy_used s' \<and>
     table_evolves dl_id (\<lambda>d. \<not> is_active d) (sy_used s) (db_deliveries (sy_db s)) (db_deliveries (sy_db s')) \<and>
     table_evolves at_id closed (sy_used s) (db_attempts (sy_db s)) (db_attempts (sy_db s')) \<and>
     table_evolves ev_id (\<lambda>_. True) (sy_used s) (db_events (sy_db s)) (db_events (sy_db s'))"

lemma db_ids_sub:
  "db_ids db \<subseteq> U \<longleftrightarrow> ep_id ` set (db_endpoints db) \<subseteq> U \<and> ev_id ` set (db_events db) \<subseteq> U \<and>
     dl_id ` set (db_deliveries db) \<subseteq> U \<and> at_id ` set (db_attempts db) \<subseteq> U \<and>
     at_lease_token ` set (db_attempts db) \<subseteq> U"
  by (auto simp: db_ids_def)

lemma attempts_step_ids:
  assumes "attempts_step U N db db'" "a \<in> set (db_attempts db')"
  shows "at_id a \<in> at_id ` set (db_attempts db) \<union> N \<and> at_lease_token a \<in> at_lease_token ` set (db_attempts db) \<union> N"
  using assms by (force simp: attempts_step_def attempt_identity_def)

lemma genuine_attempts_step:
  assumes "genuine h db" "attempts_step U N db db'" "ow_lease_token h \<notin> N"
  shows "genuine h db'"
  using assms(1)
proof (rule genuine_mono)
  fix a assume "a \<in> set (db_attempts db')"
  then show "attempt_identity a \<in> attempt_identity ` set (db_attempts db) \<or> at_lease_token a \<noteq> ow_lease_token h"
    using assms(2,3) unfolding attempts_step_def by metis
qed

lemma db_step_system:
  assumes inv: "system_inv cd m s" and st: "db_step cd m (sy_used s) N (sy_db s) (sy_db s')"
    and N: "N \<inter> sy_used s = {}" "sy_used s' = sy_used s \<union> N"
    and fl: "\<And>wh. wh \<in> set (sy_inflight s') \<Longrightarrow> wh \<in> set (sy_inflight s) \<or> inflight_ok m s' wh"
  shows "system_inv cd m s' \<and> system_evolves s s'"
proof -
  have ids: "db_ids (sy_db s) \<subseteq> sy_used s" and old: "\<And>wh. wh \<in> set (sy_inflight s) \<Longrightarrow> inflight_ok m s wh"
    using inv by (auto simp: system_inv_def)
  have at: "attempts_step (sy_used s) N (sy_db s) (sy_db s')" using st by (simp add: db_step_def)
  have "db_ids (sy_db s') \<subseteq> sy_used s'"
    unfolding db_ids_sub
  proof (intro conjI)
    have sub: "A \<subseteq> B \<union> N \<Longrightarrow> B \<subseteq> sy_used s \<Longrightarrow> A \<subseteq> sy_used s'" for A B using N(2) by blast
    have new: "ep_id ` set (db_endpoints (sy_db s')) \<subseteq> ep_id ` set (db_endpoints (sy_db s)) \<union> N"
      "ev_id ` set (db_events (sy_db s')) \<subseteq> ev_id ` set (db_events (sy_db s)) \<union> N"
      "dl_id ` set (db_deliveries (sy_db s')) \<subseteq> dl_id ` set (db_deliveries (sy_db s)) \<union> N"
      using st by (simp_all add: db_step_def)
    have new_at: "at_id ` set (db_attempts (sy_db s')) \<subseteq> at_id ` set (db_attempts (sy_db s)) \<union> N"
      "at_lease_token ` set (db_attempts (sy_db s')) \<subseteq> at_lease_token ` set (db_attempts (sy_db s)) \<union> N"
      using attempts_step_ids[OF at] by (simp_all only: image_subset_iff) simp_all
    have old: "ep_id ` set (db_endpoints (sy_db s)) \<subseteq> sy_used s" "ev_id ` set (db_events (sy_db s)) \<subseteq> sy_used s"
      "dl_id ` set (db_deliveries (sy_db s)) \<subseteq> sy_used s" "at_id ` set (db_attempts (sy_db s)) \<subseteq> sy_used s"
      "at_lease_token ` set (db_attempts (sy_db s)) \<subseteq> sy_used s"
      using ids by (simp_all add: db_ids_sub)
    show "ep_id ` set (db_endpoints (sy_db s')) \<subseteq> sy_used s'" by (rule sub[OF new(1) old(1)])
    show "ev_id ` set (db_events (sy_db s')) \<subseteq> sy_used s'" by (rule sub[OF new(2) old(2)])
    show "dl_id ` set (db_deliveries (sy_db s')) \<subseteq> sy_used s'" by (rule sub[OF new(3) old(3)])
    show "at_id ` set (db_attempts (sy_db s')) \<subseteq> sy_used s'" by (rule sub[OF new_at(1) old(4)])
    show "at_lease_token ` set (db_attempts (sy_db s')) \<subseteq> sy_used s'" by (rule sub[OF new_at(2) old(5)])
  qed
  moreover have "inflight_ok m s' wh" if "wh \<in> set (sy_inflight s')" for wh
    using fl[OF that] old[of wh] genuine_attempts_step[OF _ at] N by (auto simp: inflight_ok_def)
  ultimately show ?thesis using st N(2)
    by (simp add: system_inv_def db_step_def system_evolves_def attempts_step_def)
qed

text \<open>The transactions, one by one.\<close>

lemma worker_db_step:
  assumes "ledger_ok m db'" "db_ok db" "chain_ok cd db" "touches_one db db'" "attempts_step U N db db'"
  shows "db_step cd m U N db db'"
  using assms touches_one_chain[OF assms(3,2,4)] touches_one_evolves[OF assms(2,4)]
  by (simp add: db_step_def touches_one_def table_evolves_refl)

lemma accept_db_step:
  assumes "ledger_ok m db' \<and> chain_ok cd db'" "db_attempts db' = db_attempts db"
    "db_endpoints db' = db_endpoints db"
    "db_events db' = db_events db \<or> (\<exists>e. db_events db' = insert_row e (db_events db) \<and> ev_id e \<in> N)"
    "db_deliveries db' = db_deliveries db \<or> (\<exists>d. db_deliveries db' = insert_row d (db_deliveries db) \<and> dl_id d \<in> N)"
    "N \<inter> U = {}"
  shows "db_step cd m U N db db'"
proof -
  have N: "x \<in> N \<Longrightarrow> x \<notin> U" for x using assms(6) by blast
  have "table_evolves ev_id (\<lambda>_. True) U (db_events db) (db_events db') \<and>
      ev_id ` set (db_events db') \<subseteq> ev_id ` set (db_events db) \<union> N"
    using assms(4) N by (auto simp: row_simps table_evolves_refl table_evolves_insert)
  moreover have "table_evolves dl_id (\<lambda>d. \<not> is_active d) U (db_deliveries db) (db_deliveries db') \<and>
      dl_id ` set (db_deliveries db') \<subseteq> dl_id ` set (db_deliveries db) \<union> N"
    using assms(5) N by (auto simp: row_simps table_evolves_refl table_evolves_insert)
  ultimately show ?thesis using assms(1,3) attempts_step_same[OF assms(2)] by (auto simp: db_step_def)
qed

lemma publish_db_step:
  assumes "publish_pre cd env r key db" "ledger_ok m db" "0 \<le> m" "publish_spec cd env r key db out db'"
    "N = {pu_event_id env, pu_delivery_id env}" "N \<inter> U = {}"
  shows "db_step cd m U N db db'"
proof (rule accept_db_step[OF publish_spec_keeps[OF assms(1-4)]])
  show "db_events db' = db_events db \<or> (\<exists>e. db_events db' = insert_row e (db_events db) \<and> ev_id e \<in> N)"
    "db_deliveries db' = db_deliveries db \<or> (\<exists>d. db_deliveries db' = insert_row d (db_deliveries db) \<and> dl_id d \<in> N)"
    "db_attempts db' = db_attempts db" "db_endpoints db' = db_endpoints db"
    using assms(4) by (cases; auto simp: assms(5) candidate_event_def accepted_delivery_def)+
qed (rule assms(6))

lemma replay_db_step:
  assumes "replay_pre cd env key db" "ledger_ok m db" "0 \<le> m" "replay_spec cd env i key db out db'"
    "N = {rp_delivery_id env}" "N \<inter> U = {}"
  shows "db_step cd m U N db db'"
proof (rule accept_db_step[OF replay_spec_keeps[OF assms(1-4)]])
  show "db_events db' = db_events db \<or> (\<exists>e. db_events db' = insert_row e (db_events db) \<and> ev_id e \<in> N)"
    "db_deliveries db' = db_deliveries db \<or> (\<exists>d. db_deliveries db' = insert_row d (db_deliveries db) \<and> dl_id d \<in> N)"
    "db_attempts db' = db_attempts db" "db_endpoints db' = db_endpoints db"
    using assms(4) by (cases; auto simp: assms(5) successor_def)+
qed (rule assms(6))

lemma without_db_step:
  assumes "ledger_ok m db" "chain_ok cd db"
  shows "db_step cd m U {} db (without I db)"
proof -
  note ok = ledger_okD(1)[OF assms(1)]
  have "attempts_step U {} db (without I db)"
    using table_evolves_filter[OF db_okD(9)[OF ok]] by (auto simp: attempts_step_def without_def)
  moreover have "table_evolves dl_id (\<lambda>d. \<not> is_active d) U (db_deliveries db) (db_deliveries (without I db))"
    "table_evolves ev_id (\<lambda>_. True) U (db_events db) (db_events (without I db))"
    using table_evolves_filter[OF db_okD(8)[OF ok]] table_evolves_filter[OF db_okD(7)[OF ok]]
    by (simp_all add: without_def)
  ultimately show ?thesis using without_keeps[OF assms] by (auto simp: db_step_def)
qed

section \<open>Every step keeps the invariant\<close>

lemma register_db_step:
  assumes "ledger_ok m db" "chain_ok cd db" "create_endpoint url secret i t u request db = Inr (created, db')"
  shows "db_step cd m U {i} db db'"
proof -
  obtain e where e: "db' = add_endpoint e db" "ep_id e = i" "db_ok db'"
    using assms(3) by (auto simp: create_endpoint_def endpoint_create_def flush_def Let_def split: if_splits)
  then have "ledger_ok m db'" "chain_ok cd db'"
    using assms(1,2) by (auto simp: ledger_ok_def attempts_for_def chain_ok_def)
  then show ?thesis using e by (auto simp: db_step_def row_simps table_evolves_refl intro: attempts_step_same)
qed

lemma operator_db_step:
  assumes "ledger_ok m db" "chain_ok cd db" "e \<in> set (db_endpoints db)"
    "db' = db\<lparr>db_endpoints := update_row ep_id (e\<lparr>ep_enabled := enabled\<rparr>) (db_endpoints db)\<rparr>"
  shows "db_step cd m U {} db db'"
proof -
  note ok = ledger_okD(1)[OF assms(1)]
  have ids: "map ep_id (db_endpoints db') = map ep_id (db_endpoints db)" by (simp add: assms(4))
  then have ids': "ep_id ` set (db_endpoints db') = ep_id ` set (db_endpoints db)" by (metis image_set)
  have "endpoint_row_ok e" using db_okD(1)[OF ok] assms(3) by (simp add: endpoints_ok_def list_all_iff)
  then have "endpoint_row_ok (e\<lparr>ep_enabled := enabled\<rparr>)" by (simp add: endpoint_row_ok_def)
  then have "endpoints_ok (db_endpoints db')"
    using db_okD(1)[OF ok] ids by (auto simp: endpoints_ok_def list_all_iff assms(4) row_simps split: if_splits)
  moreover have "foreign_keys_ok db'"
    using db_okD(5)[OF ok] ids' by (simp add: foreign_keys_ok_def) (simp add: assms(4))
  ultimately have "db_ok db'" using db_okD[OF ok] by (simp add: db_ok_def) (simp add: assms(4))
  then have "ledger_ok m db'" "chain_ok cd db'"
    using assms(1,2) by (simp_all add: ledger_ok_def attempts_for_def chain_ok_def) (simp_all add: assms(4))
  then show ?thesis using ids' by (simp add: db_step_def attempts_step_same) (simp add: assms(4) table_evolves_refl attempts_step_same)
qed

lemma claim_db_step:
  assumes inv: "system_inv cd m s" and w: "deployed m w"
    and fresh: "ce_lease_token env \<notin> sy_used s" "ce_attempt_id env \<notin> sy_used s"
    and cl: "claim_one w env (sy_db s) = Inr (r, db')"
  shows "db_step cd m (sy_used s) {ce_lease_token env, ce_attempt_id env} (sy_db s) db'"
    "r = Some (Webhook h) \<Longrightarrow> genuine h db' \<and> 1 \<le> ow_attempt_number h \<and> ow_lease_token h = ce_lease_token env"
proof -
  have ok: "ledger_ok m (sy_db s)" "chain_ok cd (sy_db s)" and ids: "db_ids (sy_db s) \<subseteq> sy_used s"
    using inv by (simp_all add: system_inv_def)
  note dbok = ledger_okD(1)[OF ok(1)]
  have sub: "at_id ` set (db_attempts (sy_db s)) \<subseteq> sy_used s" "at_lease_token ` set (db_attempts (sy_db s)) \<subseteq> sy_used s"
    using ids by (simp_all add: db_ids_sub)
  have "claim_env_fresh env (sy_db s)" using sub fresh by (auto simp: claim_env_fresh_def)
  then have pre: "claim_pre w env (sy_db s)" using w ok by (auto simp: claim_pre_def deployed_def)
  then have spec: "claim_spec w env (sy_db s) r db'" using claim_one_refines cl by fastforce
  have "ledger_ok m db'" using claim_spec_ledger[OF pre spec] w by (simp add: deployed_def)
  then show "db_step cd m (sy_used s) {ce_lease_token env, ce_attempt_id env} (sy_db s) db'"
    by (rule worker_db_step[OF _ dbok ok(2) claim_touches_one[OF spec]
        claim_attempts_step[OF dbok spec refl fresh(2) sub(1)]])
  show "genuine h db' \<and> 1 \<le> ow_attempt_number h \<and> ow_lease_token h = ce_lease_token env" if "r = Some (Webhook h)"
    using claim_genuine[OF dbok _ spec[unfolded that]] sub(2) fresh(1) by blast
qed

lemma finalize_db_step:
  assumes inv: "system_inv cd m s" and wh: "(w, h) \<in> set (sy_inflight s)" and r: "0 \<le> rf" "rf \<le> 1" "result_storable r"
    and fin: "run_tx (finalize w h r rf now) (sy_db s) = (out, db')"
  shows "db_step cd m (sy_used s) {} (sy_db s) db'"
proof -
  have ok: "ledger_ok m (sy_db s)" "chain_ok cd (sy_db s)" and fl: "inflight_ok m s (w, h)"
    using inv wh by (auto simp: system_inv_def)
  note dbok = ledger_okD(1)[OF ok(1)]
  have pre: "finalize_pre w h r rf (sy_db s)"
    using fl ok(1) r by (auto simp: finalize_pre_def inflight_ok_def deployed_def)
  obtain b where spec: "finalize_spec w h r now (sy_db s) b db'"
    using finalize_refines[OF pre, of now] fin by (auto simp: run_tx_def)
  have "ledger_ok m db'" using finalize_spec_ledger[OF pre spec] fl by (simp add: inflight_ok_def deployed_def)
  then show ?thesis
    by (rule worker_db_step[OF _ dbok ok(2) finalize_touches_one[OF spec] finalize_attempts_step[OF dbok spec]])
qed

lemma delete_result:
  assumes "db_ok db" "chain_ok cd db" "delete_deliveries ids db = Inr db1" "delete_events ids db1 = Inr (deleted, db2)"
  shows "db2 = without (set ids) db"
  using assms delete_deliveries_result[OF assms(1,2), of ids] delete_events_result[of ids db] by simp

lemma step_preserves:
  assumes inv: "system_inv cd m s" and m: "0 \<le> m" and st: "step cd m s s'"
  shows "system_inv cd m s' \<and> system_evolves s s'"
proof -
  have ok: "ledger_ok m (sy_db s)" "chain_ok cd (sy_db s)" using inv by (simp_all add: system_inv_def)
  note dbok = ledger_okD(1)[OF ok(1)]
  have idle: "db_step cd m (sy_used s) {} (sy_db s) (sy_db s)"
    using without_db_step[OF ok, of "sy_used s" "{}"] by (simp add: without_none[OF dbok])
  from st show ?thesis
  proof cases
    case (step_register url secret i t u request created db')
    show ?thesis by (rule db_step_system[OF inv, where N = "{i}"])
        (use register_db_step[OF ok step_register(2)] step_register(3) in \<open>simp_all add: step_register(1)\<close>)
  next
    case (step_operator e enabled)
    show ?thesis by (rule db_step_system[OF inv, where N = "{}"])
        (use operator_db_step[OF ok step_operator(2) refl] in \<open>simp_all add: step_operator(1)\<close>)
  next
    case (step_publish env r key out db')
    have "publish_spec cd env r key (sy_db s) out db'"
      using publish_refines[OF step_publish(2)] step_publish(5) by simp
    from publish_db_step[OF step_publish(2) ok(1) m this refl] step_publish(3,4) show ?thesis
      by (intro db_step_system[OF inv, where N = "{pu_event_id env, pu_delivery_id env}"]) (simp_all add: step_publish(1))
  next
    case (step_replay env key i out db')
    have "replay_spec cd env i key (sy_db s) out db'" 
      using replay_refines[OF step_replay(2), of i] step_replay(4) by simp
    from replay_db_step[OF step_replay(2) ok(1) m this refl] step_replay(3) show ?thesis
      by (intro db_step_system[OF inv, where N = "{rp_delivery_id env}"]) (simp_all add: step_replay(1))
  next
    case (step_claim w env r db')
    note cl = claim_db_step[OF inv step_claim(2-5)]
    show ?thesis
      by (rule db_step_system[OF inv, where N = "{ce_lease_token env, ce_attempt_id env}"])
        (use cl step_claim(2-4) in \<open>auto simp: step_claim(1) sent_def inflight_ok_def split: option.splits claim.splits\<close>)
  next
    case (step_finalize w h rf r now out db')
    show ?thesis by (rule db_step_system[OF inv, where N = "{}"])
        (use finalize_db_step[OF inv step_finalize(2-6)] in \<open>auto simp: step_finalize(1) dest: subsetD[OF set_remove1_subset]\<close>)
  next
    case (step_lost wh)
    show ?thesis by (rule db_step_system[OF inv, where N = "{}"])
        (use idle in \<open>auto simp: step_lost dest: subsetD[OF set_remove1_subset]\<close>)
  next
    case (step_retention_select cutoff limit)
    show ?thesis by (rule db_step_system[OF inv, where N = "{}"]) (use idle in \<open>auto simp: step_retention_select\<close>)
  next
    case (step_retention_delete db1 deleted db2)
    have "db2 = without (set (sy_candidates s)) (sy_db s)" by (rule delete_result[OF dbok ok(2) step_retention_delete(2,3)])
    then show ?thesis using without_db_step[OF ok]
      by (intro db_step_system[OF inv, where N = "{}"]) (simp_all add: step_retention_delete(1))
  qed
qed

section \<open>The service as an instance\<close>

lemma initial_inv: "initial s \<Longrightarrow> system_inv cd m s"
proof -
  assume "initial s"
  moreover have "ledger_ok m empty_db" using empty_db_ok by (simp add: ledger_ok_def empty_db_def)
  ultimately show ?thesis using empty_chain_ok
    by (auto simp: initial_def system_inv_def db_ids_def) (auto simp: empty_db_def)
qed

lemma system_evolves_trans:
  assumes "system_inv cd m s" "system_evolves s t" "system_evolves t u"
  shows "system_evolves s u"
proof -
  have ids: "dl_id ` set (db_deliveries (sy_db s)) \<subseteq> sy_used s" "at_id ` set (db_attempts (sy_db s)) \<subseteq> sy_used s"
    "ev_id ` set (db_events (sy_db s)) \<subseteq> sy_used s" "sy_used s \<subseteq> sy_used t"
    using assms(1,2) by (auto simp: system_inv_def db_ids_sub system_evolves_def)
  show ?thesis using assms(2,3) ids unfolding system_evolves_def
    by (intro conjI) (auto intro: table_evolves_trans)
qed

interpretation service: evolving_system initial "step cd (int m)" "system_inv cd (int m)" system_evolves for cd and m :: nat
proof unfold_locales
  show "initial s \<Longrightarrow> system_inv cd (int m) s" for s by (rule initial_inv)
  show "system_inv cd (int m) s \<Longrightarrow> step cd (int m) s s' \<Longrightarrow> system_inv cd (int m) s'" for s s'
    using step_preserves[of cd "int m"] by simp
  show "system_evolves s s" for s by (simp add: system_evolves_def table_evolves_refl)
  show "system_inv cd (int m) s \<Longrightarrow> system_evolves s t \<Longrightarrow> system_evolves t u \<Longrightarrow> system_evolves s u" for s t u
    by (rule system_evolves_trans)
  show "system_inv cd (int m) s \<Longrightarrow> step cd (int m) s t \<Longrightarrow> system_evolves s t" for s t
    using step_preserves[of cd "int m"] by simp
qed

end
