(* ===== verification/Fixtures.thy ===== *)
theory Fixtures
  imports System
begin

text \<open>
  Concrete rows, a concrete worker and concrete environments at which the properties are
  exercised: one enabled endpoint, one event, and its delivery in the states that
  the branches of the two transactions need.
\<close>

definition fx_endpoint :: endpoint where
  "fx_endpoint = \<lparr>ep_id = 1, ep_name = ''lab'', ep_target_url = ''http://receiver-lab:8100/webhooks'',
     ep_signing_secret = [1, 2, 3], ep_secret_version = 1, ep_enabled = True, ep_created_at = 0, ep_updated_at = 0\<rparr>"

definition fx_event :: event where
  "fx_event = \<lparr>ev_id = 2, ev_source = ''shop'', ev_event_type = ''order.created'', ev_idempotency_key = ''k1'',
     ev_payload = [], ev_payload_bytes = [123, 125], ev_request_fingerprint_sha256 = replicate 64 CHR ''a'',
     ev_payload_sha256 = replicate 64 CHR ''b'', ev_created_at = 0\<rparr>"

definition fx_pending :: delivery where
  "fx_pending = \<lparr>dl_id = 3, dl_event_id = 2, dl_endpoint_id = 1, dl_replay_generation = 0,
     dl_replayed_from_delivery_id = None, dl_replay_idempotency_key = None, dl_status = PENDING,
     dl_attempt_count = 0, dl_next_attempt_at = Some 1000000, dl_lease_owner = None, dl_lease_expires_at = None,
     dl_lease_token = None, dl_delivered_at = None, dl_last_error = None, dl_created_at = 0, dl_updated_at = 0\<rparr>"

definition fx_db :: "delivery \<Rightarrow> delivery_attempt list \<Rightarrow> db" where
  "fx_db d as = \<lparr>db_endpoints = [fx_endpoint], db_events = [fx_event], db_deliveries = [d], db_attempts = as\<rparr>"

definition fx_worker :: worker where
  "fx_worker = \<lparr>wk_settings = default_settings, wk_worker_id = ''worker-1'', wk_retry_policy = default_retry_policy\<rparr>"

definition fx_claim_env :: "datetime \<Rightarrow> claim_env" where
  "fx_claim_env now = \<lparr>ce_now = now, ce_statement_now = now, ce_locked_deliveries = [], ce_locked_endpoints = [],
     ce_lease_token = 4, ce_attempt_id = 5\<rparr>"

text \<open>The delivery and its evidence after the claim at two seconds.\<close>

definition fx_leased :: delivery where
  "fx_leased = reserved_delivery fx_worker (fx_claim_env 2000000) fx_pending"

definition fx_open :: delivery_attempt where
  "fx_open = reserved_attempt (fx_claim_env 2000000) fx_leased"

definition fx_webhook :: outbound_webhook where
  "fx_webhook = webhook_of (fx_claim_env 2000000) fx_leased fx_endpoint fx_event"

definition fx_result :: "delivery_disposition \<Rightarrow> int \<Rightarrow> string \<Rightarrow> attempt_result" where
  "fx_result disposition code excerpt = \<lparr>ar_disposition = disposition, ar_http_status_code = Some code,
     ar_error_type = None, ar_error_message = None, ar_response_body_excerpt = Some excerpt,
     ar_request_timestamp = 2, ar_retry_after_seconds = None, ar_started_at = 2000000,
     ar_finished_at = 2500000, ar_duration_ms = 500\<rparr>"

text \<open>A receiver that is busy and asks for thirty seconds.\<close>

definition fx_http :: http_env where
  "fx_http = \<lparr>he_hmac = (\<lambda>k m. replicate 64 CHR ''a''),
     he_post = (\<lambda>url body headers. Response \<lparr>rs_status_code = 503, rs_headers = [(''retry-after'', ''30'')], rs_content = []\<rparr>),
     he_decode_replace = (\<lambda>b. ''busy''), he_parsedate = (\<lambda>s. None), he_started_at = 2000000,
     he_finished_at = 2500000, he_started_monotonic = 1, he_finished_monotonic = 3 / 2\<rparr>"

lemmas fx_defs = fx_endpoint_def fx_event_def fx_pending_def fx_db_def fx_worker_def fx_claim_env_def
  fx_leased_def fx_open_def fx_webhook_def fx_result_def

lemma fx_worker_ok: "worker_ok fx_worker"
  by (simp add: fx_worker_def worker_ok_def policy_ok_def default_retry_policy_def varchar_def)

lemma fx_endpoint_ok: "endpoint_row_ok fx_endpoint"
  by (simp add: fx_endpoint_def endpoint_row_ok_def varchar_def int4_def)

lemma fx_event_ok: "event_row_ok fx_event"
  by (simp add: fx_event_def event_row_ok_def varchar_def pg_text_def)

lemma fx_pending_db_ok: "db_ok (fx_db fx_pending [])"
  using fx_endpoint_ok fx_event_ok
  by (simp add: db_ok_def endpoints_ok_def events_ok_def deliveries_ok_def attempts_ok_def foreign_keys_ok_def
      unique_where_def fx_db_def delivery_row_ok_def fx_pending_def null_or_def int4_def)
    (simp add: fx_endpoint_def fx_event_def)

lemma fx_pending_ledger: "ledger_ok 8 (fx_db fx_pending [])"
  using fx_pending_db_ok
  by (simp add: ledger_ok_def ledger_row_def attempts_for_def fx_db_def) (simp add: fx_pending_def)

lemma fx_claim_pre: "claim_pre fx_worker (fx_claim_env now) (fx_db fx_pending [])"
  using fx_pending_ledger fx_worker_ok
  by (simp add: claim_pre_def claim_env_fresh_def fx_worker_def default_retry_policy_def fx_db_def)

lemma fx_claim:
  "claim_one fx_worker (fx_claim_env 2000000) (fx_db fx_pending []) =
     Inr (Some (Webhook fx_webhook), fx_db fx_leased [fx_open])"
  by code_simp

section \<open>Publication, replay and runs\<close>

definition fx_codec :: codec where
  "fx_codec = \<lparr>cd_sha256 = (\<lambda>b. replicate 64 CHR ''a''), cd_float_repr = fraction_repr, cd_json_loads = (\<lambda>s. None)\<rparr>"

lemma fx_codec_ok: "codec_ok fx_codec"
  using fraction_repr_ok by (simp add: codec_ok_def fx_codec_def pg_text_def)

text \<open>A registered endpoint and nothing published yet.\<close>

definition fx_registered :: db where
  "fx_registered = empty_db\<lparr>db_endpoints := [fx_endpoint]\<rparr>"

definition fx_request :: event_publish_request where
  "fx_request = \<lparr>pr_endpoint_id = 1, pr_type = ''order.created'', pr_data = [(''order'', JInt 7), (''ok'', JBool True)]\<rparr>"

definition fx_publish_env :: "uuid \<Rightarrow> publish_env" where
  "fx_publish_env i = \<lparr>pu_event_id = i, pu_delivery_id = i + 1, pu_now = 1000000, pu_db_now = 1000000\<rparr>"

lemma fx_registered_db_ok: "db_ok fx_registered"
  using fx_endpoint_ok
  by (simp add: fx_registered_def empty_db_def db_ok_def endpoints_ok_def events_ok_def deliveries_ok_def
      attempts_ok_def foreign_keys_ok_def unique_where_def)

lemma fx_registered_ok: "ledger_ok 8 fx_registered" "chain_ok cd fx_registered"
  using fx_registered_db_ok by (simp_all add: ledger_ok_def chain_ok_def fx_registered_def empty_db_def)

lemma fx_publish_pre: "publish_pre fx_codec (fx_publish_env 2) fx_request ''k1'' fx_registered"
  using fx_registered_db_ok fx_registered_ok(2) fx_codec_ok
  by (simp add: publish_pre_def request_storable_def fx_request_def varchar_def event_with_key_def)
    (simp add: fx_registered_def empty_db_def)

definition fx_published :: db where
  "fx_published = snd (run_tx (publish fx_codec (fx_publish_env 2) fx_request ''k1'') fx_registered)"

lemma fx_published_keeps: "ledger_ok 8 fx_published \<and> chain_ok fx_codec fx_published"
  unfolding fx_published_def
  by (rule publish_spec_keeps[OF fx_publish_pre fx_registered_ok(1) _ publish_refines[OF fx_publish_pre]]) simp

definition fx_dead :: db where
  "fx_dead = put_delivery ((hd (db_deliveries fx_published))\<lparr>dl_status := DEAD_LETTERED, dl_next_attempt_at := None\<rparr>) fx_published"

definition fx_replay_env :: replay_env where
  "fx_replay_env = \<lparr>rp_delivery_id = 9, rp_now = 6000000, rp_db_now = 6000000\<rparr>"

definition fx_replayed :: db where
  "fx_replayed = snd (run_tx (replay fx_codec fx_replay_env 3 ''again'') fx_dead)"

definition fx_initial :: system where
  "fx_initial = \<lparr>sy_db = empty_db, sy_inflight = [], sy_candidates = [], sy_used = {}\<rparr>"

lemma fx_initial: "initial fx_initial"
  by (simp add: fx_initial_def initial_def)

definition fx_url :: string where
  "fx_url = ''http://receiver-lab:8100/webhooks''"

definition fx_secret :: string where
  "fx_secret = [CHR 0x01, CHR 0x02, CHR 0x03]"

lemma fx_register:
  "create_endpoint fx_url fx_secret 1 0 0 \<lparr>ec_name = ''lab'', ec_url = fx_url\<rparr> empty_db =
     Inr (\<lparr>cr_endpoint = fx_endpoint, cr_plaintext_signing_secret = fx_secret\<rparr>, fx_registered)"
  by code_simp

text \<open>A run that registers, publishes, claims and records a success.\<close>

lemma fx_deliver:
  "case claim_one fx_worker (fx_claim_env 2000000) fx_published of
     Inr (Some (Webhook h), db) \<Rightarrow>
       (case finalize fx_worker h (fx_result SUCCEEDED 200 ''ok'') 0 3000000 db of
          Inr (True, db') \<Rightarrow> list_ex (\<lambda>d. dl_status d = DELIVERED) (db_deliveries db')
        | _ \<Rightarrow> False)
   | _ \<Rightarrow> False"
  by code_simp

lemma fx_result_storable: "pg_text x \<Longrightarrow> result_storable (fx_result SUCCEEDED 200 x)"
  by (simp add: fx_result_def result_storable_def null_or_def int8_def int4_def)

lemma fx_run:
  "\<exists>s. (step fx_codec 8)\<^sup>*\<^sup>* fx_initial s \<and> (\<exists>d \<in> set (db_deliveries (sy_db s)). dl_status d = DELIVERED)"
proof -
  let ?s1 = "fx_initial\<lparr>sy_db := fx_registered, sy_used := {1}\<rparr>"
  let ?s2 = "?s1\<lparr>sy_db := fx_published, sy_used := {1} \<union> {2, 3}\<rparr>"
  obtain h db3 where c: "claim_one fx_worker (fx_claim_env 2000000) fx_published = Inr (Some (Webhook h), db3)"
    and rest: "case finalize fx_worker h (fx_result SUCCEEDED 200 ''ok'') 0 3000000 db3 of
        Inr (True, db') \<Rightarrow> list_ex (\<lambda>d. dl_status d = DELIVERED) (db_deliveries db') | _ \<Rightarrow> False"
    using fx_deliver by (cases "claim_one fx_worker (fx_claim_env 2000000) fx_published")
      (simp_all split: prod.splits option.splits claim.splits)
  obtain db4 where f: "finalize fx_worker h (fx_result SUCCEEDED 200 ''ok'') 0 3000000 db3 = Inr (True, db4)"
    and d: "\<exists>d \<in> set (db_deliveries db4). dl_status d = DELIVERED"
    using rest by (cases "finalize fx_worker h (fx_result SUCCEEDED 200 ''ok'') 0 3000000 db3")
      (auto simp: list_ex_iff split: prod.splits bool.splits)
  let ?s3 = "?s2\<lparr>sy_db := db3, sy_inflight := sent fx_worker (Some (Webhook h)) @ [], sy_used := {1} \<union> {2, 3} \<union> {4, 5}\<rparr>"
  let ?s4 = "?s3\<lparr>sy_db := db4, sy_inflight := remove1 (fx_worker, h) (sy_inflight ?s3)\<rparr>"
  have "step fx_codec 8 fx_initial ?s1"
    using step_register[of fx_url fx_secret 1 0 0 _ fx_initial, OF _ ] fx_register by (simp add: fx_initial_def)
  moreover have "step fx_codec 8 ?s1 ?s2"
    using step_publish[of fx_codec "fx_publish_env 2" fx_request "''k1''" ?s1 _ fx_published 8] fx_publish_pre
    by (simp add: fx_published_def fx_publish_env_def prod_eq_iff)
  moreover have "step fx_codec 8 ?s2 ?s3"
    using step_claim[of 8 fx_worker "fx_claim_env 2000000" ?s2 "Some (Webhook h)" db3 fx_codec] c fx_worker_ok
    by (simp add: deployed_def fx_claim_env_def fx_worker_def default_retry_policy_def fx_initial_def)
  moreover have "step fx_codec 8 ?s3 ?s4"
    using step_finalize[of fx_worker h ?s3 0 "fx_result SUCCEEDED 200 ''ok''" 3000000 "Inr True" db4 fx_codec 8] f
      fx_result_storable[of "''ok''"] by (simp add: sent_def run_tx_def)
  ultimately have "(step fx_codec 8)\<^sup>*\<^sup>* fx_initial ?s4"
    by (meson converse_rtranclp_into_rtranclp rtranclp.rtrancl_refl)
  then show ?thesis using d by (intro exI[of _ ?s4]) simp
qed

lemma fx_leased_ledger: "ledger_ok 8 (fx_db fx_leased [fx_open])"
proof -
  have "max_attempts (wk_retry_policy fx_worker) = 8" by (simp add: fx_worker_def default_retry_policy_def)
  then show ?thesis
    using claim_one_refines[OF fx_claim_pre[of 2000000]] claim_spec_ledger[OF fx_claim_pre[of 2000000]] fx_claim by fastforce
qed

lemma fx_finalize_pre:
  assumes "pg_text x"
  shows "finalize_pre fx_worker fx_webhook (fx_result SUCCEEDED 200 x) 0 (fx_db fx_leased [fx_open])"
  using fx_leased_ledger fx_worker_ok fx_result_storable[OF assms]
  by (simp add: finalize_pre_def) (simp add: fx_worker_def default_retry_policy_def genuine_def fx_db_def fx_webhook_def
      webhook_of_def fx_open_def reserved_attempt_def fx_leased_def reserved_delivery_def fx_pending_def fx_claim_env_def)

lemma fx_published_result:
  "case publish fx_codec (fx_publish_env 2) fx_request ''k1'' fx_registered of
     Inr (p, db) \<Rightarrow> db_endpoints db = [fx_endpoint] \<and> map ev_id (db_events db) = [2] \<and>
       map ev_payload (db_events db) = [pr_data fx_request] \<and> map ev_event_type (db_events db) = [pr_type fx_request] \<and>
       map ev_created_at (db_events db) = [1000000] \<and> db_deliveries db = [accepted_delivery (fx_publish_env 2) fx_request] \<and> db_attempts db = []
   | Inl _ \<Rightarrow> False"
  by code_simp

lemma fx_published_rows:
  "db_endpoints fx_published = [fx_endpoint]" "map ev_id (db_events fx_published) = [2]"
  "map ev_payload (db_events fx_published) = [pr_data fx_request]"
  "map ev_event_type (db_events fx_published) = [pr_type fx_request]" "map ev_created_at (db_events fx_published) = [1000000]"
  "db_deliveries fx_published = [accepted_delivery (fx_publish_env 2) fx_request]" "db_attempts fx_published = []"
  using fx_published_result by (auto simp: fx_published_def run_tx_def split: sum.splits)

lemma fx_dead_ok: "ledger_ok 8 fx_dead \<and> chain_ok fx_codec fx_dead"
proof -
  let ?d = "accepted_delivery (fx_publish_env 2) fx_request"
  let ?d' = "?d\<lparr>dl_status := DEAD_LETTERED, dl_next_attempt_at := None\<rparr>"
  have ok: "ledger_ok 8 fx_published" "chain_ok fx_codec fx_published" using fx_published_keeps by simp_all
  note dbok = ledger_okD(1)[OF ok(1)]
  have d: "?d \<in> set (db_deliveries fx_published)" by (simp add: fx_published_rows)
  have same: "same_identity ?d ?d'" by (simp add: same_identity_def)
  have row: "delivery_row_ok ?d'" using delivery_row_okD[OF dbok d] by (auto simp: delivery_row_ok_def accepted_delivery_def)
  have eq: "fx_dead = put_delivery ?d' fx_published" by (simp add: fx_dead_def fx_published_rows)
  have "db_ok fx_dead" unfolding eq by (rule put_delivery_ok[OF dbok d same row]) (simp add: is_active_def)
  moreover have "attempts_for i fx_dead = {}" for i by (simp add: eq attempts_for_def fx_published_rows)
  ultimately have "ledger_ok 8 fx_dead"
    by (auto simp: ledger_ok_def ledger_row_def eq fx_published_rows update_row_def accepted_delivery_def)
  moreover have "chain_ok fx_codec fx_dead"
    by (rule chain_ok_put[OF ok(2) d same]) (simp_all add: eq dbok)
  ultimately show ?thesis by simp
qed

lemma fx_replay_pre: "replay_pre fx_codec fx_replay_env ''again'' fx_dead"
  using fx_dead_ok by (simp add: replay_pre_def ledger_ok_def varchar_def)
    (simp add: fx_dead_def fx_published_rows update_row_def accepted_delivery_def fx_replay_env_def fx_publish_env_def)

lemma fx_publish_pre_again: "publish_pre fx_codec (fx_publish_env 7) fx_request ''k1'' fx_published"
proof -
  have ok: "db_ok fx_published" "chain_ok fx_codec fx_published" using fx_published_keeps by (auto simp: ledger_ok_def)
  obtain e where ev: "db_events fx_published = [e]" "ev_id e = 2" "ev_payload e = pr_data fx_request"
      "ev_event_type e = pr_type fx_request"
    using fx_published_rows(2-4) by (cases "db_events fx_published") auto
  have same: "accepted_request e d = fx_request" if "d \<in> set (db_deliveries fx_published)" for d
    using that ev by (simp add: fx_published_rows accepted_request_def accepted_delivery_def)
  have "no_collision fx_codec fx_request fx_request" by (simp add: no_collision_def split: sum.splits)
  then have "\<forall>e'. event_with_key ''k1'' fx_published = Some e' \<longrightarrow>
      (\<forall>d \<in> set (db_deliveries fx_published). initial_of fx_codec e' d \<longrightarrow> no_collision fx_codec fx_request (accepted_request e' d))"
    using same ev(1) by (auto simp: event_with_key_def split: if_splits)
  moreover have "request_storable fx_request ''k1''" using fx_publish_pre by (simp add: publish_pre_def)
  moreover have "pu_event_id (fx_publish_env 7) \<notin> ev_id ` set (db_events fx_published)"
    "pu_delivery_id (fx_publish_env 7) \<notin> dl_id ` set (db_deliveries fx_published)"
    by (simp_all add: ev fx_publish_env_def fx_published_rows accepted_delivery_def)
  ultimately show ?thesis unfolding publish_pre_def using ok fx_codec_ok by blast
qed

definition fx_source :: delivery where
  "fx_source = (accepted_delivery (fx_publish_env 2) fx_request)\<lparr>dl_status := DEAD_LETTERED, dl_next_attempt_at := None\<rparr>"

lemma fx_dead_rows:
  "db_deliveries fx_dead = [fx_source]" "db_attempts fx_dead = []" "db_endpoints fx_dead = [fx_endpoint]"
  "db_events fx_dead = db_events fx_published"
  by (simp_all add: fx_dead_def fx_published_rows fx_source_def update_row_def)

text \<open>The replay of the dead-lettered delivery is accepted.\<close>

lemma fx_replay:
  "run_tx (replay fx_codec fx_replay_env 3 ''again'') fx_dead =
     (Inr \<lparr>rd_source_delivery = fx_source, rd_delivery = successor fx_replay_env fx_source ''again'', rd_idempotent_replay = False\<rparr>,
      add_delivery (successor fx_replay_env fx_source ''again'') fx_dead)"
proof -
  have g: "get_delivery 3 fx_dead = Some fx_source"
    by (simp add: get_delivery_def get_row_def fx_dead_rows) (simp add: fx_source_def accepted_delivery_def new_delivery_def fx_publish_env_def)
  have s: "dl_status fx_source = DEAD_LETTERED" "dl_endpoint_id fx_source = 1" "newest fx_dead fx_source"
    "\<not> replay_request 3 ''again'' fx_source"
    by (simp_all add: newest_def fx_dead_rows replay_request_def)
      (simp_all add: fx_source_def accepted_delivery_def new_delivery_def fx_request_def)
  have e: "get_endpoint 1 fx_dead = Some fx_endpoint" "ep_enabled fx_endpoint"
    by (simp_all add: get_endpoint_def get_row_def fx_dead_rows fx_endpoint_def)
  have l: "last_block_code fx_codec (list_attempts 3 fx_dead) = None"
    by (simp add: last_block_code_def list_attempts_def order_by_def fx_dead_rows)
  obtain out db' where run: "run_tx (replay fx_codec fx_replay_env 3 ''again'') fx_dead = (out, db')" by fastforce
  from replay_refines[OF fx_replay_pre, of 3] run have "replay_spec fx_codec fx_replay_env 3 ''again'' fx_dead out db'" by simp
  then show ?thesis using run by cases (use g s e l in \<open>simp_all add: fx_dead_rows\<close>)
qed

lemma fx_replay_pre_again: "replay_pre fx_codec (fx_replay_env\<lparr>rp_delivery_id := 11\<rparr>) ''again'' fx_replayed"
proof -
  have rows: "db_deliveries fx_replayed = [fx_source, successor fx_replay_env fx_source ''again'']"
    by (simp add: fx_replayed_def fx_replay fx_dead_rows insert_row_def)
  have "\<forall>d \<in> set (db_deliveries fx_replayed). dl_replay_generation d < 2 ^ 31 - 1 \<and> dl_id d \<noteq> 11"
    by (simp add: rows) (simp add: fx_source_def accepted_delivery_def successor_def new_delivery_def fx_publish_env_def fx_replay_env_def)
  moreover have "ledger_ok 8 fx_replayed \<and> chain_ok fx_codec fx_replayed"
    unfolding fx_replayed_def
    by (rule replay_spec_keeps[OF fx_replay_pre conjunct1[OF fx_dead_ok] _ replay_refines[OF fx_replay_pre]]) simp
  ultimately show ?thesis by (auto simp: replay_pre_def ledger_ok_def varchar_def)
qed

end
