(* ===== verification/Cursors.thy ===== *)
theory Cursors
  imports Services Transport
begin

text \<open>
  Page cursors, \<open>encode_cursor\<close> and \<open>decode_cursor\<close> of control_room.py, with the parts of
  Python's \<open>base64\<close> and \<open>uuid\<close> modules they use.  The JSON reader and
  \<open>datetime.fromisoformat\<close> are arguments.  The round trip is proved for every cursor that
  those two read back, and every other string is refused as an invalid cursor.
\<close>

section \<open>Base64\<close>

text \<open>The URL-safe alphabet; decoding first maps it to the standard one, so it reads both.\<close>

definition b64_char :: "nat \<Rightarrow> char" where
  "b64_char n =
     (if n < 26 then char_of (65 + n) else if n < 52 then char_of (71 + n)
      else if n < 62 then char_of (n - 4) else if n = 62 then CHR ''-'' else CHR ''_'')"

definition b64_value :: "char \<Rightarrow> nat option" where
  "b64_value c = (let n = (of_char c :: nat) in
     if 65 \<le> n \<and> n \<le> 90 then Some (n - 65) else if 97 \<le> n \<and> n \<le> 122 then Some (n - 71)
     else if 48 \<le> n \<and> n \<le> 57 then Some (n + 4)
     else if c = CHR ''-'' \<or> c = CHR ''+'' then Some 62
     else if c = CHR ''_'' \<or> c = CHR ''/'' then Some 63 else None)"

fun urlsafe_b64encode :: "bytes \<Rightarrow> string" where
  "urlsafe_b64encode [] = []"
| "urlsafe_b64encode [a] =
     [b64_char (unat a div 4), b64_char (unat a mod 4 * 16), CHR ''='', CHR ''='']"
| "urlsafe_b64encode [a, b] =
     [b64_char (unat a div 4), b64_char (unat a mod 4 * 16 + unat b div 16),
      b64_char (unat b mod 16 * 4), CHR ''='']"
| "urlsafe_b64encode (a # b # c # rest) =
     b64_char (unat a div 4) # b64_char (unat a mod 4 * 16 + unat b div 16) #
     b64_char (unat b mod 16 * 4 + unat c div 64) # b64_char (unat c mod 64) # urlsafe_b64encode rest"

text \<open>
  \<open>binascii.a2b_base64\<close> in its lenient mode, with its three counters: the position in the
  group of four, the bits left over and the pads seen.  Characters outside the alphabet are
  skipped, a pad that completes a group ends the input, and an incomplete group is an error.
\<close>

fun a2b_base64 :: "nat \<Rightarrow> nat \<Rightarrow> nat \<Rightarrow> string \<Rightarrow> bytes option" where
  "a2b_base64 quad_pos leftover pads [] = (if quad_pos = 0 then Some [] else None)"
| "a2b_base64 quad_pos leftover pads (c # cs) =
     (if c = CHR ''='' then
        if quad_pos \<ge> 2 \<and> quad_pos + pads + 1 \<ge> 4 then Some []
        else a2b_base64 quad_pos leftover (if quad_pos \<ge> 2 then pads + 1 else pads) cs
      else case b64_value c of
        None \<Rightarrow> a2b_base64 quad_pos leftover pads cs
      | Some v \<Rightarrow>
          if quad_pos = 0 then a2b_base64 1 v 0 cs
          else if quad_pos = 1
          then map_option (Cons (of_nat (leftover * 4 + v div 16))) (a2b_base64 2 (v mod 16) 0 cs)
          else if quad_pos = 2
          then map_option (Cons (of_nat (leftover * 16 + v div 4))) (a2b_base64 3 (v mod 4) 0 cs)
          else map_option (Cons (of_nat (leftover * 64 + v))) (a2b_base64 0 0 0 cs))"

definition urlsafe_b64decode :: "string \<Rightarrow> bytes option" where
  "urlsafe_b64decode s = (if is_ascii s then a2b_base64 0 0 0 s else None)"

definition rstrip_pad :: "string \<Rightarrow> string" where
  "rstrip_pad s = rev (dropWhile (\<lambda>c. c = CHR ''='') (rev s))"

section \<open>Identifiers\<close>

text \<open>
  \<open>UUID(s)\<close>: \<open>urn:\<close> and \<open>uuid:\<close> are removed, then braces around and hyphens inside; the rest
  must be 32 characters that \<open>int(_, 16)\<close> reads as a number of 128 bits.
\<close>

fun remove_all_sub :: "string \<Rightarrow> string \<Rightarrow> string" where
  "remove_all_sub pat [] = []"
| "remove_all_sub pat (c # cs) =
     (if take (length pat) (c # cs) = pat then remove_all_sub pat (drop (length pat - 1) cs)
      else c # remove_all_sub pat cs)"

definition strip_braces :: "string \<Rightarrow> string" where
  "strip_braces s = rev (dropWhile (\<lambda>c. c \<in> {CHR ''{'', CHR ''}''})
     (rev (dropWhile (\<lambda>c. c \<in> {CHR ''{'', CHR ''}''}) s)))"

definition hex_value :: "char \<Rightarrow> nat option" where
  "hex_value c = (let n = (of_char c :: nat) in
     if 48 \<le> n \<and> n \<le> 57 then Some (n - 48) else if 97 \<le> n \<and> n \<le> 102 then Some (n - 87)
     else if 65 \<le> n \<and> n \<le> 70 then Some (n - 55) else None)"

text \<open>Digits with single underscores between them; the flag says that a digit must come next.\<close>

fun read_hex :: "nat \<Rightarrow> bool \<Rightarrow> string \<Rightarrow> nat option" where
  "read_hex acc need [] = (if need then None else Some acc)"
| "read_hex acc need (c # cs) =
     (case hex_value c of
        Some v \<Rightarrow> read_hex (16 * acc + v) False cs
      | None \<Rightarrow> if c = CHR ''_'' \<and> \<not> need then read_hex acc True cs else None)"

text \<open>An optional prefix \<open>0x\<close>, after which one underscore is allowed.\<close>

definition read_hex_literal :: "string \<Rightarrow> nat option" where
  "read_hex_literal s =
     (if take 2 s = ''0x'' \<or> take 2 s = ''0X''
      then read_hex 0 True (if take 1 (drop 2 s) = ''_'' then drop 3 s else drop 2 s)
      else read_hex 0 True s)"

definition int_base16 :: "string \<Rightarrow> int option" where
  "int_base16 s =
     (case py_strip s of
        [] \<Rightarrow> None
      | c # cs \<Rightarrow>
          if c = CHR ''+'' then map_option int (read_hex_literal cs)
          else if c = CHR ''-'' then map_option (\<lambda>n. - int n) (read_hex_literal cs)
          else map_option int (read_hex_literal (c # cs)))"

definition parse_uuid :: "string \<Rightarrow> uuid option" where
  "parse_uuid s =
     (let hex = filter (\<lambda>c. c \<noteq> CHR ''-'')
            (strip_braces (remove_all_sub ''uuid:'' (remove_all_sub ''urn:'' s)))
      in if length hex \<noteq> 32 then None
         else case int_base16 hex of
           None \<Rightarrow> None
         | Some i \<Rightarrow> if 0 \<le> i \<and> i < 2 ^ 128 then Some (of_int i) else None)"

section \<open>Cursors\<close>

record page_cursor =
  pc_timestamp :: datetime
  pc_row_id :: uuid

text \<open>
  \<open>cc_loads b\<close> is \<open>json.loads(b.decode(''utf-8''))\<close>, and \<open>None\<close> for any of their errors;
  \<open>cc_fromisoformat\<close> is \<open>datetime.fromisoformat\<close>, as an instant when it is aware.
\<close>

record cursor_codec =
  cc_loads :: "bytes \<Rightarrow> json option"
  cc_fromisoformat :: "string \<Rightarrow> parsed_date option"

definition cursor_text :: "page_cursor \<Rightarrow> string" where
  "cursor_text c =
     ''{'' @ dumps_str ''v'' @ '':1,'' @ dumps_str ''timestamp'' @ '':'' @ dumps_str (utc_isoformat (pc_timestamp c)) @
     '','' @ dumps_str ''id'' @ '':'' @ dumps_str (uuid_str (pc_row_id c)) @ ''}''"

definition encode_cursor :: "page_cursor \<Rightarrow> string" where
  "encode_cursor c = rstrip_pad (urlsafe_b64encode (utf8_encode (cursor_text c)))"

definition invalid_cursor :: py_exn where
  "invalid_cursor = DomainError 422 ''invalid_cursor'' ''Cursor is invalid''
     ''The pagination cursor is malformed or uses an unsupported version.''"

text \<open>\<open>v == 1\<close> of Python also holds of \<open>True\<close> and of \<open>1.0\<close>.\<close>

definition equals_one :: "json option \<Rightarrow> bool" where
  "equals_one v \<longleftrightarrow> v \<in> {Some (JInt 1), Some (JBool True), Some (JFloat (Finite 1))}"

definition decode_cursor :: "cursor_codec \<Rightarrow> string option \<Rightarrow> page_cursor option res" where
  "decode_cursor cc value =
     (case value of
        None \<Rightarrow> Inr None
      | Some v \<Rightarrow>
          let padding = replicate (nat (- int (length v) mod 4)) (CHR ''='') in
          (case Option.bind (urlsafe_b64decode (v @ padding)) (cc_loads cc) of
             Some (JObj payload) \<Rightarrow>
               if \<not> equals_one (map_of payload ''v'') then Inl invalid_cursor
               else (case (map_of payload ''timestamp'', map_of payload ''id'') of
                       (Some (JStr timestamp_value), Some (JStr row_id_value)) \<Rightarrow>
                         (case cc_fromisoformat cc timestamp_value of
                            Some (Aware timestamp) \<Rightarrow>
                              (case parse_uuid row_id_value of
                                 Some row_id \<Rightarrow> Inr (Some \<lparr>pc_timestamp = timestamp, pc_row_id = row_id\<rparr>)
                               | None \<Rightarrow> Inl invalid_cursor)
                          | _ \<Rightarrow> Inl invalid_cursor)
                     | _ \<Rightarrow> Inl invalid_cursor)
           | _ \<Rightarrow> Inl invalid_cursor))"

section \<open>Base64 reads back what it wrote\<close>

lemma b64_value_char: "n < 64 \<Longrightarrow> b64_value (b64_char n) = Some n"
  by (auto simp: b64_char_def b64_value_def Let_def)

lemma b64_char_not_pad: "n < 64 \<Longrightarrow> b64_char n \<noteq> CHR ''=''"
  using b64_value_char[of n] by (auto simp: b64_value_def)

lemma b64_char_ascii: "n < 64 \<Longrightarrow> (of_char (b64_char n) :: nat) < 128"
  by (auto simp: b64_char_def)

lemma unat_byte: "unat (a :: 8 word) < 256"
  using unsigned_less[of a, where ?'a = nat] by simp

lemma byte_divs:
  "unat (a :: 8 word) div 4 < 64" "unat a div 16 < 16" "unat a div 64 < 4"
  using unat_byte[of a] by (simp_all add: less_mult_imp_div_less)

lemma sextets_lt:
  fixes a b c :: "8 word"
  shows "unat a div 4 < 64" "unat a mod 4 * 16 < 64" "unat a mod 4 * 16 + unat b div 16 < 64"
    "unat b mod 16 * 4 < 64" "unat b mod 16 * 4 + unat c div 64 < 64" "unat c mod 64 < 64"
proof -
  have "unat a mod 4 < 4" "unat b mod 16 < 16" by simp_all
  then show "unat a mod 4 * 16 < 64" "unat a mod 4 * 16 + unat b div 16 < 64"
    "unat b mod 16 * 4 < 64" "unat b mod 16 * 4 + unat c div 64 < 64"
    using byte_divs[of b] byte_divs[of c] by linarith+
qed (use byte_divs in simp_all)

lemma byte_sums:
  fixes a b c :: "8 word"
  shows "unat a div 4 * 4 + (unat a mod 4 * 16 + unat b div 16) div 16 = unat a"
    "unat a div 4 * 4 + unat a mod 4 * 16 div 16 = unat a"
    "(unat a mod 4 * 16 + unat b div 16) mod 16 * 16 + (unat b mod 16 * 4 + unat c div 64) div 4 = unat b"
    "(unat a mod 4 * 16 + unat b div 16) mod 16 * 16 + unat b mod 16 * 4 div 4 = unat b"
    "(unat b mod 16 * 4 + unat c div 64) mod 4 * 64 + unat c mod 64 = unat c"
  using byte_divs[of b] byte_divs[of c] by (simp_all add: div_mult_mod_eq)

lemma a2b_group:
  assumes "v0 < 64" "v1 < 64" "v2 < 64" "v3 < 64"
  shows "a2b_base64 0 0 p (b64_char v0 # b64_char v1 # b64_char v2 # b64_char v3 # cs) =
    map_option (\<lambda>bs. of_nat (v0 * 4 + v1 div 16) # of_nat (v1 mod 16 * 16 + v2 div 4) #
      of_nat (v2 mod 4 * 64 + v3) # bs) (a2b_base64 0 0 0 cs)"
  using assms by (simp add: b64_value_char b64_char_not_pad option.map_comp comp_def del: of_nat_add of_nat_mult)

lemma a2b_short_groups:
  assumes "v0 < 64" "v1 < 64" "v2 < 64"
  shows "a2b_base64 0 0 p [b64_char v0, b64_char v1, CHR ''='', CHR ''=''] = Some [of_nat (v0 * 4 + v1 div 16)]"
    "a2b_base64 0 0 p [b64_char v0, b64_char v1, b64_char v2, CHR ''=''] =
       Some [of_nat (v0 * 4 + v1 div 16), of_nat (v1 mod 16 * 16 + v2 div 4)]"
  using assms by (simp_all add: b64_value_char b64_char_not_pad del: of_nat_add of_nat_mult)

lemma a2b_b64encode: "a2b_base64 0 0 p (urlsafe_b64encode bs) = Some bs"
proof (induction bs arbitrary: p rule: urlsafe_b64encode.induct)
  case (4 a b c rest)
  then show ?case
    unfolding urlsafe_b64encode.simps a2b_group[OF sextets_lt(1,3,5,6)] byte_sums by simp
next
  case (2 a)
  show ?case unfolding urlsafe_b64encode.simps a2b_short_groups(1)[OF sextets_lt(1,2,2)] byte_sums by simp
next
  case (3 a b)
  show ?case unfolding urlsafe_b64encode.simps a2b_short_groups(2)[OF sextets_lt(1,3,4)] byte_sums by simp
qed simp

lemma b64encode_shape:
  obtains body k where "urlsafe_b64encode bs = body @ replicate k (CHR ''='')" "k < 4" "(length body + k) mod 4 = 0"
    "CHR ''='' \<notin> set body" "is_ascii body"
proof (induction bs arbitrary: thesis rule: urlsafe_b64encode.induct)
  case 1
  show ?case by (rule 1[of "[]" 0]) (simp_all add: is_ascii_def)
next
  case (2 a)
  show ?case
    by (rule 2[of "[b64_char (unat a div 4), b64_char (unat a mod 4 * 16)]" 2])
      (simp_all add: is_ascii_def b64_char_ascii sextets_lt b64_char_not_pad[symmetric] numeral_2_eq_2)
next
  case (3 a b)
  show ?case
    by (rule 3[of "[b64_char (unat a div 4), b64_char (unat a mod 4 * 16 + unat b div 16), b64_char (unat b mod 16 * 4)]" 1])
      (simp_all add: is_ascii_def b64_char_ascii sextets_lt b64_char_not_pad[symmetric])
next
  case (4 a b c rest)
  show ?case
  proof (rule "4.IH")
    fix body k assume h: "urlsafe_b64encode rest = body @ replicate k (CHR ''='')" "k < 4" "(length body + k) mod 4 = 0"
      "CHR ''='' \<notin> set body" "is_ascii body"
    show ?case
      by (rule "4.prems"[of "b64_char (unat a div 4) # b64_char (unat a mod 4 * 16 + unat b div 16) #
        b64_char (unat b mod 16 * 4 + unat c div 64) # b64_char (unat c mod 64) # body" k])
        (use h in \<open>simp_all add: is_ascii_def b64_char_ascii sextets_lt b64_char_not_pad[symmetric]\<close>)
  qed
qed

lemma rstrip_pad_replicate:
  assumes "CHR ''='' \<notin> set body"
  shows "rstrip_pad (body @ replicate k (CHR ''='')) = body"
proof -
  have "dropWhile (\<lambda>c. c = CHR ''='') (rev body) = rev body"
    using assms by (cases "rev body") (auto simp: dropWhile_eq_self_iff)
  then show ?thesis by (simp add: rstrip_pad_def dropWhile_append)
qed

text \<open>Stripping the pads loses nothing: the length says how many there were.\<close>

lemma b64_round_trip:
  fixes bs
  defines "v \<equiv> rstrip_pad (urlsafe_b64encode bs)"
  shows "urlsafe_b64decode (v @ replicate (nat (- int (length v) mod 4)) (CHR ''='')) = Some bs"
proof -
  obtain body k where b: "urlsafe_b64encode bs = body @ replicate k (CHR ''='')" "k < 4" "(length body + k) mod 4 = 0"
    "CHR ''='' \<notin> set body" "is_ascii body" by (rule b64encode_shape)
  have v: "v = body" using b(1,4) by (simp add: v_def rstrip_pad_replicate)
  obtain q where q: "length body + k = 4 * q" using b(3) by auto
  then have "- int (length body) = int k + 4 * (- int q)" by simp
  then have "- int (length body) mod 4 = int k" using b(2) by (simp only: mod_mult_self2) simp
  then have "nat (- int (length body) mod 4) = k" by simp
  then have "v @ replicate (nat (- int (length v) mod 4)) (CHR ''='') = urlsafe_b64encode bs" using v b(1) by simp
  moreover have "is_ascii (urlsafe_b64encode bs)" using b(1,5) by (auto simp: is_ascii_def list_all_iff)
  ultimately show ?thesis by (simp add: urlsafe_b64decode_def a2b_b64encode)
qed

section \<open>Identifiers are read back\<close>

lemma remove_all_sub_id:
  assumes "c \<in> set pat" "c \<notin> set s"
  shows "remove_all_sub pat s = s"
  using assms
proof (induction pat s rule: remove_all_sub.induct)
  case (2 pat d ds)
  then have "take (length pat) (d # ds) \<noteq> pat" by (metis in_set_takeD)
  then show ?case using 2 by simp
qed simp

lemma hex_value_digit: "n < 16 \<Longrightarrow> hex_value (hex_digit n) = Some n"
  by (auto simp: hex_value_def hex_digit_def Let_def)

lemma hex_digits_set: "c \<in> set (hex_digits k n) \<Longrightarrow> \<exists>d < 16. c = hex_digit d"
proof (induction k arbitrary: n)
  case (Suc k)
  then show ?case using mod_less_divisor[of 16 n] by (metis Un_iff empty_iff hex_digits.simps(2) insert_iff list.set(1) list.set(2) set_append zero_less_numeral)
qed simp

lemma hex_digit_class:
  assumes "d < 16"
  shows "\<not> py_isspace (hex_digit d)" "hex_digit d \<notin> {CHR ''-'', CHR ''+'', CHR ''x'', CHR ''X'', CHR '':'', CHR ''{'', CHR ''}''}"
proof -
  have code: "(of_char (hex_digit d) :: nat) = (if d < 10 then 48 + d else 87 + d)"
    using assms by (auto simp: hex_digit_def)
  show "\<not> py_isspace (hex_digit d)" using code assms by (auto simp: py_isspace_def)
  have "(of_char (hex_digit d) :: nat) \<noteq> of_char c" if "c \<in> {CHR ''-'', CHR ''+'', CHR ''x'', CHR ''X'', CHR '':'', CHR ''{'', CHR ''}''}" for c
    using that code assms by auto
  then show "hex_digit d \<notin> {CHR ''-'', CHR ''+'', CHR ''x'', CHR ''X'', CHR '':'', CHR ''{'', CHR ''}''}" by metis
qed

lemma not_hex_digit:
  assumes "c \<in> {CHR ''-'', CHR ''+'', CHR ''x'', CHR ''X'', CHR '':'', CHR ''{'', CHR ''}''}"
  shows "c \<notin> set (hex_digits k n)"
  using hex_digits_set[of c k n] hex_digit_class(2) assms by blast

lemma read_hex_digits:
  "\<forall>c \<in> set s. hex_value c \<noteq> None \<Longrightarrow> s \<noteq> [] \<or> \<not> need \<Longrightarrow>
   read_hex acc need s = Some (foldl (\<lambda>n c. 16 * n + the (hex_value c)) acc s)"
  by (induction s arbitrary: acc need) auto

lemma foldl_hex_digits: "n < 16 ^ k \<Longrightarrow> foldl (\<lambda>m c. 16 * m + the (hex_value c)) 0 (hex_digits k n) = n"
proof (induction k arbitrary: n)
  case (Suc k)
  then have "n div 16 < 16 ^ k" by (simp add: less_mult_imp_div_less mult.commute)
  then show ?case using Suc.IH by (simp add: hex_value_digit)
qed simp

lemma int_base16_hex_digits:
  assumes "n < 16 ^ Suc k"
  shows "int_base16 (hex_digits (Suc k) n) = Some (int n)"
proof -
  let ?h = "hex_digits (Suc k) n"
  have digit: "\<exists>d < 16. c = hex_digit d" if "c \<in> set ?h" for c using that hex_digits_set by blast
  have len: "length ?h = Suc k" by (rule hex_digits_length)
  then obtain c cs where h: "?h = c # cs" by (cases ?h) auto
  have edge: "\<not> py_isspace c" "\<not> py_isspace (last ?h)" using digit hex_digit_class(1) h by (metis last_in_set list.distinct(1) list.set_intros(1))+
  have "rev ?h = last ?h # rev (butlast ?h)" using h by (metis append_butlast_last_id list.distinct(1) rev_eq_Cons_iff rev_rev_ident)
  then have strip: "py_strip ?h = ?h" using edge h by (simp add: py_strip_def del: hex_digits.simps)
  have c: "c \<noteq> CHR ''+''" "c \<noteq> CHR ''-''" using not_hex_digit[of c "Suc k" n] h by (auto simp del: hex_digits.simps)
  have no_prefix: "take 2 ?h \<noteq> ''0x'' \<and> take 2 ?h \<noteq> ''0X''"
  proof -
    have "CHR ''x'' \<notin> set ?h" "CHR ''X'' \<notin> set ?h" using not_hex_digit by blast+
    then show ?thesis by (metis in_set_takeD list.set_intros(1) list.set_intros(2))
  qed
  have "\<forall>c \<in> set ?h. hex_value c \<noteq> None" using digit hex_value_digit by fastforce
  then have "read_hex 0 True ?h = Some n" using read_hex_digits[of ?h True 0] foldl_hex_digits[OF assms] h by (simp del: hex_digits.simps)
  then have lit: "read_hex_literal ?h = Some n" unfolding read_hex_literal_def using no_prefix by (simp only: simp_thms if_False)
  show ?thesis unfolding int_base16_def strip using c lit h by (simp del: hex_digits.simps)
qed

lemma parse_uuid_str: "parse_uuid (uuid_str u) = Some u"
proof -
  let ?h = "hex_digits 32 (unat u)"
  have digit: "\<exists>d < 16. c = hex_digit d" if "c \<in> set ?h" for c using that hex_digits_set by blast
  have sub: "set (uuid_str u) \<subseteq> insert (CHR ''-'') (set ?h)"
    by (auto simp: uuid_str_def Let_def dest!: in_set_takeD in_set_dropD)
  have colon: "CHR '':'' \<notin> set (uuid_str u)" and braces: "CHR ''{'' \<notin> set (uuid_str u)" "CHR ''}'' \<notin> set (uuid_str u)"
    using sub not_hex_digit[of _ 32 "unat u"] by auto
  have strip: "dropWhile (\<lambda>c. c \<in> {CHR ''{'', CHR ''}''}) s = s" if "set s \<subseteq> set (uuid_str u)" for s
    using that braces by (cases s) auto
  have removed: "remove_all_sub ''uuid:'' (remove_all_sub ''urn:'' (uuid_str u)) = uuid_str u"
    using colon by (simp add: remove_all_sub_id[of "CHR '':''"])
  have keep: "filter (\<lambda>c. c \<noteq> CHR ''-'') s = s" if "set s \<subseteq> set ?h" for s
    using that not_hex_digit[of "CHR ''-''" 32 "unat u"] by (intro filter_True) auto
  have "filter (\<lambda>c. c \<noteq> CHR ''-'') (uuid_str u) = take 8 ?h @ take 4 (drop 8 ?h) @ take 4 (drop 12 ?h) @ take 4 (drop 16 ?h) @ drop 20 ?h"
    unfolding uuid_str_def Let_def filter_append
    by (subst keep, force dest: in_set_takeD in_set_dropD)+ simp
  also have "\<dots> = ?h"
    using take_add[of 8 4 ?h] take_add[of 12 4 ?h] take_add[of 16 4 ?h] append_take_drop_id[of 20 ?h]
    by (simp del: append_take_drop_id)
  finally have hex: "filter (\<lambda>c. c \<noteq> CHR ''-'') (strip_braces (uuid_str u)) = ?h"
    using strip[of "uuid_str u"] strip[of "rev (uuid_str u)"] by (simp add: strip_braces_def)
  have "int_base16 ?h = Some (int (unat u))"
    using int_base16_hex_digits[of "unat u" 31] unsigned_less[of u, where ?'a = nat] by simp
  moreover have "int (unat u) < 2 ^ 128" using unsigned_less[of u, where ?'a = int] by simp
  ultimately show ?thesis using removed hex by (simp add: parse_uuid_def)
qed

section \<open>Cursors are read back\<close>

text \<open>
  What the JSON reader and \<open>fromisoformat\<close> must do with the text of one cursor: read back the
  document and the timestamp that were written.
\<close>

definition cursor_document :: "page_cursor \<Rightarrow> json" where
  "cursor_document c =
     JObj [(''v'', JInt 1), (''timestamp'', JStr (utc_isoformat (pc_timestamp c))), (''id'', JStr (uuid_str (pc_row_id c)))]"

definition reads_cursor :: "cursor_codec \<Rightarrow> page_cursor \<Rightarrow> bool" where
  "reads_cursor cc c \<longleftrightarrow> cc_loads cc (utf8_encode (cursor_text c)) = Some (cursor_document c) \<and>
     cc_fromisoformat cc (utc_isoformat (pc_timestamp c)) = Some (Aware (pc_timestamp c))"

lemma decode_encode_cursor:
  assumes "reads_cursor cc c"
  shows "decode_cursor cc (Some (encode_cursor c)) = Inr (Some c)"
  using assms b64_round_trip[of "utf8_encode (cursor_text c)"]
  by (simp add: decode_cursor_def encode_cursor_def reads_cursor_def cursor_document_def equals_one_def parse_uuid_str)

text \<open>Every failure is the same error.\<close>

lemma decode_cursor_errors: "decode_cursor cc v = Inl e \<Longrightarrow> e = invalid_cursor"
  by (auto simp: decode_cursor_def Let_def split: option.splits json.splits if_splits parsed_date.splits)

lemma cursor_text_document: "cursor_text c = cursor_text c' \<Longrightarrow> cursor_document c = cursor_document c'"
proof -
  assume "cursor_text c = cursor_text c'"
  then have "dumps_str (utc_isoformat (pc_timestamp c)) @ '','' @ dumps_str ''id'' @ '':'' @ dumps_str (uuid_str (pc_row_id c)) @ ''}'' =
    dumps_str (utc_isoformat (pc_timestamp c')) @ '','' @ dumps_str ''id'' @ '':'' @ dumps_str (uuid_str (pc_row_id c')) @ ''}''"
    by (simp add: cursor_text_def)
  from dumps_str_inject[OF this] have t: "utc_isoformat (pc_timestamp c) = utc_isoformat (pc_timestamp c')"
    and "dumps_str (uuid_str (pc_row_id c)) @ ''}'' = dumps_str (uuid_str (pc_row_id c')) @ ''}''" by simp_all
  from dumps_str_inject[OF this(2)] t show ?thesis by (simp add: cursor_document_def)
qed

section \<open>A cursor fits the parameter that carries it\<close>

text \<open>The characters of a timestamp and an identifier need no escape and one byte each.\<close>

definition plain :: "char \<Rightarrow> bool" where
  "plain c \<longleftrightarrow> 32 \<le> (of_char c :: nat) \<and> (of_char c :: nat) < 128 \<and> (of_char c :: nat) \<noteq> 34 \<and> (of_char c :: nat) \<noteq> 92"

lemma escape_plain:
  assumes "plain c"
  shows "escape_char c = [c]"
proof -
  have ne: "c \<noteq> d" if "(of_char d :: nat) < 32 \<or> (of_char d :: nat) = 34 \<or> (of_char d :: nat) = 92" for d
    using that assms unfolding plain_def by (metis not_le)
  have "c \<noteq> CHR 0x22" "c \<noteq> CHR 0x5C" "c \<noteq> CHR 0x0A" "c \<noteq> CHR 0x0D" "c \<noteq> CHR 0x09" "c \<noteq> CHR 0x0C" "c \<noteq> CHR 0x08"
    by (rule ne; simp)+
  moreover have "\<not> (of_char c :: nat) < 32" using assms by (simp add: plain_def)
  ultimately show ?thesis by (simp add: escape_char_def)
qed

lemma dumps_str_plain: "list_all plain s \<Longrightarrow> dumps_str s = CHR 0x22 # s @ [CHR 0x22]"
  by (induction s) (simp_all add: dumps_str_def escape_plain)

lemma utf8_length: "list_all (\<lambda>c. (of_char c :: nat) < 128) s \<Longrightarrow> length (utf8_encode s) = length s"
  by (induction s) (simp_all add: utf8_encode_def utf8_char_def)

lemma pad_digits_length [simp]: "length (pad_digits k n) = k"
  by (induction k arbitrary: n) auto

lemma pad_digits_plain: "list_all plain (pad_digits k n)"
proof (induction k arbitrary: n)
  case (Suc k)
  have "nat (n mod 10) < 10" by simp
  then have "(of_char (digit_char (nat (n mod 10))) :: nat) = 48 + nat (n mod 10)" by (rule digit_char_code)
  then have "plain (digit_char (nat (n mod 10)))" using \<open>nat (n mod 10) < 10\<close> by (auto simp: plain_def)
  then show ?case using Suc by simp
qed simp

lemma isoformat_plain: "list_all plain (utc_isoformat t)" "length (utc_isoformat t) \<le> 32"
  by (auto simp: utc_isoformat_def isoformat_def Let_def pad_digits_plain plain_def split: prod.splits)

lemma hex_digit_plain: "d < 16 \<Longrightarrow> plain (hex_digit d)"
  by (auto simp: plain_def hex_digit_def)

lemma uuid_str_plain: "list_all plain (uuid_str u)" "length (uuid_str u) = 36"
proof -
  have "plain c" if "c \<in> set (hex_digits 32 (unat u))" for c using hex_digits_set[OF that] hex_digit_plain by blast
  then show "list_all plain (uuid_str u)"
    by (auto simp: uuid_str_def Let_def list_all_iff plain_def dest!: in_set_takeD in_set_dropD)
qed (simp add: uuid_str_def Let_def)

lemma b64encode_length: "length (urlsafe_b64encode bs) = 4 * ((length bs + 2) div 3)"
proof (induction bs rule: urlsafe_b64encode.induct)
  case (4 a b c rest)
  have "(length (a # b # c # rest) + 2) div 3 = (length rest + 2) div 3 + 1" by simp
  then show ?case using 4 by simp
qed simp_all

lemma encode_cursor_length: "length (encode_cursor c) \<le> 512"
proof -
  have "list_all (\<lambda>c. (of_char c :: nat) < 128) (cursor_text c)"
    using isoformat_plain(1)[of "pc_timestamp c"] uuid_str_plain(1)[of "pc_row_id c"]
    by (auto simp: cursor_text_def dumps_str_plain list_all_iff plain_def)
  moreover have "length (cursor_text c) \<le> 128"
    using isoformat_plain[of "pc_timestamp c"] uuid_str_plain[of "pc_row_id c"]
    by (simp add: cursor_text_def dumps_str_plain) (simp add: dumps_str_def escape_char_def)
  ultimately have "length (urlsafe_b64encode (utf8_encode (cursor_text c))) \<le> 512"
    using utf8_length by (simp add: b64encode_length)
  moreover have "length (rstrip_pad s) \<le> length s" for s
    by (simp add: rstrip_pad_def) (metis length_dropWhile_le length_rev)
  ultimately show ?thesis unfolding encode_cursor_def using order.trans by blast
qed

end
