(* ===== verification/Control_Room.thy ===== *)
theory Control_Room
  imports Cursors Acceptance
begin

text \<open>
  The read side of the Control Room, control_room.py: the dashboard counts and the three
  paged lists, as queries over the tables.  A list is served newest first in pages of at most
  \<open>limit\<close> rows; one row more is fetched to know whether another page follows, and the cursor
  of that page is the sort key of the last row shown.  The interface of such a list is the
  locale \<open>paged_list\<close>: a client that follows the cursors sees every row exactly once.
\<close>

section \<open>Results\<close>

record 'a page =
  pg_items :: "'a list"
  pg_next_cursor :: "string option"

record overview_snapshot =
  os_generated_at :: datetime
  os_events_total :: int
  os_endpoints_total :: int
  os_endpoints_enabled :: int
  os_deliveries_by_status :: "(delivery_status \<times> int) list"
  os_actionable_dead_letters :: int

record event_list_record =
  er_event :: event
  er_latest_delivery :: delivery
  er_endpoint :: endpoint

record dead_letter_record =
  dr_event :: event
  dr_delivery :: delivery
  dr_endpoint :: endpoint
  dr_last_http_status_code :: "int option"
  dr_last_response_body_excerpt :: "string option"

section \<open>Queries\<close>

definition order_by_desc :: "('r \<Rightarrow> 'k::linorder) \<Rightarrow> 'r list \<Rightarrow> 'r list" where
  "order_by_desc key rows = rev (order_by key rows)"

definition latest_generation_condition :: "db \<Rightarrow> delivery \<Rightarrow> bool" where
  "latest_generation_condition db d \<longleftrightarrow>
     \<not> list_ex (\<lambda>newer. dl_event_id newer = dl_event_id d \<and> dl_endpoint_id newer = dl_endpoint_id d \<and>
          dl_replay_generation newer > dl_replay_generation d) (db_deliveries db)"

text \<open>
  \<open>GROUP BY status\<close> gives one row for each status that occurs.  The four statements of
  \<open>overview\<close> each read their own snapshot of the database: at the isolation level READ
  COMMITTED other transactions may commit between them.
\<close>

definition status_rows :: "db \<Rightarrow> (delivery_status \<times> int) list" where
  "status_rows db =
     (let rows = filter (latest_generation_condition db) (db_deliveries db)
      in map (\<lambda>s. (s, int (length (filter (\<lambda>d. dl_status d = s) rows)))) (remdups (map dl_status rows)))"

definition overview :: "datetime option \<Rightarrow> db \<Rightarrow> db \<Rightarrow> db \<Rightarrow> db \<Rightarrow> overview_snapshot res" where
  "overview generated_at db1 db2 db3 db4 =
     (case generated_at of
        None \<Rightarrow> Inl (RuntimeError ''PostgreSQL did not return a dashboard timestamp'')
      | Some now \<Rightarrow>
          Inr \<lparr>os_generated_at = now,
               os_events_total = int (length (db_events db1)),
               os_endpoints_total = int (length (db_endpoints db2)),
               os_endpoints_enabled = int (length (filter ep_enabled (db_endpoints db2))),
               os_deliveries_by_status = status_rows db3,
               os_actionable_dead_letters =
                 int (length (filter (\<lambda>d. dl_status d = DEAD_LETTERED \<and> latest_generation_condition db4 d)
                   (db_deliveries db4)))\<rparr>)"

text \<open>The keyset condition: strictly after the cursor in the descending order.\<close>

definition after_cursor :: "page_cursor option \<Rightarrow> datetime \<Rightarrow> uuid \<Rightarrow> bool" where
  "after_cursor cursor timestamp row_id \<longleftrightarrow>
     (case cursor of
        None \<Rightarrow> True
      | Some c \<Rightarrow> timestamp < pc_timestamp c \<or> timestamp = pc_timestamp c \<and> row_id < pc_row_id c)"

text \<open>An optional filter: \<open>None\<close> adds no condition.\<close>

definition matches :: "'a option \<Rightarrow> 'a \<Rightarrow> bool" where
  "matches wanted v \<longleftrightarrow> (case wanted of None \<Rightarrow> True | Some w \<Rightarrow> v = w)"

definition event_rows :: "db \<Rightarrow> (event \<times> delivery \<times> endpoint) list" where
  "event_rows db =
     [(e, d, q). e \<leftarrow> db_events db, d \<leftarrow> db_deliveries db, dl_event_id d = ev_id e,
        q \<leftarrow> db_endpoints db, ep_id q = dl_endpoint_id d]"

definition list_events ::
    "string option \<Rightarrow> uuid option \<Rightarrow> delivery_status option \<Rightarrow> nat \<Rightarrow> page_cursor option \<Rightarrow> db \<Rightarrow> event_list_record page" where
  "list_events event_type endpoint_id delivery_status limit cursor db =
     (let rows = take (limit + 1) (order_by_desc (\<lambda>(e, d, q). (ev_created_at e, ev_id e))
            (filter (\<lambda>(e, d, q). latest_generation_condition db d \<and> after_cursor cursor (ev_created_at e) (ev_id e) \<and>
                matches event_type (ev_event_type e) \<and> matches endpoint_id (dl_endpoint_id d) \<and>
                matches delivery_status (dl_status d))
              (event_rows db)));
          visible = take limit rows;
          records = map (\<lambda>(e, d, q). \<lparr>er_event = e, er_latest_delivery = d, er_endpoint = q\<rparr>) visible
      in \<lparr>pg_items = records,
          pg_next_cursor =
            (if length rows > limit \<and> records \<noteq> []
             then let e = er_event (last records)
                  in Some (encode_cursor \<lparr>pc_timestamp = ev_created_at e, pc_row_id = ev_id e\<rparr>)
             else None)\<rparr>)"

definition list_endpoints :: "nat \<Rightarrow> page_cursor option \<Rightarrow> db \<Rightarrow> endpoint page" where
  "list_endpoints limit cursor db =
     (let rows = take (limit + 1) (order_by_desc (\<lambda>q. (ep_created_at q, ep_id q))
            (filter (\<lambda>q. after_cursor cursor (ep_created_at q) (ep_id q)) (db_endpoints db)));
          visible = take limit rows
      in \<lparr>pg_items = visible,
          pg_next_cursor =
            (if length rows > limit \<and> visible \<noteq> []
             then let q = last visible
                  in Some (encode_cursor \<lparr>pc_timestamp = ep_created_at q, pc_row_id = ep_id q\<rparr>)
             else None)\<rparr>)"

text \<open>
  The two scalar subqueries on the newest attempt: null when there is no attempt.
\<close>

definition newest_attempt :: "uuid \<Rightarrow> db \<Rightarrow> delivery_attempt option" where
  "newest_attempt delivery_id db =
     (case order_by_desc at_attempt_number (filter (\<lambda>a. at_delivery_id a = delivery_id) (db_attempts db)) of
        [] \<Rightarrow> None | a # _ \<Rightarrow> Some a)"

definition last_http_status_code :: "uuid \<Rightarrow> db \<Rightarrow> int option" where
  "last_http_status_code delivery_id db = Option.bind (newest_attempt delivery_id db) at_http_status_code"

definition last_response_body_excerpt :: "uuid \<Rightarrow> db \<Rightarrow> string option" where
  "last_response_body_excerpt delivery_id db = Option.bind (newest_attempt delivery_id db) at_response_body_excerpt"

definition dead_letter_rows :: "db \<Rightarrow> (event \<times> delivery \<times> endpoint) list" where
  "dead_letter_rows db =
     [(e, d, q). d \<leftarrow> db_deliveries db, e \<leftarrow> db_events db, ev_id e = dl_event_id d,
        q \<leftarrow> db_endpoints db, ep_id q = dl_endpoint_id d]"

definition list_dead_letters :: "uuid option \<Rightarrow> nat \<Rightarrow> page_cursor option \<Rightarrow> db \<Rightarrow> dead_letter_record page" where
  "list_dead_letters endpoint_id limit cursor db =
     (let rows = take (limit + 1) (order_by_desc (\<lambda>(e, d, q). (dl_updated_at d, dl_id d))
            (filter (\<lambda>(e, d, q). dl_status d = DEAD_LETTERED \<and> latest_generation_condition db d \<and>
                after_cursor cursor (dl_updated_at d) (dl_id d) \<and> matches endpoint_id (dl_endpoint_id d))
              (dead_letter_rows db)));
          visible = take limit rows;
          records = map (\<lambda>(e, d, q). \<lparr>dr_event = e, dr_delivery = d, dr_endpoint = q,
            dr_last_http_status_code = last_http_status_code (dl_id d) db,
            dr_last_response_body_excerpt = last_response_body_excerpt (dl_id d) db\<rparr>) visible
      in \<lparr>pg_items = records,
          pg_next_cursor =
            (if length rows > limit \<and> records \<noteq> []
             then let d = dr_delivery (last records)
                  in Some (encode_cursor \<lparr>pc_timestamp = dl_updated_at d, pc_row_id = dl_id d\<rparr>)
             else None)\<rparr>)"

section \<open>The query service\<close>

definition page_query :: "cursor_codec \<Rightarrow> string option \<Rightarrow> (page_cursor option \<Rightarrow> 'a page) \<Rightarrow> 'a page res" where
  "page_query cc cursor fetch =
     (case decode_cursor cc cursor of Inl e \<Rightarrow> Inl e | Inr c \<Rightarrow> Inr (fetch c))"

definition events_query ::
    "cursor_codec \<Rightarrow> string option \<Rightarrow> uuid option \<Rightarrow> delivery_status option \<Rightarrow> nat \<Rightarrow> string option \<Rightarrow> db \<Rightarrow>
     event_list_record page res" where
  "events_query cc event_type endpoint_id delivery_status limit cursor db =
     page_query cc cursor (\<lambda>c. list_events event_type endpoint_id delivery_status limit c db)"

definition endpoints_query :: "cursor_codec \<Rightarrow> nat \<Rightarrow> string option \<Rightarrow> db \<Rightarrow> endpoint page res" where
  "endpoints_query cc limit cursor db = page_query cc cursor (\<lambda>c. list_endpoints limit c db)"

definition endpoint_query :: "uuid \<Rightarrow> db \<Rightarrow> endpoint res" where
  "endpoint_query endpoint_id db =
     (case get_endpoint endpoint_id db of
        None \<Rightarrow> Inl (DomainError 404 ''endpoint_not_found'' ''Endpoint not found''
                 (''Endpoint '' @ uuid_str endpoint_id @ '' does not exist.''))
      | Some e \<Rightarrow> Inr e)"

definition dead_letters_query ::
    "cursor_codec \<Rightarrow> uuid option \<Rightarrow> nat \<Rightarrow> string option \<Rightarrow> db \<Rightarrow> dead_letter_record page res" where
  "dead_letters_query cc endpoint_id limit cursor db =
     page_query cc cursor (\<lambda>c. list_dead_letters endpoint_id limit c db)"

section \<open>The interface of a paged list\<close>

definition cursor_key :: "page_cursor \<Rightarrow> datetime \<times> uuid" where
  "cursor_key c = (pc_timestamp c, pc_row_id c)"

lemma after_cursor_key:
  "after_cursor cursor t i \<longleftrightarrow> (case cursor of None \<Rightarrow> True | Some c \<Rightarrow> (t, i) < cursor_key c)"
  by (auto simp: after_cursor_def cursor_key_def split: option.splits)

text \<open>One page of a list: the first rows after the cursor, and a cursor when rows remain.\<close>

definition page_of :: "('a \<Rightarrow> page_cursor) \<Rightarrow> nat \<Rightarrow> page_cursor option \<Rightarrow> 'a list \<Rightarrow> 'a page" where
  "page_of cursor_of limit cursor rows =
     (let rs = filter (\<lambda>r. case cursor of None \<Rightarrow> True | Some c \<Rightarrow> cursor_key (cursor_of r) < cursor_key c) rows
      in \<lparr>pg_items = take limit rs,
          pg_next_cursor = (if limit < length rs \<and> 0 < limit
            then Some (encode_cursor (cursor_of (last (take limit rs)))) else None)\<rparr>)"

text \<open>
  A client that asks for a first page and then for the page of every cursor it is given.  The
  outer \<open>None\<close> says that it gave up after its number of requests with pages left.
\<close>

fun follow :: "(string option \<Rightarrow> 'a page res) \<Rightarrow> nat \<Rightarrow> string option \<Rightarrow> 'a list list res option" where
  "follow get 0 cursor = None"
| "follow get (Suc n) cursor =
     (case get cursor of
        Inl e \<Rightarrow> Some (Inl e)
      | Inr p \<Rightarrow>
          (case pg_next_cursor p of
             None \<Rightarrow> Some (Inr [pg_items p])
           | Some c \<Rightarrow> map_option (map_sum id (Cons (pg_items p))) (follow get n (Some c))))"

locale paged_list =
  fixes inv :: "db \<Rightarrow> bool"
    and fetch :: "nat \<Rightarrow> page_cursor option \<Rightarrow> db \<Rightarrow> 'a page"
    and cursor_of :: "'a \<Rightarrow> page_cursor"
    and contents :: "db \<Rightarrow> 'a list"
  assumes fetch_page: "fetch limit cursor db = page_of cursor_of limit cursor (contents db)"
    and newest_first: "inv db \<Longrightarrow>
      sorted_wrt (\<lambda>x y. cursor_key (cursor_of y) < cursor_key (cursor_of x)) (contents db)"
begin

text \<open>The rows after the cursor of a row are the rows behind it.\<close>

lemma rows_after:
  assumes "inv db" "contents db = xs @ x # ys"
  shows "filter (\<lambda>r. cursor_key (cursor_of r) < cursor_key (cursor_of x)) (contents db) = ys"
proof -
  have s: "sorted_wrt (\<lambda>x y. cursor_key (cursor_of y) < cursor_key (cursor_of x)) (xs @ x # ys)"
    using newest_first[OF assms(1)] assms(2) by simp
  have "filter (\<lambda>r. cursor_key (cursor_of r) < cursor_key (cursor_of x)) xs = []"
    using s by (auto simp: sorted_wrt_append filter_empty_conv dest: order.asym)
  moreover have "filter (\<lambda>r. cursor_key (cursor_of r) < cursor_key (cursor_of x)) ys = ys"
    using s by (auto simp: sorted_wrt_append intro: filter_True)
  ultimately show ?thesis using assms(2) by simp
qed

lemma fetch_after:
  assumes "inv db" "contents db = xs @ ys" "cursor = (if xs = [] then None else Some (cursor_of (last xs)))" "0 < limit"
  shows "fetch limit cursor db =
    \<lparr>pg_items = take limit ys,
     pg_next_cursor = (if limit < length ys then Some (encode_cursor (cursor_of (last (xs @ take limit ys)))) else None)\<rparr>"
proof -
  have "filter (\<lambda>r. case cursor of None \<Rightarrow> True | Some c \<Rightarrow> cursor_key (cursor_of r) < cursor_key c) (contents db) = ys"
  proof (cases xs rule: rev_cases)
    case (snoc zs x)
    then show ?thesis using rows_after[OF assms(1), of zs x ys] assms(2,3) by simp
  qed (use assms(2,3) in simp)
  moreover have "last (take limit ys) = last (xs @ take limit ys)" if "limit < length ys" using that assms(4) by (cases ys) auto
  ultimately show ?thesis using assms(4) by (simp add: fetch_page page_of_def Let_def)
qed

lemma follow_from:
  assumes "inv db" "0 < limit" "\<forall>r \<in> set (contents db). reads_cursor cc (cursor_of r)" "contents db = xs @ ys"
    "cursor = (if xs = [] then None else Some (encode_cursor (cursor_of (last xs))))" "length ys < n"
  shows "\<exists>pages. follow (\<lambda>c. page_query cc c (\<lambda>k. fetch limit k db)) n cursor = Some (Inr pages) \<and>
    concat pages = ys \<and> pages \<noteq> [] \<and> (\<forall>p \<in> set pages. length p \<le> limit) \<and> (\<forall>p \<in> set (butlast pages). length p = limit)"
  using assms(4-6)
proof (induction n arbitrary: xs ys cursor)
  case (Suc n)
  let ?k = "if xs = [] then None else Some (cursor_of (last xs))"
  have "decode_cursor cc cursor = Inr ?k"
    using Suc.prems(1,2) assms(3) decode_encode_cursor[of cc "cursor_of (last xs)"] by (auto simp: decode_cursor_def)
  then have get: "page_query cc cursor (\<lambda>k. fetch limit k db) = Inr (fetch limit ?k db)" by (simp add: page_query_def)
  note page = fetch_after[OF assms(1) Suc.prems(1) refl assms(2)]
  show ?case
  proof (cases "limit < length ys")
    case True
    let ?c = "encode_cursor (cursor_of (last (xs @ take limit ys)))"
    have "take limit ys \<noteq> []" using True assms(2) by auto
    moreover have "length (drop limit ys) < n" using True assms(2) Suc.prems(3) by simp
    ultimately obtain pages where p: "follow (\<lambda>c. page_query cc c (\<lambda>k. fetch limit k db)) n (Some ?c) = Some (Inr pages)"
      "concat pages = drop limit ys" "pages \<noteq> []" "\<forall>p \<in> set pages. length p \<le> limit" "\<forall>p \<in> set (butlast pages). length p = limit"
      using Suc.IH[of "xs @ take limit ys" "drop limit ys" "Some ?c"] Suc.prems(1) by auto
    have "follow (\<lambda>c. page_query cc c (\<lambda>k. fetch limit k db)) (Suc n) cursor = Some (Inr (take limit ys # pages))"
      using get page True p(1) by simp
    then show ?thesis using p True by (intro exI[of _ "take limit ys # pages"]) simp
  next
    case False
    then have "follow (\<lambda>c. page_query cc c (\<lambda>k. fetch limit k db)) (Suc n) cursor = Some (Inr [ys])" using get page by simp
    then show ?thesis using False by (intro exI[of _ "[ys]"]) simp
  qed
qed simp

lemma follow_all:
  assumes "inv db" "0 < limit" "\<forall>r \<in> set (contents db). reads_cursor cc (cursor_of r)"
  shows "\<exists>pages. follow (\<lambda>c. page_query cc c (\<lambda>k. fetch limit k db)) (Suc (length (contents db))) None = Some (Inr pages) \<and>
    concat pages = contents db \<and> (\<forall>p \<in> set pages. length p \<le> limit) \<and> (\<forall>p \<in> set (butlast pages). length p = limit)"
  using follow_from[OF assms, of "[]" "contents db" None "Suc (length (contents db))"] by auto

end

section \<open>The three lists\<close>

lemma order_by_desc_filter: "order_by_desc key (filter P xs) = filter P (order_by_desc key xs)"
  unfolding order_by_desc_def order_by_def by (simp only: rev_filter filter_sort[symmetric])

lemma set_order_by_desc [simp]: "set (order_by_desc key xs) = set xs"
  by (simp add: order_by_desc_def)

lemma length_order_by_desc [simp]: "length (order_by_desc key xs) = length xs"
  by (simp add: order_by_desc_def order_by_def)

lemma order_by_desc_strict:
  assumes "distinct (map key xs)"
  shows "sorted_wrt (\<lambda>x y. key y < key x) (order_by_desc key xs)"
proof -
  have "distinct (map key (sort_key key xs))" using assms by (simp add: distinct_map)
  then have "sorted_wrt (<) (map key (sort_key key xs))"
    using sorted_sort_key[of key xs] by (metis strict_sorted_iff)
  then show ?thesis by (simp add: order_by_desc_def order_by_def sorted_wrt_rev sorted_wrt_map)
qed

text \<open>The rows of a join are distinct when each stage is.\<close>

lemma distinct_join:
  assumes "distinct xs" "\<And>x. x \<in> set xs \<Longrightarrow> distinct (f x)"
    "\<And>x y r. x \<in> set xs \<Longrightarrow> y \<in> set xs \<Longrightarrow> r \<in> set (f x) \<Longrightarrow> r \<in> set (f y) \<Longrightarrow> x = y"
  shows "distinct (concat (map f xs))"
  using assms
proof (induction xs)
  case (Cons x xs)
  have "set (f x) \<inter> set (f y) = {}" if "y \<in> set xs" for y
    using Cons.prems(1,3) that by (metis IntE disjoint_iff distinct.simps(2) list.set_intros)
  then show ?case using Cons by auto
qed simp

definition endpoint_cursor :: "endpoint \<Rightarrow> page_cursor" where
  "endpoint_cursor q = \<lparr>pc_timestamp = ep_created_at q, pc_row_id = ep_id q\<rparr>"

definition event_cursor :: "event_list_record \<Rightarrow> page_cursor" where
  "event_cursor r = \<lparr>pc_timestamp = ev_created_at (er_event r), pc_row_id = ev_id (er_event r)\<rparr>"

definition dead_letter_cursor :: "dead_letter_record \<Rightarrow> page_cursor" where
  "dead_letter_cursor r = \<lparr>pc_timestamp = dl_updated_at (dr_delivery r), pc_row_id = dl_id (dr_delivery r)\<rparr>"

definition all_endpoints :: "db \<Rightarrow> endpoint list" where
  "all_endpoints db = order_by_desc (\<lambda>q. (ep_created_at q, ep_id q)) (db_endpoints db)"

definition all_events :: "string option \<Rightarrow> uuid option \<Rightarrow> delivery_status option \<Rightarrow> db \<Rightarrow> event_list_record list" where
  "all_events event_type endpoint_id delivery_status db =
     map (\<lambda>(e, d, q). \<lparr>er_event = e, er_latest_delivery = d, er_endpoint = q\<rparr>)
       (order_by_desc (\<lambda>(e, d, q). (ev_created_at e, ev_id e))
         (filter (\<lambda>(e, d, q). latest_generation_condition db d \<and> matches event_type (ev_event_type e) \<and>
            matches endpoint_id (dl_endpoint_id d) \<and> matches delivery_status (dl_status d)) (event_rows db)))"

definition all_dead_letters :: "uuid option \<Rightarrow> db \<Rightarrow> dead_letter_record list" where
  "all_dead_letters endpoint_id db =
     map (\<lambda>(e, d, q). \<lparr>dr_event = e, dr_delivery = d, dr_endpoint = q,
         dr_last_http_status_code = last_http_status_code (dl_id d) db,
         dr_last_response_body_excerpt = last_response_body_excerpt (dl_id d) db\<rparr>)
       (order_by_desc (\<lambda>(e, d, q). (dl_updated_at d, dl_id d))
         (filter (\<lambda>(e, d, q). dl_status d = DEAD_LETTERED \<and> latest_generation_condition db d \<and>
            matches endpoint_id (dl_endpoint_id d)) (dead_letter_rows db)))"

text \<open>Fetching one row too many tells whether there is another page.\<close>

lemma page_of_map:
  assumes "rows = take (limit + 1) (filter (\<lambda>r. case cursor of None \<Rightarrow> True | Some c \<Rightarrow> cursor_key (cursor_of (f r)) < cursor_key c) xs)"
  shows "\<lparr>pg_items = map f (take limit rows),
      pg_next_cursor = (if length rows > limit \<and> map f (take limit rows) \<noteq> []
        then Some (encode_cursor (cursor_of (last (map f (take limit rows))))) else None)\<rparr> =
    page_of cursor_of limit cursor (map f xs)"
proof -
  let ?fs = "filter (\<lambda>r. case cursor of None \<Rightarrow> True | Some c \<Rightarrow> cursor_key (cursor_of (f r)) < cursor_key c) xs"
  have "take limit rows = take limit ?fs" "limit < length rows \<longleftrightarrow> limit < length ?fs"
    using assms by (simp_all add: min_def)
  moreover have "filter (\<lambda>r. case cursor of None \<Rightarrow> True | Some c \<Rightarrow> cursor_key (cursor_of r) < cursor_key c) (map f xs) = map f ?fs"
    by (simp add: filter_map comp_def)
  ultimately show ?thesis by (auto simp: page_of_def Let_def take_map)
qed

lemma list_endpoints_page: "list_endpoints limit cursor db = page_of endpoint_cursor limit cursor (all_endpoints db)"
proof -
  have "order_by_desc (\<lambda>q. (ep_created_at q, ep_id q)) (filter (\<lambda>q. after_cursor cursor (ep_created_at q) (ep_id q)) (db_endpoints db)) =
    filter (\<lambda>r. case cursor of None \<Rightarrow> True | Some c \<Rightarrow> cursor_key (endpoint_cursor (id r)) < cursor_key c) (all_endpoints db)"
    by (cases cursor) (simp_all add: order_by_desc_filter all_endpoints_def after_cursor_key endpoint_cursor_def cursor_key_def)
  from page_of_map[where limit = limit and cursor = cursor and cursor_of = endpoint_cursor and f = "id", OF arg_cong[OF this, of "take (limit + 1)"]] show ?thesis
    by (simp only: list_endpoints_def Let_def endpoint_cursor_def list.map_id)
qed

lemma list_events_page:
  "list_events et ep st limit cursor db = page_of event_cursor limit cursor (all_events et ep st db)"
proof -
  let ?f = "\<lambda>(e, d, q). \<lparr>er_event = e, er_latest_delivery = d, er_endpoint = q\<rparr>"
  have "order_by_desc (\<lambda>(e, d, q). (ev_created_at e, ev_id e))
      (filter (\<lambda>(e, d, q). latest_generation_condition db d \<and> after_cursor cursor (ev_created_at e) (ev_id e) \<and>
        matches et (ev_event_type e) \<and> matches ep (dl_endpoint_id d) \<and> matches st (dl_status d)) (event_rows db)) =
    filter (\<lambda>r. case cursor of None \<Rightarrow> True | Some c \<Rightarrow> cursor_key (event_cursor (?f r)) < cursor_key c)
      (order_by_desc (\<lambda>(e, d, q). (ev_created_at e, ev_id e))
        (filter (\<lambda>(e, d, q). latest_generation_condition db d \<and> matches et (ev_event_type e) \<and>
          matches ep (dl_endpoint_id d) \<and> matches st (dl_status d)) (event_rows db)))"
    unfolding order_by_desc_filter filter_filter
    by (rule filter_cong[OF refl]) (auto simp: after_cursor_key event_cursor_def cursor_key_def split: option.splits)
  from page_of_map[where limit = limit and cursor = cursor and cursor_of = event_cursor and f = "?f", OF arg_cong[OF this, of "take (limit + 1)"]] show ?thesis
    by (simp only: list_events_def all_events_def Let_def event_cursor_def)
qed

lemma list_dead_letters_page:
  "list_dead_letters ep limit cursor db = page_of dead_letter_cursor limit cursor (all_dead_letters ep db)"
proof -
  let ?f = "\<lambda>(e, d, q). \<lparr>dr_event = e, dr_delivery = d, dr_endpoint = q,
         dr_last_http_status_code = last_http_status_code (dl_id d) db,
         dr_last_response_body_excerpt = last_response_body_excerpt (dl_id d) db\<rparr>"
  have "order_by_desc (\<lambda>(e, d, q). (dl_updated_at d, dl_id d))
      (filter (\<lambda>(e, d, q). dl_status d = DEAD_LETTERED \<and> latest_generation_condition db d \<and>
        after_cursor cursor (dl_updated_at d) (dl_id d) \<and> matches ep (dl_endpoint_id d)) (dead_letter_rows db)) =
    filter (\<lambda>r. case cursor of None \<Rightarrow> True | Some c \<Rightarrow> cursor_key (dead_letter_cursor (?f r)) < cursor_key c)
      (order_by_desc (\<lambda>(e, d, q). (dl_updated_at d, dl_id d))
        (filter (\<lambda>(e, d, q). dl_status d = DEAD_LETTERED \<and> latest_generation_condition db d \<and>
          matches ep (dl_endpoint_id d)) (dead_letter_rows db)))"
    unfolding order_by_desc_filter filter_filter
    by (rule filter_cong[OF refl]) (auto simp: after_cursor_key dead_letter_cursor_def cursor_key_def split: option.splits)
  from page_of_map[where limit = limit and cursor = cursor and cursor_of = dead_letter_cursor and f = "?f", OF arg_cong[OF this, of "take (limit + 1)"]] show ?thesis
    by (simp only: list_dead_letters_def all_dead_letters_def Let_def dead_letter_cursor_def)
qed

lemma set_event_rows:
  "set (event_rows db) = {(e, d, q). e \<in> set (db_events db) \<and> d \<in> set (db_deliveries db) \<and> q \<in> set (db_endpoints db) \<and>
     dl_event_id d = ev_id e \<and> ep_id q = dl_endpoint_id d}"
  by (auto simp: event_rows_def)

lemma set_dead_letter_rows: "set (dead_letter_rows db) = set (event_rows db)"
  by (auto simp: dead_letter_rows_def event_rows_def)

lemma endpoint_id_unique:
  "db_ok db \<Longrightarrow> a \<in> set (db_endpoints db) \<Longrightarrow> b \<in> set (db_endpoints db) \<Longrightarrow> ep_id a = ep_id b \<Longrightarrow> a = b"
  using db_okD(6)[of db] by (auto simp: distinct_map dest: inj_onD)

lemma distinct_rows:
  assumes "db_ok db"
  shows "distinct (event_rows db)" "distinct (dead_letter_rows db)"
proof -
  have d: "distinct (db_events db)" "distinct (db_deliveries db)" "distinct (db_endpoints db)"
    using db_okD(6-8)[OF assms] by (auto simp: distinct_map)
  show "distinct (event_rows db)"
    unfolding event_rows_def by (intro distinct_join d) (auto intro!: distinct_join d)
  show "distinct (dead_letter_rows db)"
    unfolding dead_letter_rows_def by (intro distinct_join d) (auto intro!: distinct_join d)
qed

text \<open>An event has one endpoint, so it has one latest generation and one row.\<close>

lemma latest_unique:
  assumes "db_ok db" "chain_ok cd db" "d \<in> set (db_deliveries db)" "d' \<in> set (db_deliveries db)"
    "dl_event_id d = dl_event_id d'" "latest_generation_condition db d" "latest_generation_condition db d'"
  shows "d = d'"
proof -
  have ep: "dl_endpoint_id d = dl_endpoint_id d'"
    using chain_okD(2)[OF assms(2,4)] assms(3,5) by (simp add: generation_ok_def)
  then have "dl_replay_generation d = dl_replay_generation d'"
    using assms(3-7) by (fastforce simp: latest_generation_condition_def list_ex_iff)
  then show ?thesis using unique_whereD[OF db_ok_uniques(2)[OF assms(1)] assms(3,4)] ep assms(5)
    by (simp add: generation_key_def)
qed

interpretation endpoint_pages: paged_list db_ok list_endpoints endpoint_cursor all_endpoints
proof
  fix db :: db assume "db_ok db"
  then have "distinct (map (\<lambda>q. (ep_created_at q, ep_id q)) (db_endpoints db))"
    using db_okD(6)[of db] by (auto simp: distinct_map inj_on_def)
  from order_by_desc_strict[OF this]
  show "sorted_wrt (\<lambda>x y. cursor_key (endpoint_cursor y) < cursor_key (endpoint_cursor x)) (all_endpoints db)"
    by (simp add: all_endpoints_def cursor_key_def endpoint_cursor_def)
qed (rule list_endpoints_page)

interpretation event_pages:
  paged_list "\<lambda>db. db_ok db \<and> chain_ok cd db" "list_events et ep st" event_cursor "all_events et ep st"
proof
  fix db :: db assume ok: "db_ok db \<and> chain_ok cd db"
  let ?rows = "filter (\<lambda>(e, d, q). latest_generation_condition db d \<and> matches et (ev_event_type e) \<and>
    matches ep (dl_endpoint_id d) \<and> matches st (dl_status d)) (event_rows db)"
  let ?key = "\<lambda>(e, d, q). (ev_created_at e, ev_id e)"
  have "inj_on ?key (set ?rows)"
  proof (rule inj_onI)
    fix x y assume xy: "x \<in> set ?rows" "y \<in> set ?rows" "?key x = ?key y"
    obtain e d q e' d' q' where eq: "x = (e, d, q)" "y = (e', d', q')" by (metis prod_cases3)
    then have a: "(e, d, q) \<in> set ?rows" "(e', d', q') \<in> set ?rows" "ev_id e = ev_id e'" using xy by auto
    then have "e = e'" using event_id_unique[of db e e'] ok by (simp add: set_event_rows)
    moreover have d: "d = d'" using a ok latest_unique[of db cd d d'] by (simp add: set_event_rows)
    moreover have "q = q'" using a d ok endpoint_id_unique[of db q q'] by (simp add: set_event_rows)
    ultimately show "x = y" using eq by simp
  qed
  then have "distinct (map ?key ?rows)" using distinct_rows(1)[of db] ok by (simp add: distinct_map)
  from order_by_desc_strict[OF this]
  show "sorted_wrt (\<lambda>x y. cursor_key (event_cursor y) < cursor_key (event_cursor x)) (all_events et ep st db)"
    by (simp add: all_events_def sorted_wrt_map cursor_key_def event_cursor_def split_beta)
qed (rule list_events_page)

interpretation dead_letter_pages:
  paged_list db_ok "list_dead_letters ep" dead_letter_cursor "all_dead_letters ep"
proof
  fix db :: db assume ok: "db_ok db"
  let ?rows = "filter (\<lambda>(e, d, q). dl_status d = DEAD_LETTERED \<and> latest_generation_condition db d \<and>
    matches ep (dl_endpoint_id d)) (dead_letter_rows db)"
  let ?key = "\<lambda>(e, d, q). (dl_updated_at d, dl_id d)"
  have "inj_on ?key (set ?rows)"
  proof (rule inj_onI)
    fix x y assume xy: "x \<in> set ?rows" "y \<in> set ?rows" "?key x = ?key y"
    obtain e d q e' d' q' where eq: "x = (e, d, q)" "y = (e', d', q')" by (metis prod_cases3)
    then have a: "(e, d, q) \<in> set ?rows" "(e', d', q') \<in> set ?rows" "dl_id d = dl_id d'" using xy by auto
    then have d: "d = d'" using delivery_id_unique[of db d d'] ok by (simp add: set_dead_letter_rows set_event_rows)
    moreover have "e = e'" using a d ok event_id_unique[of db e e'] by (simp add: set_dead_letter_rows set_event_rows)
    moreover have "q = q'" using a d ok endpoint_id_unique[of db q q'] by (simp add: set_dead_letter_rows set_event_rows)
    ultimately show "x = y" using eq by simp
  qed
  then have "distinct (map ?key ?rows)" using distinct_rows(2)[of db] ok by (simp add: distinct_map)
  from order_by_desc_strict[OF this]
  show "sorted_wrt (\<lambda>x y. cursor_key (dead_letter_cursor y) < cursor_key (dead_letter_cursor x)) (all_dead_letters ep db)"
    by (simp add: all_dead_letters_def sorted_wrt_map cursor_key_def dead_letter_cursor_def split_beta)
qed (rule list_dead_letters_page)

text \<open>The order is strict, so no row is listed twice.\<close>

lemma sorted_cursors_distinct:
  "sorted_wrt (\<lambda>x y. cursor_key (cur y) < cursor_key (cur x)) xs \<Longrightarrow> distinct (map (\<lambda>x. cursor_key (cur x)) xs)"
  by (induction xs) auto

lemma all_events_distinct:
  assumes "db_ok db" "chain_ok cd db"
  shows "distinct (map (\<lambda>r. ev_id (er_event r)) (all_events et ep st db))"
proof -
  have inj: "r = s" if "r \<in> set (all_events et ep st db)" "s \<in> set (all_events et ep st db)" "ev_id (er_event r) = ev_id (er_event s)" for r s
    using that assms event_id_unique[OF assms(1)] endpoint_id_unique[OF assms(1)] latest_unique[OF assms]
    by (auto simp: all_events_def set_event_rows) metis+
  have "distinct (all_events et ep st db)"
    using sorted_cursors_distinct[OF event_pages.newest_first[of db cd et ep st]] assms by (simp add: distinct_map)
  then show ?thesis using inj by (auto simp: distinct_map inj_on_def)
qed

lemma all_dead_letters_distinct:
  assumes "db_ok db"
  shows "distinct (map (\<lambda>r. dl_id (dr_delivery r)) (all_dead_letters ep db))"
proof -
  have inj: "r = s" if "r \<in> set (all_dead_letters ep db)" "s \<in> set (all_dead_letters ep db)" "dl_id (dr_delivery r) = dl_id (dr_delivery s)" for r s
    using that event_id_unique[OF assms] endpoint_id_unique[OF assms] delivery_id_unique[OF assms]
    by (auto simp: all_dead_letters_def set_dead_letter_rows set_event_rows) metis+
  have "distinct (all_dead_letters ep db)"
    using sorted_cursors_distinct[OF dead_letter_pages.newest_first[of db ep]] assms by (simp add: distinct_map)
  then show ?thesis using inj by (auto simp: distinct_map inj_on_def)
qed

section \<open>The dashboard counts\<close>

lemma sum_of_groups:
  assumes "finite S" "f ` set xs \<subseteq> S"
  shows "(\<Sum>s \<in> S. length (filter (\<lambda>x. f x = s) xs)) = length xs"
  using assms(2)
proof (induction xs)
  case (Cons x xs)
  have "(\<Sum>s \<in> S. length (filter (\<lambda>y. f y = s) (x # xs))) =
      (\<Sum>s \<in> S. length (filter (\<lambda>y. f y = s) xs) + (if f x = s then 1 else 0))"
    by (rule sum.cong) auto
  also have "\<dots> = length (x # xs)" using Cons assms(1) by (simp add: sum.distrib)
  finally show ?case .
qed simp

lemma status_rows_count:
  "(case map_of (status_rows db) s of None \<Rightarrow> 0 | Some n \<Rightarrow> n) =
   int (length (filter (\<lambda>d. dl_status d = s \<and> latest_generation_condition db d) (db_deliveries db)))"
proof -
  let ?rows = "filter (latest_generation_condition db) (db_deliveries db)"
  have "map_of (status_rows db) s = (if s \<in> dl_status ` set ?rows
      then Some (int (length (filter (\<lambda>d. dl_status d = s) ?rows))) else None)"
    unfolding status_rows_def Let_def map_of_map_restrict by (auto simp: restrict_map_def)
  moreover have "filter (\<lambda>d. dl_status d = s) ?rows = []" if "s \<notin> dl_status ` set ?rows"
    using that by (auto simp: filter_empty_conv)
  ultimately show ?thesis by (auto simp: conj_commute)
qed

text \<open>Every event has a latest generation.\<close>

lemma latest_exists:
  assumes "chain_ok cd db" "e \<in> set (db_events db)"
  obtains d where "d \<in> set (db_deliveries db)" "dl_event_id d = ev_id e" "latest_generation_condition db d"
proof -
  let ?D = "{d \<in> set (db_deliveries db). dl_event_id d = ev_id e}"
  have "?D \<noteq> {}" using chain_okD(1)[OF assms] by (auto simp: event_accepted_def initial_of_def)
  then have "Max (dl_replay_generation ` ?D) \<in> dl_replay_generation ` ?D" by (intro Max_in) simp_all
  then obtain d where "d \<in> ?D" "dl_replay_generation d = Max (dl_replay_generation ` ?D)" by auto
  then have "d \<in> ?D" "\<forall>x \<in> ?D. dl_replay_generation x \<le> dl_replay_generation d" by simp_all
  then show thesis by (intro that[of d]) (fastforce simp: latest_generation_condition_def list_ex_iff)+
qed

lemma latest_per_event:
  assumes "db_ok db" "chain_ok cd db"
  shows "length (filter (latest_generation_condition db) (db_deliveries db)) = length (db_events db)"
proof -
  let ?rows = "filter (latest_generation_condition db) (db_deliveries db)"
  have inj: "inj_on dl_event_id (set ?rows)" using latest_unique[OF assms] by (auto intro: inj_onI)
  have "dl_event_id ` set ?rows = ev_id ` set (db_events db)"
  proof (intro equalityI subsetI)
    fix i assume "i \<in> dl_event_id ` set ?rows"
    then obtain d where d: "d \<in> set (db_deliveries db)" "i = dl_event_id d" by auto
    obtain e where "get_event (dl_event_id d) db = Some e" by (rule delivery_event_exists[OF assms(1) d(1)])
    then show "i \<in> ev_id ` set (db_events db)" using assms(1) d(2) by (auto simp: get_event_Some intro: rev_image_eqI)
  next
    fix i assume "i \<in> ev_id ` set (db_events db)"
    then obtain e where e: "e \<in> set (db_events db)" "i = ev_id e" by auto
    obtain d where "d \<in> set (db_deliveries db)" "dl_event_id d = ev_id e" "latest_generation_condition db d"
      by (rule latest_exists[OF assms(2) e(1)])
    then show "i \<in> dl_event_id ` set ?rows" using e(2) by (auto intro: rev_image_eqI)
  qed
  then have "card (set ?rows) = card (set (db_events db))"
    using card_image[OF inj] db_okD(7)[OF assms(1)] by (simp add: distinct_map card_image)
  moreover have "distinct ?rows" "distinct (db_events db)"
    using distinct_deliveries[OF assms(1)] db_okD(7)[OF assms(1)] by (auto simp: distinct_map)
  ultimately show ?thesis by (simp only: distinct_card[symmetric])
qed

lemma dead_letters_counted:
  assumes "db_ok db"
  shows "length (all_dead_letters None db) =
    length (filter (\<lambda>d. dl_status d = DEAD_LETTERED \<and> latest_generation_condition db d) (db_deliveries db))"
proof -
  let ?P = "\<lambda>d. dl_status d = DEAD_LETTERED \<and> latest_generation_condition db d"
  let ?rows = "filter (\<lambda>(e, d, q). ?P d) (dead_letter_rows db)"
  have inj: "inj_on (\<lambda>(e, d, q). d) (set ?rows)"
    by (rule inj_onI) (use assms in \<open>auto simp: set_dead_letter_rows set_event_rows
      intro: event_id_unique endpoint_id_unique\<close>)
  have "(\<lambda>(e, d, q). d) ` set ?rows = set (filter ?P (db_deliveries db))"
  proof (intro equalityI subsetI)
    fix d assume d: "d \<in> set (filter ?P (db_deliveries db))"
    then have mem: "d \<in> set (db_deliveries db)" by simp
    obtain e where "get_event (dl_event_id d) db = Some e" by (rule delivery_event_exists[OF assms mem])
    moreover obtain q where "get_endpoint (dl_endpoint_id d) db = Some q" by (rule delivery_endpoint_exists[OF assms mem])
    ultimately have "(e, d, q) \<in> set ?rows" using d assms by (auto simp: set_dead_letter_rows set_event_rows get_event_Some get_endpoint_Some)
    then show "d \<in> (\<lambda>(e, d, q). d) ` set ?rows" by force
  qed (auto simp: set_dead_letter_rows set_event_rows)
  then have "card (set ?rows) = card (set (filter ?P (db_deliveries db)))" using card_image[OF inj] by simp
  moreover have "distinct ?rows" "distinct (filter ?P (db_deliveries db))"
    using distinct_rows(2)[OF assms] distinct_deliveries[OF assms] by auto
  ultimately have "length ?rows = length (filter ?P (db_deliveries db))" by (simp only: distinct_card[symmetric])
  then show ?thesis by (simp add: all_dead_letters_def matches_def)
qed

text \<open>Unfiltered, the list of events has one row for every event.\<close>

lemma all_events_cover:
  assumes "db_ok db" "chain_ok cd db"
  shows "er_event ` set (all_events None None None db) = set (db_events db)"
    "length (all_events None None None db) = length (db_events db)"
proof -
  show cover: "er_event ` set (all_events None None None db) = set (db_events db)"
  proof (intro equalityI subsetI)
    fix e assume e: "e \<in> set (db_events db)"
    obtain d where d: "d \<in> set (db_deliveries db)" "dl_event_id d = ev_id e" "latest_generation_condition db d"
      by (rule latest_exists[OF assms(2) e])
    obtain q where "get_endpoint (dl_endpoint_id d) db = Some q" by (rule delivery_endpoint_exists[OF assms(1) d(1)])
    then have "(e, d, q) \<in> set (event_rows db)" using e d assms(1) by (auto simp: set_event_rows get_endpoint_Some)
    then have "\<lparr>er_event = e, er_latest_delivery = d, er_endpoint = q\<rparr> \<in> set (all_events None None None db)"
      using d(3) by (force simp: all_events_def matches_def)
    then show "e \<in> er_event ` set (all_events None None None db)" by (metis event_list_record.select_convs(1) imageI)
  qed (auto simp: all_events_def set_event_rows)
  have "distinct (map (\<lambda>r. ev_id (er_event r)) (all_events None None None db))" by (rule all_events_distinct[OF assms])
  then have "distinct (map er_event (all_events None None None db))" by (auto simp: distinct_map inj_on_def)
  then have "length (all_events None None None db) = card (set (db_events db))"
    using cover by (metis distinct_card length_map list.set_map)
  moreover have "distinct (db_events db)" using db_okD(7)[OF assms(1)] by (auto simp: distinct_map)
  ultimately show "length (all_events None None None db) = length (db_events db)" by (simp only: distinct_card)
qed

lemma status_counts_total:
  assumes "db_ok db" "chain_ok cd db"
  shows "(\<Sum>s \<in> {PENDING, IN_PROGRESS, RETRY_WAIT, DELIVERED, DEAD_LETTERED}.
      length (filter (\<lambda>d. dl_status d = s \<and> latest_generation_condition db d) (db_deliveries db))) = length (db_events db)"
proof -
  let ?rows = "filter (latest_generation_condition db) (db_deliveries db)"
  have "dl_status ` set ?rows \<subseteq> {PENDING, IN_PROGRESS, RETRY_WAIT, DELIVERED, DEAD_LETTERED}"
    using delivery_status.exhaust by blast
  from sum_of_groups[OF _ this] show ?thesis using latest_per_event[OF assms] by (simp add: conj_commute)
qed

end
