(* ===== verification/Receiver_Lab.thy ===== *)
theory Receiver_Lab
  imports Transport Transitions
begin

text \<open>
  The Receiver Lab, receiver_lab/api.py: a webhook receiver whose behaviour per demo run is
  configured through a control interface.  Its process-wide state is the default run and an
  ordered dictionary of at most \<open>MAX_SCOPED_RUNS\<close> scoped runs, oldest use first.  Every
  handler changes it under one lock, so a handler is one function from the state to the response
  and the new state.  The header values arrive parsed; the JSON reader, SHA-256, the
  decoding of the preview and the clock are arguments.
\<close>

section \<open>Contracts\<close>

definition MAX_SCOPED_RUNS :: nat where "MAX_SCOPED_RUNS = 100"
definition MAX_REQUESTS_PER_RUN :: nat where "MAX_REQUESTS_PER_RUN = 100"
definition CONTROL_REQUEST_LIMIT :: nat where "CONTROL_REQUEST_LIMIT = 20"
definition RATE_LIMIT_RETRY_AFTER_SECONDS :: int where "RATE_LIMIT_RETRY_AFTER_SECONDS = 5"

record receiver_contract =
  ct_route :: string
  ct_required_text :: "string list"
  ct_required_positive_integer :: "string list"

definition RECEIVER_CONTRACTS :: "(string \<times> receiver_contract) list" where
  "RECEIVER_CONTRACTS =
     [(''order.paid'',
        \<lparr>ct_route = ''orders'', ct_required_text = [''order_id'', ''customer_id'', ''currency''],
         ct_required_positive_integer = [''amount_cents'']\<rparr>),
      (''demo.order.paid'',
        \<lparr>ct_route = ''orders'', ct_required_text = [''order_id''], ct_required_positive_integer = []\<rparr>),
      (''shipment.dispatched'',
        \<lparr>ct_route = ''shipping'', ct_required_text = [''shipment_id'', ''order_id'', ''carrier'', ''tracking_number''],
         ct_required_positive_integer = []\<rparr>),
      (''inventory.threshold_reached'',
        \<lparr>ct_route = ''inventory'', ct_required_text = [''sku'', ''warehouse_id''],
         ct_required_positive_integer = [''quantity_remaining'', ''reorder_threshold'']\<rparr>)]"

datatype receiver_mode = RM_SUCCESS | FAIL_THEN_SUCCEED | RATE_LIMITED | RM_TIMEOUT | PERMANENT_FAILURE

fun receiver_mode_value :: "receiver_mode \<Rightarrow> string" where
  "receiver_mode_value RM_SUCCESS = ''success''"
| "receiver_mode_value FAIL_THEN_SUCCEED = ''fail_then_succeed''"
| "receiver_mode_value RATE_LIMITED = ''rate_limited''"
| "receiver_mode_value RM_TIMEOUT = ''timeout''"
| "receiver_mode_value PERMANENT_FAILURE = ''permanent_failure''"

section \<open>State\<close>

record receiver_configuration =
  rc_mode :: receiver_mode
  rc_failures_before_success :: int
  rc_delay_ms :: int

definition default_configuration :: receiver_configuration where
  "default_configuration = \<lparr>rc_mode = RM_SUCCESS, rc_failures_before_success = 0, rc_delay_ms = 0\<rparr>"

definition configuration_bounds :: "receiver_configuration \<Rightarrow> bool" where
  "configuration_bounds c \<longleftrightarrow> 0 \<le> rc_failures_before_success c \<and> rc_failures_before_success c \<le> 20 \<and>
     0 \<le> rc_delay_ms c \<and> rc_delay_ms c \<le> 30000"

text \<open>One entry of the request log.\<close>

record observed_request =
  or_sequence :: int
  or_attempt :: int
  or_event_id :: "string option"
  or_delivery_id :: "string option"
  or_event_type :: "string option"
  or_receiver_route :: string
  or_delivery_attempt :: "int option"
  or_request_timestamp :: "int option"
  or_received_at :: datetime
  or_response_status_code :: int
  or_receiver_mode :: string
  or_signature_present :: bool
  or_body_preview :: string
  or_body_sha256 :: string

record receiver_run_state =
  rr_configuration :: receiver_configuration
  rr_scenario_attempts :: int
  rr_sequence :: int
  rr_requests :: "observed_request list"

definition new_run_state :: receiver_run_state where
  "new_run_state = \<lparr>rr_configuration = default_configuration, rr_scenario_attempts = 0, rr_sequence = 0, rr_requests = []\<rparr>"

record receiver_state =
  rs_default :: receiver_run_state
  rs_scoped :: "(string \<times> receiver_run_state) list"

definition reset :: receiver_state where
  "reset = \<lparr>rs_default = new_run_state, rs_scoped = []\<rparr>"

text \<open>\<open>while len(self.scoped) > MAX_SCOPED_RUNS: self.scoped.popitem(last=False)\<close>.\<close>

fun evict_oldest :: "(string \<times> receiver_run_state) list \<Rightarrow> (string \<times> receiver_run_state) list" where
  "evict_oldest [] = []"
| "evict_oldest (r # rs) = (if length (r # rs) > MAX_SCOPED_RUNS then evict_oldest rs else r # rs)"

text \<open>\<open>scoped.pop(k, None)\<close> followed by \<open>scoped[k] = state\<close>: the entry moves to the end.\<close>

definition move_to_end :: "string \<Rightarrow> receiver_run_state \<Rightarrow> (string \<times> receiver_run_state) list \<Rightarrow> (string \<times> receiver_run_state) list" where
  "move_to_end k run runs = filter (\<lambda>(k', _). k' \<noteq> k) runs @ [(k, run)]"

text \<open>
  A handler gets the run object itself and changes it in place.  Here it gets the place of that
  object, the default run for \<open>None\<close>, and changes the state there.
\<close>

definition configured_state :: "string option \<Rightarrow> receiver_state \<Rightarrow> string option \<times> receiver_state" where
  "configured_state run_id st =
     (case run_id of
        None \<Rightarrow> (None, st)
      | Some k \<Rightarrow>
          let state = (case map_of (rs_scoped st) k of None \<Rightarrow> new_run_state | Some s \<Rightarrow> s)
          in (Some k, st\<lparr>rs_scoped := evict_oldest (move_to_end k state (rs_scoped st))\<rparr>))"

definition webhook_state :: "string option \<Rightarrow> receiver_state \<Rightarrow> string option \<times> receiver_state" where
  "webhook_state run_id st =
     (case run_id of
        None \<Rightarrow> (None, st)
      | Some k \<Rightarrow>
          (case map_of (rs_scoped st) k of
             None \<Rightarrow> (None, st)
           | Some s \<Rightarrow> (Some k, st\<lparr>rs_scoped := move_to_end k s (rs_scoped st)\<rparr>)))"

definition run_at :: "string option \<Rightarrow> receiver_state \<Rightarrow> receiver_run_state" where
  "run_at place st =
     (case place of
        None \<Rightarrow> rs_default st
      | Some k \<Rightarrow> (case map_of (rs_scoped st) k of None \<Rightarrow> new_run_state | Some s \<Rightarrow> s))"

definition update_run :: "string option \<Rightarrow> receiver_run_state \<Rightarrow> receiver_state \<Rightarrow> receiver_state" where
  "update_run place run st =
     (case place of
        None \<Rightarrow> st\<lparr>rs_default := run\<rparr>
      | Some k \<Rightarrow> st\<lparr>rs_scoped := map (\<lambda>(k', s). if k' = k then (k', run) else (k', s)) (rs_scoped st)\<rparr>)"

section \<open>Control\<close>

text \<open>\<open>Query(max_length=..., pattern=...)\<close> on an optional run identifier.\<close>

definition valid_run_id :: "string option \<Rightarrow> bool" where
  "valid_run_id run_id \<longleftrightarrow> (case run_id of None \<Rightarrow> True | Some k \<Rightarrow> length k \<le> 128 \<and> DEMO_RUN_ID_PATTERN k)"

record control_response =
  cn_configuration :: receiver_configuration
  cn_attempts :: int
  cn_requests :: "observed_request list"

definition configure ::
    "receiver_configuration \<Rightarrow> string option \<Rightarrow> receiver_state \<Rightarrow> ((receiver_configuration \<times> int) \<times> receiver_state) res" where
  "configure configuration run_id st =
     (if \<not> (configuration_bounds configuration \<and> valid_run_id run_id) then Inl RequestValidationError
      else
        let (place, st1) = configured_state run_id st;
            run = (run_at place st1)\<lparr>rr_configuration := configuration, rr_scenario_attempts := 0\<rparr>
        in Inr ((configuration, 0), update_run place run st1))"

text \<open>\<open>requests[-n:]\<close>.\<close>

definition last_n :: "nat \<Rightarrow> 'a list \<Rightarrow> 'a list" where
  "last_n n xs = drop (length xs - n) xs"

definition control_state :: "string option \<Rightarrow> receiver_state \<Rightarrow> (control_response \<times> receiver_state) res" where
  "control_state run_id st =
     (if \<not> valid_run_id run_id then Inl RequestValidationError
      else
        let (place, st1) = configured_state run_id st;
            run = run_at place st1
        in Inr (\<lparr>cn_configuration = rr_configuration run, cn_attempts = rr_scenario_attempts run,
                 cn_requests = last_n CONTROL_REQUEST_LIMIT (rr_requests run)\<rparr>, st1))"

definition list_requests :: "string option \<Rightarrow> receiver_state \<Rightarrow> ((int \<times> observed_request list) \<times> receiver_state) res" where
  "list_requests run_id st =
     (if \<not> valid_run_id run_id then Inl RequestValidationError
      else
        let (place, st1) = configured_state run_id st;
            run = run_at place st1
        in Inr ((int (length (rr_requests run)), rr_requests run), st1))"

section \<open>Validation\<close>

fun missing_text :: "(string \<times> json) list \<Rightarrow> string list \<Rightarrow> string option" where
  "missing_text data [] = None"
| "missing_text data (f # fs) =
     (case map_of data f of
        Some (JStr v) \<Rightarrow> if py_strip v = [] then Some f else missing_text data fs
      | _ \<Rightarrow> Some f)"

text \<open>\<open>bool\<close> is a subclass of \<open>int\<close> and excluded by name.\<close>

fun bad_integer :: "(string \<times> json) list \<Rightarrow> string list \<Rightarrow> string option" where
  "bad_integer data [] = None"
| "bad_integer data (f # fs) =
     (case map_of data f of
        Some (JInt v) \<Rightarrow> if v \<le> 0 then Some f else bad_integer data fs
      | _ \<Rightarrow> Some f)"

definition contract_error :: "string \<Rightarrow> receiver_contract \<Rightarrow> string option \<Rightarrow> (string \<times> json) list \<Rightarrow> (string \<times> string) option" where
  "contract_error event_type contract receiver_channel payload =
     (if receiver_channel \<noteq> None \<and> receiver_channel \<noteq> Some (ct_route contract)
      then Some (''wrong_receiver_route'', event_type @ '' must be sent to /webhooks/'' @ ct_route contract @ ''.'')
      else case map_of payload ''data'' of
        Some (JObj data) \<Rightarrow>
          (case missing_text data (ct_required_text contract) of
             Some f \<Rightarrow> Some (''missing_'' @ f, ''data.'' @ f @ '' is required.'')
           | None \<Rightarrow>
               (case bad_integer data (ct_required_positive_integer contract) of
                  Some f \<Rightarrow> Some (''invalid_'' @ f, ''data.'' @ f @ '' must be a positive integer.'')
                | None \<Rightarrow>
                    if event_type = ''order.paid'' \<and>
                       \<not> (case map_of data ''currency'' of Some (JStr c) \<Rightarrow> length (py_strip c) = 3 | _ \<Rightarrow> False)
                    then Some (''invalid_currency'', ''data.currency must be a three-letter code.'')
                    else None))
      | _ \<Rightarrow> Some (''invalid_data'', ''data must be a JSON object.''))"

text \<open>\<open>RECEIVER_CONTRACTS.get(event_type) if isinstance(event_type, str) else None\<close>, with the type.\<close>

definition contract_of :: "(string \<times> json) list \<Rightarrow> (string \<times> receiver_contract) option" where
  "contract_of payload =
     (case map_of payload ''type'' of
        Some (JStr event_type) \<Rightarrow> map_option (Pair event_type) (map_of RECEIVER_CONTRACTS event_type)
      | _ \<Rightarrow> None)"

definition payload_validation_error ::
    "(bytes \<Rightarrow> json option) \<Rightarrow> bytes \<Rightarrow> string option \<Rightarrow> bool \<Rightarrow> (string \<times> string) option" where
  "payload_validation_error json_loads body receiver_channel validate_unknown =
     (case json_loads body of
        None \<Rightarrow> Some (''invalid_json'', ''The webhook body must be valid JSON.'')
      | Some (JObj payload) \<Rightarrow>
          (case contract_of payload of
             None \<Rightarrow>
               if validate_unknown
               then Some (''unsupported_event_type'', ''type must name a Receiver Lab event contract.'')
               else None
           | Some (event_type, contract) \<Rightarrow> contract_error event_type contract receiver_channel payload)
      | Some _ \<Rightarrow> Some (''invalid_payload'', ''The webhook body must be a JSON object.''))"

definition response_evidence :: "int \<Rightarrow> (string \<times> string) option \<Rightarrow> string \<times> string" where
  "response_evidence status_code validation_error =
     (case validation_error of
        Some e \<Rightarrow> e
      | None \<Rightarrow>
          if status_code = 429
          then (''rate_limited'', ''Receiver Lab asked the worker to retry after '' @
                 str_int RATE_LIMIT_RETRY_AFTER_SECONDS @ '' seconds.'')
          else if status_code = 503
          then (''temporarily_unavailable'', ''Receiver Lab is in the controlled unavailable state.'')
          else (''accepted'', ''Receiver Lab accepted the webhook.''))"

section \<open>Receiving\<close>

record webhook_request =
  wr_body :: bytes
  wr_receiver_channel :: "string option"
  wr_event_id :: "string option"
  wr_delivery_id :: "string option"
  wr_event_type :: "string option"
  wr_delivery_attempt :: "int option"
  wr_request_timestamp :: "int option"
  wr_signature :: "string option"
  wr_demo_run_id :: "string option"

record receiver_env =
  rv_json_loads :: "bytes \<Rightarrow> json option"
  rv_sha256 :: "bytes \<Rightarrow> string"
  rv_decode :: "bytes \<Rightarrow> string"
  rv_now :: datetime

record lab_response =
  lr_status_code :: int
  lr_code :: string
  lr_detail :: string
  lr_headers :: "(string \<times> string) list"
  lr_slept_ms :: int

definition response_status :: "receiver_configuration \<Rightarrow> int \<Rightarrow> (string \<times> string) option \<Rightarrow> int" where
  "response_status c attempt validation_error =
     (if validation_error \<noteq> None then 400
      else if rc_mode c = RATE_LIMITED then
        (if rc_failures_before_success c = 0 \<or> attempt \<le> rc_failures_before_success c then 429 else 200)
      else if rc_mode c = FAIL_THEN_SUCCEED \<and> attempt \<le> rc_failures_before_success c then 503
      else 200)"

text \<open>\<open>receiver_channel or ''legacy-generic''\<close>: an empty channel counts as none.\<close>

definition route_label :: "string option \<Rightarrow> string" where
  "route_label channel = (case channel of None \<Rightarrow> ''legacy-generic'' | Some c \<Rightarrow> if c = [] then ''legacy-generic'' else c)"

text \<open>The run after a request: both counters advanced and the entry appended to the bounded log.\<close>

definition observed_entry :: "receiver_env \<Rightarrow> webhook_request \<Rightarrow> receiver_run_state \<Rightarrow> int \<Rightarrow> observed_request" where
  "observed_entry env rq run status_code =
     \<lparr>or_sequence = rr_sequence run + 1, or_attempt = rr_scenario_attempts run + 1, or_event_id = wr_event_id rq,
      or_delivery_id = wr_delivery_id rq, or_event_type = wr_event_type rq,
      or_receiver_route = route_label (wr_receiver_channel rq),
      or_delivery_attempt = wr_delivery_attempt rq, or_request_timestamp = wr_request_timestamp rq,
      or_received_at = rv_now env, or_response_status_code = status_code,
      or_receiver_mode = receiver_mode_value (rc_mode (rr_configuration run)),
      or_signature_present = wr_signature rq \<noteq> None,
      or_body_preview = rv_decode env (take 1024 (wr_body rq)), or_body_sha256 = rv_sha256 env (wr_body rq)\<rparr>"

definition observed_run :: "receiver_env \<Rightarrow> webhook_request \<Rightarrow> receiver_run_state \<Rightarrow> int \<Rightarrow> receiver_run_state" where
  "observed_run env rq run status_code =
     run\<lparr>rr_scenario_attempts := rr_scenario_attempts run + 1, rr_sequence := rr_sequence run + 1,
         rr_requests := last_n MAX_REQUESTS_PER_RUN (rr_requests run @ [observed_entry env rq run status_code])\<rparr>"

definition receive_webhook :: "receiver_env \<Rightarrow> webhook_request \<Rightarrow> receiver_state \<Rightarrow> (lab_response \<times> receiver_state) res" where
  "receive_webhook env rq st =
     (if \<not> valid_run_id (wr_demo_run_id rq) then Inl RequestValidationError
      else
        let (place, st1) = webhook_state (wr_demo_run_id rq) st;
            run = run_at place st1;
            attempt = rr_scenario_attempts run + 1;
            c = rr_configuration run;
            validation_error = payload_validation_error (rv_json_loads env) (wr_body rq) (wr_receiver_channel rq)
              (wr_receiver_channel rq \<noteq> None \<or> rc_mode c = PERMANENT_FAILURE);
            status_code = response_status c attempt validation_error;
            (response_code, response_detail) = response_evidence status_code validation_error;
            run' = observed_run env rq run status_code
        in Inr (\<lparr>lr_status_code = status_code, lr_code = response_code, lr_detail = response_detail,
             lr_headers = (if status_code = 429 then [(''Retry-After'', str_int RATE_LIMIT_RETRY_AFTER_SECONDS)] else []),
             lr_slept_ms = (if rc_mode c = RM_TIMEOUT then rc_delay_ms c else 0)\<rparr>,
           update_run place run' st1))"

section \<open>The registry of runs\<close>

lemma evict_oldest_drop: "evict_oldest runs = drop (length runs - MAX_SCOPED_RUNS) runs"
  by (induction runs) (auto simp: Suc_diff_le not_less)

lemma MAX_SCOPED_RUNS_pos [simp]: "0 < MAX_SCOPED_RUNS"
  by (simp add: MAX_SCOPED_RUNS_def)

lemma length_evict_oldest: "length (evict_oldest runs) \<le> MAX_SCOPED_RUNS"
  by (simp add: evict_oldest_drop)

lemma set_evict_oldest: "set (evict_oldest runs) \<subseteq> set runs"
  by (simp add: evict_oldest_drop set_drop_subset)

lemma distinct_evict_oldest: "distinct (map fst runs) \<Longrightarrow> distinct (map fst (evict_oldest runs))"
  by (simp add: evict_oldest_drop drop_map[symmetric])

lemma distinct_move_to_end: "distinct (map fst runs) \<Longrightarrow> distinct (map fst (move_to_end k s runs))"
  by (auto simp: move_to_end_def distinct_map inj_on_def)

lemma set_move_to_end: "set (move_to_end k s runs) = insert (k, s) {r \<in> set runs. fst r \<noteq> k}"
  by (auto simp: move_to_end_def)

lemma map_of_move_to_end: "map_of (move_to_end k s runs) k' = (if k' = k then Some s else map_of runs k')"
  by (induction runs) (auto simp: move_to_end_def map_add_def)

lemma length_move_to_end:
  assumes "distinct (map fst runs)" "map_of runs k \<noteq> None"
  shows "length (move_to_end k s runs) = length runs"
  using assms
proof (induction runs)
  case (Cons r runs)
  show ?case
  proof (cases "fst r = k")
    case True
    then have "filter (\<lambda>(k', _). k' \<noteq> k) runs = runs" using Cons.prems(1) by (auto simp: filter_id_conv rev_image_eqI)
    then show ?thesis using True by (auto simp: move_to_end_def split_beta)
  next
    case False
    then show ?thesis using Cons by (cases r) (auto simp: move_to_end_def)
  qed
qed simp

text \<open>The entry that was just moved to the end survives the eviction.\<close>

lemma map_of_evict_moved:
  assumes "distinct (map fst runs)"
  shows "map_of (evict_oldest (move_to_end k s runs)) k = Some s"
proof -
  let ?m = "move_to_end k s runs"
  have "length ?m - MAX_SCOPED_RUNS < length ?m" by (simp add: move_to_end_def)
  then have "last ?m \<in> set (evict_oldest ?m)" by (metis evict_oldest_drop last_drop last_in_set drop_eq_Nil not_le)
  then have "(k, s) \<in> set (evict_oldest ?m)" by (simp add: move_to_end_def)
  then show ?thesis using distinct_evict_oldest[OF distinct_move_to_end[OF assms]] by (simp add: map_of_eq_Some_iff)
qed

lemma map_of_update:
  "map_of (map (\<lambda>(k', s). if k' = k then (k', run) else (k', s)) runs) j =
     (if j = k then map_option (\<lambda>_. run) (map_of runs k) else map_of runs j)"
  by (induction runs) auto

lemma keys_update [simp]: "map fst (map (\<lambda>(k', s). if k' = k then (k', run) else (k', s)) runs) = map fst runs"
  by (induction runs) auto

section \<open>Bounds\<close>

text \<open>
  A run keeps the newest requests, at most \<open>MAX_REQUESTS_PER_RUN\<close>, numbered without gaps up to
  its sequence counter.
\<close>

definition run_inv :: "receiver_run_state \<Rightarrow> bool" where
  "run_inv r \<longleftrightarrow> configuration_bounds (rr_configuration r) \<and> 0 \<le> rr_scenario_attempts r \<and>
     rr_scenario_attempts r \<le> rr_sequence r \<and>
     length (rr_requests r) = min (nat (rr_sequence r)) MAX_REQUESTS_PER_RUN \<and>
     map or_sequence (rr_requests r) = [rr_sequence r - int (length (rr_requests r)) + 1 .. rr_sequence r]"

definition lab_inv :: "receiver_state \<Rightarrow> bool" where
  "lab_inv st \<longleftrightarrow> run_inv (rs_default st) \<and> distinct (map fst (rs_scoped st)) \<and>
     length (rs_scoped st) \<le> MAX_SCOPED_RUNS \<and>
     (\<forall>(k, r) \<in> set (rs_scoped st). DEMO_RUN_ID_PATTERN k \<and> run_inv r)"

inductive lab_step :: "receiver_state \<Rightarrow> receiver_state \<Rightarrow> bool" where
  lab_configure: "configure c run_id st = Inr (r, st') \<Longrightarrow> lab_step st st'"
| lab_control_state: "control_state run_id st = Inr (r, st') \<Longrightarrow> lab_step st st'"
| lab_list_requests: "list_requests run_id st = Inr (r, st') \<Longrightarrow> lab_step st st'"
| lab_receive: "receive_webhook env rq st = Inr (r, st') \<Longrightarrow> lab_step st st'"
| lab_reset: "lab_step st reset"

lemma run_inv_new: "run_inv new_run_state"
  by (simp add: run_inv_def new_run_state_def default_configuration_def configuration_bounds_def)

lemma lab_inv_reset: "lab_inv reset"
  by (simp add: lab_inv_def reset_def run_inv_new)

lemma lab_inv_run_at: "lab_inv st \<Longrightarrow> run_inv (run_at place st)"
  by (auto simp: lab_inv_def run_at_def run_inv_new split: option.splits dest!: map_of_SomeD)

lemma lab_inv_configured:
  assumes "lab_inv st" "valid_run_id run_id"
  shows "lab_inv (snd (configured_state run_id st))"
proof (cases run_id)
  case (Some k)
  let ?s = "case map_of (rs_scoped st) k of None \<Rightarrow> new_run_state | Some s \<Rightarrow> s"
  have "run_inv ?s" using lab_inv_run_at[OF assms(1), of "Some k"] by (simp add: run_at_def)
  moreover have "DEMO_RUN_ID_PATTERN k" using assms(2) Some by (simp add: valid_run_id_def)
  ultimately have "\<forall>(k', r) \<in> set (move_to_end k ?s (rs_scoped st)). DEMO_RUN_ID_PATTERN k' \<and> run_inv r"
    using assms(1) by (auto simp: set_move_to_end lab_inv_def)
  then have "\<forall>(k', r) \<in> set (evict_oldest (move_to_end k ?s (rs_scoped st))). DEMO_RUN_ID_PATTERN k' \<and> run_inv r"
    using set_evict_oldest by blast
  then show ?thesis
    using assms(1) Some distinct_evict_oldest[OF distinct_move_to_end] length_evict_oldest
    by (simp add: configured_state_def Let_def lab_inv_def)
qed (use assms in \<open>simp add: configured_state_def\<close>)

lemma lab_inv_webhook:
  assumes "lab_inv st"
  shows "lab_inv (snd (webhook_state run_id st))"
proof -
  have "lab_inv (st\<lparr>rs_scoped := move_to_end k s (rs_scoped st)\<rparr>)" if "map_of (rs_scoped st) k = Some s" for k s
    using assms that map_of_SomeD[OF that] length_move_to_end[of "rs_scoped st" k s]
    by (auto simp: lab_inv_def distinct_move_to_end set_move_to_end)
  then show ?thesis using assms by (auto simp: webhook_state_def split: option.splits)
qed

lemma lab_inv_update:
  assumes "lab_inv st" "run_inv run"
  shows "lab_inv (update_run place run st)"
  using assms by (auto simp: lab_inv_def update_run_def split: option.splits simp del: map_map) (auto split: if_splits)

section \<open>What one webhook is answered\<close>

text \<open>The answer depends on the request, the configuration and the number of the attempt only.\<close>

definition webhook_error :: "receiver_env \<Rightarrow> webhook_request \<Rightarrow> receiver_configuration \<Rightarrow> (string \<times> string) option" where
  "webhook_error env rq c = payload_validation_error (rv_json_loads env) (wr_body rq) (wr_receiver_channel rq)
     (wr_receiver_channel rq \<noteq> None \<or> rc_mode c = PERMANENT_FAILURE)"

definition lab_answer :: "receiver_configuration \<Rightarrow> int \<Rightarrow> receiver_env \<Rightarrow> webhook_request \<Rightarrow> lab_response" where
  "lab_answer c attempt env rq =
     (let status_code = response_status c attempt (webhook_error env rq c);
          evidence = response_evidence status_code (webhook_error env rq c)
      in \<lparr>lr_status_code = status_code, lr_code = fst evidence, lr_detail = snd evidence,
          lr_headers = (if status_code = 429 then [(''Retry-After'', str_int RATE_LIMIT_RETRY_AFTER_SECONDS)] else []),
          lr_slept_ms = (if rc_mode c = RM_TIMEOUT then rc_delay_ms c else 0)\<rparr>)"

text \<open>The log keeps the newest entries.\<close>

lemma drop_upto: "drop n [i..j] = [i + int n..j]"
proof (induction n arbitrary: i)
  case (Suc n)
  then show ?case by (cases "i \<le> j") (simp_all add: upto_rec1 algebra_simps)
qed simp

lemma run_inv_receive:
  assumes "run_inv run" "or_sequence entry = rr_sequence run + 1"
  shows "run_inv (run\<lparr>rr_scenario_attempts := rr_scenario_attempts run + 1, rr_sequence := rr_sequence run + 1,
    rr_requests := last_n MAX_REQUESTS_PER_RUN (rr_requests run @ [entry])\<rparr>)"
proof -
  let ?q = "rr_sequence run" and ?l = "rr_requests run"
  have q: "0 \<le> ?q" "length ?l = min (nat ?q) MAX_REQUESTS_PER_RUN" "map or_sequence ?l = [?q - int (length ?l) + 1 .. ?q]"
    using assms(1) by (auto simp: run_inv_def)
  let ?l' = "last_n MAX_REQUESTS_PER_RUN (?l @ [entry])"
  have len: "length ?l' = min (nat (?q + 1)) MAX_REQUESTS_PER_RUN" using q(1,2) by (simp add: last_n_def min_def) linarith
  have "map or_sequence (?l @ [entry]) = [?q - int (length ?l) + 1 .. ?q + 1]"
    using q assms(2) by (simp add: upto_rec2)
  then have "map or_sequence ?l' = drop (length (?l @ [entry]) - MAX_REQUESTS_PER_RUN) [?q - int (length ?l) + 1 .. ?q + 1]"
    by (metis drop_map last_n_def)
  also have "\<dots> = [?q + 1 - int (length ?l') + 1 .. ?q + 1]"
    using q(1,2) len by (simp add: drop_upto min_def MAX_REQUESTS_PER_RUN_def)
  finally show ?thesis using assms(1) len by (simp add: run_inv_def)
qed

lemma receive_webhook_valid:
  assumes "valid_run_id (wr_demo_run_id rq)" "webhook_state (wr_demo_run_id rq) st = (place, st1)"
  shows "\<exists>run'. receive_webhook env rq st =
      Inr (lab_answer (rr_configuration (run_at place st1)) (rr_scenario_attempts (run_at place st1) + 1) env rq,
        update_run place run' st1) \<and>
    rr_configuration run' = rr_configuration (run_at place st1) \<and>
    rr_scenario_attempts run' = rr_scenario_attempts (run_at place st1) + 1 \<and>
    (run_inv (run_at place st1) \<longrightarrow> run_inv run')"
proof -
  let ?run = "run_at place st1"
  let ?code = "response_status (rr_configuration ?run) (rr_scenario_attempts ?run + 1) (webhook_error env rq (rr_configuration ?run))"
  let ?run' = "observed_run env rq ?run ?code"
  have "receive_webhook env rq st = Inr (lab_answer (rr_configuration ?run) (rr_scenario_attempts ?run + 1) env rq, update_run place ?run' st1)"
    using assms by (simp only: receive_webhook_def lab_answer_def webhook_error_def Let_def split_beta simp_thms if_False fst_conv snd_conv)
  moreover have "run_inv ?run \<longrightarrow> run_inv ?run'"
    using run_inv_receive[of ?run "observed_entry env rq ?run ?code"] by (simp add: observed_run_def observed_entry_def)
  moreover have "rr_configuration ?run' = rr_configuration ?run" "rr_scenario_attempts ?run' = rr_scenario_attempts ?run + 1"
    by (simp_all add: observed_run_def)
  ultimately show ?thesis by blast
qed

lemma lab_inv_step:
  assumes "lab_inv st" "lab_step st st'"
  shows "lab_inv st'"
  using assms(2)
proof cases
  case (lab_configure c run_id r)
  obtain place st1 where p: "configured_state run_id st = (place, st1)" by fastforce
  have v: "configuration_bounds c" "valid_run_id run_id" using lab_configure by (auto simp: configure_def split: if_splits)
  have i1: "lab_inv st1" using lab_inv_configured[OF assms(1) v(2)] p by simp
  have "run_inv ((run_at place st1)\<lparr>rr_configuration := c, rr_scenario_attempts := 0\<rparr>)"
    using lab_inv_run_at[OF i1, of place] v(1) by (simp add: run_inv_def)
  then show ?thesis using lab_inv_update[OF i1] lab_configure v p by (auto simp: configure_def Let_def)
next
  case (lab_control_state run_id r)
  then show ?thesis using lab_inv_configured[OF assms(1), of run_id] by (auto simp: control_state_def Let_def split_beta split: if_splits)
next
  case (lab_list_requests run_id r)
  then show ?thesis using lab_inv_configured[OF assms(1), of run_id] by (auto simp: list_requests_def Let_def split_beta split: if_splits)
next
  case (lab_receive env rq r)
  obtain place st1 where p: "webhook_state (wr_demo_run_id rq) st = (place, st1)" by fastforce
  have v: "valid_run_id (wr_demo_run_id rq)" using lab_receive by (auto simp: receive_webhook_def split: if_splits)
  have i1: "lab_inv st1" using lab_inv_webhook[OF assms(1), of "wr_demo_run_id rq"] p by simp
  show ?thesis using receive_webhook_valid[OF v p, of env] lab_receive lab_inv_update[OF i1] lab_inv_run_at[OF i1, of place] by auto
next
  case lab_reset
  then show ?thesis using lab_inv_reset by simp
qed

interpretation lab: transition_system "\<lambda>st. st = reset" lab_step lab_inv
  by unfold_locales (use lab_inv_reset lab_inv_step in auto)

section \<open>Runs do not disturb each other\<close>

text \<open>
  A sequence of webhooks in the order the lock serves them, with the result of each.
\<close>

fun receive_all :: "(receiver_env \<times> webhook_request) list \<Rightarrow> receiver_state \<Rightarrow> lab_response res list \<times> receiver_state" where
  "receive_all [] st = ([], st)"
| "receive_all ((env, rq) # rqs) st =
     (case receive_webhook env rq st of
        Inl e \<Rightarrow> (let (rs, st') = receive_all rqs st in (Inl e # rs, st'))
      | Inr (r, st1) \<Rightarrow> (let (rs, st') = receive_all rqs st1 in (Inr r # rs, st')))"

definition for_run :: "string \<Rightarrow> receiver_env \<times> webhook_request \<Rightarrow> bool" where
  "for_run k x \<longleftrightarrow> wr_demo_run_id (snd x) = Some k"

definition responses_for :: "string \<Rightarrow> (receiver_env \<times> webhook_request) list \<Rightarrow> receiver_state \<Rightarrow> lab_response res list" where
  "responses_for k rqs st = map snd (filter (\<lambda>(x, r). for_run k x) (zip rqs (fst (receive_all rqs st))))"

text \<open>The specification of one run: a counter of its own requests and nothing else.\<close>

fun answers :: "receiver_configuration \<Rightarrow> int \<Rightarrow> (receiver_env \<times> webhook_request) list \<Rightarrow> lab_response list" where
  "answers c n [] = []"
| "answers c n ((env, rq) # rqs) = lab_answer c (n + 1) env rq # answers c (n + 1) rqs"

lemma webhook_other_run:
  assumes "map_of (rs_scoped st) k = Some run" "wr_demo_run_id rq \<noteq> Some k" "receive_webhook env rq st = Inr (r, st')"
  shows "map_of (rs_scoped st') k = Some run"
proof -
  obtain place st1 where p: "webhook_state (wr_demo_run_id rq) st = (place, st1)" by fastforce
  have v: "valid_run_id (wr_demo_run_id rq)" using assms(3) by (auto simp: receive_webhook_def split: if_splits)
  obtain run' where "st' = update_run place run' st1" using receive_webhook_valid[OF v p, of env] assms(3) by auto
  moreover have "place \<noteq> Some k" "map_of (rs_scoped st1) k = Some run"
    using p assms(1,2) by (auto simp: webhook_state_def map_of_move_to_end split: option.splits)
  ultimately show ?thesis by (auto simp: update_run_def map_of_update split: option.splits simp del: map_map)
qed

lemma webhook_same_run:
  assumes "map_of (rs_scoped st) k = Some run" "wr_demo_run_id rq = Some k" "DEMO_RUN_ID_PATTERN k"
  shows "\<exists>run' st'. receive_webhook env rq st =
      Inr (lab_answer (rr_configuration run) (rr_scenario_attempts run + 1) env rq, st') \<and>
    map_of (rs_scoped st') k = Some run' \<and> rr_configuration run' = rr_configuration run \<and>
    rr_scenario_attempts run' = rr_scenario_attempts run + 1"
proof -
  let ?st1 = "st\<lparr>rs_scoped := move_to_end k run (rs_scoped st)\<rparr>"
  have "length k \<le> 128" using assms(3) by (cases k) auto
  then have v: "valid_run_id (wr_demo_run_id rq)" using assms(2,3) by (simp add: valid_run_id_def)
  have p: "webhook_state (wr_demo_run_id rq) st = (Some k, ?st1)" using assms(1,2) by (simp add: webhook_state_def)
  have at: "run_at (Some k) ?st1 = run" by (simp add: run_at_def map_of_move_to_end)
  have "map_of (rs_scoped (update_run (Some k) run' ?st1)) k = Some run'" for run'
    by (simp add: update_run_def map_of_update map_of_move_to_end del: map_map)
  then show ?thesis using receive_webhook_valid[OF v p, of env] at by auto
qed

lemma responses_for_run:
  assumes "map_of (rs_scoped st) k = Some run" "DEMO_RUN_ID_PATTERN k"
  shows "responses_for k rqs st = map Inr (answers (rr_configuration run) (rr_scenario_attempts run) (filter (for_run k) rqs))"
  using assms(1)
proof (induction rqs arbitrary: st run)
  case (Cons x rqs)
  obtain env rq where x: "x = (env, rq)" by fastforce
  show ?case
  proof (cases "wr_demo_run_id rq = Some k")
    case True
    from True obtain run' st' where r: "receive_webhook env rq st = Inr (lab_answer (rr_configuration run) (rr_scenario_attempts run + 1) env rq, st')"
      "map_of (rs_scoped st') k = Some run'" "rr_configuration run' = rr_configuration run" "rr_scenario_attempts run' = rr_scenario_attempts run + 1"
      using webhook_same_run[OF Cons.prems _ assms(2), of rq env] by auto
    have "for_run k (env, rq)" using True by (simp add: for_run_def)
    then show ?thesis using Cons.IH[OF r(2)] r by (simp add: x responses_for_def Let_def split_beta)
  next
    case False
    have "responses_for k rqs st' = map Inr (answers (rr_configuration run) (rr_scenario_attempts run) (filter (for_run k) rqs))"
      if "receive_webhook env rq st = Inr (r, st')" for r st'
      using Cons.IH webhook_other_run[OF Cons.prems False that] by blast
    moreover have "\<not> for_run k (env, rq)" using False by (simp add: for_run_def)
    ultimately show ?thesis using Cons.IH[OF Cons.prems]
      by (cases "receive_webhook env rq st") (auto simp: x responses_for_def Let_def split_beta)
  qed
qed (simp add: responses_for_def)

lemma configure_starts_run:
  assumes "lab_inv st" "configure c (Some k) st = Inr (r, st1)"
  shows "\<exists>run. map_of (rs_scoped st1) k = Some run \<and> rr_configuration run = c \<and> rr_scenario_attempts run = 0 \<and> DEMO_RUN_ID_PATTERN k"
proof -
  have "distinct (map fst (rs_scoped st))" using assms(1) by (simp add: lab_inv_def)
  then show ?thesis using assms(2) map_of_evict_moved
    by (auto simp: configure_def configured_state_def update_run_def run_at_def map_of_update valid_run_id_def Let_def
        simp del: map_map split: if_splits)
qed

section \<open>What the sender makes of the answers\<close>

lemma response_status_class:
  "classify_status_code (response_status c n e) = Inr
     (if e \<noteq> None then TERMINAL_FAILURE
      else if rc_mode c = RATE_LIMITED \<and> (rc_failures_before_success c = 0 \<or> n \<le> rc_failures_before_success c) \<or>
              rc_mode c = FAIL_THEN_SUCCEED \<and> n \<le> rc_failures_before_success c
      then RETRY else SUCCEEDED)"
  by (auto simp: response_status_def classify_status_code_def RETRYABLE_STATUS_CODES_def)

lemma missing_text_mem: "missing_text data fs = Some f \<Longrightarrow> f \<in> set fs"
  by (induction fs) (auto split: option.splits json.splits if_splits)

lemma bad_integer_mem: "bad_integer data fs = Some f \<Longrightarrow> f \<in> set fs"
  by (induction fs) (auto split: option.splits json.splits if_splits)

lemma contract_integers:
  "map_of RECEIVER_CONTRACTS t = Some c \<Longrightarrow>
   set (ct_required_positive_integer c) \<subseteq> {''amount_cents'', ''quantity_remaining'', ''reorder_threshold''}"
  by (auto simp: RECEIVER_CONTRACTS_def split: if_splits)

text \<open>The codes of a rejection.\<close>

lemma contract_of_Some: "contract_of payload = Some (t, c) \<Longrightarrow> map_of RECEIVER_CONTRACTS t = Some c"
  by (auto simp: contract_of_def split: option.splits json.splits)

lemma contract_error_cases:
  assumes "contract_error t c channel payload = Some (code, detail)"
  shows "code \<in> {''wrong_receiver_route'', ''invalid_data'', ''invalid_currency''} \<or> (\<exists>f. code = ''missing_'' @ f) \<or>
    (\<exists>f \<in> set (ct_required_positive_integer c). code = ''invalid_'' @ f)"
proof (cases "channel \<noteq> None \<and> channel \<noteq> Some (ct_route c)")
  case False
  show ?thesis
  proof (cases "\<exists>data. map_of payload ''data'' = Some (JObj data)")
    case True
    then obtain data where d: "map_of payload ''data'' = Some (JObj data)" by blast
    show ?thesis
    proof (cases "missing_text data (ct_required_text c)")
      case None
      show ?thesis
      proof (cases "bad_integer data (ct_required_positive_integer c)")
        case None
        with \<open>missing_text _ _ = None\<close> d False assms have "code = ''invalid_currency''"
          by (simp add: contract_error_def split: if_split_asm)
        then show ?thesis by simp
      next
        case (Some f)
        with None d False assms have "code = ''invalid_'' @ f" by (simp add: contract_error_def split: if_split_asm)
        then show ?thesis using bad_integer_mem[OF Some] by blast
      qed
    next
      case (Some f)
      with d False assms have "code = ''missing_'' @ f" by (simp add: contract_error_def split: if_split_asm)
      then show ?thesis by blast
    qed
  next
    case no_data: False
    then have "contract_error t c channel payload = Some (''invalid_data'', ''data must be a JSON object.'')"
      using False by (simp add: contract_error_def split: option.split json.split)
    then show ?thesis using assms by simp
  qed
qed (use assms in \<open>simp add: contract_error_def\<close>)

lemma rejection_code:
  assumes "payload_validation_error loads body channel unknown = Some (code, detail)"
  shows "starts_with code ''missing_'' \<or> code \<in> RECEIVER_PAYLOAD_ERROR_CODES \<or> code = ''wrong_receiver_route'' \<or> code = ''invalid_amount_cents''"
proof (cases "\<exists>payload t c. loads body = Some (JObj payload) \<and> contract_of payload = Some (t, c)")
  case True
  then obtain payload t c where p: "loads body = Some (JObj payload)" "contract_of payload = Some (t, c)" by blast
  then have "contract_error t c channel payload = Some (code, detail)" using assms by (simp add: payload_validation_error_def)
  from contract_error_cases[OF this] show ?thesis
  proof (elim disjE exE bexE)
    fix f assume f: "f \<in> set (ct_required_positive_integer c)" "code = ''invalid_'' @ f"
    then have "f \<in> {''amount_cents'', ''quantity_remaining'', ''reorder_threshold''}"
      using contract_integers[OF contract_of_Some[OF p(2)]] by blast
    then show ?thesis using f(2) by (auto simp: RECEIVER_PAYLOAD_ERROR_CODES_def)
  qed (auto simp: RECEIVER_PAYLOAD_ERROR_CODES_def starts_with_def)
next
  case False
  then show ?thesis using assms
    by (auto simp: payload_validation_error_def RECEIVER_PAYLOAD_ERROR_CODES_def split: json.splits option.splits if_splits)
qed

lemma exempt_codes: "\<not> starts_with ''wrong_receiver_route'' ''missing_''" "\<not> starts_with ''invalid_amount_cents'' ''missing_''"
  "''wrong_receiver_route'' \<notin> RECEIVER_PAYLOAD_ERROR_CODES" "''invalid_amount_cents'' \<notin> RECEIVER_PAYLOAD_ERROR_CODES"
  by (simp_all add: starts_with_def RECEIVER_PAYLOAD_ERROR_CODES_def)

end
