(* ===== verification/Demo.thy ===== *)
theory Demo
  imports Receiver_Lab Services
begin

text \<open>
  The demo facade, demo.py: named Receiver Lab scenarios, applied and read back over the lab's
  control interface.  The HTTP client is an argument over a world \<open>'w\<close> that it may change, and
  the two pydantic models of the response are arguments; \<open>lab_client\<close> instantiates the client by the
  handlers of the lab itself, so that the facade and the lab are composed.
\<close>

section \<open>Scenarios\<close>

datatype receiver_lab_preset =
    PRESET_SUCCESS | RETRY_THEN_RECOVER | PRESET_RATE_LIMITED | RATE_LIMIT_THEN_RECOVER
  | PRESET_TIMEOUT | PRESET_PERMANENT_FAILURE | DEAD_LETTER

record receiver_scenario =
  sc_mode :: string
  sc_failures_before_success :: int
  sc_delay_ms :: int

definition scenario :: "string \<Rightarrow> int \<Rightarrow> int \<Rightarrow> receiver_scenario" where
  "scenario mode failures delay = \<lparr>sc_mode = mode, sc_failures_before_success = failures, sc_delay_ms = delay\<rparr>"

definition as_payload :: "receiver_scenario \<Rightarrow> json" where
  "as_payload s =
     JObj [(''mode'', JStr (sc_mode s)), (''failures_before_success'', JInt (sc_failures_before_success s)),
           (''delay_ms'', JInt (sc_delay_ms s))]"

definition SCENARIOS :: "(receiver_lab_preset \<times> receiver_scenario) list" where
  "SCENARIOS =
     [(PRESET_SUCCESS, scenario ''success'' 0 0),
      (RETRY_THEN_RECOVER, scenario ''fail_then_succeed'' 2 0),
      (PRESET_RATE_LIMITED, scenario ''rate_limited'' 0 0),
      (RATE_LIMIT_THEN_RECOVER, scenario ''rate_limited'' 2 0),
      (PRESET_TIMEOUT, scenario ''timeout'' 0 7000),
      (PRESET_PERMANENT_FAILURE, scenario ''permanent_failure'' 0 0),
      (DEAD_LETTER, scenario ''fail_then_succeed'' 20 0)]"

text \<open>\<open>SCENARIOS[preset]\<close>: every preset has an entry.\<close>

definition scenario_of :: "receiver_lab_preset \<Rightarrow> receiver_scenario" where
  "scenario_of preset = the (map_of SCENARIOS preset)"

record lab_configuration_response =
  lc_mode :: string
  lc_failures_before_success :: int
  lc_delay_ms :: int

definition identify_preset :: "lab_configuration_response \<Rightarrow> receiver_lab_preset option" where
  "identify_preset configuration =
     map_option fst (find (\<lambda>(preset, s). lc_mode configuration = sc_mode s \<and>
       lc_failures_before_success configuration = sc_failures_before_success s \<and>
       lc_delay_ms configuration = sc_delay_ms s) SCENARIOS)"

section \<open>The client\<close>

text \<open>
  What \<open>client.request\<close> gives: an \<open>httpx.HTTPError\<close>, or a status with the body as \<open>response.json()\<close>
  reads it, \<open>None\<close> when it is not JSON.  \<open>raise_for_status\<close> accepts the statuses 200 to 299.
\<close>

datatype client_result = ClientError | ClientResponse int "json option"

type_synonym 'w client = "string \<Rightarrow> string \<Rightarrow> json option \<Rightarrow> (string \<times> string) list option \<Rightarrow> 'w \<Rightarrow> client_result \<times> 'w"

definition unavailable :: py_exn where
  "unavailable = DomainError 503 ''receiver_lab_unavailable'' ''Receiver Lab is unavailable''
     ''The local Receiver Lab did not return a valid response. Check its service health.''"

definition lab_request ::
    "'w client \<Rightarrow> string \<Rightarrow> string \<Rightarrow> json option \<Rightarrow> (string \<times> string) list option \<Rightarrow> 'w \<Rightarrow> (string \<times> json) list res \<times> 'w" where
  "lab_request client verb path body params w =
     (case client verb path body params w of
        (ClientError, w') \<Rightarrow> (Inl unavailable, w')
      | (ClientResponse code payload, w') \<Rightarrow>
          if \<not> (200 \<le> code \<and> code \<le> 299) then (Inl unavailable, w')
          else (case payload of Some (JObj kvs) \<Rightarrow> (Inr kvs, w') | _ \<Rightarrow> (Inl unavailable, w')))"

definition run_params :: "string option \<Rightarrow> (string \<times> string) list option res" where
  "run_params run_id =
     (case run_id of
        None \<Rightarrow> Inr None
      | Some k \<Rightarrow>
          if normalized_demo_run_id (Some (JStr k)) \<noteq> Some k
          then Inl (ValueError ''run_id must be a bounded, header-safe identifier'')
          else Inr (Some [(''run_id'', k)]))"

section \<open>Reading and applying a scenario\<close>

record lab_validators =
  lv_configuration :: "json \<Rightarrow> lab_configuration_response option"
  lv_request :: "json \<Rightarrow> observed_request option"

record lab_state_response =
  ls_preset :: "receiver_lab_preset option"
  ls_configuration :: lab_configuration_response
  ls_attempts :: int
  ls_requests :: "observed_request list"

text \<open>
  \<open>int(v)\<close> of a JSON value: \<open>Inl True\<close> is a \<open>TypeError\<close> or \<open>ValueError\<close>, which the caller
  catches; \<open>Inl False\<close> is the \<open>OverflowError\<close> of an infinite float, which it does not.
\<close>

definition int_of_string :: "string \<Rightarrow> int option" where
  "int_of_string s =
     (case split_sign (py_strip s) of
        (negative, rest) \<Rightarrow>
          (case take_digits rest of
             (v # vs, []) \<Rightarrow>
               if length (v # vs) > 4300 then None
               else Some (let n = int (digits_value (v # vs)) in if negative then - n else n)
           | _ \<Rightarrow> None))"

fun int_of_json :: "json \<Rightarrow> bool + int" where
  "int_of_json (JInt n) = Inr n"
| "int_of_json (JBool b) = Inr (if b then 1 else 0)"
| "int_of_json (JFloat (Finite q)) = Inr (if q < 0 then \<lceil>q\<rceil> else \<lfloor>q\<rfloor>)"
| "int_of_json (JFloat (Infinite _)) = Inl False"
| "int_of_json (JFloat NaN) = Inl True"
| "int_of_json (JStr s) = (case int_of_string s of Some n \<Rightarrow> Inr n | None \<Rightarrow> Inl True)"
| "int_of_json JNull = Inl True"
| "int_of_json (JArr _) = Inl True"
| "int_of_json (JObj _) = Inl True"

definition read_lab_state :: "lab_validators \<Rightarrow> (string \<times> json) list \<Rightarrow> lab_state_response res" where
  "read_lab_state lv payload =
     (case Option.bind (map_of payload ''configuration'') (lv_configuration lv) of
        None \<Rightarrow> Inl unavailable
      | Some configuration \<Rightarrow>
          (case map_of payload ''attempts'' of
             None \<Rightarrow> Inl unavailable
           | Some a \<Rightarrow>
               (case int_of_json a of
                  Inl True \<Rightarrow> Inl unavailable
                | Inl False \<Rightarrow> Inl OverflowError
                | Inr attempts \<Rightarrow>
                    (case (case map_of payload ''requests'' of None \<Rightarrow> JArr [] | Some v \<Rightarrow> v) of
                       JArr raw_requests \<Rightarrow>
                         (case those (map (lv_request lv) (last_n 20 raw_requests)) of
                            None \<Rightarrow> Inl unavailable
                          | Some requests \<Rightarrow>
                              Inr \<lparr>ls_preset = identify_preset configuration, ls_configuration = configuration,
                                   ls_attempts = attempts, ls_requests = requests\<rparr>)
                     | _ \<Rightarrow> Inl unavailable))))"

definition demo_state :: "'w client \<Rightarrow> lab_validators \<Rightarrow> string option \<Rightarrow> 'w \<Rightarrow> lab_state_response res \<times> 'w" where
  "demo_state client lv run_id w =
     (case run_params run_id of
        Inl e \<Rightarrow> (Inl e, w)
      | Inr params \<Rightarrow>
          (case lab_request client ''GET'' ''/control'' None params w of
             (Inl e, w1) \<Rightarrow> (Inl e, w1)
           | (Inr payload, w1) \<Rightarrow> (read_lab_state lv payload, w1)))"

definition demo_configure ::
    "'w client \<Rightarrow> lab_validators \<Rightarrow> receiver_lab_preset \<Rightarrow> string option \<Rightarrow> 'w \<Rightarrow> lab_state_response res \<times> 'w" where
  "demo_configure client lv preset run_id w =
     (case run_params run_id of
        Inl e \<Rightarrow> (Inl e, w)
      | Inr params \<Rightarrow>
          (case lab_request client ''PUT'' ''/control'' (Some (as_payload (scenario_of preset))) params w of
             (Inl e, w1) \<Rightarrow> (Inl e, w1)
           | (Inr _, w1) \<Rightarrow> demo_state client lv run_id w1))"

section \<open>The facade over the lab\<close>

text \<open>The JSON of the lab's configuration and log, and the configuration read from a request body.\<close>

definition configuration_json :: "receiver_configuration \<Rightarrow> json" where
  "configuration_json c =
     JObj [(''mode'', JStr (receiver_mode_value (rc_mode c))),
           (''failures_before_success'', JInt (rc_failures_before_success c)), (''delay_ms'', JInt (rc_delay_ms c))]"

definition json_or_null :: "('a \<Rightarrow> json) \<Rightarrow> 'a option \<Rightarrow> json" where
  "json_or_null f v = (case v of None \<Rightarrow> JNull | Some x \<Rightarrow> f x)"

definition request_json :: "observed_request \<Rightarrow> json" where
  "request_json e =
     JObj [(''sequence'', JInt (or_sequence e)), (''attempt'', JInt (or_attempt e)),
           (''event_id'', json_or_null JStr (or_event_id e)), (''delivery_id'', json_or_null JStr (or_delivery_id e)),
           (''event_type'', json_or_null JStr (or_event_type e)), (''receiver_route'', JStr (or_receiver_route e)),
           (''delivery_attempt'', json_or_null JInt (or_delivery_attempt e)),
           (''request_timestamp'', json_or_null JInt (or_request_timestamp e)),
           (''received_at'', JStr (utc_isoformat (or_received_at e))),
           (''response_status_code'', JInt (or_response_status_code e)), (''receiver_mode'', JStr (or_receiver_mode e)),
           (''signature_present'', JBool (or_signature_present e)), (''body_preview'', JStr (or_body_preview e)),
           (''body_sha256'', JStr (or_body_sha256 e))]"

definition mode_of :: "string \<Rightarrow> receiver_mode option" where
  "mode_of v = find (\<lambda>m. receiver_mode_value m = v)
     [RM_SUCCESS, FAIL_THEN_SUCCEED, RATE_LIMITED, RM_TIMEOUT, PERMANENT_FAILURE]"

definition read_configuration :: "json \<Rightarrow> receiver_configuration option" where
  "read_configuration v =
     (case v of
        JObj kvs \<Rightarrow>
          (case (map_of kvs ''mode'', map_of kvs ''failures_before_success'', map_of kvs ''delay_ms'') of
             (Some (JStr m), Some (JInt f), Some (JInt d)) \<Rightarrow>
               map_option (\<lambda>mode. \<lparr>rc_mode = mode, rc_failures_before_success = f, rc_delay_ms = d\<rparr>) (mode_of m)
           | _ \<Rightarrow> None)
      | _ \<Rightarrow> None)"

definition lab_client :: "receiver_state client" where
  "lab_client verb path body params st =
     (let run_id = Option.bind params (\<lambda>ps. map_of ps ''run_id'') in
      if path \<noteq> ''/control'' then (ClientResponse 404 None, st)
      else if verb = ''GET'' then
        (case control_state run_id st of
           Inl _ \<Rightarrow> (ClientResponse 422 None, st)
         | Inr (r, st') \<Rightarrow>
             (ClientResponse 200 (Some (JObj [(''configuration'', configuration_json (cn_configuration r)),
                (''attempts'', JInt (cn_attempts r)), (''requests'', JArr (map request_json (cn_requests r)))])), st'))
      else if verb = ''PUT'' then
        (case Option.bind body read_configuration of
           None \<Rightarrow> (ClientResponse 422 None, st)
         | Some c \<Rightarrow>
             (case configure c run_id st of
                Inl _ \<Rightarrow> (ClientResponse 422 None, st)
              | Inr ((c', n), st') \<Rightarrow>
                  (ClientResponse 200 (Some (JObj [(''configuration'', configuration_json c'), (''attempts'', JInt n)])), st')))
      else (ClientResponse 405 None, st))"

text \<open>
  The bounds the facade's model of a log entry declares, and what is expected of the two pydantic
  models on the JSON that the lab writes: the configuration is read as it is, and an entry is
  accepted exactly when it is within the bounds.
\<close>

definition sha256_hex :: "string \<Rightarrow> bool" where
  "sha256_hex s \<longleftrightarrow> length s = 64 \<and> list_all (\<lambda>c. c \<in> set ''0123456789abcdef'') s"

definition request_bounds :: "observed_request \<Rightarrow> bool" where
  "request_bounds e \<longleftrightarrow> 1 \<le> or_sequence e \<and> 1 \<le> or_attempt e \<and>
     (case or_delivery_attempt e of None \<Rightarrow> True | Some n \<Rightarrow> 1 \<le> n) \<and>
     (case or_request_timestamp e of None \<Rightarrow> True | Some n \<Rightarrow> 0 \<le> n) \<and>
     100 \<le> or_response_status_code e \<and> or_response_status_code e \<le> 599 \<and> sha256_hex (or_body_sha256 e)"

definition configuration_view :: "receiver_configuration \<Rightarrow> lab_configuration_response" where
  "configuration_view c = \<lparr>lc_mode = receiver_mode_value (rc_mode c),
     lc_failures_before_success = rc_failures_before_success c, lc_delay_ms = rc_delay_ms c\<rparr>"

definition validates :: "lab_validators \<Rightarrow> receiver_state \<Rightarrow> string option \<Rightarrow> bool" where
  "validates lv st run_id \<longleftrightarrow>
     (\<forall>c. lv_configuration lv (configuration_json c) = Some (configuration_view c)) \<and>
     (\<forall>e \<in> set (rr_requests (run_at run_id st)). lv_request lv (request_json e) = (if request_bounds e then Some e else None))"

lemma read_configuration_json: "read_configuration (configuration_json c) = Some c"
  by (cases "rc_mode c") (simp_all add: read_configuration_def configuration_json_def mode_of_def)

definition preset_configuration :: "receiver_lab_preset \<Rightarrow> receiver_configuration" where
  "preset_configuration preset = the (read_configuration (as_payload (scenario_of preset)))"

lemma preset_configuration:
  "read_configuration (as_payload (scenario_of p)) = Some (preset_configuration p)"
  "configuration_bounds (preset_configuration p)" "identify_preset (configuration_view (preset_configuration p)) = Some p"
  by (cases p; simp add: preset_configuration_def scenario_of_def SCENARIOS_def scenario_def as_payload_def read_configuration_def
      mode_of_def configuration_bounds_def configuration_view_def identify_preset_def)+

lemma those_all_Some: "(\<And>x. x \<in> set xs \<Longrightarrow> f x = Some (g x)) \<Longrightarrow> those (map f xs) = Some (map g xs)"
  by (induction xs) auto

lemma those_some_None: "\<exists>x \<in> set xs. f x = None \<Longrightarrow> those (map f xs) = None"
  by (induction xs) (auto split: option.splits)

lemma set_last_n: "set (last_n n xs) \<subseteq> set xs"
  by (simp add: last_n_def set_drop_subset)

lemma run_params_valid: "valid_run_id run_id \<Longrightarrow> run_params run_id = Inr (map_option (\<lambda>k. [(''run_id'', k)]) run_id)"
  by (auto simp: valid_run_id_def run_params_def normalized_demo_run_id_def split: option.splits)

lemma configured_place [simp]: "fst (configured_state run_id st) = run_id"
  by (cases run_id) (simp_all add: configured_state_def Let_def)

lemma run_at_configured: "lab_inv st \<Longrightarrow> run_at run_id (snd (configured_state run_id st)) = run_at run_id st"
  by (cases run_id) (simp_all add: configured_state_def Let_def run_at_def lab_inv_def map_of_evict_moved)

lemma run_at_update_run:
  assumes "lab_inv st"
  shows "run_at run_id (update_run run_id run (snd (configured_state run_id st))) = run"
  using assms
  by (cases run_id) (simp_all add: configured_state_def Let_def run_at_def update_run_def lab_inv_def map_of_update map_of_evict_moved del: map_map)

text \<open>The facade shows the run as the lab has it, unless an entry it would show is out of bounds.\<close>

lemma demo_state_lab:
  assumes "lab_inv st" "valid_run_id run_id" "validates lv st run_id"
  shows "demo_state lab_client lv run_id st =
    (if \<forall>e \<in> set (last_n 20 (rr_requests (run_at run_id st))). request_bounds e
     then Inr \<lparr>ls_preset = identify_preset (configuration_view (rr_configuration (run_at run_id st))),
       ls_configuration = configuration_view (rr_configuration (run_at run_id st)),
       ls_attempts = rr_scenario_attempts (run_at run_id st), ls_requests = last_n 20 (rr_requests (run_at run_id st))\<rparr>
     else Inl unavailable, snd (configured_state run_id st))"
proof -
  let ?run = "run_at run_id st" and ?st1 = "snd (configured_state run_id st)"
  let ?es = "last_n 20 (rr_requests ?run)"
  have bind: "Option.bind (map_option (\<lambda>k. [(''run_id'', k)]) run_id) (\<lambda>ps. map_of ps ''run_id'') = run_id" by (cases run_id) simp_all
  have es: "last_n 20 (last_n CONTROL_REQUEST_LIMIT (rr_requests ?run)) = ?es" by (simp add: last_n_def CONTROL_REQUEST_LIMIT_def)
  have read: "lv_request lv (request_json e) = (if request_bounds e then Some e else None)" if "e \<in> set ?es" for e
    using assms(3) that set_last_n by (fastforce simp: validates_def)
  have "those (map (lv_request lv) (map request_json ?es)) = (if \<forall>e \<in> set ?es. request_bounds e then Some ?es else None)"
  proof (cases "\<forall>e \<in> set ?es. request_bounds e")
    case True
    then show ?thesis using those_all_Some[of ?es "\<lambda>e. lv_request lv (request_json e)" "\<lambda>e. e"] read by (simp add: comp_def)
  next
    case False
    then show ?thesis using those_some_None[of ?es "\<lambda>e. lv_request lv (request_json e)"] read by (auto simp: comp_def)
  qed
  moreover have "last_n 20 (map request_json xs) = map request_json (last_n 20 xs)" for xs by (simp add: last_n_def drop_map)
  moreover have "lv_configuration lv (configuration_json c) = Some (configuration_view c)" for c using assms(3) by (simp add: validates_def)
  ultimately show ?thesis
    using assms(2) run_at_configured[OF assms(1), of run_id]
    by (simp add: demo_state_def run_params_valid lab_request_def lab_client_def control_state_def read_lab_state_def bind es
        Let_def split_beta del: map_map)
qed

lemma demo_configure_lab:
  assumes "lab_inv st" "valid_run_id run_id"
  shows "\<exists>st1. demo_configure lab_client lv preset run_id st = demo_state lab_client lv run_id st1 \<and>
    configure (preset_configuration preset) run_id st = Inr ((preset_configuration preset, 0), st1) \<and> lab_inv st1 \<and>
    run_at run_id st1 = (run_at run_id st)\<lparr>rr_configuration := preset_configuration preset, rr_scenario_attempts := 0\<rparr>"
proof -
  let ?run = "(run_at run_id st)\<lparr>rr_configuration := preset_configuration preset, rr_scenario_attempts := 0\<rparr>"
  let ?st1 = "update_run run_id ?run (snd (configured_state run_id st))"
  have bind: "Option.bind (map_option (\<lambda>k. [(''run_id'', k)]) run_id) (\<lambda>ps. map_of ps ''run_id'') = run_id" by (cases run_id) simp_all
  have c: "configure (preset_configuration preset) run_id st = Inr ((preset_configuration preset, 0), ?st1)"
    using assms(2) preset_configuration(2) run_at_configured[OF assms(1), of run_id] by (simp add: configure_def Let_def split_beta)
  then have "demo_configure lab_client lv preset run_id st = demo_state lab_client lv run_id ?st1"
    using assms(2) by (simp add: demo_configure_def run_params_valid lab_request_def lab_client_def bind preset_configuration(1) Let_def)
  moreover have "lab_inv ?st1" using lab_inv_step[OF assms(1) lab_configure[OF c]] .
  ultimately show ?thesis using c run_at_update_run[OF assms(1), of run_id ?run] by blast
qed

end
