(* ===== verification/Routes.thy ===== *)
theory Routes
  imports Control_Room Demo
begin

text \<open>
  The HTTP interface: the request models of schemas.py, the routes of routers/v1.py with their
  responses, the rendering of domain errors of errors.py, and the two probes of api.py.  A
  route validates its input as FastAPI does (\<open>RequestValidationError\<close>, status 422), runs its
  service in one transaction and maps the result to the response.  Pydantic's reading of a UUID
  is an argument.
\<close>

section \<open>Request bodies\<close>

text \<open>
  \<open>name\<close> is stripped before its length is checked; keys that are not declared are refused.
\<close>

definition keys_exactly :: "string list \<Rightarrow> (string \<times> json) list \<Rightarrow> bool" where
  "keys_exactly ks kvs \<longleftrightarrow> fst ` set kvs = set ks"

definition stripped_field :: "json option \<Rightarrow> string option" where
  "stripped_field v =
     (case v of
        Some (JStr s) \<Rightarrow> (let normalized = py_strip s in if normalized = [] then None else Some normalized)
      | _ \<Rightarrow> None)"

definition read_endpoint_create :: "json \<Rightarrow> endpoint_create_request res" where
  "read_endpoint_create body =
     (case body of
        JObj kvs \<Rightarrow>
          (case (stripped_field (map_of kvs ''name''), map_of kvs ''url'') of
             (Some name, Some (JStr url)) \<Rightarrow>
               if keys_exactly [''name'', ''url''] kvs \<and> length name \<le> 120 \<and> url \<noteq> [] \<and> length url \<le> 2048
               then Inr \<lparr>ec_name = name, ec_url = url\<rparr> else Inl RequestValidationError
           | _ \<Rightarrow> Inl RequestValidationError)
      | _ \<Rightarrow> Inl RequestValidationError)"

text \<open>\<open>^[a-z][a-z0-9_.-]*$\<close>.\<close>

definition lower_alpha :: "char \<Rightarrow> bool" where
  "lower_alpha c \<longleftrightarrow> 97 \<le> (of_char c :: nat) \<and> (of_char c :: nat) \<le> 122"

fun event_type_pattern :: "string \<Rightarrow> bool" where
  "event_type_pattern [] = False"
| "event_type_pattern (c # cs) =
     (lower_alpha c \<and> list_all (\<lambda>d. lower_alpha d \<or> is_digit d \<or> d \<in> {CHR ''_'', CHR ''.'', CHR ''-''}) cs)"

definition read_event_publish :: "(string \<Rightarrow> uuid option) \<Rightarrow> json \<Rightarrow> event_publish_request res" where
  "read_event_publish uuid_of body =
     (case body of
        JObj kvs \<Rightarrow>
          (case (map_of kvs ''endpoint_id'', stripped_field (map_of kvs ''type''), map_of kvs ''data'') of
             (Some (JStr i), Some t, Some (JObj data)) \<Rightarrow>
               (case uuid_of i of
                  Some endpoint_id \<Rightarrow>
                    if keys_exactly [''endpoint_id'', ''type'', ''data''] kvs \<and> length t \<le> 120 \<and> event_type_pattern t
                    then Inr \<lparr>pr_endpoint_id = endpoint_id, pr_type = t, pr_data = data\<rparr>
                    else Inl RequestValidationError
                | None \<Rightarrow> Inl RequestValidationError)
           | _ \<Rightarrow> Inl RequestValidationError)
      | _ \<Rightarrow> Inl RequestValidationError)"

section \<open>Responses\<close>

record 'a reply =
  re_status :: int
  re_headers :: "(string \<times> string) list"
  re_body :: 'a

record endpoint_created_response =
  cer_id :: uuid
  cer_name :: string
  cer_url :: string
  cer_enabled :: bool
  cer_signing_secret :: string
  cer_secret_version :: int
  cer_created_at :: datetime

record endpoint_public_response =
  epr_id :: uuid
  epr_name :: string
  epr_url :: string
  epr_enabled :: bool
  epr_secret_version :: int
  epr_created_at :: datetime
  epr_updated_at :: datetime

record event_accepted_response =
  ear_event_id :: uuid
  ear_delivery_id :: uuid
  ear_endpoint_id :: uuid
  ear_type :: string
  ear_status :: delivery_status
  ear_created_at :: datetime

record replay_accepted_response =
  rar_source_delivery_id :: uuid
  rar_delivery_id :: uuid
  rar_event_id :: uuid
  rar_endpoint_id :: uuid
  rar_replay_generation :: int
  rar_status :: delivery_status
  rar_created_at :: datetime

record delivery_summary_response =
  dsr_id :: uuid
  dsr_endpoint_id :: uuid
  dsr_replay_generation :: int
  dsr_replayed_from_delivery_id :: "uuid option"
  dsr_status :: delivery_status
  dsr_attempt_count :: int
  dsr_next_attempt_at :: "datetime option"
  dsr_lease_owner :: "string option"
  dsr_lease_expires_at :: "datetime option"
  dsr_delivered_at :: "datetime option"
  dsr_last_error :: "string option"
  dsr_created_at :: datetime
  dsr_updated_at :: datetime

record delivery_status_counts =
  sct_pending :: int
  sct_in_progress :: int
  sct_retry_wait :: int
  sct_delivered :: int
  sct_dead_lettered :: int

record overview_response =
  ovr_generated_at :: datetime
  ovr_events_total :: int
  ovr_endpoints_total :: int
  ovr_endpoints_enabled :: int
  ovr_deliveries :: delivery_status_counts
  ovr_actionable_dead_letters :: int

record event_list_item_response =
  eli_id :: uuid
  eli_source :: string
  eli_type :: string
  eli_created_at :: datetime
  eli_endpoint :: endpoint_public_response
  eli_latest_delivery :: delivery_summary_response
  eli_generation_count :: int

record dead_letter_item_response =
  dli_event_id :: uuid
  dli_event_type :: string
  dli_event_created_at :: datetime
  dli_endpoint :: endpoint_public_response
  dli_delivery :: delivery_summary_response
  dli_replayable :: bool
  dli_blocked_code :: "replay_block_code_t option"
  dli_blocked_reason :: "string option"

record 'a list_response =
  lst_items :: "'a list"
  lst_next_cursor :: "string option"

record event_detail_response =
  edr_id :: uuid
  edr_source :: string
  edr_type :: string
  edr_data :: "(string \<times> json) list"
  edr_payload_sha256 :: string
  edr_request_fingerprint_sha256 :: string
  edr_idempotency_key :: string
  edr_created_at :: datetime
  edr_deliveries :: "delivery_summary_response list"

record delivery_attempt_response =
  dar_id :: uuid
  dar_attempt_number :: int
  dar_status :: delivery_attempt_status
  dar_disposition :: "delivery_disposition option"
  dar_http_status_code :: "int option"
  dar_error_type :: "string option"
  dar_error_message :: "string option"
  dar_response_body_excerpt :: "string option"
  dar_duration_ms :: "int option"
  dar_request_timestamp :: "int option"
  dar_retry_scheduled_for :: "datetime option"
  dar_started_at :: "datetime option"
  dar_finished_at :: "datetime option"
  dar_resolved_at :: "datetime option"
  dar_created_at :: datetime

record delivery_attempts_response =
  das_delivery :: delivery_summary_response
  das_attempts :: "delivery_attempt_response list"

section \<open>Mapping rows to responses\<close>

definition delivery_response :: "delivery \<Rightarrow> delivery_summary_response" where
  "delivery_response d =
     \<lparr>dsr_id = dl_id d, dsr_endpoint_id = dl_endpoint_id d, dsr_replay_generation = dl_replay_generation d,
      dsr_replayed_from_delivery_id = dl_replayed_from_delivery_id d, dsr_status = dl_status d,
      dsr_attempt_count = dl_attempt_count d, dsr_next_attempt_at = dl_next_attempt_at d,
      dsr_lease_owner = dl_lease_owner d, dsr_lease_expires_at = dl_lease_expires_at d,
      dsr_delivered_at = dl_delivered_at d, dsr_last_error = dl_last_error d,
      dsr_created_at = dl_created_at d, dsr_updated_at = dl_updated_at d\<rparr>"

definition attempt_response :: "delivery_attempt \<Rightarrow> delivery_attempt_response" where
  "attempt_response a =
     \<lparr>dar_id = at_id a, dar_attempt_number = at_attempt_number a, dar_status = at_status a,
      dar_disposition = at_disposition a, dar_http_status_code = at_http_status_code a,
      dar_error_type = at_error_type a, dar_error_message = at_error_message a,
      dar_response_body_excerpt = at_response_body_excerpt a, dar_duration_ms = at_duration_ms a,
      dar_request_timestamp = at_request_timestamp a, dar_retry_scheduled_for = at_retry_scheduled_for a,
      dar_started_at = at_started_at a, dar_finished_at = at_finished_at a, dar_resolved_at = at_resolved_at a,
      dar_created_at = at_created_at a\<rparr>"

definition endpoint_response :: "endpoint \<Rightarrow> endpoint_public_response" where
  "endpoint_response e =
     \<lparr>epr_id = ep_id e, epr_name = ep_name e, epr_url = ep_target_url e, epr_enabled = ep_enabled e,
      epr_secret_version = ep_secret_version e, epr_created_at = ep_created_at e, epr_updated_at = ep_updated_at e\<rparr>"

fun blocked_reason :: "replay_block_code_t \<Rightarrow> string" where
  "blocked_reason PAYLOAD_CORRECTION_REQUIRED =
     ''Payload correction required. Publish a corrected event instead of replaying the unchanged body.''"
| "blocked_reason ENDPOINT_DISABLED = ''Endpoint is disabled.''"

definition dead_letter_response :: "(string \<Rightarrow> json option) \<Rightarrow> dead_letter_record \<Rightarrow> dead_letter_item_response" where
  "dead_letter_response json_loads item =
     (let evidence = replay_block_code json_loads (dr_last_http_status_code item) (dr_last_response_body_excerpt item);
          block_code = (if evidence = None \<and> \<not> ep_enabled (dr_endpoint item) then Some ENDPOINT_DISABLED else evidence)
      in \<lparr>dli_event_id = ev_id (dr_event item), dli_event_type = ev_event_type (dr_event item),
          dli_event_created_at = ev_created_at (dr_event item), dli_endpoint = endpoint_response (dr_endpoint item),
          dli_delivery = delivery_response (dr_delivery item), dli_replayable = (block_code = None),
          dli_blocked_code = block_code, dli_blocked_reason = map_option blocked_reason block_code\<rparr>)"

definition no_store :: "(string \<times> string) list" where
  "no_store = [(''Cache-Control'', ''no-store'')]"

section \<open>Accepting requests\<close>

definition create_endpoint_route ::
    "settings \<Rightarrow> string \<Rightarrow> uuid \<Rightarrow> datetime \<Rightarrow> datetime \<Rightarrow> json \<Rightarrow> db \<Rightarrow> endpoint_created_response reply res \<times> db" where
  "create_endpoint_route st secret new_id created_at updated_at body db =
     (case read_endpoint_create body of
        Inl e \<Rightarrow> (Inl e, db)
      | Inr request \<Rightarrow>
          (case run_tx (create_endpoint (receiver_lab_url st) secret new_id created_at updated_at request) db of
             (Inl e, db') \<Rightarrow> (Inl e, db')
           | (Inr r, db') \<Rightarrow>
               let endpoint = cr_endpoint r
               in (Inr \<lparr>re_status = 201, re_headers = [],
                     re_body = \<lparr>cer_id = ep_id endpoint, cer_name = ep_name endpoint, cer_url = ep_target_url endpoint,
                       cer_enabled = ep_enabled endpoint, cer_signing_secret = cr_plaintext_signing_secret r,
                       cer_secret_version = ep_secret_version endpoint, cer_created_at = ep_created_at endpoint\<rparr>\<rparr>, db')))"

text \<open>The header \<open>Idempotency-Key\<close>: its declared length, then the handler's own check.\<close>

definition invalid_idempotency_key :: py_exn where
  "invalid_idempotency_key = DomainError 422 ''invalid_idempotency_key'' ''Idempotency key is invalid''
     ''Idempotency-Key must contain at least one non-whitespace character.''"

definition check_idempotency_key :: "string \<Rightarrow> unit res" where
  "check_idempotency_key key =
     (if key = [] \<or> length key > 255 then Inl RequestValidationError
      else if py_strip key = [] then Inl invalid_idempotency_key else Inr ())"

definition lower_bool :: "bool \<Rightarrow> string" where
  "lower_bool b = (if b then ''true'' else ''false'')"

definition publish_event ::
    "codec \<Rightarrow> publish_env \<Rightarrow> (string \<Rightarrow> uuid option) \<Rightarrow> json \<Rightarrow> string \<Rightarrow> db \<Rightarrow> event_accepted_response reply res \<times> db" where
  "publish_event cd env uuid_of body key db =
     (case read_event_publish uuid_of body of
        Inl e \<Rightarrow> (Inl e, db)
      | Inr request \<Rightarrow>
          (case check_idempotency_key key of
             Inl e \<Rightarrow> (Inl e, db)
           | Inr _ \<Rightarrow>
               (case run_tx (publish cd env request key) db of
                  (Inl e, db') \<Rightarrow> (Inl e, db')
                | (Inr r, db') \<Rightarrow>
                    (Inr \<lparr>re_status = 202,
                       re_headers = [(''X-EventHarbor-Idempotent-Replay'', lower_bool (pb_idempotent_replay r)),
                         (''Location'', ''/v1/events/'' @ uuid_str (ev_id (pb_event r)))],
                       re_body = \<lparr>ear_event_id = ev_id (pb_event r), ear_delivery_id = dl_id (pb_delivery r),
                         ear_endpoint_id = dl_endpoint_id (pb_delivery r), ear_type = ev_event_type (pb_event r),
                         ear_status = dl_status (pb_delivery r), ear_created_at = ev_created_at (pb_event r)\<rparr>\<rparr>, db'))))"

definition replay_delivery ::
    "codec \<Rightarrow> replay_env \<Rightarrow> uuid \<Rightarrow> string \<Rightarrow> db \<Rightarrow> replay_accepted_response reply res \<times> db" where
  "replay_delivery cd env delivery_id key db =
     (case check_idempotency_key key of
        Inl e \<Rightarrow> (Inl e, db)
      | Inr _ \<Rightarrow>
          (case run_tx (replay cd env delivery_id key) db of
             (Inl e, db') \<Rightarrow> (Inl e, db')
           | (Inr r, db') \<Rightarrow>
               let d = rd_delivery r
               in (Inr \<lparr>re_status = 202,
                     re_headers = [(''X-EventHarbor-Idempotent-Replay'', lower_bool (rd_idempotent_replay r)),
                       (''Location'', ''/v1/deliveries/'' @ uuid_str (dl_id d) @ ''/attempts'')],
                     re_body = \<lparr>rar_source_delivery_id = dl_id (rd_source_delivery r), rar_delivery_id = dl_id d,
                       rar_event_id = dl_event_id d, rar_endpoint_id = dl_endpoint_id d,
                       rar_replay_generation = dl_replay_generation d, rar_status = PENDING,
                       rar_created_at = dl_created_at d\<rparr>\<rparr>, db')))"

section \<open>Reading\<close>

definition get_event_route :: "uuid \<Rightarrow> db \<Rightarrow> event_detail_response reply res" where
  "get_event_route event_id db =
     (case event_details event_id db of
        Inl e \<Rightarrow> Inl e
      | Inr (event, deliveries) \<Rightarrow>
          Inr \<lparr>re_status = 200, re_headers = [],
               re_body = \<lparr>edr_id = ev_id event, edr_source = ev_source event, edr_type = ev_event_type event,
                 edr_data = ev_payload event, edr_payload_sha256 = ev_payload_sha256 event,
                 edr_request_fingerprint_sha256 = ev_request_fingerprint_sha256 event,
                 edr_idempotency_key = ev_idempotency_key event, edr_created_at = ev_created_at event,
                 edr_deliveries = map delivery_response deliveries\<rparr>\<rparr>)"

definition get_delivery_attempts :: "uuid \<Rightarrow> db \<Rightarrow> delivery_attempts_response reply res" where
  "get_delivery_attempts delivery_id db =
     (case delivery_attempts_query delivery_id db of
        Inl e \<Rightarrow> Inl e
      | Inr (d, attempts) \<Rightarrow>
          Inr \<lparr>re_status = 200, re_headers = [],
               re_body = \<lparr>das_delivery = delivery_response d, das_attempts = map attempt_response attempts\<rparr>\<rparr>)"

definition count_of :: "(delivery_status \<times> int) list \<Rightarrow> delivery_status \<Rightarrow> int" where
  "count_of counts s = (case map_of counts s of None \<Rightarrow> 0 | Some n \<Rightarrow> n)"

definition get_control_room_overview :: "datetime option \<Rightarrow> db \<Rightarrow> db \<Rightarrow> db \<Rightarrow> db \<Rightarrow> overview_response reply res" where
  "get_control_room_overview now db1 db2 db3 db4 =
     (case overview now db1 db2 db3 db4 of
        Inl e \<Rightarrow> Inl e
      | Inr snapshot \<Rightarrow>
          let counts = os_deliveries_by_status snapshot
          in Inr \<lparr>re_status = 200, re_headers = no_store,
               re_body = \<lparr>ovr_generated_at = os_generated_at snapshot, ovr_events_total = os_events_total snapshot,
                 ovr_endpoints_total = os_endpoints_total snapshot, ovr_endpoints_enabled = os_endpoints_enabled snapshot,
                 ovr_deliveries = \<lparr>sct_pending = count_of counts PENDING, sct_in_progress = count_of counts IN_PROGRESS,
                   sct_retry_wait = count_of counts RETRY_WAIT, sct_delivered = count_of counts DELIVERED,
                   sct_dead_lettered = count_of counts DEAD_LETTERED\<rparr>,
                 ovr_actionable_dead_letters = os_actionable_dead_letters snapshot\<rparr>\<rparr>)"

text \<open>The declared bounds of the list parameters.\<close>

definition list_params_ok :: "int \<Rightarrow> string option \<Rightarrow> bool" where
  "list_params_ok limit cursor \<longleftrightarrow> 1 \<le> limit \<and> limit \<le> 100 \<and>
     (case cursor of None \<Rightarrow> True | Some c \<Rightarrow> length c \<le> 512)"

definition list_reply :: "('a \<Rightarrow> 'b) \<Rightarrow> 'a page res \<Rightarrow> 'b list_response reply res" where
  "list_reply f r =
     (case r of
        Inl e \<Rightarrow> Inl e
      | Inr p \<Rightarrow> Inr \<lparr>re_status = 200, re_headers = no_store,
                   re_body = \<lparr>lst_items = map f (pg_items p), lst_next_cursor = pg_next_cursor p\<rparr>\<rparr>)"

definition event_list_item :: "event_list_record \<Rightarrow> event_list_item_response" where
  "event_list_item item =
     \<lparr>eli_id = ev_id (er_event item), eli_source = ev_source (er_event item), eli_type = ev_event_type (er_event item),
      eli_created_at = ev_created_at (er_event item), eli_endpoint = endpoint_response (er_endpoint item),
      eli_latest_delivery = delivery_response (er_latest_delivery item),
      eli_generation_count = dl_replay_generation (er_latest_delivery item) + 1\<rparr>"

definition list_events_route ::
    "cursor_codec \<Rightarrow> int \<Rightarrow> string option \<Rightarrow> string option \<Rightarrow> uuid option \<Rightarrow> delivery_status option \<Rightarrow> db \<Rightarrow>
     event_list_item_response list_response reply res" where
  "list_events_route cc limit cursor event_type endpoint_id delivery_status db =
     (if \<not> (list_params_ok limit cursor \<and>
          (case event_type of None \<Rightarrow> True | Some t \<Rightarrow> t \<noteq> [] \<and> length t \<le> 120)) then Inl RequestValidationError
      else list_reply event_list_item (events_query cc event_type endpoint_id delivery_status (nat limit) cursor db))"

definition list_endpoints_route ::
    "cursor_codec \<Rightarrow> int \<Rightarrow> string option \<Rightarrow> db \<Rightarrow> endpoint_public_response list_response reply res" where
  "list_endpoints_route cc limit cursor db =
     (if \<not> list_params_ok limit cursor then Inl RequestValidationError
      else list_reply endpoint_response (endpoints_query cc (nat limit) cursor db))"

definition get_endpoint_route :: "uuid \<Rightarrow> db \<Rightarrow> endpoint_public_response reply res" where
  "get_endpoint_route endpoint_id db =
     (case endpoint_query endpoint_id db of
        Inl e \<Rightarrow> Inl e
      | Inr e \<Rightarrow> Inr \<lparr>re_status = 200, re_headers = no_store, re_body = endpoint_response e\<rparr>)"

definition list_dead_letters_route ::
    "cursor_codec \<Rightarrow> (string \<Rightarrow> json option) \<Rightarrow> int \<Rightarrow> string option \<Rightarrow> uuid option \<Rightarrow> db \<Rightarrow>
     dead_letter_item_response list_response reply res" where
  "list_dead_letters_route cc json_loads limit cursor endpoint_id db =
     (if \<not> list_params_ok limit cursor then Inl RequestValidationError
      else list_reply (dead_letter_response json_loads) (dead_letters_query cc endpoint_id (nat limit) cursor db))"

section \<open>The demo facade\<close>

definition get_receiver_lab_state ::
    "'w client \<Rightarrow> lab_validators \<Rightarrow> string option \<Rightarrow> 'w \<Rightarrow> lab_state_response reply res \<times> 'w" where
  "get_receiver_lab_state client lv run_id w =
     (if \<not> valid_run_id run_id then (Inl RequestValidationError, w)
      else case demo_state client lv run_id w of
        (Inl e, w') \<Rightarrow> (Inl e, w')
      | (Inr r, w') \<Rightarrow> (Inr \<lparr>re_status = 200, re_headers = no_store, re_body = r\<rparr>, w'))"

definition configure_receiver_lab ::
    "'w client \<Rightarrow> lab_validators \<Rightarrow> receiver_lab_preset \<Rightarrow> string option \<Rightarrow> 'w \<Rightarrow> lab_state_response reply res \<times> 'w" where
  "configure_receiver_lab client lv preset run_id w =
     (if \<not> valid_run_id run_id then (Inl RequestValidationError, w)
      else case demo_configure client lv preset run_id w of
        (Inl e, w') \<Rightarrow> (Inl e, w')
      | (Inr r, w') \<Rightarrow> (Inr \<lparr>re_status = 200, re_headers = no_store, re_body = r\<rparr>, w'))"

section \<open>Errors and probes\<close>

record problem =
  pm_type :: string
  pm_title :: string
  pm_status :: int
  pm_detail :: string
  pm_instance :: string
  pm_code :: string

text \<open>\<open>None\<close>: the handler raises the error again.\<close>

definition domain_error_handler :: "string \<Rightarrow> py_exn \<Rightarrow> problem reply option" where
  "domain_error_handler path e =
     (case e of
        DomainError status_code code title detail \<Rightarrow>
          Some \<lparr>re_status = status_code, re_headers = [(''content-type'', ''application/problem+json'')],
                re_body = \<lparr>pm_type = ''urn:eventharbor:problem:'' @ code, pm_title = title, pm_status = status_code,
                  pm_detail = detail, pm_instance = path, pm_code = code\<rparr>\<rparr>
      | _ \<Rightarrow> None)"

definition health :: "(string \<times> string) list reply" where
  "health = \<lparr>re_status = 200, re_headers = no_store,
     re_body = [(''status'', ''healthy''), (''service'', ''eventharbor-api''), (''version'', app_version)]\<rparr>"

text \<open>
  The check of the database and the time it takes: \<open>asyncio.timeout\<close> cuts it off with an exception
  like any other.
\<close>

definition ready :: "settings \<Rightarrow> bool \<Rightarrow> seconds \<Rightarrow> (string \<times> string) list reply" where
  "ready st check_succeeds duration =
     (if check_succeeds \<and> duration < readiness_timeout_seconds st
      then \<lparr>re_status = 200, re_headers = no_store,
            re_body = [(''status'', ''ready''), (''service'', ''eventharbor-api''), (''dependency'', ''postgresql'')]\<rparr>
      else \<lparr>re_status = 503, re_headers = no_store,
            re_body = [(''status'', ''unavailable''), (''service'', ''eventharbor-api''), (''dependency'', ''postgresql'')]\<rparr>)"

section \<open>Secrets stay inside\<close>

text \<open>The database with other signing secrets.\<close>

definition with_secrets :: "(uuid \<Rightarrow> bytes) \<Rightarrow> db \<Rightarrow> db" where
  "with_secrets f db =
     db\<lparr>db_endpoints := map (\<lambda>e. e\<lparr>ep_signing_secret := f (ep_id e)\<rparr>) (db_endpoints db)\<rparr>"

lemma with_secrets_sel [simp]:
  "db_events (with_secrets f db) = db_events db" "db_deliveries (with_secrets f db) = db_deliveries db"
  "db_attempts (with_secrets f db) = db_attempts db"
  "db_endpoints (with_secrets f db) = map (\<lambda>e. e\<lparr>ep_signing_secret := f (ep_id e)\<rparr>) (db_endpoints db)"
  by (simp_all add: with_secrets_def)

lemma insort_key_map: "insort_key key (g x) (map g xs) = map g (insort_key (\<lambda>x. key (g x)) x xs)"
  by (induction xs) auto

lemma order_by_desc_map: "order_by_desc key (map g xs) = map g (order_by_desc (\<lambda>x. key (g x)) xs)"
proof -
  have "sort_key key (map g xs) = map g (sort_key (\<lambda>x. key (g x)) xs)"
    by (induction xs) (simp_all add: insort_key_map)
  then show ?thesis by (simp add: order_by_desc_def order_by_def rev_map)
qed

lemma secrets_latest [simp]: "latest_generation_condition (with_secrets f db) d = latest_generation_condition db d"
  by (simp add: latest_generation_condition_def)

lemma secrets_last_attempt [simp]:
  "last_http_status_code i (with_secrets f db) = last_http_status_code i db"
  "last_response_body_excerpt i (with_secrets f db) = last_response_body_excerpt i db"
  by (simp_all add: last_http_status_code_def last_response_body_excerpt_def newest_attempt_def)

lemma endpoint_response_secret [simp]: "endpoint_response (e\<lparr>ep_signing_secret := s\<rparr>) = endpoint_response e"
  by (simp add: endpoint_response_def)

lemma concat_map_if: "concat (map (\<lambda>x. if P x then [h x] else []) xs) = map h (filter P xs)"
  by (induction xs) auto

lemma secrets_event_rows:
  "event_rows (with_secrets f db) = map (\<lambda>(e, d, q). (e, d, q\<lparr>ep_signing_secret := f (ep_id q)\<rparr>)) (event_rows db)"
  by (simp add: event_rows_def map_concat comp_def concat_map_if if_distrib[of "map _"] filter_map cong: if_cong)
    (auto intro!: arg_cong[where f = concat] map_cong)

lemma secrets_dead_letter_rows:
  "dead_letter_rows (with_secrets f db) = map (\<lambda>(e, d, q). (e, d, q\<lparr>ep_signing_secret := f (ep_id q)\<rparr>)) (dead_letter_rows db)"
  by (simp add: dead_letter_rows_def map_concat comp_def concat_map_if if_distrib[of "map _"] filter_map cong: if_cong)
    (auto intro!: arg_cong[where f = concat] map_cong)

lemma secrets_all_endpoints:
  "all_endpoints (with_secrets f db) = map (\<lambda>e. e\<lparr>ep_signing_secret := f (ep_id e)\<rparr>) (all_endpoints db)"
  by (simp add: all_endpoints_def order_by_desc_map)

lemma secrets_all_events:
  "all_events et ep st (with_secrets f db) =
   map (\<lambda>r. r\<lparr>er_endpoint := (er_endpoint r)\<lparr>ep_signing_secret := f (ep_id (er_endpoint r))\<rparr>\<rparr>) (all_events et ep st db)"
  by (simp add: all_events_def secrets_event_rows order_by_desc_map filter_map comp_def case_prod_unfold)

lemma secrets_all_dead_letters:
  "all_dead_letters ep (with_secrets f db) =
   map (\<lambda>r. r\<lparr>dr_endpoint := (dr_endpoint r)\<lparr>ep_signing_secret := f (ep_id (dr_endpoint r))\<rparr>\<rparr>) (all_dead_letters ep db)"
  by (simp add: all_dead_letters_def secrets_dead_letter_rows order_by_desc_map filter_map comp_def case_prod_unfold)

lemma page_of_secrets:
  assumes "\<And>r. cursor_of (g r) = cursor_of r" "\<And>r. h (g r) = h r"
  shows "map h (pg_items (page_of cursor_of limit c (map g xs))) = map h (pg_items (page_of cursor_of limit c xs))"
    "pg_next_cursor (page_of cursor_of limit c (map g xs)) = pg_next_cursor (page_of cursor_of limit c xs)"
proof -
  let ?P = "\<lambda>r. case c of None \<Rightarrow> True | Some k \<Rightarrow> cursor_key (cursor_of r) < cursor_key k"
  have "?P (g r) = ?P r" for r by (simp only: assms(1))
  then have fs: "filter ?P (map g xs) = map g (filter ?P xs)" by (simp only: filter_map comp_def)
  have last: "cursor_of (last (take limit (map g ys))) = cursor_of (last (take limit ys))" if "limit < length ys" "0 < limit" for ys
  proof -
    have "take limit ys \<noteq> []" using that by auto
    then show ?thesis using last_map[of "take limit ys" g] assms(1) by (simp add: take_map)
  qed
  show "map h (pg_items (page_of cursor_of limit c (map g xs))) = map h (pg_items (page_of cursor_of limit c xs))"
    by (simp add: page_of_def Let_def fs take_map comp_def assms(2))
  show "pg_next_cursor (page_of cursor_of limit c (map g xs)) = pg_next_cursor (page_of cursor_of limit c xs)"
    unfolding page_of_def Let_def fs using last[of "filter ?P xs"] by simp
qed

lemma list_reply_secrets:
  assumes "\<And>c. map h (pg_items (fetch' c)) = map h (pg_items (fetch c))" "\<And>c. pg_next_cursor (fetch' c) = pg_next_cursor (fetch c)"
  shows "list_reply h (page_query cc cursor fetch') = list_reply h (page_query cc cursor fetch)"
  using assms by (auto simp: list_reply_def page_query_def split: sum.splits)

lemma event_list_item_secret:
  "event_list_item (r\<lparr>er_endpoint := (er_endpoint r)\<lparr>ep_signing_secret := s\<rparr>\<rparr>) = event_list_item r"
  by (simp add: event_list_item_def)

lemma dead_letter_response_secret:
  "dead_letter_response l (r\<lparr>dr_endpoint := (dr_endpoint r)\<lparr>ep_signing_secret := s\<rparr>\<rparr>) = dead_letter_response l r"
  by (simp add: dead_letter_response_def Let_def)

lemma list_routes_secret:
  "list_endpoints_route cc limit cursor (with_secrets f db) = list_endpoints_route cc limit cursor db"
  "list_events_route cc limit cursor et ep st (with_secrets f db) = list_events_route cc limit cursor et ep st db"
  "list_dead_letters_route cc l limit cursor ep (with_secrets f db) = list_dead_letters_route cc l limit cursor ep db"
proof -
  have "list_reply endpoint_response (endpoints_query cc n cursor (with_secrets f db)) = list_reply endpoint_response (endpoints_query cc n cursor db)" for n
    unfolding endpoints_query_def list_endpoints_page secrets_all_endpoints
    by (rule list_reply_secrets; rule page_of_secrets) (simp_all add: endpoint_cursor_def)
  then show "list_endpoints_route cc limit cursor (with_secrets f db) = list_endpoints_route cc limit cursor db"
    by (simp add: list_endpoints_route_def)
  have "list_reply event_list_item (events_query cc et ep st n cursor (with_secrets f db)) = list_reply event_list_item (events_query cc et ep st n cursor db)" for n
    unfolding events_query_def list_events_page secrets_all_events
    by (rule list_reply_secrets; rule page_of_secrets) (simp_all add: event_cursor_def event_list_item_secret)
  then show "list_events_route cc limit cursor et ep st (with_secrets f db) = list_events_route cc limit cursor et ep st db"
    by (simp add: list_events_route_def)
  have "list_reply (dead_letter_response l) (dead_letters_query cc ep n cursor (with_secrets f db)) =
      list_reply (dead_letter_response l) (dead_letters_query cc ep n cursor db)" for n
    unfolding dead_letters_query_def list_dead_letters_page secrets_all_dead_letters
    by (rule list_reply_secrets; rule page_of_secrets) (simp_all add: dead_letter_cursor_def dead_letter_response_secret)
  then show "list_dead_letters_route cc l limit cursor ep (with_secrets f db) = list_dead_letters_route cc l limit cursor ep db"
    by (simp add: list_dead_letters_route_def)
qed

lemma find_map: "find P (map g xs) = map_option g (find (\<lambda>x. P (g x)) xs)"
  by (induction xs) auto

lemma get_endpoint_secret:
  "get_endpoint i (with_secrets f db) = map_option (\<lambda>e. e\<lparr>ep_signing_secret := f (ep_id e)\<rparr>) (get_endpoint i db)"
  by (simp add: get_endpoint_def get_row_def find_map)

section \<open>What may be replayed\<close>

lemma newest_attempt_last:
  "newest_attempt i db = (let as = list_attempts i db in if as = [] then None else Some (last as))"
proof -
  let ?as = "list_attempts i db"
  have "newest_attempt i db = (case rev ?as of [] \<Rightarrow> None | a # _ \<Rightarrow> Some a)"
    by (simp add: newest_attempt_def order_by_desc_def list_attempts_def)
  also have "\<dots> = (if ?as = [] then None else Some (last ?as))"
    by (cases ?as rule: rev_cases) simp_all
  finally show ?thesis by (simp add: Let_def)
qed

lemma last_block_code_evidence:
  "last_block_code cd (list_attempts i db) =
   replay_block_code (cd_json_loads cd) (last_http_status_code i db) (last_response_body_excerpt i db)"
  by (simp add: last_block_code_def last_http_status_code_def last_response_body_excerpt_def newest_attempt_last Let_def
      replay_block_code_def)

lemma latest_newest: "latest_generation_condition db d \<longleftrightarrow> newest db d"
  by (auto simp: latest_generation_condition_def newest_def list_ex_iff chain_key_def not_less)

text \<open>A latest generation has not been replayed yet.\<close>

lemma latest_not_replayed:
  assumes "chain_ok cd db" "db_ok db" "d \<in> set (db_deliveries db)" "newest db d" "x \<in> set (db_deliveries db)"
  shows "\<not> replay_request (dl_id d) key x"
proof
  assume "replay_request (dl_id d) key x"
  then have "dl_replayed_from_delivery_id x = Some (dl_id d)" by (simp add: replay_request_def)
  then obtain y where "y \<in> set (db_deliveries db)" "dl_id y = dl_id d" "chain_key y = chain_key x"
    "dl_replay_generation x = dl_replay_generation y + 1"
    using chain_okD(2)[OF assms(1,5)] by (auto simp: generation_ok_def)
  moreover from this have "y = d" using delivery_id_unique[OF assms(2)] assms(3) by blast
  ultimately show False using assms(4,5) by (fastforce simp: newest_def)
qed

lemma dead_letter_item:
  assumes "db_ok db" "r \<in> set (all_dead_letters ep db)"
  shows "get_delivery (dl_id (dr_delivery r)) db = Some (dr_delivery r)" "dl_status (dr_delivery r) = DEAD_LETTERED"
    "newest db (dr_delivery r)" "get_endpoint (dl_endpoint_id (dr_delivery r)) db = Some (dr_endpoint r)"
    "dr_last_http_status_code r = last_http_status_code (dl_id (dr_delivery r)) db"
    "dr_last_response_body_excerpt r = last_response_body_excerpt (dl_id (dr_delivery r)) db"
  using assms by (auto simp: all_dead_letters_def set_dead_letter_rows set_event_rows get_delivery_Some get_endpoint_Some latest_newest)

lemma dead_letter_blocked_code:
  "dli_blocked_code (dead_letter_response l r) =
   (case replay_block_code l (dr_last_http_status_code r) (dr_last_response_body_excerpt r) of
      Some c \<Rightarrow> Some c | None \<Rightarrow> if ep_enabled (dr_endpoint r) then None else Some ENDPOINT_DISABLED)"
  by (simp add: dead_letter_response_def Let_def split: option.splits)

text \<open>The list says exactly what a replay would answer.\<close>

lemma replay_of_dead_letter:
  assumes pre: "replay_pre cd env key db" and r: "r \<in> set (all_dead_letters ep db)"
  shows "case dli_blocked_code (dead_letter_response (cd_json_loads cd) r) of
      None \<Rightarrow> \<exists>p. fst (run_tx (replay cd env (dl_id (dr_delivery r)) key) db) = Inr p \<and> \<not> rd_idempotent_replay p
    | Some c \<Rightarrow> \<exists>t x. fst (run_tx (replay cd env (dl_id (dr_delivery r)) key) db) = Inl (DomainError 409 (block_code_value c) t x)"
proof -
  let ?d = "dr_delivery r"
  have ok: "db_ok db" "chain_ok cd db" using pre by (auto simp: replay_pre_def)
  note item = dead_letter_item[OF ok(1) r]
  have mem: "?d \<in> set (db_deliveries db)" using item(1) ok(1) by (simp add: get_delivery_Some)
  have fresh: "\<not> replay_request (dl_id ?d) key x" if "x \<in> set (db_deliveries db)" for x
    using latest_not_replayed[OF ok(2,1) mem item(3) that] .
  from replay_refines[OF pre, of "dl_id ?d"] show ?thesis
    by cases (use item fresh in \<open>auto simp: dead_letter_blocked_code last_block_code_evidence split: option.splits\<close>)
qed

lemma dead_letters_query_items:
  "dead_letters_query cc ep limit cursor db = Inr p \<Longrightarrow> r \<in> set (pg_items p) \<Longrightarrow> r \<in> set (all_dead_letters ep db)"
  by (auto simp: dead_letters_query_def page_query_def list_dead_letters_page page_of_def Let_def
      split: sum.splits dest!: in_set_takeD)

end
