(* ===== verification/Operations.thy ===== *)
theory Operations
  imports Fixtures Routes
begin

text \<open>
  What an operator can rely on: the properties of the paged lists, the dashboard, the replay
  hints, the replies, and the Receiver Lab with its facade, each with a concrete instance.
\<close>

section \<open>Concrete instances\<close>

text \<open>A reader of cursors that knows the cursors of the given list.\<close>

definition fx_cursors :: "page_cursor list \<Rightarrow> cursor_codec" where
  "fx_cursors cs =
     \<lparr>cc_loads = (\<lambda>b. map_option cursor_document (find (\<lambda>c. utf8_encode (cursor_text c) = b) cs)),
      cc_fromisoformat = (\<lambda>s. map_option (\<lambda>c. Aware (pc_timestamp c)) (find (\<lambda>c. utc_isoformat (pc_timestamp c) = s) cs))\<rparr>"

definition fx_two_endpoints :: db where
  "fx_two_endpoints = add_endpoint (fx_endpoint\<lparr>ep_id := 6, ep_created_at := 4000000\<rparr>) fx_dead"

definition fx_cursor_list :: "page_cursor list" where
  "fx_cursor_list = [\<lparr>pc_timestamp = 0, pc_row_id = 1\<rparr>, \<lparr>pc_timestamp = 4000000, pc_row_id = 6\<rparr>,
     \<lparr>pc_timestamp = 1000000, pc_row_id = 2\<rparr>, \<lparr>pc_timestamp = 1000000, pc_row_id = 3\<rparr>]"

lemma find_mem: "x \<in> set xs \<Longrightarrow> P x \<Longrightarrow> \<exists>y. find P xs = Some y \<and> P y \<and> y \<in> set xs"
  by (induction xs) auto

lemma fx_cursors_reads:
  assumes "c \<in> set cs" "\<And>c c'. c \<in> set cs \<Longrightarrow> c' \<in> set cs \<Longrightarrow>
    utc_isoformat (pc_timestamp c) = utc_isoformat (pc_timestamp c') \<Longrightarrow> pc_timestamp c = pc_timestamp c'"
  shows "reads_cursor (fx_cursors cs) c"
proof -
  obtain c1 where c1: "find (\<lambda>c'. utf8_encode (cursor_text c') = utf8_encode (cursor_text c)) cs = Some c1"
    "utf8_encode (cursor_text c1) = utf8_encode (cursor_text c)" using find_mem[OF assms(1), of "\<lambda>c'. utf8_encode (cursor_text c') = utf8_encode (cursor_text c)"] by auto
  obtain c2 where c2: "find (\<lambda>c'. utc_isoformat (pc_timestamp c') = utc_isoformat (pc_timestamp c)) cs = Some c2"
    "utc_isoformat (pc_timestamp c2) = utc_isoformat (pc_timestamp c)" "c2 \<in> set cs"
    using find_mem[OF assms(1), of "\<lambda>c'. utc_isoformat (pc_timestamp c') = utc_isoformat (pc_timestamp c)"] by auto
  show ?thesis using c1 c2 assms cursor_text_document[OF utf8_encode_inject[OF c1(2)]]
    by (auto simp: reads_cursor_def fx_cursors_def)
qed

lemma fx_reads: "c \<in> set fx_cursor_list \<Longrightarrow> reads_cursor (fx_cursors fx_cursor_list) c"
proof (rule fx_cursors_reads)
  have "isoformat 0 \<noteq> isoformat 1000000" "isoformat 0 \<noteq> isoformat 4000000" "isoformat 1000000 \<noteq> isoformat 4000000" by code_simp+
  then show "pc_timestamp c = pc_timestamp c'" if "c \<in> set fx_cursor_list" "c' \<in> set fx_cursor_list"
    "utc_isoformat (pc_timestamp c) = utc_isoformat (pc_timestamp c')" for c c'
    using that by (auto simp: fx_cursor_list_def utc_isoformat_def)
qed

lemma fx_two_endpoints_ok: "db_ok fx_two_endpoints" "chain_ok fx_codec fx_two_endpoints"
proof -
  have ok: "db_ok fx_dead" "chain_ok fx_codec fx_dead" using fx_dead_ok by (auto simp: ledger_ok_def)
  show "db_ok fx_two_endpoints"
    unfolding fx_two_endpoints_def
    by (rule add_endpoint_ok[OF ok(1)]) (use fx_endpoint_ok in \<open>simp_all add: fx_dead_rows endpoint_row_ok_def fx_endpoint_def\<close>)
  show "chain_ok fx_codec fx_two_endpoints" using ok(2) by (simp add: chain_ok_def fx_two_endpoints_def)
qed

lemma fx_two_endpoints_rows:
  "all_endpoints fx_two_endpoints = [fx_endpoint\<lparr>ep_id := 6, ep_created_at := 4000000\<rparr>, fx_endpoint]"
  "db_deliveries fx_two_endpoints = [fx_source]" "db_events fx_two_endpoints = db_events fx_published"
proof -
  have "db_endpoints fx_two_endpoints = [fx_endpoint, fx_endpoint\<lparr>ep_id := 6, ep_created_at := 4000000\<rparr>]"
    by (simp add: fx_two_endpoints_def fx_dead_rows insert_row_def)
  then show "all_endpoints fx_two_endpoints = [fx_endpoint\<lparr>ep_id := 6, ep_created_at := 4000000\<rparr>, fx_endpoint]"
    by (simp add: all_endpoints_def order_by_desc_def order_by_def) (simp add: fx_endpoint_def)
qed (simp_all add: fx_two_endpoints_def fx_dead_rows)

section \<open>Lists\<close>

text \<open>
  C22.  Paging is complete and terminates.  A client that follows the cursors of any of the three
  lists, from the first page on, ends after at most one request per row and one more; the pages
  it got are, one after the other, the whole list newest first, each row exactly once, no page
  longer than the limit and only the last one shorter.
\<close>

theorem paging_complete:
  assumes "db_ok db" "chain_ok cd db" "0 < limit"
    "\<forall>q \<in> set (db_endpoints db). reads_cursor cc (endpoint_cursor q)"
    "\<forall>r \<in> set (all_events et ep st db). reads_cursor cc (event_cursor r)"
    "\<forall>r \<in> set (all_dead_letters ep db). reads_cursor cc (dead_letter_cursor r)"
  shows "(\<exists>pages. follow (\<lambda>c. endpoints_query cc limit c db) (Suc (length (db_endpoints db))) None = Some (Inr pages) \<and>
      concat pages = all_endpoints db \<and> (\<forall>p \<in> set pages. length p \<le> limit) \<and> (\<forall>p \<in> set (butlast pages). length p = limit)) \<and>
    (\<exists>pages. follow (\<lambda>c. events_query cc et ep st limit c db) (Suc (length (all_events et ep st db))) None = Some (Inr pages) \<and>
      concat pages = all_events et ep st db \<and> distinct (map (\<lambda>r. ev_id (er_event r)) (concat pages)) \<and>
      (\<forall>p \<in> set pages. length p \<le> limit) \<and> (\<forall>p \<in> set (butlast pages). length p = limit)) \<and>
    (\<exists>pages. follow (\<lambda>c. dead_letters_query cc ep limit c db) (Suc (length (all_dead_letters ep db))) None = Some (Inr pages) \<and>
      concat pages = all_dead_letters ep db \<and> distinct (map (\<lambda>r. dl_id (dr_delivery r)) (concat pages)) \<and>
      (\<forall>p \<in> set pages. length p \<le> limit) \<and> (\<forall>p \<in> set (butlast pages). length p = limit))"
proof -
  have "length (all_endpoints db) = length (db_endpoints db)" "set (all_endpoints db) = set (db_endpoints db)"
    by (simp_all add: all_endpoints_def)
  moreover note endpoint_pages.follow_all[OF assms(1,3), of cc]
  moreover note event_pages.follow_all[OF conjI[OF assms(1,2)] assms(3,5)] all_events_distinct[OF assms(1,2), of et ep st]
  moreover note dead_letter_pages.follow_all[OF assms(1,3,6)] all_dead_letters_distinct[OF assms(1), of ep]
  ultimately show ?thesis using assms(4) unfolding endpoints_query_def events_query_def dead_letters_query_def by auto
qed

lemma fx_all_rows_read:
  "\<forall>q \<in> set (db_endpoints fx_two_endpoints). reads_cursor (fx_cursors fx_cursor_list) (endpoint_cursor q)"
  "\<forall>r \<in> set (all_events None None None fx_two_endpoints). reads_cursor (fx_cursors fx_cursor_list) (event_cursor r)"
  "\<forall>r \<in> set (all_dead_letters None fx_two_endpoints). reads_cursor (fx_cursors fx_cursor_list) (dead_letter_cursor r)"
proof -
  have "set (db_endpoints fx_two_endpoints) = set (all_endpoints fx_two_endpoints)" by (simp add: all_endpoints_def)
  then show "\<forall>q \<in> set (db_endpoints fx_two_endpoints). reads_cursor (fx_cursors fx_cursor_list) (endpoint_cursor q)"
    by (auto simp: fx_two_endpoints_rows intro!: fx_reads) (simp_all add: endpoint_cursor_def fx_cursor_list_def fx_endpoint_def)
  obtain e where e: "db_events fx_two_endpoints = [e]" "ev_id e = 2" "ev_created_at e = 1000000"
    using fx_published_rows(2,5) by (cases "db_events fx_published") (auto simp: fx_two_endpoints_rows)
  then have "event_cursor r = \<lparr>pc_timestamp = 1000000, pc_row_id = 2\<rparr>" if "r \<in> set (all_events None None None fx_two_endpoints)" for r
    using that by (auto simp: all_events_def set_event_rows event_cursor_def)
  moreover have "reads_cursor (fx_cursors fx_cursor_list) \<lparr>pc_timestamp = 1000000, pc_row_id = 2\<rparr>"
    by (rule fx_reads) (simp add: fx_cursor_list_def)
  ultimately show "\<forall>r \<in> set (all_events None None None fx_two_endpoints). reads_cursor (fx_cursors fx_cursor_list) (event_cursor r)"
    by simp
  have "dl_updated_at fx_source = 1000000" "dl_id fx_source = 3"
    by (simp_all add: fx_source_def accepted_delivery_def new_delivery_def fx_publish_env_def)
  then have "dead_letter_cursor r = \<lparr>pc_timestamp = 1000000, pc_row_id = 3\<rparr>" if "r \<in> set (all_dead_letters None fx_two_endpoints)" for r
    using that by (auto simp: all_dead_letters_def set_dead_letter_rows set_event_rows dead_letter_cursor_def fx_two_endpoints_rows)
  moreover have "reads_cursor (fx_cursors fx_cursor_list) \<lparr>pc_timestamp = 1000000, pc_row_id = 3\<rparr>"
    by (rule fx_reads) (simp add: fx_cursor_list_def)
  ultimately show "\<forall>r \<in> set (all_dead_letters None fx_two_endpoints). reads_cursor (fx_cursors fx_cursor_list) (dead_letter_cursor r)"
    by simp
qed

theorem paging_complete_witness:
  "\<exists>pages. follow (\<lambda>c. endpoints_query (fx_cursors fx_cursor_list) 1 c fx_two_endpoints) 3 None = Some (Inr pages) \<and>
     concat pages = [fx_endpoint\<lparr>ep_id := 6, ep_created_at := 4000000\<rparr>, fx_endpoint] \<and> list_all (\<lambda>p. length p \<le> 1) pages"
proof -
  have "length (db_endpoints fx_two_endpoints) = 2" by (simp add: fx_two_endpoints_def fx_dead_rows insert_row_def)
  then show ?thesis
    using paging_complete[OF fx_two_endpoints_ok _ fx_all_rows_read, of 1] by (simp add: fx_two_endpoints_rows numeral_3_eq_3 list_all_iff) blast
qed

text \<open>
  C24.  The dashboard is consistent with itself and with the lists.  On one snapshot of a sound
  database the counts of the five statuses add up to the number of events, the dead-lettered
  ones are the actionable dead letters, and the two lists have exactly so many rows.
\<close>

theorem dashboard_consistent:
  assumes "db_ok db" "chain_ok cd db"
  shows "\<exists>b. get_control_room_overview (Some now) db db db db = Inr \<lparr>re_status = 200, re_headers = no_store, re_body = b\<rparr> \<and>
    (let c = ovr_deliveries b in
       sct_pending c + sct_in_progress c + sct_retry_wait c + sct_delivered c + sct_dead_lettered c = ovr_events_total b \<and>
       sct_dead_lettered c = ovr_actionable_dead_letters b) \<and>
    ovr_events_total b = int (length (all_events None None None db)) \<and>
    ovr_actionable_dead_letters b = int (length (all_dead_letters None db))"
proof -
  have "count_of (status_rows db) s =
      int (length (filter (\<lambda>d. dl_status d = s \<and> latest_generation_condition db d) (db_deliveries db)))" for s
    using status_rows_count[of db s] by (simp add: count_of_def)
  then show ?thesis
    using status_counts_total[OF assms] all_events_cover(2)[OF assms] dead_letters_counted[OF assms(1)]
    by (simp add: get_control_room_overview_def overview_def Let_def)
qed

theorem dashboard_consistent_witness:
  "db_ok fx_dead \<and> chain_ok fx_codec fx_dead \<and>
   (\<exists>b. get_control_room_overview (Some 0) fx_dead fx_dead fx_dead fx_dead = Inr \<lparr>re_status = 200, re_headers = no_store, re_body = b\<rparr> \<and>
      ovr_actionable_dead_letters b = int (length (all_dead_letters None fx_dead)))"
proof -
  have ok: "db_ok fx_dead" "chain_ok fx_codec fx_dead" using fx_dead_ok by (auto simp: ledger_ok_def)
  show ?thesis using ok dashboard_consistent[OF ok, of 0] by blast
qed

text \<open>
  C23.  The hints of the dead-letter list are exact: an item that is listed as replayable is
  accepted by a replay now, whatever key the operator chooses, and an item that is listed as
  blocked is refused with the very code that the list shows.
\<close>

theorem replay_hints_exact:
  assumes "replay_pre cd env key db" "dead_letters_query cc ep limit cursor db = Inr p" "r \<in> set (pg_items p)"
  shows "case dli_blocked_code (dead_letter_response (cd_json_loads cd) r) of
      None \<Rightarrow> dli_replayable (dead_letter_response (cd_json_loads cd) r) \<and>
        (\<exists>x. fst (run_tx (replay cd env (dl_id (dr_delivery r)) key) db) = Inr x \<and> \<not> rd_idempotent_replay x)
    | Some c \<Rightarrow> \<not> dli_replayable (dead_letter_response (cd_json_loads cd) r) \<and>
        (\<exists>t x. fst (run_tx (replay cd env (dl_id (dr_delivery r)) key) db) = Inl (DomainError 409 (block_code_value c) t x))"
proof -
  have "dli_replayable (dead_letter_response (cd_json_loads cd) r) \<longleftrightarrow> dli_blocked_code (dead_letter_response (cd_json_loads cd) r) = None"
    by (simp add: dead_letter_response_def Let_def)
  then show ?thesis using replay_of_dead_letter[OF assms(1) dead_letters_query_items[OF assms(2,3)]] by (auto split: option.splits)
qed

theorem replay_hints_exact_witness:
  "\<exists>p r. dead_letters_query (fx_cursors []) None 25 None fx_dead = Inr p \<and> pg_items p = [r] \<and>
     dli_blocked_code (dead_letter_response (cd_json_loads fx_codec) r) = None \<and>
     (\<exists>x. fst (run_tx (replay fx_codec fx_replay_env (dl_id (dr_delivery r)) ''again'') fx_dead) = Inr x)"
proof -
  have ok: "db_ok fx_dead" using fx_dead_ok by (auto simp: ledger_ok_def)
  have "length (all_dead_letters None fx_dead) = 1"
    unfolding dead_letters_counted[OF ok] by (simp add: fx_dead_rows latest_generation_condition_def) (simp add: fx_source_def)
  then obtain r where r: "all_dead_letters None fx_dead = [r]" by (auto simp: length_Suc_conv)
  then obtain p where p: "dead_letters_query (fx_cursors []) None 25 None fx_dead = Inr p" "pg_items p = [r]"
    by (simp add: dead_letters_query_def page_query_def decode_cursor_def list_dead_letters_page page_of_def)
  have "dr_last_http_status_code r = None" "ep_enabled (dr_endpoint r)"
    using dead_letter_item[OF ok, of r None] r
    by (auto simp: last_http_status_code_def newest_attempt_def fx_dead_rows order_by_desc_def order_by_def get_endpoint_Some[OF ok] fx_endpoint_def)
  then have "dli_blocked_code (dead_letter_response (cd_json_loads fx_codec) r) = None"
    by (simp add: dead_letter_blocked_code replay_block_code_def)
  then show ?thesis using replay_hints_exact[OF fx_replay_pre p(1), of r] p by auto
qed

text \<open>
  C26.  Signing secrets cannot be read back: the reply of every reading route is the same
  whatever the secrets in the database are, so it reveals nothing about them.
\<close>

theorem secrets_not_revealed:
  "list_endpoints_route cc limit cursor (with_secrets f db) = list_endpoints_route cc limit cursor db \<and>
   list_events_route cc limit cursor et ep st (with_secrets f db) = list_events_route cc limit cursor et ep st db \<and>
   list_dead_letters_route cc l limit cursor ep (with_secrets f db) = list_dead_letters_route cc l limit cursor ep db \<and>
   get_endpoint_route i (with_secrets f db) = get_endpoint_route i db \<and>
   get_event_route i (with_secrets f db) = get_event_route i db \<and>
   get_delivery_attempts i (with_secrets f db) = get_delivery_attempts i db \<and>
   get_control_room_overview now (with_secrets f db) (with_secrets f db) (with_secrets f db) (with_secrets f db) =
     get_control_room_overview now db db db db"
proof -
  have "get_endpoint_route i (with_secrets f db) = get_endpoint_route i db"
    by (simp add: get_endpoint_route_def endpoint_query_def get_endpoint_secret split: option.splits)
  moreover have rows: "list_for_event i (with_secrets f db) = list_for_event i db"
    "get_event i (with_secrets f db) = get_event i db" "list_attempts j (with_secrets f db) = list_attempts j db" for j
    by (simp_all add: list_for_event_def get_event_def list_attempts_def)
  moreover have "get_event_route i (with_secrets f db) = get_event_route i db"
    by (simp add: get_event_route_def event_details_def rows split: option.split)
  moreover have "get_delivery_attempts i (with_secrets f db) = get_delivery_attempts i db"
    by (simp add: get_delivery_attempts_def delivery_attempts_query_def get_with_attempts_def rows split: sum.split option.split)
  moreover have "get_control_room_overview now (with_secrets f db) (with_secrets f db) (with_secrets f db) (with_secrets f db) =
      get_control_room_overview now db db db db"
    by (simp add: get_control_room_overview_def overview_def status_rows_def filter_map comp_def split: option.splits cong: filter_cong)
  ultimately show ?thesis by (simp add: list_routes_secret)
qed

text \<open>
  C27.  Cursors round trip.  A cursor that the service hands out fits the query parameter that
  brings it back and decodes to the same position; and whatever else a client sends, decoding
  either gives a position or fails with the one documented error.
\<close>

theorem cursor_round_trip:
  assumes "reads_cursor cc c"
  shows "decode_cursor cc (Some (encode_cursor c)) = Inr (Some c) \<and> list_params_ok 25 (Some (encode_cursor c)) \<and>
    (\<forall>v e. decode_cursor cc v = Inl e \<longrightarrow> v \<noteq> None \<and> de_status_code e = 422 \<and> de_code e = ''invalid_cursor'')"
proof -
  have "v \<noteq> None \<and> de_status_code e = 422 \<and> de_code e = ''invalid_cursor''" if "decode_cursor cc v = Inl e" for v e
    using decode_cursor_errors[OF that] that by (cases v) (auto simp: invalid_cursor_def decode_cursor_def[of _ None])
  then show ?thesis using decode_encode_cursor[OF assms] encode_cursor_length[of c] by (simp add: list_params_ok_def)
qed

theorem cursor_round_trip_witness:
  "decode_cursor (fx_cursors fx_cursor_list) (Some (encode_cursor \<lparr>pc_timestamp = 4000000, pc_row_id = 6\<rparr>)) =
     Inr (Some \<lparr>pc_timestamp = 4000000, pc_row_id = 6\<rparr>)"
  using cursor_round_trip[OF fx_reads[of "\<lparr>pc_timestamp = 4000000, pc_row_id = 6\<rparr>"]] by (simp add: fx_cursor_list_def)

section \<open>Accepting events\<close>

lemma json_member:
  assumes "map_of kvs k = Some v"
  shows "jsonb (JObj kvs) \<Longrightarrow> jsonb v" "wf_json (JObj kvs) \<Longrightarrow> wf_json v"
  using map_of_SomeD[OF assms] by (auto simp: list_all_iff)

lemma event_type_storable: "event_type_pattern t \<Longrightarrow> pg_text t"
  by (cases t) (auto simp: pg_text_def lower_alpha_def is_digit_def list_all_iff)

text \<open>What the schema and the header check leave to the database: the character 0.\<close>

lemma validated_storable:
  assumes "read_event_publish uuid_of body = Inr r" "check_idempotency_key key = Inr ()" "wf_json body" "jsonb body" "pg_text key"
  shows "request_storable r key"
proof -
  obtain kvs t data where b: "body = JObj kvs" "map_of kvs ''data'' = Some (JObj data)" "pr_type r = t" "pr_data r = data"
    "t \<noteq> []" "length t \<le> 120" "event_type_pattern t"
    using assms(1) by (auto simp: read_event_publish_def split: json.splits option.splits if_splits) (metis event_type_pattern.simps(1))
  have "key \<noteq> []" "length key \<le> 255" using assms(2) by (auto simp: check_idempotency_key_def split: if_splits)
  then show ?thesis
    using b assms(3-5) json_member[OF b(2)] event_type_storable[OF b(7)]
    by (simp add: request_storable_def varchar_def del: jsonb.simps wf_json.simps)
qed


definition fx_body :: "string \<Rightarrow> json" where
  "fx_body note = JObj [(''endpoint_id'', JStr ''1''), (''type'', JStr ''order.created''), (''data'', JObj [(''note'', JStr note)])]"


text \<open>
  C28.  A character 0 inside the event data passes every check of the route and is then refused
  by the database: the request ends with an error that no handler turns into a problem document.
\<close>

theorem nul_event_data:
  assumes "read_event_publish uuid_of body = Inr r" "check_idempotency_key key = Inr ()"
    "get_endpoint (pr_endpoint_id r) db = Some p" "encodable cd r" "\<not> jsonb (JObj (pr_data r))"
  shows "publish_event cd env uuid_of body key db = (Inl DBAPIError, db) \<and> domain_error_handler path DBAPIError = None"
proof -
  obtain fp b where fp: "fingerprint_of cd r = Inr fp" and b: "payload_of cd env r = Inr b"
    using assms(4) fingerprint_encodable payload_encodable by metis
  have "\<not> event_row_ok (candidate_event cd env r key fp b)"
    using assms(5) by (simp add: event_row_ok_def candidate_event_def)
  then have "publish cd env r key db = Inl DBAPIError"
    using assms(3) fp b by (simp add: publish_def fingerprint_of_def payload_of_def insert_if_absent_def)
  then show ?thesis using assms(1,2) by (simp add: publish_event_def run_tx_def domain_error_handler_def)
qed

theorem nul_event_data_witness:
  "publish_event fx_codec (fx_publish_env 2) (\<lambda>s. Some 1) (fx_body [CHR 0x00]) ''k1'' fx_registered = (Inl DBAPIError, fx_registered)"
proof -
  let ?r = "\<lparr>pr_endpoint_id = 1, pr_type = ''order.created'', pr_data = [(''note'', JStr [CHR 0x00])]\<rparr>"
  have r: "read_event_publish (\<lambda>s. Some 1) (fx_body [CHR 0x00]) = Inr ?r" "check_idempotency_key ''k1'' = Inr ()"
    "get_endpoint (pr_endpoint_id ?r) fx_registered = Some fx_endpoint" "\<not> jsonb (JObj (pr_data ?r))" by code_simp+
  have "encodable fx_codec ?r" unfolding encodable_def by code_simp
  from nul_event_data[OF r(1-3) this r(4)] show ?thesis by blast
qed

end
