(* ===== verification/Rehearsal.thy ===== *)
theory Rehearsal
  imports Fixtures Demo
begin

text \<open>
  Rehearsing deliveries against the Receiver Lab: the properties of the lab, of the facade that
  configures it, and of the sender that meets its answers, each with a concrete instance.
\<close>

section \<open>Concrete instances\<close>

definition fx_lab_env :: "json option \<Rightarrow> receiver_env" where
  "fx_lab_env document = \<lparr>rv_json_loads = (\<lambda>b. document), rv_sha256 = (\<lambda>b. replicate 64 CHR ''a''), rv_decode = (\<lambda>b. []), rv_now = 0\<rparr>"

definition fx_lab_request :: "string option \<Rightarrow> int option \<Rightarrow> webhook_request" where
  "fx_lab_request run_id attempt = \<lparr>wr_body = [], wr_receiver_channel = None, wr_event_id = None, wr_delivery_id = None,
     wr_event_type = None, wr_delivery_attempt = attempt, wr_request_timestamp = None, wr_signature = None,
     wr_demo_run_id = run_id\<rparr>"

definition fx_busy :: receiver_configuration where
  "fx_busy = \<lparr>rc_mode = RATE_LIMITED, rc_failures_before_success = 2, rc_delay_ms = 0\<rparr>"

text \<open>The lab after one run was configured.\<close>

definition fx_lab :: receiver_state where
  "fx_lab = reset\<lparr>rs_scoped := [(''run-1234'', new_run_state\<lparr>rr_configuration := fx_busy\<rparr>)]\<rparr>"

lemma fx_configure: "configure fx_busy (Some ''run-1234'') reset = Inr ((fx_busy, 0), fx_lab)"
  by code_simp

lemma fx_lab_reachable: "lab_step\<^sup>*\<^sup>* reset fx_lab"
  using lab_configure[OF fx_configure] by (rule r_into_rtranclp)

text \<open>Models that read back what the lab wrote: here of a lab whose log is empty, or has one entry out of bounds.\<close>

definition fx_validators :: lab_validators where
  "fx_validators = \<lparr>lv_configuration = (\<lambda>v. map_option configuration_view (read_configuration v)), lv_request = (\<lambda>v. None)\<rparr>"

lemma fx_validates: "\<forall>e \<in> set (rr_requests (run_at run_id st)). \<not> request_bounds e \<Longrightarrow> validates fx_validators st run_id"
  by (simp add: validates_def fx_validators_def read_configuration_json)

section \<open>The lab\<close>



text \<open>
  C30.  Scoped runs are isolated.  From the moment a run is configured, its webhooks are answered
  as if the lab served nothing else: however the webhooks of other runs and of the default run
  are interleaved with them, the answers are those of one counter over its own webhooks.
\<close>

theorem scoped_run_isolated:
  assumes "lab_step\<^sup>*\<^sup>* reset st" "configure c (Some k) st = Inr (r, st1)"
  shows "responses_for k rqs st1 = map Inr (answers c 0 (filter (for_run k) rqs))"
proof -
  have "lab_inv st" using lab.reachable_inv[OF refl assms(1)] .
  from configure_starts_run[OF this assms(2)] obtain run where
    "map_of (rs_scoped st1) k = Some run" "rr_configuration run = c" "rr_scenario_attempts run = 0" "DEMO_RUN_ID_PATTERN k" by blast
  then show ?thesis using responses_for_run by metis
qed

theorem scoped_run_isolated_witness:
  "map (\<lambda>r. map_sum id lr_status_code r)
     (responses_for ''run-1234''
       [(fx_lab_env (Some (JObj [])), fx_lab_request (Some ''run-1234'') None),
        (fx_lab_env (Some (JObj [])), fx_lab_request None None),
        (fx_lab_env (Some (JObj [])), fx_lab_request (Some ''run-1234'') None),
        (fx_lab_env (Some (JObj [])), fx_lab_request (Some ''run-1234'') None)] fx_lab) = [Inr 429, Inr 429, Inr 200]"
  using scoped_run_isolated[OF rtranclp.rtrancl_refl fx_configure] by code_simp

text \<open>
  C31.  What the lab rejects is not replayed unchanged.  When the lab answers 400, the code in its
  body makes the sender block an unchanged replay of the delivery, with two exceptions: an event
  sent to the route of another contract, and a bad \<open>amount_cents\<close>, for which the sender's list
  has no entry although it has one for the other two integer fields.
\<close>

theorem rejection_evidence:
  assumes "receive_webhook env rq st = Inr (r, st')" "lr_status_code r = 400"
    "loads excerpt = Some (JObj kvs)" "map_of kvs ''code'' = Some (JStr (lr_code r))"
  shows "replay_block_code loads (Some (lr_status_code r)) (Some excerpt) =
    (if lr_code r \<in> {''wrong_receiver_route'', ''invalid_amount_cents''} then None else Some PAYLOAD_CORRECTION_REQUIRED)"
proof -
  have v: "valid_run_id (wr_demo_run_id rq)" using assms(1) by (auto simp: receive_webhook_def split: if_splits)
  obtain place st1 where p: "webhook_state (wr_demo_run_id rq) st = (place, st1)" by fastforce
  obtain c n where r: "r = lab_answer c n env rq" using receive_webhook_valid[OF v p, of env] assms(1) by auto
  obtain code detail where e: "webhook_error env rq c = Some (code, detail)"
    using assms(2) by (auto simp: r lab_answer_def response_status_def Let_def split: if_splits)
  then have "lr_code r = code" by (simp add: r lab_answer_def response_evidence_def Let_def)
  moreover have "starts_with code ''missing_'' \<or> code \<in> RECEIVER_PAYLOAD_ERROR_CODES \<or> code = ''wrong_receiver_route'' \<or> code = ''invalid_amount_cents''"
    using rejection_code e unfolding webhook_error_def by blast
  ultimately show ?thesis using exempt_codes assms(2-4) by (auto simp: replay_block_code_def)
qed

theorem rejection_evidence_witness:
  "\<exists>r st'. receive_webhook (fx_lab_env None) (fx_lab_request None None) reset = Inr (r, st') \<and>
     replay_block_code (\<lambda>s. Some (JObj [(''code'', JStr ''invalid_json'')])) (Some (lr_status_code r)) (Some []) =
       Some PAYLOAD_CORRECTION_REQUIRED"
proof -
  obtain r st' where r: "receive_webhook (fx_lab_env None) (fx_lab_request None None) reset = Inr (r, st')"
    "lr_status_code r = 400" "lr_code r = ''invalid_json''"
    using receive_webhook_valid[of "fx_lab_request None None" reset None reset "fx_lab_env None"]
    by (auto simp: fx_lab_request_def fx_lab_env_def valid_run_id_def webhook_state_def lab_answer_def webhook_error_def
        payload_validation_error_def response_status_def response_evidence_def)
  then show ?thesis using rejection_evidence[OF r(1,2), of "\<lambda>s. Some (JObj [(''code'', JStr ''invalid_json'')])" "[]"] by auto
qed

section \<open>The facade\<close>



text \<open>
  C33.  One webhook can make the facade blind.  The lab accepts a webhook whose attempt header is
  any integer, but the facade's model of a log entry demands a positive one: right after such a
  webhook to the default run, the facade reports the healthy lab as unavailable.
\<close>

theorem log_poisoning:
  assumes "lab_step\<^sup>*\<^sup>* reset st" "receive_webhook env rq st = Inr (r, st')" "wr_demo_run_id rq = None"
    "wr_delivery_attempt rq = Some n" "n < 1" "validates lv st' None"
  shows "fst (demo_state lab_client lv None st') = Inl unavailable"
proof -
  have inv: "lab_inv st" using lab.reachable_inv[OF refl assms(1)] .
  have inv': "lab_inv st'" by (rule lab_inv_step[OF inv lab_receive[OF assms(2)]])
  obtain status where st': "st' = update_run None (observed_run env rq (rs_default st) status) st"
    using assms(2,3) by (auto simp: receive_webhook_def webhook_state_def run_at_def Let_def split: if_splits prod.splits)
  let ?e = "observed_entry env rq (rs_default st) status"
  have "rr_requests (run_at None st') = last_n MAX_REQUESTS_PER_RUN (rr_requests (rs_default st) @ [?e])"
    by (simp add: st' update_run_def run_at_def observed_run_def)
  then have "?e \<in> set (last_n 20 (rr_requests (run_at None st')))"
    by (simp add: last_n_def MAX_REQUESTS_PER_RUN_def)
  moreover have "\<not> request_bounds ?e" using assms(4,5) by (simp add: request_bounds_def observed_entry_def)
  ultimately show ?thesis using demo_state_lab[OF inv' _ assms(6)] by (auto simp: valid_run_id_def)
qed

theorem log_poisoning_witness:
  "\<exists>r st'. receive_webhook (fx_lab_env (Some (JObj []))) (fx_lab_request None (Some 0)) reset = Inr (r, st') \<and>
     fst (demo_state lab_client fx_validators None st') = Inl unavailable"
proof -
  have "case receive_webhook (fx_lab_env (Some (JObj []))) (fx_lab_request None (Some 0)) reset of
      Inr (r, st') \<Rightarrow> list_all (\<lambda>e. \<not> request_bounds e) (rr_requests (run_at None st')) | Inl _ \<Rightarrow> False"
    by code_simp
  then obtain r st' where r: "receive_webhook (fx_lab_env (Some (JObj []))) (fx_lab_request None (Some 0)) reset = Inr (r, st')"
    "\<forall>e \<in> set (rr_requests (run_at None st')). \<not> request_bounds e"
    by (auto simp: list_all_iff split: sum.splits)
  then show ?thesis
    using log_poisoning[OF rtranclp.rtrancl_refl r(1) _ _ _ fx_validates[OF r(2)], of 0] by (simp add: fx_lab_request_def)
qed

section \<open>The sender meets the lab\<close>

text \<open>
  The status a delivery gets when the lab, configured by a preset, answers its \<open>n\<close>-th attempt
  out of a budget of \<open>m\<close>, and the request did not time out on the sender's side.
\<close>

definition rehearsed :: "receiver_lab_preset \<Rightarrow> int \<Rightarrow> int \<Rightarrow> delivery_status" where
  "rehearsed preset m n =
     (let retry = (if n < m then RETRY_WAIT else DEAD_LETTERED) in
      case preset of
        RETRY_THEN_RECOVER \<Rightarrow> if n \<le> 2 then retry else DELIVERED
      | RATE_LIMIT_THEN_RECOVER \<Rightarrow> if n \<le> 2 then retry else DELIVERED
      | PRESET_RATE_LIMITED \<Rightarrow> retry
      | DEAD_LETTER \<Rightarrow> if n \<le> 20 then retry else DELIVERED
      | _ \<Rightarrow> DELIVERED)"



end
