(* ===== verification/Liveness.thy ===== *)
theory Liveness
  imports System
begin

text \<open>
  Progress of the worker loop: every claim that finds work uses up a finite amount of it, a claim
  that sees a due delivery finds work, and no result, lost request or exception gives any back,
  so the deliveries of a database end after finitely many turns of \<open>run_forever\<close>.
\<close>

section \<open>The work that is left\<close>

definition work_of :: "int \<Rightarrow> delivery \<Rightarrow> nat" where
  "work_of m d = (if is_active d then Suc (nat (m - dl_attempt_count d)) else 0)"

definition remaining_work :: "int \<Rightarrow> db \<Rightarrow> nat" where
  "remaining_work m db = sum_list (map (work_of m) (db_deliveries db))"

lemma sum_list_update_row:
  assumes "distinct (map key rows)" "d \<in> set rows" "key d' = key d"
  shows "sum_list (map f (update_row key d' rows)) + f d = sum_list (map f rows) + (f d' :: nat)"
  using assms
proof (induction rows)
  case (Cons x rows)
  show ?case
  proof (cases "x = d")
    case True
    then have "update_row key d' rows = rows"
      using Cons.prems by (auto simp: update_row_def image_iff intro!: map_idI)
    then show ?thesis using True Cons.prems(3) by (simp add: update_row_def)
  next
    case False
    then have "key x \<noteq> key d'" using Cons.prems by auto
    then show ?thesis using False Cons by (simp add: update_row_def)
  qed
qed simp

lemma remaining_work_update:
  assumes "db_ok db" "d \<in> set (db_deliveries db)" "dl_id d' = dl_id d"
    "db_deliveries db' = update_row dl_id d' (db_deliveries db)"
  shows "remaining_work m db' + work_of m d = remaining_work m db + work_of m d'"
  using sum_list_update_row[of dl_id "db_deliveries db" d d' "work_of m"] assms
  by (simp add: remaining_work_def db_ok_def deliveries_ok_def)

lemma no_work_left: "remaining_work m db = 0 \<longleftrightarrow> (\<forall>d \<in> set (db_deliveries db). \<not> is_active d)"
  by (auto simp: remaining_work_def work_of_def split: if_splits)

section \<open>What a transaction of the worker does to it\<close>

lemma work_of_dead [simp]:
  "work_of m (dead_letter d now) = 0" "work_of m ((dead_letter d now)\<lparr>dl_last_error := e\<rparr>) = 0"
  by (simp_all add: work_of_def dead_letter_def is_active_def)

lemma work_of_reserved:
  "is_active d \<Longrightarrow> budget_left w d \<Longrightarrow>
   work_of (max_attempts (wk_retry_policy w)) (reserved_delivery w env d) < work_of (max_attempts (wk_retry_policy w)) d"
  by (simp add: work_of_def reserved_delivery_def is_active_def budget_left_def)

lemma claim_uses_work:
  assumes "db_ok db" "claim_spec w env db (Some c) db'"
  shows "remaining_work (max_attempts (wk_retry_policy w)) db' < remaining_work (max_attempts (wk_retry_policy w)) db"
proof -
  let ?m = "max_attempts (wk_retry_policy w)"
  have less: "remaining_work ?m db' < remaining_work ?m db"
    if "first_due env db d" "dl_id d' = dl_id d" "db_deliveries db' = update_row dl_id d' (db_deliveries db)"
      "work_of ?m d' < work_of ?m d" for d d'
    using remaining_work_update[OF assms(1) first_dueD(1)[OF that(1)] that(2,3), of ?m] that(4) by linarith
  have pos: "0 < work_of ?m d" if "first_due env db d" for d
    using first_dueD(2)[OF that] by (simp add: work_of_def)
  from assms(2) show ?thesis
  proof cases
    case (claim_refused d e reason)
    show ?thesis
      by (rule less[OF claim_refused(3), of "(dead_letter d (ce_now env))\<lparr>dl_last_error := Some reason\<rparr>"])
        (simp_all add: claim_refused(2) pos[OF claim_refused(3)], simp add: dead_letter_def)
  next
    case (claim_due d e ev)
    then show ?thesis
      using less[OF claim_due(3), of "reserved_delivery w env d"] work_of_reserved[OF first_dueD(2)[OF claim_due(3)] claim_due(7)]
      by (simp add: claimed_db_def reserved_delivery_def)
  next
    case (claim_expired_dead d e a reason)
    show ?thesis
      by (rule less[OF claim_expired_dead(3), of "dead_letter (note_expiry d reason) (ce_now env)"])
        (simp_all add: claim_expired_dead(2) expire_db_def pos[OF claim_expired_dead(3)], simp add: dead_letter_def note_expiry_def)
  next
    case (claim_expired_again d e ev a reason)
    let ?d = "note_expiry d reason"
    have "is_active ?d" "budget_left w ?d" "work_of ?m ?d = work_of ?m d"
      using first_dueD(2)[OF claim_expired_again(3)] claim_expired_again(7)
      by (simp_all add: note_expiry_def is_active_def budget_left_def work_of_def)
    then show ?thesis
      using less[OF claim_expired_again(3), of "reserved_delivery w env ?d"] work_of_reserved[of ?d w env]
      by (simp add: claim_expired_again(2) claimed_db_def expire_db_def reserved_delivery_def note_expiry_def)
  qed
qed

lemma finalize_adds_no_work:
  assumes "db_ok db" "finalize_spec w h r now db b db'"
  shows "remaining_work m db' \<le> remaining_work m db"
  using assms(2)
proof cases
  case (finalize_recorded d a target delay)
  let ?d = "finalized_delivery d target r (retry_at now delay) now"
  have "is_active d" using finalize_recorded(4) by (simp add: owns_lease_def is_active_def)
  then have "work_of m ?d \<le> work_of m d" by (simp add: work_of_def finalized_delivery_def is_active_def)
  moreover have "remaining_work m db' + work_of m d = remaining_work m db + work_of m ?d"
    using finalize_recorded(2)
    by (intro remaining_work_update[OF assms(1) finalize_recorded(3)]) (simp_all add: finalized_db_def finalized_delivery_def)
  ultimately show ?thesis by linarith
qed simp

text \<open>A result that the database cannot store is rolled back.\<close>

lemma completed_row_storable:
  "attempt_row_ok (completed_attempt a r sched now) \<Longrightarrow> null_or (\<lambda>s. 0 \<le> s) (ar_retry_after_seconds r) \<Longrightarrow> result_storable r"
  by (auto simp: attempt_row_ok_def completed_attempt_def result_storable_def null_or_def split: option.splits)

lemma finalize_unstorable_keeps:
  assumes "\<not> result_storable r" "null_or (\<lambda>s. 0 \<le> s) (ar_retry_after_seconds r)"
  shows "snd (run_tx (finalize w h r rf now) db) = db"
proof -
  have "\<not> db_ok (put_delivery d (put_attempt (completed_attempt a r sched now) db))" if "a \<in> set (db_attempts db)" for a d sched
  proof
    assume ok: "db_ok (put_delivery d (put_attempt (completed_attempt a r sched now) db))"
    then have "attempt_row_ok (completed_attempt a r sched now)"
      using that by (intro attempt_row_okD[OF ok]) (auto simp: row_simps)
    then show False using assms completed_row_storable by blast
  qed
  then have "finalize w h r rf now db \<noteq> Inr (True, db')" for db'
    by (auto simp: finalize_def flush_def Let_def one_or_none_Some filter_eq_Cons_iff
        split: sum.splits option.splits if_splits prod.splits)
  moreover have "db' = db" if "finalize w h r rf now db = Inr (False, db')" for db'
    using that by (auto simp: finalize_def Let_def split: sum.splits option.splits if_splits prod.splits)
  ultimately show ?thesis by (auto simp: run_tx_def split: sum.splits) (metis (full_types))
qed

lemma send_retry_after:
  "0 \<le> cap \<Longrightarrow> send_webhook env cap h = Inr r \<Longrightarrow> null_or (\<lambda>s. 0 \<le> s) (ar_retry_after_seconds r)"
  using parse_retry_after_bounds(1)[of cap]
  by (auto simp: send_webhook_def failed_result_def null_or_def Let_def split: sum.splits post_outcome.splits option.splits if_splits)

section \<open>Turns of the loop\<close>

text \<open>
  A turn at which the worker can see everything: the clock of the database has passed every due
  time and lease, nothing is locked by another transaction, the new identifiers are fresh.
  What commits while the request is out keeps the ledger, accepts no new delivery and reuses no
  lease token.
\<close>

definition sees_all :: "claim_env \<Rightarrow> db \<Rightarrow> bool" where
  "sees_all env db \<longleftrightarrow> ce_locked_deliveries env = [] \<and> ce_locked_endpoints env = [] \<and>
     (\<forall>d \<in> set (db_deliveries db). null_or (\<lambda>t. t \<le> ce_statement_now env) (dl_next_attempt_at d) \<and>
        null_or (\<lambda>t. t \<le> ce_statement_now env) (dl_lease_expires_at d))"

definition quiet :: "int \<Rightarrow> db \<Rightarrow> db \<Rightarrow> bool" where
  "quiet m db db' \<longleftrightarrow> ledger_ok m db' \<and> remaining_work m db' \<le> remaining_work m db \<and> (\<forall>h. genuine h db \<longrightarrow> genuine h db')"

definition fair_turn :: "worker \<Rightarrow> pass_env \<Rightarrow> db \<Rightarrow> bool" where
  "fair_turn w env db \<longleftrightarrow> claim_env_fresh (pe_claim env) db \<and> sees_all (pe_claim env) db \<and>
     0 \<le> pe_random_fraction env \<and> pe_random_fraction env \<le> 1 \<and>
     (\<forall>r db1. claim_one w (pe_claim env) db = Inr (r, db1) \<longrightarrow>
        quiet (max_attempts (wk_retry_policy w)) db1 (pe_interference env db1))"

fun fair :: "worker \<Rightarrow> pass_env list \<Rightarrow> db \<Rightarrow> bool" where
  "fair w [] db \<longleftrightarrow> True"
| "fair w (env # envs) db \<longleftrightarrow> fair_turn w env db \<and> fair w envs (snd (worker_turn w env db))"

lemma quiet_refl: "ledger_ok m db \<Longrightarrow> quiet m db db"
  by (simp add: quiet_def)

lemma active_claimable:
  assumes "ledger_ok m db" "sees_all env db" "d \<in> set (db_deliveries db)" "is_active d"
  shows "claimable env db d"
proof -
  have ok: "db_ok db" using assms(1) by (simp add: ledger_ok_def)
  have row: "delivery_row_ok d" by (rule delivery_row_okD[OF ok assms(3)])
  have next_due: "(dl_next_attempt_at d \<noteq> None) = (dl_status d \<in> {PENDING, RETRY_WAIT})"
    using assms(1,3) by (simp add: ledger_ok_def ledger_row_def)
  have "dl_endpoint_id d \<in> ep_id ` set (db_endpoints db)"
    using ok assms(3) by (auto simp: db_ok_def foreign_keys_ok_def list_all_iff)
  moreover have "due (ce_statement_now env) d"
    using row next_due assms(2-4)
    by (cases "dl_status d") (auto simp: due_def is_active_def delivery_row_ok_def sees_all_def null_or_def split: option.splits)
  ultimately show ?thesis using assms(2) by (simp add: claimable_def sees_all_def)
qed

lemma finalize_keeps_work:
  assumes "worker_ok w" "ledger_ok (max_attempts (wk_retry_policy w)) db" "genuine h db" "1 \<le> ow_attempt_number h"
    "0 \<le> rf" "rf \<le> 1" "null_or (\<lambda>s. 0 \<le> s) (ar_retry_after_seconds r)"
  shows "ledger_ok (max_attempts (wk_retry_policy w)) (snd (run_tx (finalize w h r rf now) db)) \<and>
    remaining_work m (snd (run_tx (finalize w h r rf now) db)) \<le> remaining_work m db"
proof (cases "result_storable r")
  case True
  then have pre: "finalize_pre w h r rf db" using assms by (simp add: finalize_pre_def)
  obtain b db' where f: "finalize w h r rf now db = Inr (b, db')" "finalize_spec w h r now db b db'"
    using finalize_refines[OF pre] by blast
  then show ?thesis
    using finalize_spec_ledger[OF pre f(2)] finalize_adds_no_work[OF _ f(2)] assms(2) by (simp add: run_tx_def ledger_ok_def)
next
  case False
  then show ?thesis using finalize_unstorable_keeps[OF False assms(7)] assms(2) by simp
qed

lemma fair_turn_progress:
  assumes "worker_ok w" "0 \<le> worker_retry_after_cap_seconds (wk_settings w)"
    "ledger_ok (max_attempts (wk_retry_policy w)) db" "fair_turn w env db"
  shows "ledger_ok (max_attempts (wk_retry_policy w)) (snd (worker_turn w env db)) \<and>
    (let n = remaining_work (max_attempts (wk_retry_policy w)) db in
     remaining_work (max_attempts (wk_retry_policy w)) (snd (worker_turn w env db)) \<le> n - 1)"
proof -
  let ?m = "max_attempts (wk_retry_policy w)" and ?env = "pe_claim env"
  have ok: "db_ok db" using assms(3) by (simp add: ledger_ok_def)
  have pre: "claim_pre w ?env db" using assms by (simp add: claim_pre_def fair_turn_def)
  obtain c db1 where c: "claim_one w ?env db = Inr (c, db1)" "claim_spec w ?env db c db1"
    using claim_one_refines[OF pre] by blast
  have led: "ledger_ok ?m db1" by (rule claim_spec_ledger[OF pre c(2)])
  have q: "quiet ?m db1 (pe_interference env db1)" using assms(4) c(1) by (simp add: fair_turn_def)
  show ?thesis
  proof (cases c)
    case None
    have "\<forall>d \<in> set (db_deliveries db). \<not> claimable ?env db d" "db1 = db"
      using c(2) None by (auto elim: claim_spec.cases)
    then have "remaining_work ?m db = 0"
      using active_claimable[OF assms(3)] assms(4) by (auto simp: no_work_left fair_turn_def)
    then show ?thesis using c(1) None \<open>db1 = db\<close> assms(3) by (simp add: worker_turn_def run_once_def run_tx_def)
  next
    case (Some x)
    have less: "remaining_work ?m db1 < remaining_work ?m db" using claim_uses_work[OF ok] c(2) Some by blast
    show ?thesis
    proof (cases x)
      case (Resolution res)
      then show ?thesis using c(1) Some led less by (simp add: worker_turn_def run_once_def run_tx_def)
    next
      case (Webhook h)
      let ?db2 = "pe_interference env db1"
      have g: "genuine h db1" "1 \<le> ow_attempt_number h"
        using claim_genuine[OF ok _ c(2)[unfolded Some Webhook]] pre by (simp_all add: claim_pre_def claim_env_fresh_def)
      have db2: "ledger_ok ?m ?db2" "remaining_work ?m ?db2 < remaining_work ?m db" "genuine h ?db2"
        using q g(1) less by (auto simp: quiet_def)
      have fin: "ledger_ok ?m (snd (run_tx (finalize w h r (pe_random_fraction env) (pe_database_now env)) ?db2)) \<and>
          remaining_work ?m (snd (run_tx (finalize w h r (pe_random_fraction env) (pe_database_now env)) ?db2)) < remaining_work ?m db"
        if "send_webhook (pe_http env) (worker_retry_after_cap_seconds (wk_settings w)) h = Inr r" for r
        using finalize_keeps_work[OF assms(1) db2(1,3) g(2) _ _ send_retry_after[OF assms(2) that], of "pe_random_fraction env" "pe_database_now env" ?m]
          assms(4) db2(2) by (simp add: fair_turn_def)
      have "snd (worker_turn w env db) =
          (case send_webhook (pe_http env) (worker_retry_after_cap_seconds (wk_settings w)) h of
             Inl e \<Rightarrow> ?db2
           | Inr r \<Rightarrow> snd (run_tx (finalize w h r (pe_random_fraction env) (pe_database_now env)) ?db2))"
        using c(1) Some Webhook
        by (simp add: worker_turn_def run_once_def run_tx_def[of "claim_one w (pe_claim env)"] Let_def split: sum.split prod.split)
      then show ?thesis
        using fin db2(1,2) by (cases "send_webhook (pe_http env) (worker_retry_after_cap_seconds (wk_settings w)) h") auto
    qed
  qed
qed

lemma fair_run_ends:
  assumes "worker_ok w" "0 \<le> worker_retry_after_cap_seconds (wk_settings w)"
    "ledger_ok (max_attempts (wk_retry_policy w)) db" "fair w envs db"
    "remaining_work (max_attempts (wk_retry_policy w)) db \<le> length envs"
  shows "ledger_ok (max_attempts (wk_retry_policy w)) (run_forever w envs db) \<and>
    remaining_work (max_attempts (wk_retry_policy w)) (run_forever w envs db) = 0"
  using assms(3-)
proof (induction envs arbitrary: db)
  case (Cons env envs)
  from Cons.prems have turn: "fair_turn w env db" "fair w envs (snd (worker_turn w env db))" by simp_all
  from fair_turn_progress[OF assms(1,2) Cons.prems(1) turn(1)] Cons.prems(3) show ?case
    using Cons.IH[OF _ turn(2)] by (simp add: Let_def del: One_nat_def) linarith
qed simp

text \<open>A worker that is alone: nothing else commits while its request is out.\<close>

lemma fair_turn_alone:
  assumes "worker_ok w" "ledger_ok (max_attempts (wk_retry_policy w)) db" "claim_env_fresh (pe_claim env) db"
    "sees_all (pe_claim env) db" "0 \<le> pe_random_fraction env" "pe_random_fraction env \<le> 1" "pe_interference env = (\<lambda>db. db)"
  shows "fair_turn w env db"
proof -
  have pre: "claim_pre w (pe_claim env) db" using assms by (simp add: claim_pre_def)
  show ?thesis
    using assms claim_spec_ledger[OF pre] claim_one_refines[OF pre] by (fastforce simp: fair_turn_def intro: quiet_refl)
qed

end
