(* ===== verification/Schema.thy ===== *)
theory Schema
  imports Prelude
begin

text \<open>
  Schemas as values, and the statements that change them, as far as the revisions under
  alembic/versions and the metadata of models.py use them.  A schema holds the enumeration types,
  the tables with their columns and constraints, and the indexes.  A statement that PostgreSQL
  refuses is \<open>None\<close>: an object that exists already or is missing, a column that a constraint
  names and the table lacks, a table or type that is still referenced.
\<close>

section \<open>Schemas\<close>

datatype sql_type =
    Uuid | String nat | Text | LargeBinary | Integer | BigInteger | Boolean | DateTimeTz | JSONB | Enumeration string

text \<open>A server default is given as a string, which is rendered as a quoted literal, or as an expression.\<close>

datatype server_default = Literal string | Expression string

record column =
  co_name :: string
  co_type :: sql_type
  co_server_default :: "server_default option"
  co_nullable :: bool

datatype table_constraint =
    CheckConstraint string string
  | PrimaryKeyConstraint string "string list"
  | UniqueConstraint string "string list"
  | ForeignKeyConstraint string "string list" string "string list" string

record table_index =
  in_name :: string
  in_table :: string
  in_columns :: "string list"
  in_unique :: bool
  in_where :: "string option"

record table =
  ta_name :: string
  ta_columns :: "column list"
  ta_constraints :: "table_constraint list"

record schema =
  sh_enums :: "(string \<times> string list) list"
  sh_tables :: "table list"
  sh_indexes :: "table_index list"

definition empty_schema :: schema where
  "empty_schema = \<lparr>sh_enums = [], sh_tables = [], sh_indexes = []\<rparr>"

definition required :: "string \<Rightarrow> sql_type \<Rightarrow> column" where
  "required n t = \<lparr>co_name = n, co_type = t, co_server_default = None, co_nullable = False\<rparr>"

definition optional :: "string \<Rightarrow> sql_type \<Rightarrow> column" where
  "optional n t = \<lparr>co_name = n, co_type = t, co_server_default = None, co_nullable = True\<rparr>"

definition defaulted :: "server_default \<Rightarrow> column \<Rightarrow> column" where
  "defaulted d c = c\<lparr>co_server_default := Some d\<rparr>"

definition now_default :: server_default where
  "now_default = Expression ''now()''"

text \<open>A quoted literal of SQL.\<close>

definition quoted :: "string \<Rightarrow> string" where
  "quoted s = [CHR 0x27] @ s @ [CHR 0x27]"

fun constraint_name :: "table_constraint \<Rightarrow> string" where
  "constraint_name (CheckConstraint n _) = n"
| "constraint_name (PrimaryKeyConstraint n _) = n"
| "constraint_name (UniqueConstraint n _) = n"
| "constraint_name (ForeignKeyConstraint n _ _ _ _) = n"

text \<open>
  The identifiers of a CHECK expression: the longest runs of letters, digits and underscores.
  Renaming or dropping a column changes such an expression, or drops it, in ways the revisions do
  not use: here both are refused while a CHECK of the table mentions the column.
\<close>

definition identifier_char :: "char \<Rightarrow> bool" where
  "identifier_char c \<longleftrightarrow> (let n = (of_char c :: nat) in 48 \<le> n \<and> n \<le> 57 \<or> 65 \<le> n \<and> n \<le> 90 \<or> 97 \<le> n \<and> n \<le> 122 \<or> n = 95)"

fun identifiers :: "string \<Rightarrow> string \<Rightarrow> string list" where
  "identifiers acc [] = [rev acc]"
| "identifiers acc (c # cs) = (if identifier_char c then identifiers (c # acc) cs else rev acc # identifiers [] cs)"

fun uses_column :: "string \<Rightarrow> table_constraint \<Rightarrow> bool" where
  "uses_column n (CheckConstraint _ e) = (n \<in> set (identifiers [] e))"
| "uses_column n (PrimaryKeyConstraint _ cs) = (n \<in> set cs)"
| "uses_column n (UniqueConstraint _ cs) = (n \<in> set cs)"
| "uses_column n (ForeignKeyConstraint _ cs _ _ _) = (n \<in> set cs)"

section \<open>Statements\<close>

datatype ddl =
    CreateEnum string "string list" bool
  | DropEnum string bool
  | CreateTable string "column list" "table_constraint list"
  | DropTable string
  | CreateIndex table_index
  | DropIndex string string
  | AddColumn string column
  | DropColumn string string
  | RenameColumn string string string
  | SetNullable string string bool
  | SetDefault string string server_default
  | CreateConstraint string table_constraint
  | DropConstraint string string
  | Execute string

definition find_table :: "string \<Rightarrow> schema \<Rightarrow> table option" where
  "find_table n s = find (\<lambda>t. ta_name t = n) (sh_tables s)"

definition put_table :: "table \<Rightarrow> schema \<Rightarrow> schema" where
  "put_table t s = s\<lparr>sh_tables := map (\<lambda>u. if ta_name u = ta_name t then t else u) (sh_tables s)\<rparr>"

definition column_names :: "table \<Rightarrow> string list" where
  "column_names t = map co_name (ta_columns t)"

definition on_table :: "string \<Rightarrow> (table \<Rightarrow> table option) \<Rightarrow> schema \<Rightarrow> schema option" where
  "on_table n f s = Option.bind (find_table n s) (\<lambda>t. map_option (\<lambda>t'. put_table t' s) (f t))"

definition type_known :: "schema \<Rightarrow> sql_type \<Rightarrow> bool" where
  "type_known s t = (case t of Enumeration e \<Rightarrow> map_of (sh_enums s) e \<noteq> None | _ \<Rightarrow> True)"

text \<open>A constraint of a table \<open>t\<close> of the schema: its columns exist, and those it references.\<close>

definition constraint_valid :: "schema \<Rightarrow> table \<Rightarrow> table_constraint \<Rightarrow> bool" where
  "constraint_valid s t c =
     (case c of
        CheckConstraint _ _ \<Rightarrow> True
      | PrimaryKeyConstraint _ cs \<Rightarrow> list_all (\<lambda>x. x \<in> set (column_names t)) cs
      | UniqueConstraint _ cs \<Rightarrow> list_all (\<lambda>x. x \<in> set (column_names t)) cs
      | ForeignKeyConstraint _ cs r rs _ \<Rightarrow> list_all (\<lambda>x. x \<in> set (column_names t)) cs \<and>
          (case if r = ta_name t then Some t else find_table r s of
             None \<Rightarrow> False
           | Some u \<Rightarrow> list_all (\<lambda>x. x \<in> set (column_names u)) rs))"

definition add_constraint :: "schema \<Rightarrow> table_constraint \<Rightarrow> table \<Rightarrow> table option" where
  "add_constraint s c t =
     (if constraint_valid s t c \<and> constraint_name c \<notin> constraint_name ` set (ta_constraints t)
      then Some (t\<lparr>ta_constraints := ta_constraints t @ [c]\<rparr>) else None)"

definition change_column :: "string \<Rightarrow> (column \<Rightarrow> column) \<Rightarrow> table \<Rightarrow> table option" where
  "change_column n f t =
     (if n \<in> set (column_names t)
      then Some (t\<lparr>ta_columns := map (\<lambda>c. if co_name c = n then f c else c) (ta_columns t)\<rparr>) else None)"

definition references :: "string \<Rightarrow> table_constraint \<Rightarrow> bool" where
  "references n c = (case c of ForeignKeyConstraint _ _ r _ _ \<Rightarrow> r = n | _ \<Rightarrow> False)"

fun apply_ddl :: "ddl \<Rightarrow> schema \<Rightarrow> schema option" where
  "apply_ddl (CreateEnum n vs checkfirst) s =
     (case map_of (sh_enums s) n of
        None \<Rightarrow> Some (s\<lparr>sh_enums := sh_enums s @ [(n, vs)]\<rparr>)
      | Some _ \<Rightarrow> if checkfirst then Some s else None)"
| "apply_ddl (DropEnum n checkfirst) s =
     (case map_of (sh_enums s) n of
        None \<Rightarrow> if checkfirst then Some s else None
      | Some _ \<Rightarrow>
          if list_ex (\<lambda>t. list_ex (\<lambda>c. co_type c = Enumeration n) (ta_columns t)) (sh_tables s) then None
          else Some (s\<lparr>sh_enums := filter (\<lambda>e. fst e \<noteq> n) (sh_enums s)\<rparr>))"
| "apply_ddl (CreateTable n cs ks) s =
     (let t = \<lparr>ta_name = n, ta_columns = cs, ta_constraints = ks\<rparr> in
      if find_table n s = None \<and> distinct (map co_name cs) \<and> distinct (map constraint_name ks) \<and>
         list_all (\<lambda>c. type_known s (co_type c)) cs \<and> list_all (constraint_valid s t) ks
      then Some (s\<lparr>sh_tables := sh_tables s @ [t]\<rparr>) else None)"
| "apply_ddl (DropTable n) s =
     (if find_table n s = None \<or>
         list_ex (\<lambda>t. ta_name t \<noteq> n \<and> list_ex (references n) (ta_constraints t)) (sh_tables s) then None
      else Some (s\<lparr>sh_tables := filter (\<lambda>t. ta_name t \<noteq> n) (sh_tables s),
                   sh_indexes := filter (\<lambda>i. in_table i \<noteq> n) (sh_indexes s)\<rparr>))"
| "apply_ddl (CreateIndex i) s =
     (case find_table (in_table i) s of
        None \<Rightarrow> None
      | Some t \<Rightarrow>
          if list_all (\<lambda>x. x \<in> set (column_names t)) (in_columns i) \<and> in_name i \<notin> in_name ` set (sh_indexes s)
          then Some (s\<lparr>sh_indexes := sh_indexes s @ [i]\<rparr>) else None)"
| "apply_ddl (DropIndex n t) s =
     (if list_ex (\<lambda>i. in_name i = n \<and> in_table i = t) (sh_indexes s)
      then Some (s\<lparr>sh_indexes := filter (\<lambda>i. in_name i \<noteq> n) (sh_indexes s)\<rparr>) else None)"
| "apply_ddl (AddColumn t c) s =
     on_table t (\<lambda>u. if co_name c \<in> set (column_names u) \<or> \<not> type_known s (co_type c) then None
       else Some (u\<lparr>ta_columns := ta_columns u @ [c]\<rparr>)) s"
| "apply_ddl (DropColumn t n) s =
     on_table t (\<lambda>u. if n \<notin> set (column_names u) \<or> list_ex (uses_column n) (ta_constraints u) \<or>
         list_ex (\<lambda>i. in_table i = t \<and> n \<in> set (in_columns i)) (sh_indexes s) then None
       else Some (u\<lparr>ta_columns := filter (\<lambda>c. co_name c \<noteq> n) (ta_columns u)\<rparr>)) s"
| "apply_ddl (RenameColumn t n n') s =
     on_table t (\<lambda>u. if n' \<in> set (column_names u) \<or> list_ex (uses_column n) (ta_constraints u) \<or>
         list_ex (\<lambda>i. in_table i = t \<and> n \<in> set (in_columns i)) (sh_indexes s) then None
       else change_column n (\<lambda>c. c\<lparr>co_name := n'\<rparr>) u) s"
| "apply_ddl (SetNullable t n b) s = on_table t (change_column n (\<lambda>c. c\<lparr>co_nullable := b\<rparr>)) s"
| "apply_ddl (SetDefault t n d) s = on_table t (change_column n (\<lambda>c. c\<lparr>co_server_default := Some d\<rparr>)) s"
| "apply_ddl (CreateConstraint t k) s = on_table t (add_constraint s k) s"
| "apply_ddl (DropConstraint t n) s =
     on_table t (\<lambda>u. if n \<in> constraint_name ` set (ta_constraints u)
       then Some (u\<lparr>ta_constraints := filter (\<lambda>k. constraint_name k \<noteq> n) (ta_constraints u)\<rparr>) else None) s"
| "apply_ddl (Execute _) s = Some s"

fun apply_all :: "ddl list \<Rightarrow> schema \<Rightarrow> schema option" where
  "apply_all [] s = Some s"
| "apply_all (d # ds) s = Option.bind (apply_ddl d s) (apply_all ds)"

section \<open>When two schemas are the same\<close>

text \<open>
  The order of tables, columns, constraints and indexes has no meaning; the order of the values of
  an enumeration has.  PostgreSQL stores a quoted default after coercing it to the type of the
  column, so \<open>'true'\<close> for a boolean is \<open>true\<close>, and a literal of an enumeration carries its type.
\<close>

definition stored_default :: "sql_type \<Rightarrow> server_default \<Rightarrow> server_default" where
  "stored_default t d =
     (case (t, d) of
        (Boolean, Literal v) \<Rightarrow> Expression v
      | (Enumeration e, Literal v) \<Rightarrow> Expression (quoted v @ ''::'' @ e)
      | _ \<Rightarrow> d)"

definition stored_column :: "column \<Rightarrow> column" where
  "stored_column c = c\<lparr>co_server_default := map_option (stored_default (co_type c)) (co_server_default c)\<rparr>"

definition same_elements :: "'a list \<Rightarrow> 'a list \<Rightarrow> bool" where
  "same_elements xs ys \<longleftrightarrow> length xs = length ys \<and> list_all (\<lambda>x. x \<in> set ys) xs \<and> list_all (\<lambda>y. y \<in> set xs) ys"

definition same_table :: "table \<Rightarrow> table \<Rightarrow> bool" where
  "same_table t u \<longleftrightarrow> ta_name t = ta_name u \<and>
     same_elements (map stored_column (ta_columns t)) (map stored_column (ta_columns u)) \<and>
     same_elements (ta_constraints t) (ta_constraints u)"

definition same_schema :: "schema \<Rightarrow> schema \<Rightarrow> bool" where
  "same_schema s s' \<longleftrightarrow> same_elements (sh_enums s) (sh_enums s') \<and> same_elements (sh_indexes s) (sh_indexes s') \<and>
     length (sh_tables s) = length (sh_tables s') \<and>
     list_all (\<lambda>t. list_ex (same_table t) (sh_tables s')) (sh_tables s) \<and>
     list_all (\<lambda>t. list_ex (same_table t) (sh_tables s)) (sh_tables s')"

end
