(* ===== verification/Revisions.thy ===== *)
theory Revisions
  imports Schema Models
begin

text \<open>
  The five revisions under src/backend/alembic/versions, statement by statement, and the metadata
  that the classes of models.py declare under the naming convention of database.py.
\<close>

section \<open>Revision 0001: the initial schema\<close>

definition delivery_status_enum :: "string list" where
  "delivery_status_enum = [''pending'', ''in_progress'', ''retry_wait'', ''delivered'', ''dead_lettered'']"

definition delivery_disposition_enum :: "string list" where
  "delivery_disposition_enum = [''succeeded'', ''retry'', ''terminal_failure'']"

definition initial_endpoints :: ddl where
  "initial_endpoints = CreateTable ''endpoints''
     [required ''id'' Uuid, required ''name'' (String 120), required ''target_url'' Text,
      required ''signing_secret'' LargeBinary, defaulted (Literal ''1'') (required ''secret_version'' Integer),
      defaulted (Expression ''true'') (required ''enabled'' Boolean),
      defaulted now_default (required ''created_at'' DateTimeTz), defaulted now_default (required ''updated_at'' DateTimeTz)]
     [CheckConstraint ''ck_endpoints_name_not_empty'' ''length(name) > 0'',
      CheckConstraint ''ck_endpoints_target_url_not_empty'' ''length(target_url) > 0'',
      CheckConstraint ''ck_endpoints_signing_secret_not_empty'' ''octet_length(signing_secret) > 0'',
      CheckConstraint ''ck_endpoints_secret_version_positive'' ''secret_version >= 1'',
      PrimaryKeyConstraint ''pk_endpoints'' [''id'']]"

definition initial_events :: ddl where
  "initial_events = CreateTable ''events''
     [required ''id'' Uuid, required ''source'' (String 120), required ''event_type'' (String 255),
      required ''idempotency_key'' (String 255), required ''payload'' JSONB, required ''payload_bytes'' LargeBinary,
      required ''payload_sha256'' (String 64), defaulted now_default (required ''created_at'' DateTimeTz)]
     [CheckConstraint ''ck_events_source_not_empty'' ''length(source) > 0'',
      CheckConstraint ''ck_events_event_type_not_empty'' ''length(event_type) > 0'',
      CheckConstraint ''ck_events_idempotency_key_not_empty'' ''length(idempotency_key) > 0'',
      CheckConstraint ''ck_events_payload_bytes_not_empty'' ''octet_length(payload_bytes) > 0'',
      CheckConstraint ''ck_events_payload_sha256_length'' ''length(payload_sha256) = 64'',
      PrimaryKeyConstraint ''pk_events'' [''id''],
      UniqueConstraint ''uq_events_source_idempotency_key'' [''source'', ''idempotency_key'']]"

definition initial_deliveries :: ddl where
  "initial_deliveries = CreateTable ''deliveries''
     [required ''id'' Uuid, required ''event_id'' Uuid, required ''endpoint_id'' Uuid,
      defaulted (Literal ''0'') (required ''replay_generation'' Integer),
      defaulted (Literal ''pending'') (required ''status'' (Enumeration ''delivery_status'')),
      defaulted (Literal ''0'') (required ''attempt_count'' Integer),
      defaulted now_default (optional ''next_attempt_at'' DateTimeTz), optional ''lease_owner'' (String 160),
      optional ''lease_expires_at'' DateTimeTz, optional ''lease_token'' Uuid, optional ''delivered_at'' DateTimeTz,
      optional ''last_error'' Text, defaulted now_default (required ''created_at'' DateTimeTz),
      defaulted now_default (required ''updated_at'' DateTimeTz)]
     [CheckConstraint ''ck_deliveries_replay_generation_nonnegative'' ''replay_generation >= 0'',
      CheckConstraint ''ck_deliveries_attempt_count_nonnegative'' ''attempt_count >= 0'',
      CheckConstraint ''ck_deliveries_lease_fields_set_together''
        (''(lease_owner IS NULL) = (lease_expires_at IS NULL) '' @ ''AND (lease_owner IS NULL) = (lease_token IS NULL)''),
      CheckConstraint ''ck_deliveries_delivered_has_timestamp''
        (''status != '' @ quoted ''delivered'' @ '' OR delivered_at IS NOT NULL''),
      ForeignKeyConstraint ''fk_deliveries_endpoint_id_endpoints'' [''endpoint_id''] ''endpoints'' [''id''] ''RESTRICT'',
      ForeignKeyConstraint ''fk_deliveries_event_id_events'' [''event_id''] ''events'' [''id''] ''RESTRICT'',
      PrimaryKeyConstraint ''pk_deliveries'' [''id''],
      UniqueConstraint ''uq_deliveries_event_id_endpoint_id_replay_generation''
        [''event_id'', ''endpoint_id'', ''replay_generation'']]"

definition initial_attempts :: ddl where
  "initial_attempts = CreateTable ''delivery_attempts''
     [required ''id'' Uuid, required ''delivery_id'' Uuid, required ''attempt_number'' Integer,
      required ''disposition'' (Enumeration ''delivery_disposition''), optional ''http_status_code'' Integer,
      optional ''error_type'' (String 120), optional ''error_message'' Text, optional ''response_body_excerpt'' Text,
      required ''duration_ms'' Integer, required ''request_timestamp'' BigInteger,
      optional ''retry_scheduled_for'' DateTimeTz, required ''started_at'' DateTimeTz, required ''finished_at'' DateTimeTz,
      defaulted now_default (required ''created_at'' DateTimeTz)]
     [CheckConstraint ''ck_delivery_attempts_attempt_number_positive'' ''attempt_number >= 1'',
      CheckConstraint ''ck_delivery_attempts_duration_ms_nonnegative'' ''duration_ms >= 0'',
      CheckConstraint ''ck_delivery_attempts_request_timestamp_nonnegative'' ''request_timestamp >= 0'',
      CheckConstraint ''ck_delivery_attempts_http_status_code_valid''
        ''http_status_code IS NULL OR http_status_code BETWEEN 100 AND 599'',
      CheckConstraint ''ck_delivery_attempts_timestamps_ordered'' ''finished_at >= started_at'',
      ForeignKeyConstraint ''fk_delivery_attempts_delivery_id_deliveries'' [''delivery_id''] ''deliveries'' [''id''] ''CASCADE'',
      PrimaryKeyConstraint ''pk_delivery_attempts'' [''id''],
      UniqueConstraint ''uq_delivery_attempts_delivery_id_attempt_number'' [''delivery_id'', ''attempt_number'']]"

definition plain_index :: "string \<Rightarrow> string \<Rightarrow> string list \<Rightarrow> table_index" where
  "plain_index n t cs = \<lparr>in_name = n, in_table = t, in_columns = cs, in_unique = False, in_where = None\<rparr>"

definition partial_index :: "string \<Rightarrow> string \<Rightarrow> string list \<Rightarrow> bool \<Rightarrow> string \<Rightarrow> table_index" where
  "partial_index n t cs u w = \<lparr>in_name = n, in_table = t, in_columns = cs, in_unique = u, in_where = Some w\<rparr>"

definition due_where :: string where
  "due_where = ''status IN ('' @ quoted ''pending'' @ '', '' @ quoted ''retry_wait'' @ '')''"

definition upgrade_0001 :: "ddl list" where
  "upgrade_0001 =
     [CreateEnum ''delivery_status'' delivery_status_enum True,
      CreateEnum ''delivery_disposition'' delivery_disposition_enum True,
      initial_endpoints,
      CreateIndex (plain_index ''ix_endpoints_enabled_created_at'' ''endpoints'' [''enabled'', ''created_at'']),
      initial_events,
      CreateIndex (plain_index ''ix_events_event_type_created_at'' ''events'' [''event_type'', ''created_at'']),
      initial_deliveries,
      CreateIndex (partial_index ''ix_deliveries_due'' ''deliveries'' [''next_attempt_at'', ''id''] False due_where),
      CreateIndex (plain_index ''ix_deliveries_event_id_created_at'' ''deliveries'' [''event_id'', ''created_at'']),
      CreateIndex (plain_index ''ix_deliveries_expired_leases'' ''deliveries'' [''lease_expires_at'']),
      initial_attempts,
      CreateIndex (plain_index ''ix_delivery_attempts_delivery_id_started_at'' ''delivery_attempts'' [''delivery_id'', ''started_at''])]"

definition downgrade_0001 :: "ddl list" where
  "downgrade_0001 =
     [DropIndex ''ix_delivery_attempts_delivery_id_started_at'' ''delivery_attempts'', DropTable ''delivery_attempts'',
      DropIndex ''ix_deliveries_expired_leases'' ''deliveries'', DropIndex ''ix_deliveries_event_id_created_at'' ''deliveries'',
      DropIndex ''ix_deliveries_due'' ''deliveries'', DropTable ''deliveries'',
      DropIndex ''ix_events_event_type_created_at'' ''events'', DropTable ''events'',
      DropIndex ''ix_endpoints_enabled_created_at'' ''endpoints'', DropTable ''endpoints'',
      DropEnum ''delivery_disposition'' True, DropEnum ''delivery_status'' True]"

section \<open>Revision 0002: two hashes of an event\<close>

definition upgrade_0002 :: "ddl list" where
  "upgrade_0002 =
     [DropConstraint ''events'' ''ck_events_payload_sha256_length'',
      RenameColumn ''events'' ''payload_sha256'' ''request_fingerprint_sha256'',
      CreateConstraint ''events'' (CheckConstraint ''ck_events_request_fingerprint_sha256_length''
        ''length(request_fingerprint_sha256) = 64''),
      AddColumn ''events'' (optional ''payload_sha256'' (String 64)),
      Execute (''UPDATE events '' @ ''SET payload_sha256 = encode(sha256(payload_bytes), '' @ quoted ''hex'' @ '') '' @
        ''WHERE payload_sha256 IS NULL''),
      SetNullable ''events'' ''payload_sha256'' False,
      CreateConstraint ''events'' (CheckConstraint ''ck_events_payload_sha256_length'' ''length(payload_sha256) = 64'')]"

definition downgrade_0002 :: "ddl list" where
  "downgrade_0002 =
     [DropConstraint ''events'' ''ck_events_payload_sha256_length'', DropColumn ''events'' ''payload_sha256'',
      DropConstraint ''events'' ''ck_events_request_fingerprint_sha256_length'',
      RenameColumn ''events'' ''request_fingerprint_sha256'' ''payload_sha256'',
      CreateConstraint ''events'' (CheckConstraint ''ck_events_payload_sha256_length'' ''length(payload_sha256) = 64'')]"

section \<open>Revision 0003: the attempt ledger\<close>

definition attempt_status_enum :: "string list" where
  "attempt_status_enum = [''in_progress'', ''completed'', ''indeterminate'']"

definition result_columns :: "string list" where
  "result_columns = [''disposition'', ''duration_ms'', ''request_timestamp'', ''started_at'', ''finished_at'']"

definition lifecycle_check :: string where
  "lifecycle_check =
     ''(status = '' @ quoted ''in_progress'' @
      '' AND disposition IS NULL AND http_status_code IS NULL '' @
      ''AND error_type IS NULL AND error_message IS NULL '' @
      ''AND response_body_excerpt IS NULL AND duration_ms IS NULL '' @
      ''AND request_timestamp IS NULL AND retry_scheduled_for IS NULL '' @
      ''AND started_at IS NULL AND finished_at IS NULL AND resolved_at IS NULL) OR '' @ ''(status = '' @
      quoted ''completed'' @ '' AND disposition IS NOT NULL AND duration_ms IS NOT NULL '' @
      ''AND request_timestamp IS NOT NULL AND started_at IS NOT NULL '' @
      ''AND finished_at IS NOT NULL AND resolved_at IS NOT NULL) OR '' @ ''(status = '' @
      quoted ''indeterminate'' @ '' AND disposition IS NULL AND http_status_code IS NULL '' @
      ''AND error_type IS NOT NULL AND response_body_excerpt IS NULL '' @
      ''AND duration_ms IS NULL AND request_timestamp IS NULL '' @
      ''AND retry_scheduled_for IS NULL AND started_at IS NULL '' @
      ''AND finished_at IS NULL AND resolved_at IS NOT NULL)''"

definition upgrade_0003 :: "ddl list" where
  "upgrade_0003 =
     [CreateEnum ''delivery_attempt_status'' attempt_status_enum False,
      AddColumn ''delivery_attempts'' (optional ''status'' (Enumeration ''delivery_attempt_status'')),
      AddColumn ''delivery_attempts'' (optional ''lease_token'' Uuid),
      AddColumn ''delivery_attempts'' (optional ''resolved_at'' DateTimeTz)] @
     map (\<lambda>c. SetNullable ''delivery_attempts'' c True) result_columns @
     [Execute (''UPDATE delivery_attempts '' @
        ''SET status = '' @ quoted ''completed'' @ '', lease_token = id, resolved_at = created_at''),
      Execute (''INSERT INTO delivery_attempts '' @ ''(id, delivery_id, attempt_number, status, lease_token, created_at) '' @
        ''SELECT d.lease_token, d.id, d.attempt_count, '' @ quoted ''in_progress'' @ '', '' @ ''d.lease_token, d.updated_at '' @
        ''FROM deliveries AS d '' @ ''WHERE d.status = '' @ quoted ''in_progress'' @ '' '' @ ''AND d.lease_token IS NOT NULL '' @
        ''AND NOT EXISTS ('' @ ''  SELECT 1 FROM delivery_attempts AS a '' @
        ''  WHERE a.delivery_id = d.id AND a.attempt_number = d.attempt_count'' @ '')''),
      SetNullable ''delivery_attempts'' ''status'' False,
      SetNullable ''delivery_attempts'' ''lease_token'' False,
      SetDefault ''delivery_attempts'' ''status'' (Expression (quoted ''in_progress'' @ ''::delivery_attempt_status'')),
      CreateConstraint ''delivery_attempts''
        (UniqueConstraint ''uq_delivery_attempts_delivery_id_lease_token'' [''delivery_id'', ''lease_token'']),
      CreateIndex (partial_index ''uq_delivery_attempts_one_in_progress'' ''delivery_attempts'' [''delivery_id''] True
        (''status = '' @ quoted ''in_progress'')),
      CreateConstraint ''delivery_attempts'' (CheckConstraint ''ck_delivery_attempts_lifecycle_fields'' lifecycle_check),
      CreateConstraint ''deliveries'' (CheckConstraint ''ck_deliveries_lease_matches_status''
        (''(status = '' @ quoted ''in_progress'' @ '') = (lease_owner IS NOT NULL)''))]"

definition downgrade_0003 :: "ddl list" where
  "downgrade_0003 =
     [Execute (''DELETE FROM delivery_attempts WHERE status != '' @ quoted ''completed''),
      DropConstraint ''deliveries'' ''ck_deliveries_lease_matches_status'',
      DropConstraint ''delivery_attempts'' ''ck_delivery_attempts_lifecycle_fields'',
      DropIndex ''uq_delivery_attempts_one_in_progress'' ''delivery_attempts'',
      DropConstraint ''delivery_attempts'' ''uq_delivery_attempts_delivery_id_lease_token''] @
     map (\<lambda>c. SetNullable ''delivery_attempts'' c False) result_columns @
     [DropColumn ''delivery_attempts'' ''resolved_at'', DropColumn ''delivery_attempts'' ''lease_token'',
      DropColumn ''delivery_attempts'' ''status'', DropEnum ''delivery_attempt_status'' False]"

section \<open>Revision 0004: replays\<close>

definition upgrade_0004 :: "ddl list" where
  "upgrade_0004 =
     [AddColumn ''deliveries'' (optional ''replayed_from_delivery_id'' Uuid),
      AddColumn ''deliveries'' (optional ''replay_idempotency_key'' (String 255)),
      CreateConstraint ''deliveries'' (ForeignKeyConstraint ''fk_deliveries_replayed_from_delivery_id_deliveries''
        [''replayed_from_delivery_id''] ''deliveries'' [''id''] ''RESTRICT''),
      CreateConstraint ''deliveries'' (UniqueConstraint ''uq_deliveries_replayed_from_delivery_id_replay_idempotency_key''
        [''replayed_from_delivery_id'', ''replay_idempotency_key'']),
      CreateConstraint ''deliveries'' (CheckConstraint ''ck_deliveries_replay_metadata_set_together''
        ''(replayed_from_delivery_id IS NULL) = (replay_idempotency_key IS NULL)''),
      CreateConstraint ''deliveries'' (CheckConstraint ''ck_deliveries_replay_idempotency_key_not_empty''
        ''replay_idempotency_key IS NULL OR length(replay_idempotency_key) > 0''),
      CreateIndex (partial_index ''uq_deliveries_one_active_per_event_endpoint'' ''deliveries'' [''event_id'', ''endpoint_id''] True
        (''status IN ('' @ quoted ''pending'' @ '', '' @ quoted ''in_progress'' @ '', '' @ quoted ''retry_wait'' @ '')''))]"

definition downgrade_0004 :: "ddl list" where
  "downgrade_0004 =
     [DropConstraint ''deliveries'' ''ck_deliveries_replay_idempotency_key_not_empty'',
      DropIndex ''uq_deliveries_one_active_per_event_endpoint'' ''deliveries'',
      DropConstraint ''deliveries'' ''ck_deliveries_replay_metadata_set_together'',
      DropConstraint ''deliveries'' ''uq_deliveries_replayed_from_delivery_id_replay_idempotency_key'',
      DropConstraint ''deliveries'' ''fk_deliveries_replayed_from_delivery_id_deliveries'',
      DropColumn ''deliveries'' ''replay_idempotency_key'', DropColumn ''deliveries'' ''replayed_from_delivery_id'']"

section \<open>Revision 0005: indexes of the Control Room\<close>

definition upgrade_0005 :: "ddl list" where
  "upgrade_0005 =
     [CreateIndex (plain_index ''ix_events_created_at_id'' ''events'' [''created_at'', ''id'']),
      CreateIndex (plain_index ''ix_endpoints_created_at_id'' ''endpoints'' [''created_at'', ''id'']),
      CreateIndex (plain_index ''ix_deliveries_status_updated_at_id'' ''deliveries'' [''status'', ''updated_at'', ''id''])]"

definition downgrade_0005 :: "ddl list" where
  "downgrade_0005 =
     [DropIndex ''ix_deliveries_status_updated_at_id'' ''deliveries'', DropIndex ''ix_endpoints_created_at_id'' ''endpoints'',
      DropIndex ''ix_events_created_at_id'' ''events'']"

definition revisions :: "(ddl list \<times> ddl list) list" where
  "revisions = [(upgrade_0001, downgrade_0001), (upgrade_0002, downgrade_0002), (upgrade_0003, downgrade_0003),
     (upgrade_0004, downgrade_0004), (upgrade_0005, downgrade_0005)]"

section \<open>The metadata of the models\<close>

text \<open>
  \<open>NAMING_CONVENTION\<close>: a constraint is named after its table and columns; a CHECK after its table and
  the name it is given.
\<close>

fun join_names :: "string list \<Rightarrow> string" where
  "join_names [] = []"
| "join_names [n] = n"
| "join_names (n # ns) = n @ ''_'' @ join_names ns"

definition ck :: "string \<Rightarrow> string \<Rightarrow> string \<Rightarrow> table_constraint" where
  "ck t n e = CheckConstraint (''ck_'' @ t @ ''_'' @ n) e"

definition uq :: "string \<Rightarrow> string list \<Rightarrow> table_constraint" where
  "uq t cs = UniqueConstraint (''uq_'' @ t @ ''_'' @ join_names cs) cs"

definition fk :: "string \<Rightarrow> string \<Rightarrow> string \<Rightarrow> string \<Rightarrow> table_constraint" where
  "fk t c r on_delete = ForeignKeyConstraint (''fk_'' @ t @ ''_'' @ c @ ''_'' @ r) [c] r [''id''] on_delete"

definition pk :: "string \<Rightarrow> table_constraint" where
  "pk t = PrimaryKeyConstraint (''pk_'' @ t) [''id'']"

definition endpoints_table :: table where
  "endpoints_table =
     \<lparr>ta_name = ''endpoints'',
      ta_columns =
        [required ''id'' Uuid, required ''name'' (String 120), required ''target_url'' Text,
         required ''signing_secret'' LargeBinary, defaulted (Literal ''1'') (required ''secret_version'' Integer),
         defaulted (Literal ''true'') (required ''enabled'' Boolean), defaulted now_default (required ''created_at'' DateTimeTz),
         defaulted now_default (required ''updated_at'' DateTimeTz)],
      ta_constraints =
        [pk ''endpoints'', ck ''endpoints'' ''name_not_empty'' ''length(name) > 0'',
         ck ''endpoints'' ''target_url_not_empty'' ''length(target_url) > 0'',
         ck ''endpoints'' ''signing_secret_not_empty'' ''octet_length(signing_secret) > 0'',
         ck ''endpoints'' ''secret_version_positive'' ''secret_version >= 1'']\<rparr>"

definition events_table :: table where
  "events_table =
     \<lparr>ta_name = ''events'',
      ta_columns =
        [required ''id'' Uuid, required ''source'' (String 120), required ''event_type'' (String 255),
         required ''idempotency_key'' (String 255), required ''payload'' JSONB, required ''payload_bytes'' LargeBinary,
         required ''request_fingerprint_sha256'' (String 64), required ''payload_sha256'' (String 64),
         defaulted now_default (required ''created_at'' DateTimeTz)],
      ta_constraints =
        [pk ''events'', uq ''events'' [''source'', ''idempotency_key''],
         ck ''events'' ''source_not_empty'' ''length(source) > 0'', ck ''events'' ''event_type_not_empty'' ''length(event_type) > 0'',
         ck ''events'' ''idempotency_key_not_empty'' ''length(idempotency_key) > 0'',
         ck ''events'' ''payload_bytes_not_empty'' ''octet_length(payload_bytes) > 0'',
         ck ''events'' ''request_fingerprint_sha256_length'' ''length(request_fingerprint_sha256) = 64'',
         ck ''events'' ''payload_sha256_length'' ''length(payload_sha256) = 64'']\<rparr>"

definition deliveries_table :: table where
  "deliveries_table =
     \<lparr>ta_name = ''deliveries'',
      ta_columns =
        [required ''id'' Uuid, required ''event_id'' Uuid, required ''endpoint_id'' Uuid,
         defaulted (Literal ''0'') (required ''replay_generation'' Integer), optional ''replayed_from_delivery_id'' Uuid,
         optional ''replay_idempotency_key'' (String 255),
         defaulted (Literal (status_value PENDING)) (required ''status'' (Enumeration ''delivery_status'')),
         defaulted (Literal ''0'') (required ''attempt_count'' Integer),
         defaulted now_default (optional ''next_attempt_at'' DateTimeTz), optional ''lease_owner'' (String 160),
         optional ''lease_expires_at'' DateTimeTz, optional ''lease_token'' Uuid, optional ''delivered_at'' DateTimeTz,
         optional ''last_error'' Text, defaulted now_default (required ''created_at'' DateTimeTz),
         defaulted now_default (required ''updated_at'' DateTimeTz)],
      ta_constraints =
        [pk ''deliveries'', uq ''deliveries'' [''event_id'', ''endpoint_id'', ''replay_generation''],
         uq ''deliveries'' [''replayed_from_delivery_id'', ''replay_idempotency_key''],
         fk ''deliveries'' ''event_id'' ''events'' ''RESTRICT'', fk ''deliveries'' ''endpoint_id'' ''endpoints'' ''RESTRICT'',
         fk ''deliveries'' ''replayed_from_delivery_id'' ''deliveries'' ''RESTRICT'',
         ck ''deliveries'' ''replay_generation_nonnegative'' ''replay_generation >= 0'',
         ck ''deliveries'' ''replay_metadata_set_together''
           ''(replayed_from_delivery_id IS NULL) = (replay_idempotency_key IS NULL)'',
         ck ''deliveries'' ''replay_idempotency_key_not_empty''
           ''replay_idempotency_key IS NULL OR length(replay_idempotency_key) > 0'',
         ck ''deliveries'' ''attempt_count_nonnegative'' ''attempt_count >= 0'',
         ck ''deliveries'' ''lease_fields_set_together''
           (''(lease_owner IS NULL) = (lease_expires_at IS NULL) '' @ ''AND (lease_owner IS NULL) = (lease_token IS NULL)''),
         ck ''deliveries'' ''lease_matches_status'' (''(status = '' @ quoted ''in_progress'' @ '') = (lease_owner IS NOT NULL)''),
         ck ''deliveries'' ''delivered_has_timestamp'' (''status != '' @ quoted ''delivered'' @ '' OR delivered_at IS NOT NULL'')]\<rparr>"

definition lifecycle_fields :: string where
  "lifecycle_fields =
     ''(status = '' @ quoted ''in_progress'' @
      '' AND disposition IS NULL AND http_status_code IS NULL '' @
      ''AND error_type IS NULL AND error_message IS NULL '' @
      ''AND response_body_excerpt IS NULL AND duration_ms IS NULL '' @
      ''AND request_timestamp IS NULL AND retry_scheduled_for IS NULL '' @
      ''AND started_at IS NULL AND finished_at IS NULL AND resolved_at IS NULL) OR '' @ ''(status = '' @
      quoted ''completed'' @ '' AND disposition IS NOT NULL AND duration_ms IS NOT NULL '' @
      ''AND request_timestamp IS NOT NULL AND started_at IS NOT NULL '' @
      ''AND finished_at IS NOT NULL AND resolved_at IS NOT NULL) OR '' @ ''(status = '' @
      quoted ''indeterminate'' @ '' AND disposition IS NULL AND http_status_code IS NULL '' @
      ''AND error_type IS NOT NULL AND response_body_excerpt IS NULL '' @
      ''AND duration_ms IS NULL AND request_timestamp IS NULL '' @
      ''AND retry_scheduled_for IS NULL AND started_at IS NULL '' @
      ''AND finished_at IS NULL AND resolved_at IS NOT NULL)''"

definition attempts_table :: table where
  "attempts_table =
     \<lparr>ta_name = ''delivery_attempts'',
      ta_columns =
        [required ''id'' Uuid, required ''delivery_id'' Uuid, required ''attempt_number'' Integer,
         defaulted (Literal (attempt_status_value AT_IN_PROGRESS)) (required ''status'' (Enumeration ''delivery_attempt_status'')),
         required ''lease_token'' Uuid, optional ''disposition'' (Enumeration ''delivery_disposition''),
         optional ''http_status_code'' Integer, optional ''error_type'' (String 120), optional ''error_message'' Text,
         optional ''response_body_excerpt'' Text, optional ''duration_ms'' Integer, optional ''request_timestamp'' BigInteger,
         optional ''retry_scheduled_for'' DateTimeTz, optional ''started_at'' DateTimeTz, optional ''finished_at'' DateTimeTz,
         optional ''resolved_at'' DateTimeTz, defaulted now_default (required ''created_at'' DateTimeTz)],
      ta_constraints =
        [pk ''delivery_attempts'', uq ''delivery_attempts'' [''delivery_id'', ''attempt_number''],
         uq ''delivery_attempts'' [''delivery_id'', ''lease_token''],
         fk ''delivery_attempts'' ''delivery_id'' ''deliveries'' ''CASCADE'',
         ck ''delivery_attempts'' ''attempt_number_positive'' ''attempt_number >= 1'',
         ck ''delivery_attempts'' ''duration_ms_nonnegative'' ''duration_ms >= 0'',
         ck ''delivery_attempts'' ''request_timestamp_nonnegative'' ''request_timestamp >= 0'',
         ck ''delivery_attempts'' ''http_status_code_valid'' ''http_status_code IS NULL OR http_status_code BETWEEN 100 AND 599'',
         ck ''delivery_attempts'' ''timestamps_ordered'' ''finished_at >= started_at'',
         ck ''delivery_attempts'' ''lifecycle_fields'' lifecycle_fields]\<rparr>"

definition models_indexes :: "table_index list" where
  "models_indexes =
     [plain_index ''ix_endpoints_enabled_created_at'' ''endpoints'' [''enabled'', ''created_at''],
      plain_index ''ix_endpoints_created_at_id'' ''endpoints'' [''created_at'', ''id''],
      plain_index ''ix_events_event_type_created_at'' ''events'' [''event_type'', ''created_at''],
      plain_index ''ix_events_created_at_id'' ''events'' [''created_at'', ''id''],
      partial_index ''ix_deliveries_due'' ''deliveries'' [''next_attempt_at'', ''id''] False
        (''status IN ('' @ quoted ''pending'' @ '', '' @ quoted ''retry_wait'' @ '')''),
      plain_index ''ix_deliveries_expired_leases'' ''deliveries'' [''lease_expires_at''],
      plain_index ''ix_deliveries_event_id_created_at'' ''deliveries'' [''event_id'', ''created_at''],
      plain_index ''ix_deliveries_status_updated_at_id'' ''deliveries'' [''status'', ''updated_at'', ''id''],
      partial_index ''uq_deliveries_one_active_per_event_endpoint'' ''deliveries'' [''event_id'', ''endpoint_id''] True
        (''status IN ('' @ quoted ''pending'' @ '', '' @ quoted ''in_progress'' @ '', '' @ quoted ''retry_wait'' @ '')''),
      partial_index ''uq_delivery_attempts_one_in_progress'' ''delivery_attempts'' [''delivery_id''] True
        (''status = '' @ quoted ''in_progress''),
      plain_index ''ix_delivery_attempts_delivery_id_started_at'' ''delivery_attempts'' [''delivery_id'', ''started_at'']]"

text \<open>\<open>values_callable=enum_values\<close>: the values of the members, in the order of the class.\<close>

definition models_enums :: "(string \<times> string list) list" where
  "models_enums =
     [(''delivery_status'', map status_value [PENDING, IN_PROGRESS, RETRY_WAIT, DELIVERED, DEAD_LETTERED]),
      (''delivery_attempt_status'', map attempt_status_value [AT_IN_PROGRESS, AT_COMPLETED, AT_INDETERMINATE]),
      (''delivery_disposition'', map disposition_value [SUCCEEDED, RETRY, TERMINAL_FAILURE])]"

definition models_schema :: schema where
  "models_schema = \<lparr>sh_enums = models_enums, sh_tables = [endpoints_table, events_table, deliveries_table, attempts_table],
     sh_indexes = models_indexes\<rparr>"

end
