(* ===== verification/Backfill.thy ===== *)
theory Backfill
  imports Ledger
begin

text \<open>
  What the revisions do to the rows that exist: revision 0002 fills the new hash of every event,
  revision 0003 turns the completed-only attempt rows into a ledger, revision 0004 adds two empty
  columns to the deliveries.  alembic/env.py runs all of them in one transaction with the statements
  that create their constraints, so rows that do not satisfy them make the whole upgrade fail.  The theory ends with the
  lemmas that a sound history of the first schema becomes a sound ledger of the current one.
\<close>

section \<open>Rows of the first schema\<close>

record event_0001 =
  e1_id :: uuid
  e1_source :: string
  e1_event_type :: string
  e1_idempotency_key :: string
  e1_payload :: "(string \<times> json) list"
  e1_payload_bytes :: bytes
  e1_payload_sha256 :: string
  e1_created_at :: datetime

record delivery_0001 =
  d1_id :: uuid
  d1_event_id :: uuid
  d1_endpoint_id :: uuid
  d1_replay_generation :: int
  d1_status :: delivery_status
  d1_attempt_count :: int
  d1_next_attempt_at :: "datetime option"
  d1_lease_owner :: "string option"
  d1_lease_expires_at :: "datetime option"
  d1_lease_token :: "uuid option"
  d1_delivered_at :: "datetime option"
  d1_last_error :: "string option"
  d1_created_at :: datetime
  d1_updated_at :: datetime

record attempt_0001 =
  a1_id :: uuid
  a1_delivery_id :: uuid
  a1_attempt_number :: int
  a1_disposition :: delivery_disposition
  a1_http_status_code :: "int option"
  a1_error_type :: "string option"
  a1_error_message :: "string option"
  a1_response_body_excerpt :: "string option"
  a1_duration_ms :: int
  a1_request_timestamp :: int
  a1_retry_scheduled_for :: "datetime option"
  a1_started_at :: datetime
  a1_finished_at :: datetime
  a1_created_at :: datetime

record db_0001 =
  b1_endpoints :: "endpoint list"
  b1_events :: "event_0001 list"
  b1_deliveries :: "delivery_0001 list"
  b1_attempts :: "attempt_0001 list"

section \<open>The statements of the revisions\<close>

definition hash_event :: "(bytes \<Rightarrow> string) \<Rightarrow> event_0001 \<Rightarrow> event" where
  "hash_event sha256 e = \<lparr>ev_id = e1_id e, ev_source = e1_source e, ev_event_type = e1_event_type e,
     ev_idempotency_key = e1_idempotency_key e, ev_payload = e1_payload e, ev_payload_bytes = e1_payload_bytes e,
     ev_request_fingerprint_sha256 = e1_payload_sha256 e, ev_payload_sha256 = sha256 (e1_payload_bytes e),
     ev_created_at = e1_created_at e\<rparr>"

text \<open>\<open>UPDATE delivery_attempts SET status = 'completed', lease_token = id, resolved_at = created_at\<close>.\<close>

definition complete_attempt :: "attempt_0001 \<Rightarrow> delivery_attempt" where
  "complete_attempt a = \<lparr>at_id = a1_id a, at_delivery_id = a1_delivery_id a, at_attempt_number = a1_attempt_number a,
     at_status = AT_COMPLETED, at_lease_token = a1_id a, at_disposition = Some (a1_disposition a),
     at_http_status_code = a1_http_status_code a, at_error_type = a1_error_type a,
     at_error_message = a1_error_message a, at_response_body_excerpt = a1_response_body_excerpt a,
     at_duration_ms = Some (a1_duration_ms a), at_request_timestamp = Some (a1_request_timestamp a),
     at_retry_scheduled_for = a1_retry_scheduled_for a, at_started_at = Some (a1_started_at a),
     at_finished_at = Some (a1_finished_at a), at_resolved_at = Some (a1_created_at a), at_created_at = a1_created_at a\<rparr>"

text \<open>The rows that \<open>INSERT INTO delivery_attempts ... SELECT\<close> adds.\<close>

definition lacks_evidence :: "attempt_0001 list \<Rightarrow> delivery_0001 \<Rightarrow> bool" where
  "lacks_evidence as d \<longleftrightarrow> d1_status d = IN_PROGRESS \<and> d1_lease_token d \<noteq> None \<and>
     \<not> list_ex (\<lambda>a. a1_delivery_id a = d1_id d \<and> a1_attempt_number a = d1_attempt_count d) as"

definition open_attempt :: "delivery_0001 \<Rightarrow> delivery_attempt" where
  "open_attempt d = \<lparr>at_id = the (d1_lease_token d), at_delivery_id = d1_id d, at_attempt_number = d1_attempt_count d,
     at_status = AT_IN_PROGRESS, at_lease_token = the (d1_lease_token d), at_disposition = None,
     at_http_status_code = None, at_error_type = None, at_error_message = None, at_response_body_excerpt = None,
     at_duration_ms = None, at_request_timestamp = None, at_retry_scheduled_for = None, at_started_at = None,
     at_finished_at = None, at_resolved_at = None, at_created_at = d1_updated_at d\<rparr>"

definition ledger_attempts :: "delivery_0001 list \<Rightarrow> attempt_0001 list \<Rightarrow> delivery_attempt list" where
  "ledger_attempts ds as = map complete_attempt as @ map open_attempt (filter (lacks_evidence as) ds)"

definition replayable_delivery :: "delivery_0001 \<Rightarrow> delivery" where
  "replayable_delivery d = \<lparr>dl_id = d1_id d, dl_event_id = d1_event_id d, dl_endpoint_id = d1_endpoint_id d,
     dl_replay_generation = d1_replay_generation d, dl_replayed_from_delivery_id = None, dl_replay_idempotency_key = None,
     dl_status = d1_status d, dl_attempt_count = d1_attempt_count d, dl_next_attempt_at = d1_next_attempt_at d,
     dl_lease_owner = d1_lease_owner d, dl_lease_expires_at = d1_lease_expires_at d, dl_lease_token = d1_lease_token d,
     dl_delivered_at = d1_delivered_at d, dl_last_error = d1_last_error d, dl_created_at = d1_created_at d,
     dl_updated_at = d1_updated_at d\<rparr>"

definition upgraded_rows :: "(bytes \<Rightarrow> string) \<Rightarrow> db_0001 \<Rightarrow> db" where
  "upgraded_rows sha256 b = \<lparr>db_endpoints = b1_endpoints b, db_events = map (hash_event sha256) (b1_events b),
     db_deliveries = map replayable_delivery (b1_deliveries b),
     db_attempts = ledger_attempts (b1_deliveries b) (b1_attempts b)\<rparr>"

text \<open>
  The constraints a revision creates are checked against the rows at that point; no later revision
  touches their columns, so together they are the constraints of the current schema.
\<close>

definition upgrade_data :: "(bytes \<Rightarrow> string) \<Rightarrow> db_0001 \<Rightarrow> db option" where
  "upgrade_data sha256 b = (let db = upgraded_rows sha256 b in if db_ok db then Some db else None)"

section \<open>The constraints of the first schema\<close>

definition event_0001_ok :: "event_0001 \<Rightarrow> bool" where
  "event_0001_ok e \<longleftrightarrow>
     varchar 120 (e1_source e) \<and> varchar 255 (e1_event_type e) \<and> varchar 255 (e1_idempotency_key e) \<and>
     jsonb (JObj (e1_payload e)) \<and> length (e1_source e) > 0 \<and> length (e1_event_type e) > 0 \<and>
     length (e1_idempotency_key e) > 0 \<and> length (e1_payload_bytes e) > 0 \<and>
     pg_text (e1_payload_sha256 e) \<and> length (e1_payload_sha256 e) = 64"

definition delivery_0001_ok :: "delivery_0001 \<Rightarrow> bool" where
  "delivery_0001_ok d \<longleftrightarrow>
     int4 (d1_replay_generation d) \<and> int4 (d1_attempt_count d) \<and> null_or (varchar 160) (d1_lease_owner d) \<and>
     null_or pg_text (d1_last_error d) \<and> d1_replay_generation d \<ge> 0 \<and> d1_attempt_count d \<ge> 0 \<and>
     ((d1_lease_owner d = None) = (d1_lease_expires_at d = None) \<and>
      (d1_lease_owner d = None) = (d1_lease_token d = None)) \<and>
     (d1_status d \<noteq> DELIVERED \<or> d1_delivered_at d \<noteq> None)"

definition attempt_0001_ok :: "attempt_0001 \<Rightarrow> bool" where
  "attempt_0001_ok a \<longleftrightarrow>
     int4 (a1_attempt_number a) \<and> null_or int4 (a1_http_status_code a) \<and> null_or (varchar 120) (a1_error_type a) \<and>
     int4 (a1_duration_ms a) \<and> int8 (a1_request_timestamp a) \<and>
     null_or pg_text (a1_error_message a) \<and> null_or pg_text (a1_response_body_excerpt a) \<and>
     a1_attempt_number a \<ge> 1 \<and> a1_duration_ms a \<ge> 0 \<and> a1_request_timestamp a \<ge> 0 \<and>
     null_or (\<lambda>c. 100 \<le> c \<and> c \<le> 599) (a1_http_status_code a) \<and> a1_finished_at a \<ge> a1_started_at a"

definition db_0001_ok :: "db_0001 \<Rightarrow> bool" where
  "db_0001_ok b \<longleftrightarrow> endpoints_ok (b1_endpoints b) \<and>
     distinct (map e1_id (b1_events b)) \<and> list_all event_0001_ok (b1_events b) \<and>
     unique_on (\<lambda>e. (e1_source e, e1_idempotency_key e)) (b1_events b) \<and>
     distinct (map d1_id (b1_deliveries b)) \<and> list_all delivery_0001_ok (b1_deliveries b) \<and>
     unique_on (\<lambda>d. (d1_event_id d, d1_endpoint_id d, d1_replay_generation d)) (b1_deliveries b) \<and>
     distinct (map a1_id (b1_attempts b)) \<and> list_all attempt_0001_ok (b1_attempts b) \<and>
     unique_on (\<lambda>a. (a1_delivery_id a, a1_attempt_number a)) (b1_attempts b) \<and>
     list_all (\<lambda>d. d1_event_id d \<in> e1_id ` set (b1_events b) \<and> d1_endpoint_id d \<in> ep_id ` set (b1_endpoints b))
       (b1_deliveries b) \<and>
     list_all (\<lambda>a. a1_delivery_id a \<in> d1_id ` set (b1_deliveries b)) (b1_attempts b)"

section \<open>A sound history of the first schema\<close>

text \<open>
  What the revision's comments say of the earlier worker: a row is written only when its transport
  has completed, and a delivery in progress has consumed its attempt number without evidence.
\<close>

definition evidenced :: "delivery_0001 \<Rightarrow> int" where
  "evidenced d = (if d1_status d = IN_PROGRESS then d1_attempt_count d - 1 else d1_attempt_count d)"

definition history_row :: "int \<Rightarrow> attempt_0001 list \<Rightarrow> delivery_0001 \<Rightarrow> bool" where
  "history_row m as d \<longleftrightarrow>
     (let A = set (filter (\<lambda>a. a1_delivery_id a = d1_id d) as) in
      a1_attempt_number ` A = {1..evidenced d} \<and> 0 \<le> evidenced d \<and> d1_attempt_count d \<le> m \<and>
      (d1_status d = IN_PROGRESS) = (d1_lease_owner d \<noteq> None) \<and>
      (d1_next_attempt_at d \<noteq> None \<longleftrightarrow> d1_status d \<in> {PENDING, RETRY_WAIT}) \<and>
      (d1_status d = PENDING \<longrightarrow> d1_attempt_count d = 0) \<and>
      (d1_status d = DELIVERED \<longrightarrow> (\<exists>a \<in> A. a1_disposition a = SUCCEEDED)) \<and>
      (\<forall>a \<in> A. a1_disposition a = SUCCEEDED \<longrightarrow> d1_status d = DELIVERED \<and> a1_attempt_number a = d1_attempt_count d))"

text \<open>Lease tokens come from \<open>uuid4()\<close>: no two are equal and none is the key of an attempt row.\<close>

definition leases_fresh :: "db_0001 \<Rightarrow> bool" where
  "leases_fresh b \<longleftrightarrow> distinct (map d1_lease_token (filter (\<lambda>d. d1_lease_token d \<noteq> None) (b1_deliveries b))) \<and>
     list_all (\<lambda>d. null_or (\<lambda>t. t \<notin> a1_id ` set (b1_attempts b)) (d1_lease_token d)) (b1_deliveries b)"

definition history_ok :: "int \<Rightarrow> db_0001 \<Rightarrow> bool" where
  "history_ok m b \<longleftrightarrow> db_0001_ok b \<and> leases_fresh b \<and> list_all (history_row m (b1_attempts b)) (b1_deliveries b) \<and>
     unique_where (\<lambda>d. active_status (d1_status d)) (\<lambda>d. (d1_event_id d, d1_endpoint_id d)) (b1_deliveries b)"

section \<open>The upgraded rows\<close>

lemma upgraded_sel [simp]:
  "db_endpoints (upgraded_rows f b) = b1_endpoints b" "db_events (upgraded_rows f b) = map (hash_event f) (b1_events b)"
  "db_deliveries (upgraded_rows f b) = map replayable_delivery (b1_deliveries b)"
  "db_attempts (upgraded_rows f b) = ledger_attempts (b1_deliveries b) (b1_attempts b)"
  by (simp_all add: upgraded_rows_def)

lemma hash_event_sel [simp]:
  "ev_id (hash_event f e) = e1_id e" "ev_source (hash_event f e) = e1_source e"
  "ev_idempotency_key (hash_event f e) = e1_idempotency_key e"
  by (simp_all add: hash_event_def)

lemma replayable_delivery_sel [simp]:
  "dl_id (replayable_delivery d) = d1_id d" "dl_event_id (replayable_delivery d) = d1_event_id d"
  "dl_endpoint_id (replayable_delivery d) = d1_endpoint_id d"
  "dl_replay_generation (replayable_delivery d) = d1_replay_generation d"
  "dl_replayed_from_delivery_id (replayable_delivery d) = None" "dl_replay_idempotency_key (replayable_delivery d) = None"
  "dl_status (replayable_delivery d) = d1_status d" "dl_attempt_count (replayable_delivery d) = d1_attempt_count d"
  "dl_lease_token (replayable_delivery d) = d1_lease_token d"
  "dl_next_attempt_at (replayable_delivery d) = d1_next_attempt_at d"
  by (simp_all add: replayable_delivery_def)

lemma complete_attempt_sel [simp]:
  "at_id (complete_attempt a) = a1_id a" "at_delivery_id (complete_attempt a) = a1_delivery_id a"
  "at_attempt_number (complete_attempt a) = a1_attempt_number a" "at_status (complete_attempt a) = AT_COMPLETED"
  "at_lease_token (complete_attempt a) = a1_id a" "at_disposition (complete_attempt a) = Some (a1_disposition a)"
  by (simp_all add: complete_attempt_def)

lemma open_attempt_sel [simp]:
  "at_id (open_attempt d) = the (d1_lease_token d)" "at_delivery_id (open_attempt d) = d1_id d"
  "at_attempt_number (open_attempt d) = d1_attempt_count d" "at_status (open_attempt d) = AT_IN_PROGRESS"
  "at_lease_token (open_attempt d) = the (d1_lease_token d)" "at_disposition (open_attempt d) = None"
  by (simp_all add: open_attempt_def)

lemma unique_where_map: "unique_where P key (map f xs) = unique_where (\<lambda>x. P (f x)) (\<lambda>x. key (f x)) xs"
  by (simp add: unique_where_def filter_map comp_def)

lemma unique_where_append:
  "unique_where P key (xs @ ys) \<longleftrightarrow> unique_where P key xs \<and> unique_where P key ys \<and>
     key ` {x \<in> set xs. P x} \<inter> key ` {y \<in> set ys. P y} = {}"
  by (auto simp: unique_where_def)

lemma unique_where_distinct:
  assumes d: "distinct (map h xs)" and key: "\<And>x y. x \<in> set xs \<Longrightarrow> y \<in> set xs \<Longrightarrow> key x = key y \<Longrightarrow> h x = h y"
  shows "unique_where P key xs"
proof -
  have "inj_on key (set (filter P xs))"
  proof (rule inj_onI)
    fix x y assume "x \<in> set (filter P xs)" "y \<in> set (filter P xs)" "key x = key y"
    then have "x \<in> set xs" "y \<in> set xs" "h x = h y" using key by auto
    then show "x = y" using d by (metis distinct_map inj_onD)
  qed
  then show ?thesis using d by (simp add: unique_where_def distinct_map)
qed

lemma image_avoids: "(\<And>d. d \<in> D \<Longrightarrow> f d \<notin> X) \<Longrightarrow> X \<inter> f ` D = {}"
  by auto

section \<open>The rows satisfy the constraints\<close>

lemma hash_event_ok:
  "event_0001_ok e \<Longrightarrow> \<forall>x. length (f x) = 64 \<and> pg_text (f x) \<Longrightarrow> event_row_ok (hash_event f e)"
  by (simp add: event_0001_ok_def event_row_ok_def hash_event_def)

lemma replayable_delivery_ok:
  "delivery_0001_ok d \<Longrightarrow> history_row m as d \<Longrightarrow> delivery_row_ok (replayable_delivery d)"
  by (auto simp: delivery_0001_ok_def delivery_row_ok_def replayable_delivery_def history_row_def null_or_def Let_def)

lemma complete_attempt_ok: "attempt_0001_ok a \<Longrightarrow> attempt_row_ok (complete_attempt a)"
  by (simp add: attempt_0001_ok_def attempt_row_ok_def complete_attempt_def null_or_def)

lemma open_attempt_ok:
  "delivery_0001_ok d \<Longrightarrow> history_row m as d \<Longrightarrow> d1_status d = IN_PROGRESS \<Longrightarrow> attempt_row_ok (open_attempt d)"
  by (simp add: delivery_0001_ok_def attempt_row_ok_def open_attempt_def null_or_def history_row_def Let_def evidenced_def)

lemma history_okD:
  assumes "history_ok m b"
  shows "db_0001_ok b" "leases_fresh b"
    "d \<in> set (b1_deliveries b) \<Longrightarrow> history_row m (b1_attempts b) d"
    "d \<in> set (b1_deliveries b) \<Longrightarrow> delivery_0001_ok d"
    "a \<in> set (b1_attempts b) \<Longrightarrow> attempt_0001_ok a"
  using assms by (auto simp: history_ok_def db_0001_ok_def list_all_iff)

text \<open>A delivery in progress has no evidence for its attempt number yet, so the insertion covers it.\<close>

lemma lacks_evidence_iff:
  assumes "history_ok m b" "d \<in> set (b1_deliveries b)"
  shows "lacks_evidence (b1_attempts b) d \<longleftrightarrow> d1_status d = IN_PROGRESS"
proof -
  let ?A = "{a \<in> set (b1_attempts b). a1_delivery_id a = d1_id d}"
  have num: "a1_attempt_number ` ?A = {1..evidenced d}" and lease: "(d1_status d = IN_PROGRESS) = (d1_lease_owner d \<noteq> None)"
    using history_okD(3)[OF assms] by (simp_all add: history_row_def Let_def)
  have "d1_status d = IN_PROGRESS \<Longrightarrow> a \<in> ?A \<Longrightarrow> a1_attempt_number a \<noteq> d1_attempt_count d" for a
    using imageI[of a ?A a1_attempt_number] num by (auto simp: evidenced_def)
  then show ?thesis using lease history_okD(4)[OF assms]
    by (auto simp: lacks_evidence_def list_ex_iff delivery_0001_ok_def)
qed

lemma open_rows:
  assumes "history_ok m b"
  shows "filter (lacks_evidence (b1_attempts b)) (b1_deliveries b) = filter (\<lambda>d. d1_status d = IN_PROGRESS) (b1_deliveries b)"
  using lacks_evidence_iff[OF assms] by (intro filter_cong) auto

lemma in_progress_token:
  assumes "history_ok m b" "d \<in> set (b1_deliveries b)" "d1_status d = IN_PROGRESS"
  obtains t where "d1_lease_token d = Some t" "t \<notin> a1_id ` set (b1_attempts b)"
  using lacks_evidence_iff[OF assms(1,2)] assms(3) history_okD(2)[OF assms(1)] assms(2)
  by (fastforce simp: lacks_evidence_def leases_fresh_def list_all_iff null_or_def)

lemma token_unique:
  assumes "history_ok m b" "d \<in> set (b1_deliveries b)" "e \<in> set (b1_deliveries b)"
    "d1_status d = IN_PROGRESS" "d1_status e = IN_PROGRESS" "the (d1_lease_token d) = the (d1_lease_token e)"
  shows "d = e"
proof -
  from in_progress_token[OF assms(1,2,4)] obtain t where t: "d1_lease_token d = Some t" .
  from in_progress_token[OF assms(1,3,5)] obtain u where u: "d1_lease_token e = Some u" .
  show ?thesis using history_okD(2)[OF assms(1)] assms(2,3,6) t u
    by (auto simp: leases_fresh_def distinct_map inj_on_def)
qed

lemma ledger_attempts_ok:
  assumes h: "history_ok m b"
  shows "attempts_ok (ledger_attempts (b1_deliveries b) (b1_attempts b))"
proof -
  let ?O = "filter (\<lambda>d. d1_status d = IN_PROGRESS) (b1_deliveries b)"
  have las: "ledger_attempts (b1_deliveries b) (b1_attempts b) = map complete_attempt (b1_attempts b) @ map open_attempt ?O"
    by (simp add: ledger_attempts_def open_rows[OF h])
  have b: "db_0001_ok b" by (rule history_okD(1)[OF h])
  have ds: "distinct (b1_deliveries b)" "inj_on d1_id (set (b1_deliveries b))"
    using b by (auto simp: db_0001_ok_def distinct_map)
  have tok: "inj_on (\<lambda>d. the (d1_lease_token d)) (set ?O)"
    using token_unique[OF h] by (auto intro!: inj_onI)
  have fresh: "d \<in> set ?O \<Longrightarrow> the (d1_lease_token d) \<notin> a1_id ` set (b1_attempts b)" for d
    by (simp, elim conjE in_progress_token[OF h]) auto
  have num: "d \<in> set ?O \<Longrightarrow> a \<in> set (b1_attempts b) \<Longrightarrow> a1_delivery_id a = d1_id d \<Longrightarrow> a1_attempt_number a \<noteq> d1_attempt_count d" for d a
    using lacks_evidence_iff[OF h, of d] by (auto simp: lacks_evidence_def list_ex_iff)
  have ids: "distinct (map d1_id ?O)" using ds by (simp add: distinct_map inj_on_def)
  have "map at_id (map complete_attempt (b1_attempts b) @ map open_attempt ?O) =
      map a1_id (b1_attempts b) @ map (\<lambda>d. the (d1_lease_token d)) ?O" by (simp add: comp_def)
  moreover have "distinct (map (\<lambda>d. the (d1_lease_token d)) ?O)" using ds(1) tok by (simp add: distinct_map)
  moreover have "distinct (map a1_id (b1_attempts b))" using b by (simp add: db_0001_ok_def)
  moreover have "set (map a1_id (b1_attempts b)) \<inter> set (map (\<lambda>d. the (d1_lease_token d)) ?O) = {}"
    unfolding set_map using fresh by (rule image_avoids)
  ultimately have "distinct (map at_id (map complete_attempt (b1_attempts b) @ map open_attempt ?O))"
    by (simp only: distinct_append)
  moreover have "list_all attempt_row_ok (map complete_attempt (b1_attempts b) @ map open_attempt ?O)"
    using complete_attempt_ok[OF history_okD(5)[OF h]] open_attempt_ok[OF history_okD(4)[OF h] history_okD(3)[OF h]]
    by (auto simp: list_all_iff)
  moreover have "unique_on (\<lambda>a. (at_delivery_id a, at_attempt_number a)) (map complete_attempt (b1_attempts b) @ map open_attempt ?O)"
  proof -
    have "unique_on (\<lambda>d. (d1_id d, d1_attempt_count d)) ?O" by (rule unique_where_distinct[OF ids]) simp
    moreover have "unique_on (\<lambda>a. (a1_delivery_id a, a1_attempt_number a)) (b1_attempts b)" using b by (simp add: db_0001_ok_def)
    ultimately show ?thesis using num by (auto simp: unique_where_append unique_where_map)
  qed
  moreover have "unique_on (\<lambda>a. (at_delivery_id a, at_lease_token a)) (map complete_attempt (b1_attempts b) @ map open_attempt ?O)"
  proof -
    have "unique_on (\<lambda>d. (d1_id d, the (d1_lease_token d))) ?O" by (rule unique_where_distinct[OF ids]) simp
    moreover have "unique_on (\<lambda>a. (a1_delivery_id a, a1_id a)) (b1_attempts b)"
      using b by (intro unique_where_distinct[where h = a1_id]) (simp_all add: db_0001_ok_def)
    moreover have "a1_id a \<noteq> the (d1_lease_token d)" if "d \<in> set ?O" "a \<in> set (b1_attempts b)" for d a
      using fresh[OF that(1)] that(2) by (metis imageI)
    ultimately show ?thesis by (auto simp: unique_where_append unique_where_map)
  qed
  moreover have "unique_where (\<lambda>a. at_status a = AT_IN_PROGRESS) at_delivery_id (map complete_attempt (b1_attempts b) @ map open_attempt ?O)"
    using unique_where_distinct[OF ids, of d1_id] ids by (auto simp: unique_where_append unique_where_map unique_where_def comp_def)
  ultimately show ?thesis by (simp add: attempts_ok_def las)
qed

lemma upgraded_db_ok:
  assumes h: "history_ok m b" and sha: "\<forall>x. length (f x) = 64 \<and> pg_text (f x)"
  shows "db_ok (upgraded_rows f b)"
proof -
  have b: "db_0001_ok b" by (rule history_okD(1)[OF h])
  have "events_ok (map (hash_event f) (b1_events b))"
    using b hash_event_ok[OF _ sha] by (simp add: events_ok_def db_0001_ok_def comp_def unique_where_map list_all_iff)
  moreover have "list_all delivery_row_ok (map replayable_delivery (b1_deliveries b))"
    using replayable_delivery_ok[OF history_okD(4)[OF h] history_okD(3)[OF h]] by (auto simp: list_all_iff)
  then have "deliveries_ok (map replayable_delivery (b1_deliveries b))"
    using b h by (simp add: deliveries_ok_def db_0001_ok_def history_ok_def comp_def unique_where_map generation_key_def
        chain_key_def is_active_def replay_key_set_def) (simp add: unique_where_def)
  moreover have "foreign_keys_ok (upgraded_rows f b)"
    using b by (auto simp: foreign_keys_ok_def db_0001_ok_def list_all_iff null_or_def ledger_attempts_def image_image)
  ultimately show ?thesis using b ledger_attempts_ok[OF h] by (simp add: db_ok_def db_0001_ok_def)
qed

section \<open>The ledger of the upgraded rows\<close>

lemma upgraded_attempts_for:
  assumes h: "history_ok m b" and d: "d \<in> set (b1_deliveries b)"
  shows "attempts_for (d1_id d) (upgraded_rows f b) =
    complete_attempt ` {a \<in> set (b1_attempts b). a1_delivery_id a = d1_id d} \<union>
    (if d1_status d = IN_PROGRESS then {open_attempt d} else {})"
proof -
  have same: "d1_id e = d1_id d \<Longrightarrow> e \<in> set (b1_deliveries b) \<Longrightarrow> e = d" for e
    using history_okD(1)[OF h] d by (auto simp: db_0001_ok_def distinct_map dest: inj_onD)
  show ?thesis using d by (auto simp: attempts_for_def ledger_attempts_def open_rows[OF h] dest: same)
qed

lemma upgraded_ledger_row:
  assumes h: "history_ok m b" and d: "d \<in> set (b1_deliveries b)"
  shows "ledger_row m (attempts_for (d1_id d) (upgraded_rows f b)) (replayable_delivery d)"
proof -
  let ?A = "{a \<in> set (b1_attempts b). a1_delivery_id a = d1_id d}"
  let ?O = "if d1_status d = IN_PROGRESS then {open_attempt d} else {}"
  note row = history_okD(3)[OF h d, unfolded history_row_def Let_def set_filter]
  have num: "at_attempt_number ` (complete_attempt ` ?A \<union> ?O) = {1..d1_attempt_count d}"
    using row by (auto simp: image_Un image_image evidenced_def)
  have hold: "holds_lease (replayable_delivery d) (open_attempt d)" if "d1_status d = IN_PROGRESS"
    by (rule in_progress_token[OF h d that]) (simp add: holds_lease_def that)
  show ?thesis
  proof (cases "d1_status d = IN_PROGRESS")
    case True
    with num hold row show ?thesis by (simp add: upgraded_attempts_for[OF h d] ledger_row_def)
  next
    case False
    with num row show ?thesis by (simp add: upgraded_attempts_for[OF h d] ledger_row_def)
  qed
qed

text \<open>A sound history becomes a sound ledger, and the upgrade does not fail on it.\<close>

lemma upgrade_data_ledger:
  assumes "history_ok m b" "\<forall>x. length (f x) = 64 \<and> pg_text (f x)"
  shows "upgrade_data f b = Some (upgraded_rows f b)" "ledger_ok m (upgraded_rows f b)"
  using upgraded_db_ok[OF assms] upgraded_ledger_row[OF assms(1)] by (auto simp: upgrade_data_def ledger_ok_def)

end
