(* ===== verification/Upgrades.thy ===== *)
theory Upgrades
  imports Revisions Backfill
begin

text \<open>
  The properties of the schema revisions: the chain of upgrades builds the schema that models.py
  declares and every downgrade returns to the schema before it, and the statements that fill rows
  turn a sound history of the first schema into a sound ledger.
\<close>

section \<open>The chain of revisions\<close>

definition schema_at :: "nat \<Rightarrow> schema option" where
  "schema_at k = apply_all (concat (map fst (take k revisions))) empty_schema"

text \<open>PostgreSQL cuts a name after 63 bytes.\<close>

definition schema_names :: "schema \<Rightarrow> string list" where
  "schema_names s = map fst (sh_enums s) @ map in_name (sh_indexes s) @
     concat (map (\<lambda>t. ta_name t # column_names t @ map constraint_name (ta_constraints t)) (sh_tables s))"

definition reaches_models :: bool where
  "reaches_models = (case schema_at 5 of None \<Rightarrow> False | Some s \<Rightarrow> same_schema s models_schema)"

definition reverts :: "nat \<Rightarrow> bool" where
  "reverts k =
     (case schema_at k of
        None \<Rightarrow> False
      | Some s \<Rightarrow>
         (case apply_all (fst (revisions ! k)) s of
            None \<Rightarrow> False
          | Some s' \<Rightarrow> (case apply_all (snd (revisions ! k)) s' of None \<Rightarrow> False | Some s'' \<Rightarrow> same_schema s'' s)))"

text \<open>All downgrades but that of 0002 restore the very lists; that one moves a constraint to the end.\<close>

definition reverts_exactly :: "nat \<Rightarrow> bool" where
  "reverts_exactly k =
     (case schema_at k of
        None \<Rightarrow> False
      | Some s \<Rightarrow> Option.bind (apply_all (fst (revisions ! k)) s) (apply_all (snd (revisions ! k))) = Some s)"

lemma same_elements_refl: "same_elements xs xs"
  by (simp add: same_elements_def list_all_iff)

lemma same_schema_refl: "same_schema s s"
proof -
  have "same_table t t" for t by (simp add: same_table_def same_elements_refl)
  then show ?thesis by (auto simp: same_schema_def same_elements_refl list_all_iff list_ex_iff)
qed

lemma reverts_exactlyD: "reverts_exactly k \<Longrightarrow> reverts k"
  by (auto simp: reverts_def reverts_exactly_def same_schema_refl bind_eq_Some_conv split: option.splits)

lemma head_is_models: reaches_models
  by code_simp

lemma revert_0001: "reverts_exactly 0"
  by code_simp

lemma revert_0002: "reverts 1"
  by code_simp

lemma revert_0003: "reverts_exactly 2"
  by code_simp

lemma revert_0004: "reverts_exactly 3"
  by code_simp

lemma revert_0005: "reverts_exactly 4"
  by code_simp

lemma names_fit: "list_all (\<lambda>n. length n \<le> 63) (schema_names models_schema)"
  by code_simp

lemma apply_all_append: "apply_all (ds @ es) s = Option.bind (apply_all ds s) (apply_all es)"
  by (induction ds arbitrary: s) (auto split: Option.bind_split)

lemma schema_at_Suc:
  assumes "k < length revisions"
  shows "schema_at (Suc k) = Option.bind (schema_at k) (apply_all (fst (revisions ! k)))"
  using assms by (simp add: schema_at_def take_Suc_conv_app_nth apply_all_append)

lemma reverts_all: "k < length revisions \<Longrightarrow> reverts k"
  using revert_0002 revert_0001 revert_0003 revert_0004 revert_0005 reverts_exactlyD
  by (auto simp: revisions_def less_Suc_eq eval_nat_numeral)

section \<open>Properties\<close>

text \<open>
  C35.  The migrations and the ORM agree.  Running the five upgrades on an empty database succeeds
  statement by statement and builds exactly the schema models.py declares: the same enumerations
  with their values in the same order, tables, columns with types, nullability and stored defaults,
  constraints with names and expressions, and indexes; none of its names is long enough for
  PostgreSQL to cut it.  And every revision can be taken back: its downgrade runs after its upgrade
  and restores the schema before it.
\<close>

theorem migrations_match_models:
  "(\<exists>s. apply_all (concat (map fst revisions)) empty_schema = Some s \<and> same_schema s models_schema) \<and>
   list_all (\<lambda>n. length n \<le> 63) (schema_names models_schema) \<and>
   list_all (\<lambda>k. \<exists>s s' s''. schema_at k = Some s \<and> schema_at (Suc k) = Some s' \<and>
     apply_all (snd (revisions ! k)) s' = Some s'' \<and> same_schema s'' s) [0..<length revisions]"
proof (intro conjI)
  show "\<exists>s. apply_all (concat (map fst revisions)) empty_schema = Some s \<and> same_schema s models_schema"
    using head_is_models by (auto simp: reaches_models_def schema_at_def revisions_def split: option.splits)
  show "list_all (\<lambda>n. length n \<le> 63) (schema_names models_schema)" by (rule names_fit)
  have "\<exists>s s' s''. schema_at k = Some s \<and> schema_at (Suc k) = Some s' \<and>
     apply_all (snd (revisions ! k)) s' = Some s'' \<and> same_schema s'' s" if "k < length revisions" for k
    using reverts_all[OF that] schema_at_Suc[OF that] by (auto simp: reverts_def split: option.splits)
  then show "list_all (\<lambda>k. \<exists>s s' s''. schema_at k = Some s \<and> schema_at (Suc k) = Some s' \<and>
     apply_all (snd (revisions ! k)) s' = Some s'' \<and> same_schema s'' s) [0..<length revisions]"
    by (simp add: list_all_iff)
qed

text \<open>
  C36.  The backfill is sound.  Take rows of the first schema that satisfy its constraints and whose
  history is what the earlier worker kept: attempts numbered without gaps, a row only for a
  completed transport, one active delivery per event and endpoint, lease tokens not used elsewhere.
  Then the upgrade does not fail on any constraint it adds, and the result satisfies the ledger
  invariant under which the current worker is correct: every old row is completed evidence with its
  own key as token, and every delivery that was leased during the deployment has an open row that
  carries its lease, so the lease can be finalized or recovered.
\<close>

theorem backfill_sound:
  assumes "history_ok m b" "\<forall>x. length (sha256 x) = 64 \<and> pg_text (sha256 x)"
  shows "\<exists>db. upgrade_data sha256 b = Some db \<and> ledger_ok m db \<and>
    db_attempts db = map complete_attempt (b1_attempts b) @
      map open_attempt (filter (\<lambda>d. d1_status d = IN_PROGRESS) (b1_deliveries b)) \<and>
    db_deliveries db = map replayable_delivery (b1_deliveries b)"
  using upgrade_data_ledger[OF assms] open_rows[OF assms(1)]
  by (intro exI[of _ "upgraded_rows sha256 b"]) (simp add: ledger_attempts_def)

definition fx_history :: db_0001 where
  "fx_history = \<lparr>
     b1_endpoints = [\<lparr>ep_id = 1, ep_name = ''lab'', ep_target_url = ''http://lab/'', ep_signing_secret = [1],
       ep_secret_version = 1, ep_enabled = True, ep_created_at = 0, ep_updated_at = 0\<rparr>],
     b1_events = [\<lparr>e1_id = 2, e1_source = ''shop'', e1_event_type = ''order.created'', e1_idempotency_key = ''k1'',
       e1_payload = [], e1_payload_bytes = [123, 125], e1_payload_sha256 = replicate 64 CHR ''a'', e1_created_at = 0\<rparr>],
     b1_deliveries = [\<lparr>d1_id = 3, d1_event_id = 2, d1_endpoint_id = 1, d1_replay_generation = 0,
       d1_status = IN_PROGRESS, d1_attempt_count = 2, d1_next_attempt_at = None, d1_lease_owner = Some ''worker-1'',
       d1_lease_expires_at = Some 9, d1_lease_token = Some 5, d1_delivered_at = None, d1_last_error = None,
       d1_created_at = 0, d1_updated_at = 7\<rparr>],
     b1_attempts = [\<lparr>a1_id = 4, a1_delivery_id = 3, a1_attempt_number = 1, a1_disposition = RETRY,
       a1_http_status_code = Some 503, a1_error_type = None, a1_error_message = None, a1_response_body_excerpt = None,
       a1_duration_ms = 2, a1_request_timestamp = 1, a1_retry_scheduled_for = Some 5, a1_started_at = 1,
       a1_finished_at = 3, a1_created_at = 4\<rparr>]\<rparr>"

lemma fx_history_ok: "history_ok 8 fx_history"
  by (simp add: fx_history_def history_ok_def db_0001_ok_def leases_fresh_def history_row_def evidenced_def
      endpoints_ok_def endpoint_row_ok_def event_0001_ok_def delivery_0001_ok_def attempt_0001_ok_def unique_where_def
      null_or_def varchar_def int4_def int8_def pg_text_def)

theorem backfill_sound_witness:
  "\<exists>db. upgrade_data (\<lambda>x. replicate 64 CHR ''a'') fx_history = Some db \<and> ledger_ok 8 db \<and>
    map at_status (db_attempts db) = [AT_COMPLETED, AT_IN_PROGRESS] \<and> map at_lease_token (db_attempts db) = [4, 5]"
  using backfill_sound[OF fx_history_ok, of "\<lambda>x. replicate 64 CHR ''a''"]
  by (auto simp: pg_text_def) (simp_all add: fx_history_def)

end
