(* ===== verification/Scripting.thy ===== *)
theory Scripting
  imports Serialization
begin

text \<open>
  What the operator scripts under src/infra share: the character classes and the small regular
  expressions they use, line splitting, dictionaries as association lists in insertion order, and
  the pieces of a URL.  \<open>urlsplit\<close>, \<open>parse_qs\<close> and \<open>unquote\<close> themselves are arguments of the
  definitions that use them.
\<close>

section \<open>Characters\<close>

definition code_in :: "nat \<Rightarrow> nat \<Rightarrow> char \<Rightarrow> bool" where
  "code_in lo hi c \<longleftrightarrow> lo \<le> (of_char c :: nat) \<and> (of_char c :: nat) \<le> hi"

definition digit09 :: "char \<Rightarrow> bool" where
  "digit09 c \<longleftrightarrow> code_in 48 57 c"

definition lower_az :: "char \<Rightarrow> bool" where
  "lower_az c \<longleftrightarrow> code_in 97 122 c"

definition lower_alnum :: "char \<Rightarrow> bool" where
  "lower_alnum c \<longleftrightarrow> lower_az c \<or> digit09 c"

definition lower_hex :: "char \<Rightarrow> bool" where
  "lower_hex c \<longleftrightarrow> digit09 c \<or> code_in 97 102 c"

definition any_hex :: "char \<Rightarrow> bool" where
  "any_hex c \<longleftrightarrow> lower_hex c \<or> code_in 65 70 c"

text \<open>\<open>[0-9a-f]{64}\<close>, matched in full.\<close>

definition sha256_hex_text :: "string \<Rightarrow> bool" where
  "sha256_hex_text s \<longleftrightarrow> length s = 64 \<and> list_all lower_hex s"

fun remove_prefix :: "string \<Rightarrow> string \<Rightarrow> string option" where
  "remove_prefix [] s = Some s"
| "remove_prefix (p # ps) [] = None"
| "remove_prefix (p # ps) (c # cs) = (if p = c then remove_prefix ps cs else None)"

lemma remove_prefix_Some: "remove_prefix p s = Some r \<longleftrightarrow> s = p @ r"
  by (induction p s rule: remove_prefix.induct) auto

text \<open>\<open>@sha256:[0-9a-f]{64}\<close>, matched in full.\<close>

definition digest_suffix :: "string \<Rightarrow> bool" where
  "digest_suffix s = (case remove_prefix ''@sha256:'' s of None \<Rightarrow> False | Some h \<Rightarrow> sha256_hex_text h)"

definition ends_with :: "string \<Rightarrow> string \<Rightarrow> bool" where
  "ends_with x s \<longleftrightarrow> length x \<le> length s \<and> drop (length s - length x) s = x"

section \<open>Lines\<close>

text \<open>The line boundaries of \<open>str.splitlines\<close> among the code points below 256.\<close>

definition line_break :: "char \<Rightarrow> bool" where
  "line_break c \<longleftrightarrow> (of_char c :: nat) \<in> {10, 11, 12, 13, 28, 29, 30, 133}"

fun splitlines :: "string \<Rightarrow> string \<Rightarrow> string list" where
  "splitlines acc [] = (if acc = [] then [] else [rev acc])"
| "splitlines acc (c # cs) =
     (if \<not> line_break c then splitlines (c # acc) cs
      else rev acc # (if c = CHR 0x0D \<and> cs \<noteq> [] \<and> hd cs = CHR 0x0A then splitlines [] (tl cs) else splitlines [] cs))"

lemma splitlines_line:
  "list_all (\<lambda>c. \<not> line_break c) l \<Longrightarrow> splitlines acc (l @ [CHR 0x0A] @ rest) = (rev acc @ l) # splitlines [] rest"
  by (induction l arbitrary: acc) (simp_all add: line_break_def)

lemma splitlines_concat:
  "list_all (list_all (\<lambda>c. \<not> line_break c)) ls \<Longrightarrow> splitlines [] (concat (map (\<lambda>l. l @ [CHR 0x0A]) ls)) = ls"
  by (induction ls) (simp_all add: splitlines_line[of _ "[]", simplified])

lemma line_break_isspace: "line_break c \<Longrightarrow> py_isspace c"
  by (auto simp: line_break_def py_isspace_def)

text \<open>\<open>str.partition\<close> at one character.\<close>

fun partition_at :: "char \<Rightarrow> string \<Rightarrow> (string \<times> string) option" where
  "partition_at x [] = None"
| "partition_at x (c # cs) =
     (if c = x then Some ([], cs) else map_option (\<lambda>(k, v). (c # k, v)) (partition_at x cs))"

lemma partition_at_append: "x \<notin> set k \<Longrightarrow> partition_at x (k @ x # v) = Some (k, v)"
  by (induction k) auto

section \<open>Dictionaries\<close>

definition dict_set :: "'k \<Rightarrow> 'v \<Rightarrow> ('k \<times> 'v) list \<Rightarrow> ('k \<times> 'v) list" where
  "dict_set k v d = (if k \<in> fst ` set d then map (\<lambda>kv. if fst kv = k then (k, v) else kv) d else d @ [(k, v)])"

lemma map_of_replace:
  "map_of (map (\<lambda>kv. if fst kv = k then (k, v) else kv) d) =
     (if k \<in> fst ` set d then (map_of d)(k \<mapsto> v) else map_of d)"
  by (induction d) (auto simp: fun_upd_twist)

lemma dict_set_map_of [simp]: "map_of (dict_set k v d) = (map_of d)(k \<mapsto> v)"
proof (cases "k \<in> fst ` set d")
  case True
  then show ?thesis by (simp add: dict_set_def map_of_replace)
next
  case False
  then have "map_of d k = None" by (simp add: map_of_eq_None_iff)
  with False show ?thesis by (auto simp: dict_set_def map_add_def split: option.splits)
qed

lemma map_fst_replace: "map fst (map (\<lambda>kv. if fst kv = k then (k, v) else kv) d) = map fst d"
  by simp

lemma dict_set_fst: "map fst (dict_set k v d) = (if k \<in> fst ` set d then map fst d else map fst d @ [k])"
  by (simp add: dict_set_def map_fst_replace del: map_map)

lemma dict_set_keys [simp]: "fst ` set (dict_set k v d) = insert k (fst ` set d)"
proof (cases "k \<in> fst ` set d")
  case True
  then have "set (map fst (dict_set k v d)) = set (map fst d)" by (simp only: dict_set_fst if_True)
  with True show ?thesis by (simp add: insert_absorb)
next
  case False
  then show ?thesis by (simp add: dict_set_def)
qed

lemma dict_set_distinct [simp]: "distinct (map fst d) \<Longrightarrow> distinct (map fst (dict_set k v d))"
  by (simp add: dict_set_fst)

section \<open>URLs\<close>

text \<open>
  The pieces of \<open>urlsplit\<close> and its derived attributes; \<open>port\<close> raises \<open>ValueError\<close> when it is not a
  number below 65536.
\<close>

record split_url =
  su_scheme :: string
  su_netloc :: string
  su_path :: string
  su_query :: string
  su_fragment :: string
  su_hostname :: "string option"
  su_username :: "string option"
  su_password :: "string option"
  su_port :: "int option res"

definition blank :: "string option \<Rightarrow> bool" where
  "blank v \<longleftrightarrow> v = None \<or> v = Some []"

text \<open>
  The condition both scripts put on the query: no parameter but \<open>ssl\<close>, and that once, with one of
  two values.
\<close>

definition safe_ssl_query :: "(string \<times> string list) list \<Rightarrow> bool" where
  "safe_ssl_query query \<longleftrightarrow> set (map fst query) \<subseteq> {''ssl''} \<and>
     (case map_of query ''ssl'' of None \<Rightarrow> True | Some vs \<Rightarrow> vs = [''require''] \<or> vs = [''verify-full''])"

end
