(* ===== verification/Migration.thy ===== *)
theory Migration
  imports Scripting Schema
begin

text \<open>
  The PostgreSQL copy job, src/infra/azure-shared-postgres/migrate.py: a script that copies one
  database to a second server by way of a private backup.  A job is a function from the state of
  the process (what it has asked the outside world and been answered, its files, its phase) to an
  exception or a value, and the new state.  The outside world is a record of functions from the
  history so far, so every behaviour of the servers, of the network and of other clients is some
  such record: which answers the programs psql, pg_dump and pg_restore give, what the identity and
  storage services reply, whether the keeper of the snapshot lives.  The functions of the Python
  library that only compute (\<open>json.loads\<close>, \<open>urlsplit\<close>, the hashes, ...) are fields of the record too.
  File contents are strings, one character for each byte.
\<close>

section \<open>Jobs\<close>

text \<open>
  \<open>SafeError\<close> carries its static message; of the other exceptions only those matter that the script
  catches by class, \<open>ValueError\<close> and \<open>TypeError\<close>.
\<close>

datatype job_exn = SafeError string | ValueOrTypeError | OtherException

record command =
  cm_arguments :: "string list"
  cm_env :: "(string \<times> string) list"
  cm_sql :: "string option"

text \<open>
  A program that could not be run or timed out; one whose output is not text; or one that ended with
  a return code, its stderr, its stdout, and the file it was told to write.
\<close>

datatype native_outcome = NativeFailed | Undecodable | Completed int string string "string option"

datatype keeper_outcome = NotStarted | NoLine | Line string

record http_request =
  rq_method :: string
  rq_url :: string
  rq_headers :: "(string \<times> string) list"
  rq_data :: "string option"

text \<open>\<open>headers.get\<close>, the blocks that reading the body gives, and whether reading then raises.\<close>

record http_reply =
  rp_header :: "string \<Rightarrow> string option"
  rp_blocks :: "string list"
  rp_breaks :: bool

datatype http_outcome = HttpFailed | HttpReply http_reply

datatype event =
    Native command native_outcome
  | KeeperOpened command keeper_outcome
  | KeeperPolled bool
  | Http http_request http_outcome

record world =
  wd_native :: "event list \<Rightarrow> command \<Rightarrow> native_outcome"
  wd_keeper :: "event list \<Rightarrow> command \<Rightarrow> keeper_outcome"
  wd_keeper_alive :: "event list \<Rightarrow> bool"
  wd_http :: "event list \<Rightarrow> http_request \<Rightarrow> http_outcome"
  wd_formatdate :: "event list \<Rightarrow> string"
  wd_isoformat :: "event list \<Rightarrow> string"
  wd_path :: string
  wd_directory :: string
  wd_loads :: "string \<Rightarrow> json option"
  wd_dumps :: "json \<Rightarrow> string"
  wd_urlsplit :: "string \<Rightarrow> split_url res"
  wd_parse_qs :: "string \<Rightarrow> (string \<times> string list) list"
  wd_unquote :: "string \<Rightarrow> string"
  wd_urlencode :: "(string \<times> string) list \<Rightarrow> string"
  wd_sha256 :: "string \<Rightarrow> string"
  wd_md5_base64 :: "string \<Rightarrow> string"

record job_state =
  js_history :: "event list"
  js_files :: "string \<Rightarrow> string option"
  js_phase :: string

type_synonym 'a job = "job_state \<Rightarrow> (job_exn + 'a) \<times> job_state"

definition ret :: "'a \<Rightarrow> 'a job" where
  "ret x = (\<lambda>s. (Inr x, s))"

definition raise :: "job_exn \<Rightarrow> 'a job" where
  "raise e = (\<lambda>s. (Inl e, s))"

definition bind :: "'a job \<Rightarrow> ('a \<Rightarrow> 'b job) \<Rightarrow> 'b job" where
  "bind m f = (\<lambda>s. case m s of (Inl e, s') \<Rightarrow> (Inl e, s') | (Inr x, s') \<Rightarrow> f x s')"

text \<open>\<open>if not ok: raise SafeError(message)\<close>.\<close>

definition require :: "bool \<Rightarrow> string \<Rightarrow> unit job" where
  "require ok message = (if ok then ret () else raise (SafeError message))"

definition only_if :: "bool \<Rightarrow> unit job \<Rightarrow> unit job" where
  "only_if b m = (if b then m else ret ())"

fun for_each :: "('a \<Rightarrow> 'b job) \<Rightarrow> 'a list \<Rightarrow> 'b list job" where
  "for_each f [] = ret []"
| "for_each f (x # xs) = bind (f x) (\<lambda>y. bind (for_each f xs) (\<lambda>ys. ret (y # ys)))"

text \<open>\<open>except Exception\<close>: any exception becomes the given one.\<close>

definition on_error :: "'a job \<Rightarrow> (job_exn \<Rightarrow> job_exn) \<Rightarrow> 'a job" where
  "on_error m g = (\<lambda>s. case m s of (Inl e, s') \<Rightarrow> (Inl (g e), s') | (Inr x, s') \<Rightarrow> (Inr x, s'))"

definition set_phase :: "string \<Rightarrow> unit job" where
  "set_phase p = (\<lambda>s. (Inr (), s\<lparr>js_phase := p\<rparr>))"

definition put_file :: "string \<Rightarrow> string option \<Rightarrow> unit job" where
  "put_file path content = (\<lambda>s. (Inr (), s\<lparr>js_files := (js_files s)(path := content)\<rparr>))"

definition get_file :: "string \<Rightarrow> string option job" where
  "get_file path = (\<lambda>s. (Inr (js_files s path), s))"

text \<open>\<open>finally: path.unlink(missing_ok=True)\<close>.\<close>

definition finally_unlink :: "string \<Rightarrow> 'a job \<Rightarrow> 'a job" where
  "finally_unlink path m = (\<lambda>s. let (r, s') = m s in (r, s'\<lparr>js_files := (js_files s')(path := None)\<rparr>))"

definition run_command :: "world \<Rightarrow> command \<Rightarrow> native_outcome job" where
  "run_command wd c =
     (\<lambda>s. let r = wd_native wd (js_history s) c in (Inr r, s\<lparr>js_history := js_history s @ [Native c r]\<rparr>))"

definition send :: "world \<Rightarrow> http_request \<Rightarrow> http_outcome job" where
  "send wd q = (\<lambda>s. let r = wd_http wd (js_history s) q in (Inr r, s\<lparr>js_history := js_history s @ [Http q r]\<rparr>))"

definition open_keeper :: "world \<Rightarrow> command \<Rightarrow> keeper_outcome job" where
  "open_keeper wd c =
     (\<lambda>s. let r = wd_keeper wd (js_history s) c in (Inr r, s\<lparr>js_history := js_history s @ [KeeperOpened c r]\<rparr>))"

definition poll_keeper :: "world \<Rightarrow> bool job" where
  "poll_keeper wd =
     (\<lambda>s. let b = wd_keeper_alive wd (js_history s) in (Inr b, s\<lparr>js_history := js_history s @ [KeeperPolled b]\<rparr>))"

definition stamp :: "(event list \<Rightarrow> string) \<Rightarrow> string job" where
  "stamp clock = (\<lambda>s. (Inr (clock (js_history s)), s))"

section \<open>Values of Python\<close>

definition py_truthy :: "json \<Rightarrow> bool" where
  "py_truthy v =
     (case v of
        JNull \<Rightarrow> False | JBool b \<Rightarrow> b | JInt i \<Rightarrow> i \<noteq> 0 | JFloat f \<Rightarrow> f \<noteq> Finite 0
      | JStr s \<Rightarrow> s \<noteq> [] | JArr vs \<Rightarrow> vs \<noteq> [] | JObj kvs \<Rightarrow> kvs \<noteq> [])"

definition py_number :: "json \<Rightarrow> py_float option" where
  "py_number v =
     (case v of
        JBool b \<Rightarrow> Some (Finite (if b then 1 else 0)) | JInt i \<Rightarrow> Some (Finite (of_int i)) | JFloat f \<Rightarrow> Some f | _ \<Rightarrow> None)"

text \<open>\<open>==\<close> on values read from JSON: dictionaries without their order, numbers by value.\<close>

fun py_eq :: "json \<Rightarrow> json \<Rightarrow> bool" where
  "py_eq v w =
     (case (v, w) of
        (JNull, JNull) \<Rightarrow> True
      | (JStr s, JStr t) \<Rightarrow> s = t
      | (JArr xs, JArr ys) \<Rightarrow> list_all2 py_eq xs ys
      | (JObj a, JObj b) \<Rightarrow> length a = length b \<and>
          list_all (\<lambda>kv. case map_of b (fst kv) of None \<Rightarrow> False | Some x \<Rightarrow> py_eq (snd kv) x) a
      | _ \<Rightarrow>
         (case (py_number v, py_number w) of
            (Some x, Some y) \<Rightarrow> x = y \<and> x \<noteq> NaN
          | _ \<Rightarrow> False))"

declare py_eq.simps [simp del]

text \<open>\<open>v[k]\<close> with a string key, \<open>v.get(k)\<close>, iteration, and a method of strings applied to \<open>v\<close>.\<close>

definition item :: "json \<Rightarrow> string \<Rightarrow> json job" where
  "item v k =
     (case v of
        JObj kvs \<Rightarrow> (case map_of kvs k of None \<Rightarrow> raise OtherException | Some x \<Rightarrow> ret x)
      | _ \<Rightarrow> raise ValueOrTypeError)"

definition get_or_null :: "(string \<times> json) list \<Rightarrow> string \<Rightarrow> json" where
  "get_or_null kvs k = (case map_of kvs k of None \<Rightarrow> JNull | Some x \<Rightarrow> x)"

definition mapping_items :: "job_exn \<Rightarrow> json \<Rightarrow> (string \<times> json) list job" where
  "mapping_items e v = (case v of JObj kvs \<Rightarrow> ret kvs | _ \<Rightarrow> raise e)"

definition elements :: "json \<Rightarrow> json list job" where
  "elements v =
     (case v of
        JArr vs \<Rightarrow> ret vs
      | JObj kvs \<Rightarrow> ret (map (\<lambda>kv. JStr (fst kv)) kvs)
      | JStr s \<Rightarrow> ret (map (\<lambda>c. JStr [c]) s)
      | _ \<Rightarrow> raise ValueOrTypeError)"

definition text_of :: "json \<Rightarrow> string job" where
  "text_of v = (case v of JStr s \<Rightarrow> ret s | _ \<Rightarrow> raise OtherException)"

section \<open>Constants and quoting\<close>

definition SOURCE_HOST :: string where
  "SOURCE_HOST = ''psql-pulseexchange-prod-kj25jhmdlk6ik.postgres.database.azure.com''"

definition TARGET_HOST :: string where
  "TARGET_HOST = ''psql-eventharbor-prod-dodczqz7eaeps.postgres.database.azure.com''"

definition SOURCE_DB :: string where
  "SOURCE_DB = ''pulseexchange''"

definition TARGETS :: "string \<Rightarrow> (string \<times> string) option" where
  "TARGETS k =
     (if k = ''final'' then Some (''pulseexchange'', ''pulseexchange_app'')
      else if k = ''rehearsal'' then Some (''pulseexchange_rehearsal'', ''pulseexchange_rehearsal_app'')
      else None)"

definition MAX_DUMP_BYTES :: int where
  "MAX_DUMP_BYTES = 256 * 1024 * 1024"

definition MAX_MANIFEST_BYTES :: nat where
  "MAX_MANIFEST_BYTES = 4 * 1024 * 1024"

definition PSQL :: "string list" where
  "PSQL = [''psql'', ''-X'', ''--no-password'', ''--quiet'', ''--tuples-only'', ''--no-align'', ''--set'', ''ON_ERROR_STOP=1'',
     ''--set'', ''VERBOSITY=sqlstate'']"

definition double_char :: "char \<Rightarrow> string \<Rightarrow> string" where
  "double_char q s = concat (map (\<lambda>c. if c = q then [q, q] else [c]) s)"

definition ident :: "string \<Rightarrow> string" where
  "ident v = [CHR 0x22] @ double_char CHR 0x22 v @ [CHR 0x22]"

definition literal :: "string \<Rightarrow> string" where
  "literal v = [CHR 0x27] @ double_char CHR 0x27 v @ [CHR 0x27]"

section \<open>Databases\<close>

record database =
  db_host :: string
  db_name :: string
  db_user :: string
  db_password :: string

definition has_control :: "string \<Rightarrow> bool" where
  "has_control s \<longleftrightarrow> list_ex (\<lambda>c. c \<in> {CHR 0x00, CHR 0x0D, CHR 0x0A}) s"

definition remove_slash :: "string \<Rightarrow> string" where
  "remove_slash p = (case remove_prefix ''/'' p of None \<Rightarrow> p | Some r \<Rightarrow> r)"

definition database_parse :: "world \<Rightarrow> string \<Rightarrow> bool \<Rightarrow> database job" where
  "database_parse wd v source =
     (let failure = SafeError ''Database URL does not match the fixed migration endpoints and safe TLS settings.'';
          expected = (if source then SOURCE_HOST else TARGET_HOST);
          allowed = (if source then [SOURCE_DB] else [''eventharbor'', ''postgres'']) in
      case wd_urlsplit wd v of
        Inl _ \<Rightarrow> raise failure
      | Inr url \<Rightarrow>
          if su_scheme url \<notin> {''postgresql'', ''postgresql+asyncpg''} \<or> su_hostname url \<noteq> Some expected \<or>
             su_port url \<notin> {Inr None, Inr (Some 5432)} \<or> su_fragment url \<noteq> [] \<or>
             remove_slash (su_path url) \<notin> set allowed \<or> blank (su_username url) \<or> blank (su_password url) \<or>
             \<not> safe_ssl_query (wd_parse_qs wd (su_query url))
          then raise failure
          else let user = wd_unquote wd (the (su_username url)); password = wd_unquote wd (the (su_password url)) in
            if has_control (user @ password) then raise failure
            else ret \<lparr>db_host = expected, db_name = (if source then SOURCE_DB else ''postgres''), db_user = user,
                      db_password = password\<rparr>)"

definition READ_ONLY_OPTION :: string where
  "READ_ONLY_OPTION = '' -c default_transaction_read_only=on''"

definition database_env :: "world \<Rightarrow> database \<Rightarrow> string \<Rightarrow> bool \<Rightarrow> (string \<times> string) list" where
  "database_env wd db run_id readonly =
     [(''PATH'', wd_path wd), (''LANG'', ''C.UTF-8''), (''PGHOST'', db_host db), (''PGPORT'', ''5432''),
      (''PGDATABASE'', db_name db), (''PGUSER'', db_user db), (''PGPASSWORD'', db_password db),
      (''PGSSLMODE'', ''verify-full''), (''PGSSLROOTCERT'', ''/etc/ssl/certs/ca-certificates.crt''),
      (''PGCONNECT_TIMEOUT'', ''15''), (''PGCLIENTENCODING'', ''UTF8''), (''PGAPPNAME'', ''shared-pg-'' @ run_id),
      (''PGOPTIONS'',
        ''-c TimeZone=UTC -c DateStyle=ISO -c IntervalStyle=postgres '' @
        ''-c extra_float_digits=3 -c standard_conforming_strings=on '' @
        ''-c client_min_messages=warning -c statement_timeout=600000 '' @ ''-c lock_timeout=15000'' @
        (if readonly then READ_ONLY_OPTION else []))]"

section \<open>Programs\<close>

definition native :: "world \<Rightarrow> string list \<Rightarrow> (string \<times> string) list \<Rightarrow> string option \<Rightarrow> string option \<Rightarrow> string job" where
  "native wd arguments environment sql written =
     bind (run_command wd \<lparr>cm_arguments = arguments, cm_env = environment, cm_sql = sql\<rparr>)
       (\<lambda>r. case r of
          NativeFailed \<Rightarrow> raise (SafeError ''PostgreSQL client failed or timed out; diagnostics are withheld.'')
        | Undecodable \<Rightarrow> raise ValueOrTypeError
        | Completed code err out produced \<Rightarrow>
            bind (case written of None \<Rightarrow> ret () | Some p \<Rightarrow> put_file p produced)
              (\<lambda>_. if code \<noteq> 0 \<or> err \<noteq> []
                then raise (SafeError (''PostgreSQL client reported an error or warning (exit code '' @ str_int code @
                  ''); diagnostics are withheld.''))
                else ret out))"

text \<open>\<open>re.search(rb"\(PostgreSQL\) 17(?:\.|\s)", value)\<close>.\<close>

fun client_17 :: "string \<Rightarrow> bool" where
  "client_17 [] = False"
| "client_17 (c # cs) =
     ((case remove_prefix ''(PostgreSQL) 17'' (c # cs) of
         Some (d # _) \<Rightarrow> d = CHR ''.'' \<or> (of_char d :: nat) \<in> {9, 10, 11, 12, 13, 32}
       | _ \<Rightarrow> False) \<or> client_17 cs)"

definition require_client :: "world \<Rightarrow> string \<Rightarrow> unit job" where
  "require_client wd program =
     bind (native wd [program, ''--version''] [(''PATH'', wd_path wd)] None None)
       (\<lambda>v. require (client_17 v) ''All PostgreSQL client programs must have major version 17.'')"

definition require_clients :: "world \<Rightarrow> unit job" where
  "require_clients wd = bind (for_each (require_client wd) [''psql'', ''pg_dump'', ''pg_restore'']) (\<lambda>_. ret ())"

section \<open>One connection\<close>

record pg =
  pg_database :: database
  pg_run_id :: string

text \<open>\<open>[0-9A-Fa-f]+-[0-9A-Fa-f]+-[0-9]+\<close>, matched in full.\<close>

definition snapshot_id :: "string \<Rightarrow> bool" where
  "snapshot_id s =
     (case partition_at CHR ''-'' s of
        None \<Rightarrow> False
      | Some (a, r) \<Rightarrow>
         (case partition_at CHR ''-'' r of
            None \<Rightarrow> False
          | Some (b, n) \<Rightarrow> a \<noteq> [] \<and> list_all any_hex a \<and> b \<noteq> [] \<and> list_all any_hex b \<and> n \<noteq> [] \<and> list_all digit09 n))"

definition snapshot_script :: "string \<Rightarrow> string \<Rightarrow> string" where
  "snapshot_script snapshot query =
     ''BEGIN ISOLATION LEVEL REPEATABLE READ READ ONLY;'' @ [CHR 0x0A] @ ''SET TRANSACTION SNAPSHOT '' @ literal snapshot @
     '';'' @ [CHR 0x0A] @ query @ [CHR 0x0A] @ ''ROLLBACK;''"

definition sql ::
  "world \<Rightarrow> pg \<Rightarrow> string \<Rightarrow> bool \<Rightarrow> string option \<Rightarrow> (string \<times> string) list \<Rightarrow> string option \<Rightarrow> string job" where
  "sql wd p query readonly snapshot extra_env written =
     (let environment = foldl (\<lambda>d kv. dict_set (fst kv) (snd kv) d)
            (database_env wd (pg_database p) (pg_run_id p) readonly) extra_env in
      if blank snapshot then native wd PSQL environment (Some query) written
      else bind (require (snapshot_id (the snapshot)) ''Invalid exported snapshot identifier.'')
        (\<lambda>_. native wd PSQL environment (Some (snapshot_script (the snapshot) query)) written))"

definition sql_json :: "world \<Rightarrow> pg \<Rightarrow> string \<Rightarrow> string option \<Rightarrow> json job" where
  "sql_json wd p query snapshot =
     on_error (bind (sql wd p query True snapshot [] None)
         (\<lambda>out. case wd_loads wd out of None \<Rightarrow> raise ValueOrTypeError | Some v \<Rightarrow> ret v))
       (\<lambda>e. case e of
          ValueOrTypeError \<Rightarrow> SafeError ''PostgreSQL returned an unexpected result; raw output is withheld.''
        | _ \<Rightarrow> e)"

section \<open>The statements\<close>

definition USER_SCHEMA :: string where
  "USER_SCHEMA =
     ''n.nspname NOT LIKE '' @ quoted (''pg'' @ [CHR 0x5C] @ ''_%'') @ '' ESCAPE '' @ quoted [CHR 0x5C] @
     '' AND n.nspname <> '' @ quoted ''information_schema''"

definition version_query :: string where
  "version_query =
     ''SELECT current_setting('' @ quoted ''server_version_num'' @ '')::integer;''"

definition sessions_query :: "string \<Rightarrow> string" where
  "sessions_query run_id =
     ''SELECT count(*) FROM pg_stat_activity WHERE datname = '' @ literal SOURCE_DB @
     '' AND pid <> pg_backend_pid() AND application_name <> '' @ literal (''shared-pg-'' @ run_id) @ '';''"

definition locale_query :: string where
  "locale_query =
     ''SELECT json_build_object('' @ quoted ''encoding'' @ '', pg_encoding_to_char(encoding), '' @ quoted ''collate'' @
     '', datcollate, '' @ quoted ''ctype'' @ '', datctype, '' @ quoted ''provider'' @
     '', datlocprovider) FROM pg_database WHERE datname = current_database();''"

definition unusual_query :: string where
  "unusual_query =
     ''SELECT (SELECT count(*) FROM pg_extension WHERE extname <> '' @ quoted ''plpgsql'' @
     '') + (SELECT count(*) FROM pg_largeobject_metadata) + (SELECT count(*) FROM pg_class c JOIN pg_namespace n ON n.oid=c.relnamespace WHERE '' @
     USER_SCHEMA @ '' AND c.relkind='' @ quoted ''f'' @ '');''"

definition tables_query :: string where
  "tables_query =
     ''SELECT coalesce(json_agg(json_build_object('' @ quoted ''schema'' @ '', n.nspname, '' @ quoted ''name'' @
     '', c.relname, '' @ quoted ''kind'' @ '', c.relkind) ORDER BY n.nspname,c.relname), '' @ quoted ''[]'' @
     ''::json) FROM pg_class c JOIN pg_namespace n ON n.oid=c.relnamespace WHERE '' @ USER_SCHEMA @
     '' AND c.relkind IN ('' @ quoted ''r'' @ '','' @ quoted ''m'' @ '');''"

definition columns_query :: "string \<Rightarrow> string" where
  "columns_query name =
     ''SELECT coalesce(json_agg(json_build_array(a.attname, format_type(a.atttypid,a.atttypmod),a.attnotnull) ORDER BY a.attnum),'' @
     quoted ''[]'' @ ''::json) FROM pg_attribute a WHERE a.attrelid='' @ literal name @
     ''::regclass AND a.attnum>0 AND NOT a.attisdropped;''"

definition rows_query :: "string \<Rightarrow> string" where
  "rows_query name =
     ''COPY (SELECT to_jsonb(t)::text AS payload FROM '' @ name @ '' AS t ORDER BY (to_jsonb(t)::text) COLLATE '' @
     [CHR 0x22] @ ''C'' @ [CHR 0x22] @ '') TO STDOUT;''"

definition sequences_query :: string where
  "sequences_query =
     ''SELECT coalesce(json_agg(json_build_array(n.nspname,c.relname) ORDER BY n.nspname,c.relname),'' @ quoted ''[]'' @
     ''::json) FROM pg_class c JOIN pg_namespace n ON n.oid=c.relnamespace WHERE '' @ USER_SCHEMA @
     '' AND c.relkind='' @ quoted ''S'' @ '';''"

definition sequence_query :: "string \<Rightarrow> string \<Rightarrow> string" where
  "sequence_query schema name =
     ''SELECT json_build_object('' @ quoted ''last_value'' @ '',last_value,'' @ quoted ''is_called'' @
     '',is_called) FROM '' @ ident schema @ ''.'' @ ident name @ '';''"

definition alembic_query :: string where
  "alembic_query =
     ''SELECT coalesce(json_agg(version_num ORDER BY version_num),'' @ quoted ''[]'' @
     ''::json) FROM public.alembic_version;''"

definition owners_query :: string where
  "owners_query =
     ''SELECT coalesce(json_agg(json_build_object('' @ quoted ''schema'' @ '',n.nspname,'' @ quoted ''name'' @
     '',c.relname,'' @ quoted ''owner'' @ '',pg_get_userbyid(c.relowner)) ORDER BY n.nspname,c.relname),'' @
     quoted ''[]'' @ ''::json) FROM pg_class c JOIN pg_namespace n ON n.oid=c.relnamespace WHERE '' @ USER_SCHEMA @
     '' AND c.relkind IN ('' @ quoted ''r'' @ '','' @ quoted ''m'' @ '');''"

definition absent_query :: "string \<Rightarrow> string \<Rightarrow> string" where
  "absent_query db role =
     ''SELECT (SELECT count(*) FROM pg_database WHERE datname='' @ literal db @
     '') + (SELECT count(*) FROM pg_roles WHERE rolname='' @ literal role @ '');''"

definition create_role_script :: "string \<Rightarrow> string \<Rightarrow> string" where
  "create_role_script run_id role =
     [CHR 0x5C] @ ''getenv migration_password MIGRATION_NEW_PASSWORD'' @ [CHR 0x0A] @ ''BEGIN;'' @ [CHR 0x0A] @
     ''SET LOCAL createrole_self_grant='' @ quoted ''set'' @ '';'' @ [CHR 0x0A] @ ''CREATE ROLE '' @ ident role @
     '' LOGIN PASSWORD :'' @ quoted ''migration_password'' @
     '' NOSUPERUSER NOCREATEDB NOCREATEROLE NOREPLICATION NOBYPASSRLS;'' @ [CHR 0x0A] @ ''COMMENT ON ROLE '' @
     ident role @ '' IS '' @ literal (''shared-postgres-helper:'' @ run_id) @ '';'' @ [CHR 0x0A] @ ''COMMIT;''"

definition create_database_script :: "string \<Rightarrow> string \<Rightarrow> string \<Rightarrow> string \<Rightarrow> string" where
  "create_database_script db role collate ctype =
     ''CREATE DATABASE '' @ ident db @ '' OWNER '' @ ident role @ '' TEMPLATE template0 ENCODING '' @ quoted ''UTF8'' @
     '' LOCALE_PROVIDER libc LC_COLLATE '' @ literal collate @ '' LC_CTYPE '' @ literal ctype @ '';''"

definition restrict_script :: "string \<Rightarrow> string \<Rightarrow> string \<Rightarrow> string" where
  "restrict_script run_id db role =
     ''BEGIN;'' @ [CHR 0x0A] @ ''SET LOCAL ROLE '' @ ident role @ '';'' @ [CHR 0x0A] @
     ''REVOKE CONNECT,TEMPORARY ON DATABASE '' @ ident db @ '' FROM PUBLIC;'' @ [CHR 0x0A] @ ''COMMENT ON DATABASE '' @
     ident db @ '' IS '' @ literal (''shared-postgres-helper:'' @ run_id) @ '';'' @ [CHR 0x0A] @ ''COMMIT;''"

definition targets_query :: string where
  "targets_query =
     ''SELECT coalesce(json_agg(datname ORDER BY datname),'' @ quoted ''[]'' @
     ''::json) FROM pg_database WHERE datname IN ('' @ quoted ''pulseexchange'' @ '','' @
     quoted ''pulseexchange_rehearsal'' @ '');''"

definition capacity_query :: string where
  "capacity_query =
     ''SELECT json_build_object('' @ quoted ''max_connections'' @ '',current_setting('' @ quoted ''max_connections'' @
     '')::integer,'' @ quoted ''current_connections'' @ '',(SELECT count(*) FROM pg_stat_activity));''"

section \<open>The operations of a connection\<close>

definition require_version :: "world \<Rightarrow> pg \<Rightarrow> unit job" where
  "require_version wd p =
     bind (sql_json wd p version_query None)
       (\<lambda>v. case py_number v of
          None \<Rightarrow> raise ValueOrTypeError
        | Some (Finite x) \<Rightarrow> require (170000 \<le> x \<and> x < 180000) ''Both servers must run PostgreSQL major version 17.''
        | Some _ \<Rightarrow> raise (SafeError ''Both servers must run PostgreSQL major version 17.''))"

definition require_frozen :: "world \<Rightarrow> pg \<Rightarrow> unit job" where
  "require_frozen wd p =
     bind (sql_json wd p (sessions_query (pg_run_id p)) None)
       (\<lambda>count. require (\<not> py_truthy count)
          (''Source still has other database sessions. Stop API, processor, maintenance '' @ ''and migration clients first.''))"

text \<open>
  The keeper: one psql that exports a snapshot and stays in its transaction while the block runs.
  It must still run when the block ends; \<open>finally\<close> rolls it back in every case.
\<close>

definition keeper_script :: string where
  "keeper_script =
     ''BEGIN ISOLATION LEVEL REPEATABLE READ READ ONLY;'' @ [CHR 0x0A] @
     ''SET LOCAL idle_in_transaction_session_timeout = '' @ quoted ''30min'' @ '';'' @ [CHR 0x0A] @
     ''SELECT pg_export_snapshot();'' @ [CHR 0x0A]"

definition with_snapshot :: "world \<Rightarrow> pg \<Rightarrow> (string \<Rightarrow> 'a job) \<Rightarrow> 'a job" where
  "with_snapshot wd p block =
     bind (open_keeper wd \<lparr>cm_arguments = PSQL, cm_env = database_env wd (pg_database p) (pg_run_id p) True,
             cm_sql = Some keeper_script\<rparr>)
       (\<lambda>r. case r of
          NotStarted \<Rightarrow> raise OtherException
        | NoLine \<Rightarrow> raise (SafeError ''Timed out exporting a consistent database snapshot.'')
        | Line l \<Rightarrow>
            bind (require (snapshot_id (py_strip l)) ''Could not export a consistent database snapshot.'')
              (\<lambda>_. bind (block (py_strip l))
                (\<lambda>x. bind (poll_keeper wd)
                  (\<lambda>alive. bind (require alive ''The snapshot keeper ended before validation completed.'')
                    (\<lambda>_. ret x)))))"

definition pg_locale :: "world \<Rightarrow> pg \<Rightarrow> json job" where
  "pg_locale wd p =
     bind (sql_json wd p locale_query None)
       (\<lambda>v. bind (item v ''encoding'')
         (\<lambda>enc. bind (if py_eq enc (JStr ''UTF8'') then item v ''provider'' else ret JNull)
           (\<lambda>prov. bind (require (py_eq enc (JStr ''UTF8'') \<and> py_eq prov (JStr ''c''))
               (''This helper only supports the existing UTF8/libc locale; '' @ ''review other locale providers separately.''))
             (\<lambda>_. ret v))))"

definition file_lines :: "string \<Rightarrow> int" where
  "file_lines s = int (length (filter (\<lambda>c. c = CHR 0x0A) s)) + (if s \<noteq> [] \<and> last s \<noteq> CHR 0x0A then 1 else 0)"

definition is_alembic_table :: "json \<Rightarrow> bool job" where
  "is_alembic_table t =
     bind (item t ''schema'') (\<lambda>s. if py_eq s (JStr ''public'') then bind (item t ''name'')
       (\<lambda>n. ret (py_eq n (JStr ''alembic_version''))) else ret False)"

fun any_alembic :: "json list \<Rightarrow> bool job" where
  "any_alembic [] = ret False"
| "any_alembic (t # ts) = bind (is_alembic_table t) (\<lambda>b. if b then ret True else any_alembic ts)"

definition row_file :: "world \<Rightarrow> string" where
  "row_file wd = wd_directory wd @ ''/rows.private''"

definition table_manifest :: "world \<Rightarrow> pg \<Rightarrow> string \<Rightarrow> json \<Rightarrow> json job" where
  "table_manifest wd p snapshot t =
     bind (item t ''schema'') (\<lambda>s. bind (text_of s) (\<lambda>schema. bind (item t ''name'') (\<lambda>n. bind (text_of n) (\<lambda>name.
     let full = ident schema @ ''.'' @ ident name in
     bind (sql_json wd p (columns_query full) (Some snapshot)) (\<lambda>columns.
     finally_unlink (row_file wd)
       (bind (put_file (row_file wd) (Some [])) (\<lambda>_.
        bind (sql wd p (rows_query full) True (Some snapshot) [] (Some (row_file wd))) (\<lambda>_.
        bind (get_file (row_file wd)) (\<lambda>content.
        let rows = (case content of None \<Rightarrow> [] | Some c \<Rightarrow> c) in
        bind (mapping_items ValueOrTypeError t) (\<lambda>kvs.
        ret (JObj (dict_set ''sha256'' (JStr (wd_sha256 wd rows)) (dict_set ''rows'' (JInt (file_lines rows))
          (dict_set ''columns'' columns kvs))))))))))))))"

definition sequence_manifest :: "world \<Rightarrow> pg \<Rightarrow> string \<Rightarrow> json \<Rightarrow> json job" where
  "sequence_manifest wd p snapshot pair =
     bind (elements pair) (\<lambda>parts.
       case parts of
         [s, n] \<Rightarrow>
           bind (text_of s) (\<lambda>schema. bind (text_of n) (\<lambda>name.
           bind (sql_json wd p (sequence_query schema name) (Some snapshot)) (\<lambda>v.
           bind (mapping_items ValueOrTypeError v) (\<lambda>kvs.
           ret (JObj (foldl (\<lambda>d kv. dict_set (fst kv) (snd kv) d) [(''schema'', s), (''name'', n)] kvs))))))
       | _ \<Rightarrow> raise ValueOrTypeError)"

definition pg_manifest :: "world \<Rightarrow> pg \<Rightarrow> string \<Rightarrow> json job" where
  "pg_manifest wd p snapshot =
     bind (sql_json wd p unusual_query (Some snapshot)) (\<lambda>unusual.
     bind (require (\<not> py_truthy unusual)
       ''Extensions, large objects or foreign tables require a separately reviewed migration.'') (\<lambda>_.
     bind (sql_json wd p tables_query (Some snapshot)) (\<lambda>tables.
     bind (elements tables) (\<lambda>ts.
     bind (any_alembic ts) (\<lambda>found.
     bind (require found ''Expected public.alembic_version is missing.'') (\<lambda>_.
     bind (for_each (table_manifest wd p snapshot) ts) (\<lambda>table_values.
     bind (sql_json wd p sequences_query (Some snapshot)) (\<lambda>sequences.
     bind (elements sequences) (\<lambda>ss.
     bind (for_each (sequence_manifest wd p snapshot) ss) (\<lambda>sequence_values.
     bind (sql_json wd p alembic_query (Some snapshot)) (\<lambda>version.
     ret (JObj [(''tables'', JArr table_values), (''sequences'', JArr sequence_values), (''alembic_version'', version)]))))))))))))"

definition owned_table :: "string \<Rightarrow> json \<Rightarrow> bool job" where
  "owned_table user t = bind (item t ''owner'') (\<lambda>w. ret (py_eq w (JStr user)))"

fun all_owned :: "string \<Rightarrow> json list \<Rightarrow> bool job" where
  "all_owned user [] = ret True"
| "all_owned user (t # ts) = bind (owned_table user t) (\<lambda>b. if b then all_owned user ts else ret False)"

definition analyze_statement :: "json \<Rightarrow> string job" where
  "analyze_statement t =
     bind (item t ''schema'') (\<lambda>s. bind (text_of s) (\<lambda>schema. bind (item t ''name'') (\<lambda>n. bind (text_of n) (\<lambda>name.
     ret (''ANALYZE '' @ ident schema @ ''.'' @ ident name @ '';'')))))"

fun join_lines :: "string list \<Rightarrow> string" where
  "join_lines [] = []"
| "join_lines [l] = l"
| "join_lines (l # ls) = l @ [CHR 0x0A] @ join_lines ls"

definition analyze_user_tables :: "world \<Rightarrow> pg \<Rightarrow> unit job" where
  "analyze_user_tables wd p =
     bind (sql_json wd p owners_query None) (\<lambda>tables.
     let message = ''Statistics update requires restored user tables owned by the connected application role.'' in
     if \<not> py_truthy tables then raise (SafeError message)
     else bind (elements tables) (\<lambda>ts.
       bind (all_owned (db_user (pg_database p)) ts) (\<lambda>owned.
       bind (require owned message) (\<lambda>_.
       bind (for_each analyze_statement ts) (\<lambda>statements.
       bind (sql wd p (join_lines statements) False None [] None) (\<lambda>_. ret ()))))))"

definition require_absent :: "world \<Rightarrow> pg \<Rightarrow> string \<Rightarrow> string \<Rightarrow> unit job" where
  "require_absent wd p db role =
     bind (sql_json wd p (absent_query db role) None)
       (\<lambda>present. require (\<not> py_truthy present)
         (''Target database or application role already exists. '' @ ''Nothing will be overwritten or dropped.''))"

definition create_target :: "world \<Rightarrow> pg \<Rightarrow> string \<Rightarrow> string \<Rightarrow> string \<Rightarrow> json \<Rightarrow> unit job" where
  "create_target wd p db role password loc =
     bind (require_absent wd p db role) (\<lambda>_.
     bind (sql wd p (create_role_script (pg_run_id p) role) False None [(''MIGRATION_NEW_PASSWORD'', password)] None) (\<lambda>_.
     bind (item loc ''collate'') (\<lambda>c. bind (text_of c) (\<lambda>collate. bind (item loc ''ctype'') (\<lambda>t. bind (text_of t) (\<lambda>ctype.
     bind (sql wd p (create_database_script db role collate ctype) False None [] None) (\<lambda>_.
     bind (sql wd p (restrict_script (pg_run_id p) db role) False None [] None) (\<lambda>_. ret ()))))))))"

end
