(* ===== verification/Copy_Job.thy ===== *)
theory Copy_Job
  imports Migration
begin

text \<open>
  The second half of migrate.py: the private backup container, the comparison of manifests, and the
  four modes of the job.
\<close>

section \<open>The private backup\<close>

type_synonym environment = "string \<Rightarrow> string option"

definition env_get :: "environment \<Rightarrow> string \<Rightarrow> string" where
  "env_get environment k = (case environment k of None \<Rightarrow> [] | Some v \<Rightarrow> v)"

text \<open>
  A backup container.  \<open>suffix\<close>, the one method that the subclasses override, is a field: it gives the
  path of a file or the exception.
\<close>

record private_blob =
  pb_environment :: environment
  pb_run_id :: string
  pb_base :: string
  pb_suffix :: "string \<Rightarrow> job_exn + string"

definition of_result :: "job_exn + 'a \<Rightarrow> 'a job" where
  "of_result r = (case r of Inl e \<Rightarrow> raise e | Inr x \<Rightarrow> ret x)"

text \<open>\<open>[a-z0-9]{3,24}\<close> and \<open>[a-z0-9](?:[a-z0-9-]{1,61}[a-z0-9])\<close>, matched in full.\<close>

definition account_name :: "string \<Rightarrow> bool" where
  "account_name s \<longleftrightarrow> 3 \<le> length s \<and> length s \<le> 24 \<and> list_all lower_alnum s"

definition container_name :: "string \<Rightarrow> bool" where
  "container_name s \<longleftrightarrow> 3 \<le> length s \<and> length s \<le> 63 \<and> list_all (\<lambda>c. lower_alnum c \<or> c = CHR ''-'') s \<and>
     lower_alnum (hd s) \<and> lower_alnum (last s)"

definition blob_suffix :: "string \<Rightarrow> string \<Rightarrow> job_exn + string" where
  "blob_suffix run_id name =
     (if name \<in> {''pulseexchange.dump'', ''manifest.json''} then Inr (''/shared-postgres/'' @ run_id @ ''/'' @ name)
      else Inl (SafeError ''Unexpected backup filename.''))"

definition private_blob_init :: "environment \<Rightarrow> string \<Rightarrow> (string \<Rightarrow> job_exn + string) \<Rightarrow> private_blob job" where
  "private_blob_init environment run_id suffix =
     (let account = env_get environment ''BACKUP_STORAGE_ACCOUNT''; cont = env_get environment ''BACKUP_CONTAINER'' in
      bind (require (account_name account \<and> container_name cont)
          ''A valid backup storage account and private container are required.'')
        (\<lambda>_. ret \<lparr>pb_environment = environment, pb_run_id = run_id,
             pb_base = ''https://'' @ account @ ''.blob.core.windows.net/'' @ cont, pb_suffix = suffix\<rparr>))"

definition reply_body :: "http_reply \<Rightarrow> string" where
  "reply_body r = concat (takeWhile (\<lambda>b. b \<noteq> []) (rp_blocks r))"

text \<open>\<open>response.read(limit)\<close>: reading raises when the connection breaks before that many bytes.\<close>

definition read_limited :: "nat \<Rightarrow> http_reply \<Rightarrow> string job" where
  "read_limited limit r =
     (if rp_breaks r \<and> length (reply_body r) < limit then raise OtherException else ret (take limit (reply_body r)))"

definition client_id_ok :: "string \<Rightarrow> bool" where
  "client_id_ok s \<longleftrightarrow> length s = 36 \<and> list_all (\<lambda>c. any_hex c \<or> c = CHR ''-'') s"

definition token_of :: "world \<Rightarrow> http_reply \<Rightarrow> string job" where
  "token_of wd r =
     bind (read_limited 65536 r) (\<lambda>raw.
       case wd_loads wd raw of
         None \<Rightarrow> raise ValueOrTypeError
       | Some v \<Rightarrow> bind (item v ''access_token'')
          (\<lambda>x. case x of JStr t \<Rightarrow> if t = [] then raise ValueOrTypeError else ret t | _ \<Rightarrow> raise ValueOrTypeError))"

definition token :: "world \<Rightarrow> private_blob \<Rightarrow> string job" where
  "token wd b =
     (let endpoint = env_get (pb_environment b) ''IDENTITY_ENDPOINT'';
          header = env_get (pb_environment b) ''IDENTITY_HEADER'';
          client = env_get (pb_environment b) ''MIGRATION_IDENTITY_CLIENT_ID'';
          query = [(''resource'', ''https://storage.azure.com/''), (''api-version'', ''2019-08-01'')] @
            (if client = [] then [] else [(''client_id'', client)]) in
      case wd_urlsplit wd endpoint of
        Inl _ \<Rightarrow> raise ValueOrTypeError
      | Inr parts \<Rightarrow>
          bind (require (su_scheme parts = ''http'' \<and> su_hostname parts \<in> {Some ''127.0.0.1'', Some ''localhost''} \<and>
              su_query parts = [] \<and> su_fragment parts = []) ''Expected the Container Apps local managed identity endpoint.'') (\<lambda>_.
          bind (require (header \<noteq> []) ''The Container Apps managed identity header is missing.'') (\<lambda>_.
          bind (require (client = [] \<or> client_id_ok client) ''Invalid managed identity client identifier.'') (\<lambda>_.
          on_error
            (bind (send wd \<lparr>rq_method = ''GET'', rq_url = endpoint @ ''?'' @ wd_urlencode wd query,
                rq_headers = [(''X-IDENTITY-HEADER'', header)], rq_data = None\<rparr>)
              (\<lambda>r. case r of HttpFailed \<Rightarrow> raise OtherException | HttpReply reply \<Rightarrow> token_of wd reply))
            (\<lambda>e. SafeError ''Managed identity token acquisition failed; diagnostics are withheld.'')))))"

definition blob_request ::
  "world \<Rightarrow> private_blob \<Rightarrow> string \<Rightarrow> string \<Rightarrow> string option \<Rightarrow> (string \<times> string) list \<Rightarrow> http_reply job" where
  "blob_request wd b verb suffix data headers =
     bind (token wd b) (\<lambda>t. bind (stamp (wd_formatdate wd)) (\<lambda>date.
     let supplied = foldl (\<lambda>d kv. dict_set (fst kv) (snd kv) d)
           [(''Authorization'', ''Bearer '' @ t), (''x-ms-version'', ''2023-11-03''), (''x-ms-date'', date)] headers in
     bind (send wd \<lparr>rq_method = verb, rq_url = pb_base b @ suffix, rq_headers = supplied, rq_data = data\<rparr>)
       (\<lambda>r. case r of
          HttpFailed \<Rightarrow> raise (SafeError ''Private backup storage request failed; diagnostics are withheld.'')
        | HttpReply reply \<Rightarrow> ret reply)))"

definition require_private :: "world \<Rightarrow> private_blob \<Rightarrow> unit job" where
  "require_private wd b =
     bind (blob_request wd b ''GET'' ''?restype=container'' None [])
       (\<lambda>r. require (blank (rp_header r ''x-ms-blob-public-access'')) ''Backup container must disable anonymous public access.'')"

definition upload_headers :: "world \<Rightarrow> string \<Rightarrow> (string \<times> string) list" where
  "upload_headers wd content =
     [(''x-ms-blob-type'', ''BlockBlob''), (''Content-Length'', str_int (int (length content))),
      (''Content-MD5'', wd_md5_base64 wd content), (''Content-Type'', ''application/octet-stream''),
      (''If-None-Match'', ''*''), (''x-ms-meta-sha256'', wd_sha256 wd content)]"

definition upload :: "world \<Rightarrow> private_blob \<Rightarrow> string \<Rightarrow> string \<Rightarrow> string job" where
  "upload wd b path name =
     bind (get_file path) (\<lambda>file. case file of
        None \<Rightarrow> raise OtherException
      | Some content \<Rightarrow>
          bind (of_result (pb_suffix b name)) (\<lambda>suffix.
          bind (blob_request wd b ''PUT'' suffix (Some content) (upload_headers wd content)) (\<lambda>_.
          bind (blob_request wd b ''HEAD'' suffix None []) (\<lambda>r.
          bind (require (rp_header r ''Content-Length'' = Some (str_int (int (length content))) \<and>
              rp_header r ''Content-MD5'' = Some (wd_md5_base64 wd content) \<and>
              rp_header r ''x-ms-meta-sha256'' = Some (wd_sha256 wd content))
            ''Uploaded backup length or checksum verification failed.'') (\<lambda>_.
          ret (wd_sha256 wd content))))))"

definition blob_manifest :: "world \<Rightarrow> private_blob \<Rightarrow> json job" where
  "blob_manifest wd b =
     bind (of_result (pb_suffix b ''manifest.json'')) (\<lambda>suffix.
     bind (blob_request wd b ''GET'' suffix None []) (\<lambda>r.
     bind (read_limited (MAX_MANIFEST_BYTES + 1) r) (\<lambda>raw.
     bind (require (length raw \<le> MAX_MANIFEST_BYTES) ''Stored backup manifest is too large.'') (\<lambda>_.
     case wd_loads wd raw of
       None \<Rightarrow> raise (SafeError ''Stored backup manifest is not valid JSON.'')
     | Some v \<Rightarrow> ret v))))"

text \<open>
  Downloads: \<open>download_dump\<close>, and the same code with other messages in isolate_eventharbor.py.  In the
  loop each block is counted before it is written.
\<close>

record download_messages =
  dm_claim :: string
  dm_length :: string
  dm_exceeds :: string
  dm_digest :: string

fun download_blocks :: "string \<Rightarrow> string \<Rightarrow> int \<Rightarrow> string list \<Rightarrow> unit job" where
  "download_blocks exceeds path expected_size [] = ret ()"
| "download_blocks exceeds path expected_size (block # blocks) =
     (if block = [] then ret ()
      else bind (get_file path) (\<lambda>file.
        let written = (case file of None \<Rightarrow> [] | Some c \<Rightarrow> c) in
        bind (require (int (length written) + int (length block) \<le> expected_size) exceeds)
          (\<lambda>_. bind (put_file path (Some (written @ block))) (\<lambda>_. download_blocks exceeds path expected_size blocks))))"

definition download_body :: "world \<Rightarrow> private_blob \<Rightarrow> download_messages \<Rightarrow> string \<Rightarrow> string \<Rightarrow> int \<Rightarrow> string \<Rightarrow> unit job" where
  "download_body wd b msg name path expected_size expected_sha256 =
     bind (of_result (pb_suffix b name)) (\<lambda>suffix.
     bind (blob_request wd b ''GET'' suffix None []) (\<lambda>r.
     bind (require (rp_header r ''Content-Length'' = Some (str_int expected_size)) (dm_length msg)) (\<lambda>_.
     bind (download_blocks (dm_exceeds msg) path expected_size (rp_blocks r)) (\<lambda>_.
     bind (if rp_breaks r then raise OtherException else ret ()) (\<lambda>_.
     bind (get_file path) (\<lambda>file.
     let written = (case file of None \<Rightarrow> [] | Some c \<Rightarrow> c) in
     require (int (length written) = expected_size \<and> wd_sha256 wd written = expected_sha256) (dm_digest msg)))))))"

text \<open>\<open>except Exception: if created: path.unlink(missing_ok=True); raise\<close>.\<close>

definition unlink_on_error :: "string \<Rightarrow> 'a job \<Rightarrow> 'a job" where
  "unlink_on_error path m =
     (\<lambda>s. case m s of
        (Inl e, s') \<Rightarrow> (Inl e, s'\<lparr>js_files := (js_files s')(path := None)\<rparr>)
      | (Inr x, s') \<Rightarrow> (Inr x, s'))"

definition download_checked :: "world \<Rightarrow> private_blob \<Rightarrow> download_messages \<Rightarrow> string \<Rightarrow> string \<Rightarrow> json \<Rightarrow> json \<Rightarrow> unit job" where
  "download_checked wd b msg name path expected_size expected_sha256 =
     (case (expected_size, expected_sha256) of
        (JInt n, JStr h) \<Rightarrow>
          bind (require (0 < n \<and> n \<le> MAX_DUMP_BYTES \<and> sha256_hex_text h) (dm_claim msg))
            (\<lambda>_. bind (get_file path) (\<lambda>file. case file of
               Some _ \<Rightarrow> raise OtherException
             | None \<Rightarrow> unlink_on_error path
                 (bind (put_file path (Some [])) (\<lambda>_. download_body wd b msg name path n h))))
      | _ \<Rightarrow> raise (SafeError (dm_claim msg)))"

definition dump_messages :: download_messages where
  "dump_messages = \<lparr>dm_claim = ''Backup manifest has invalid dump size or checksum.'',
     dm_length = ''Downloaded backup length does not match its manifest.'',
     dm_exceeds = ''Downloaded backup exceeds its expected size.'',
     dm_digest = ''Downloaded backup bytes failed length or SHA256 verification.''\<rparr>"

definition download_dump :: "world \<Rightarrow> private_blob \<Rightarrow> string \<Rightarrow> json \<Rightarrow> json \<Rightarrow> unit job" where
  "download_dump wd b path expected_size expected_sha256 =
     download_checked wd b dump_messages ''pulseexchange.dump'' path expected_size expected_sha256"

section \<open>The job\<close>

definition require_same :: "json \<Rightarrow> json \<Rightarrow> bool \<Rightarrow> unit job" where
  "require_same expected actual sequences =
     (case (expected, actual) of
        (JObj e, JObj a) \<Rightarrow>
          require (list_all (\<lambda>k. py_eq (get_or_null e k) (get_or_null a k))
              ([''tables'', ''alembic_version''] @ (if sequences then [''sequences''] else [])))
            (''Database manifest mismatch. Keep applications stopped and inspect '' @
             ''the private backup; no cutover is authorized.'')
      | _ \<Rightarrow> raise OtherException)"

definition new_password :: "environment \<Rightarrow> string \<Rightarrow> string job" where
  "new_password environment k =
     (let password = env_get environment k in
      bind (require (32 \<le> length password \<and> length password \<le> 128 \<and> \<not> has_control password)
        ''Supply and securely retain a new 32-128 character application password.'') (\<lambda>_. ret password))"

text \<open>\<open>[a-z0-9][a-z0-9-]{7,63}\<close>, matched in full.\<close>

definition run_id_ok :: "string \<Rightarrow> bool" where
  "run_id_ok s \<longleftrightarrow> 8 \<le> length s \<and> length s \<le> 64 \<and> lower_alnum (hd s) \<and>
     list_all (\<lambda>c. lower_alnum c \<or> c = CHR ''-'') (tl s)"

datatype copy_mode = Inspect | Rehearse | FinalCopy | Verify

fun mode_name :: "copy_mode \<Rightarrow> string" where
  "mode_name Inspect = ''Inspect''"
| "mode_name Rehearse = ''Rehearse''"
| "mode_name FinalCopy = ''FinalCopy''"
| "mode_name Verify = ''Verify''"

definition inspect_job :: "world \<Rightarrow> pg \<Rightarrow> pg \<Rightarrow> json job" where
  "inspect_job wd source admin =
     bind (with_snapshot wd source (pg_manifest wd source)) (\<lambda>manifest.
     bind (sql_json wd admin targets_query None) (\<lambda>targets.
     bind (sql_json wd admin capacity_query None) (\<lambda>capacity.
     ret (JObj [(''mode'', JStr (mode_name Inspect)), (''source_manifest'', manifest), (''existing_target_databases'', targets),
       (''target_connections'', capacity), (''changed'', JBool False)]))))"

definition saved_matches :: "(string \<times> json) list \<Rightarrow> string \<Rightarrow> string \<Rightarrow> string \<Rightarrow> bool" where
  "saved_matches saved run_id db target_kind \<longleftrightarrow>
     py_eq (get_or_null saved ''format'') (JInt 1) \<and> py_eq (get_or_null saved ''run_id'') (JStr run_id) \<and>
     py_eq (get_or_null saved ''source_host'') (JStr SOURCE_HOST) \<and> py_eq (get_or_null saved ''source_database'') (JStr SOURCE_DB) \<and>
     py_eq (get_or_null saved ''target_host'') (JStr TARGET_HOST) \<and> py_eq (get_or_null saved ''target_database'') (JStr db) \<and>
     py_eq (get_or_null saved ''mode'') (JStr (if target_kind = ''final'' then mode_name FinalCopy else mode_name Rehearse))"

definition verify_job :: "world \<Rightarrow> pg \<Rightarrow> private_blob \<Rightarrow> string \<Rightarrow> string \<Rightarrow> json job" where
  "verify_job wd target blob db target_kind =
     bind (blob_manifest wd blob) (\<lambda>v.
     bind (mapping_items OtherException v) (\<lambda>saved.
     bind (require (saved_matches saved (pb_run_id blob) db target_kind)
       ''Backup manifest does not belong to this exact migration target.'') (\<lambda>_.
     bind (set_phase ''stored backup download verification'') (\<lambda>_.
     bind (download_dump wd blob (wd_directory wd @ ''/verified-pulseexchange.dump'') (get_or_null saved ''dump_bytes'')
       (get_or_null saved ''dump_sha256'')) (\<lambda>_.
     bind (set_phase ''independent restored data verification'') (\<lambda>_.
     bind (require_version wd target) (\<lambda>_.
     bind (with_snapshot wd target (pg_manifest wd target)) (\<lambda>restored.
     bind (item v ''source_manifest'') (\<lambda>expected.
     bind (item v ''mode'') (\<lambda>m.
     bind (require_same expected restored (py_eq m (JStr (mode_name FinalCopy)))) (\<lambda>_.
     ret (JObj [(''mode'', JStr (mode_name Verify)), (''target_database'', JStr db), (''verified'', JBool True),
       (''sequences_verified'', JBool (py_eq m (JStr (mode_name FinalCopy)))), (''backup_download_verified'', JBool True),
       (''changed'', JBool False)]))))))))))))"

definition dump_path :: "world \<Rightarrow> string" where
  "dump_path wd = wd_directory wd @ ''/pulseexchange.dump''"

definition downloaded_path :: "world \<Rightarrow> string" where
  "downloaded_path wd = wd_directory wd @ ''/verified-pulseexchange.dump''"

definition dump_to :: "world \<Rightarrow> string list \<Rightarrow> string \<Rightarrow> string \<Rightarrow> pg \<Rightarrow> string \<Rightarrow> unit job" where
  "dump_to wd flags path message source snapshot =
     bind (native wd ([''pg_dump'', ''--no-password'', ''--format=custom''] @ flags @
         [''--snapshot='' @ snapshot, ''--file='' @ path])
       (database_env wd (pg_database source) (pg_run_id source) True) None (Some path)) (\<lambda>_.
     bind (get_file path) (\<lambda>file.
     require (case file of None \<Rightarrow> False | Some c \<Rightarrow> c \<noteq> [] \<and> int (length c) \<le> MAX_DUMP_BYTES) message))"

definition pg_dump :: "world \<Rightarrow> pg \<Rightarrow> string \<Rightarrow> unit job" where
  "pg_dump wd source snapshot =
     dump_to wd [''--no-owner'', ''--no-acl''] (dump_path wd)
       ''Backup is empty or exceeds the reviewed 256 MiB migration limit.'' source snapshot"

text \<open>
  The consistent backup: manifest and dump of one snapshot, and for a final copy a second look.  The
  check for a freeze and the dump are arguments, as the later copy job has its own.
\<close>

definition backup_with :: "world \<Rightarrow> pg \<Rightarrow> unit job \<Rightarrow> (string \<Rightarrow> unit job) \<Rightarrow> bool \<Rightarrow> json job" where
  "backup_with wd source frozen dump final =
     bind (with_snapshot wd source (\<lambda>snapshot.
       bind (pg_manifest wd source snapshot) (\<lambda>expected.
       bind (dump snapshot) (\<lambda>_.
       bind (only_if final (bind frozen (\<lambda>_.
         bind (pg_manifest wd source snapshot) (\<lambda>again. require_same expected again True)))) (\<lambda>_.
       ret expected))))) (\<lambda>expected.
     bind (only_if final (bind (with_snapshot wd source (\<lambda>snapshot.
         bind (pg_manifest wd source snapshot) (\<lambda>again. require_same expected again True)))
       (\<lambda>_. frozen))) (\<lambda>_.
     ret expected))"

definition backup_source :: "world \<Rightarrow> pg \<Rightarrow> bool \<Rightarrow> json job" where
  "backup_source wd source final = backup_with wd source (require_frozen wd source) (pg_dump wd source) final"

definition backup_record :: "copy_mode \<Rightarrow> string \<Rightarrow> string \<Rightarrow> string \<Rightarrow> string \<Rightarrow> int \<Rightarrow> json \<Rightarrow> json" where
  "backup_record mode run_id created db dump_hash dump_bytes expected =
     JObj [(''format'', JInt 1), (''mode'', JStr (mode_name mode)), (''run_id'', JStr run_id), (''created_utc'', JStr created),
       (''source_host'', JStr SOURCE_HOST), (''source_database'', JStr SOURCE_DB), (''target_host'', JStr TARGET_HOST),
       (''target_database'', JStr db), (''dump_sha256'', JStr dump_hash), (''dump_bytes'', JInt dump_bytes),
       (''source_manifest'', expected)]"

text \<open>The upload of dump and manifest, and the round trip that reads both back.\<close>

definition store_backup :: "world \<Rightarrow> private_blob \<Rightarrow> copy_mode \<Rightarrow> string \<Rightarrow> json \<Rightarrow> string job" where
  "store_backup wd blob mode db expected =
     bind (upload wd blob (dump_path wd) ''pulseexchange.dump'') (\<lambda>dump_hash.
     bind (stamp (wd_isoformat wd)) (\<lambda>created.
     bind (get_file (dump_path wd)) (\<lambda>file.
     let dump_bytes = (case file of None \<Rightarrow> 0 | Some c \<Rightarrow> int (length c));
         saved = backup_record mode (pb_run_id blob) created db dump_hash dump_bytes expected;
         manifest_path = wd_directory wd @ ''/manifest.json'' in
     bind (put_file manifest_path (Some (wd_dumps wd saved))) (\<lambda>_.
     bind (upload wd blob manifest_path ''manifest.json'') (\<lambda>_.
     bind (set_phase ''stored backup round-trip verification'') (\<lambda>_.
     bind (blob_manifest wd blob) (\<lambda>stored.
     bind (require (py_eq stored saved) ''Stored backup manifest does not match the locally verified copy.'') (\<lambda>_.
     bind (download_dump wd blob (downloaded_path wd) (JInt dump_bytes) (JStr dump_hash)) (\<lambda>_.
     ret dump_hash)))))))))"

definition pg_restore :: "world \<Rightarrow> pg \<Rightarrow> string \<Rightarrow> unit job" where
  "pg_restore wd target db =
     bind (native wd [''pg_restore'', ''--no-password'', ''--no-owner'', ''--no-acl'', ''--no-tablespaces'', ''--exit-on-error'',
         ''--single-transaction'', ''--dbname='' @ db, downloaded_path wd]
       (database_env wd (pg_database target) (pg_run_id target) False) None None) (\<lambda>_. ret ())"

definition total_rows :: "json list \<Rightarrow> json job" where
  "total_rows ts =
     bind (for_each (\<lambda>t. bind (item t ''rows'') (\<lambda>r. case r of JInt i \<Rightarrow> ret i | _ \<Rightarrow> raise ValueOrTypeError)) ts)
       (\<lambda>ns. ret (JInt (sum_list ns)))"

definition prepare_copy :: "world \<Rightarrow> environment \<Rightarrow> copy_mode \<Rightarrow> pg \<Rightarrow> pg \<Rightarrow> private_blob \<Rightarrow> string \<Rightarrow> string \<Rightarrow> (json \<times> string) job" where
  "prepare_copy wd environment mode source admin blob db role =
     (let final = (mode = FinalCopy) in
     bind (only_if final (require (environment ''WRITERS_FROZEN'' = Some ''true'')
       ''FinalCopy requires WRITERS_FROZEN=true after stopping all source writers and scheduled jobs.'')) (\<lambda>_.
     bind (set_phase ''empty target and writer freeze checks'') (\<lambda>_.
     bind (require_absent wd admin db role) (\<lambda>_.
     bind (only_if final (require_frozen wd source)) (\<lambda>_.
     bind (set_phase ''consistent logical backup'') (\<lambda>_.
     bind (backup_source wd source final) (\<lambda>expected.
     bind (set_phase ''durable private backup upload'') (\<lambda>_.
     bind (store_backup wd blob mode db expected) (\<lambda>dump_hash.
     bind (only_if final (require_frozen wd source)) (\<lambda>_.
     ret (expected, dump_hash)))))))))))"

text \<open>From the restore to the report.\<close>

definition finish_copy :: "world \<Rightarrow> copy_mode \<Rightarrow> pg \<Rightarrow> pg \<Rightarrow> string \<Rightarrow> json \<Rightarrow> string \<Rightarrow> json job" where
  "finish_copy wd mode source target db expected dump_hash =
     (let final = (mode = FinalCopy) in
     bind (set_phase ''single transaction restore'') (\<lambda>_.
     bind (pg_restore wd target db) (\<lambda>_.
     bind (analyze_user_tables wd target) (\<lambda>_.
     bind (set_phase ''restored data verification'') (\<lambda>_.
     bind (with_snapshot wd target (pg_manifest wd target)) (\<lambda>restored.
     bind (require_same expected restored final) (\<lambda>_.
     bind (only_if final (bind (require_frozen wd source) (\<lambda>_.
       with_snapshot wd source (\<lambda>snapshot.
         bind (pg_manifest wd source snapshot) (\<lambda>again. require_same expected again True))))) (\<lambda>_.
     bind (item expected ''tables'') (\<lambda>tables. bind (elements tables) (\<lambda>ts. bind (total_rows ts) (\<lambda>rows.
     ret (JObj [(''mode'', JStr (mode_name mode)), (''target_database'', JStr db), (''verified'', JBool True),
       (''sequences_verified'', JBool final), (''source_modified_by_helper'', JBool False),
       (''backup_download_verified'', JBool True), (''tables'', JInt (int (length ts))), (''rows'', rows),
       (''backup_prefix'', JStr (''shared-postgres/'' @ pg_run_id source @ ''/'')), (''dump_sha256'', JStr dump_hash),
       (''cutover_performed'', JBool False)]))))))))))))"

definition restore_copy ::
  "world \<Rightarrow> copy_mode \<Rightarrow> pg \<Rightarrow> pg \<Rightarrow> pg \<Rightarrow> string \<Rightarrow> string \<Rightarrow> string \<Rightarrow> json \<Rightarrow> json \<Rightarrow> string \<Rightarrow> json job" where
  "restore_copy wd mode source admin target db role password loc expected dump_hash =
     bind (set_phase ''new target database creation'') (\<lambda>_.
     bind (create_target wd admin db role password loc) (\<lambda>_.
     finish_copy wd mode source target db expected dump_hash))"

text \<open>\<open>tempfile.TemporaryDirectory\<close>: the files are gone when the block ends.\<close>

definition in_directory :: "'a job \<Rightarrow> 'a job" where
  "in_directory m = (\<lambda>s. let (r, s') = m s in (r, s'\<lparr>js_files := (\<lambda>_. None)\<rparr>))"

definition target_kind_of :: "environment \<Rightarrow> copy_mode \<Rightarrow> string" where
  "target_kind_of environment mode =
     (case mode of
        Verify \<Rightarrow> (case environment ''VERIFY_TARGET'' of None \<Rightarrow> ''final'' | Some k \<Rightarrow> k)
      | Rehearse \<Rightarrow> ''rehearsal''
      | _ \<Rightarrow> ''final'')"

definition mode_job :: "world \<Rightarrow> environment \<Rightarrow> copy_mode \<Rightarrow> string \<Rightarrow> pg \<Rightarrow> pg \<Rightarrow> json \<Rightarrow> json job" where
  "mode_job wd environment mode run_id source admin loc =
     (if mode = Inspect then inspect_job wd source admin
      else let target_kind = target_kind_of environment mode in
        case TARGETS target_kind of
          None \<Rightarrow> raise (SafeError ''VERIFY_TARGET must be final or rehearsal.'')
        | Some (db, role) \<Rightarrow>
            bind (new_password environment
                (if target_kind = ''rehearsal'' then ''REHEARSAL_APP_PASSWORD'' else ''TARGET_APP_PASSWORD'')) (\<lambda>password.
            let target = \<lparr>pg_database = (pg_database admin)\<lparr>db_name := db, db_user := role, db_password := password\<rparr>,
                          pg_run_id = run_id\<rparr> in
            bind (private_blob_init environment run_id (blob_suffix run_id)) (\<lambda>blob.
            bind (set_phase ''private backup validation'') (\<lambda>_.
            bind (require_private wd blob) (\<lambda>_.
            if mode = Verify then verify_job wd target blob db target_kind
            else bind (prepare_copy wd environment mode source admin blob db role) (\<lambda>er.
              restore_copy wd mode source admin target db role password loc (fst er) (snd er)))))))"

definition run :: "world \<Rightarrow> copy_mode \<Rightarrow> environment \<Rightarrow> json job" where
  "run wd mode environment =
     (let run_id = env_get environment ''MIGRATION_RUN_ID'' in
     bind (require (run_id_ok run_id) ''MIGRATION_RUN_ID must be a unique 8-64 character lowercase identifier.'') (\<lambda>_.
     bind (require_clients wd) (\<lambda>_.
     bind (database_parse wd (env_get environment ''SOURCE_DATABASE_URL'') True) (\<lambda>source_db.
     bind (database_parse wd (env_get environment ''TARGET_ADMIN_DATABASE_URL'') False) (\<lambda>admin_db.
     let source = \<lparr>pg_database = source_db, pg_run_id = run_id\<rparr>; admin = \<lparr>pg_database = admin_db, pg_run_id = run_id\<rparr> in
     bind (set_phase ''server inspection'') (\<lambda>_.
     bind (require_version wd source) (\<lambda>_.
     bind (require_version wd admin) (\<lambda>_.
     bind (pg_locale wd source) (\<lambda>loc.
     in_directory (mode_job wd environment mode run_id source admin loc))))))))))"

definition initial_state :: job_state where
  "initial_state = \<lparr>js_history = [], js_files = (\<lambda>_. None), js_phase = ''configuration''\<rparr>"

text \<open>The process: its exit code, what it prints and the history of what it did.\<close>

definition migrate_main :: "world \<Rightarrow> copy_mode \<Rightarrow> environment \<Rightarrow> int \<times> string \<times> event list" where
  "migrate_main wd mode environment =
     (case run wd mode environment initial_state of
        (Inr report, s) \<Rightarrow> (0, wd_dumps wd report, js_history s)
      | (Inl (SafeError message), s) \<Rightarrow> (1, ''Migration stopped during '' @ js_phase s @ '': '' @ message, js_history s)
      | (Inl _, s) \<Rightarrow> (1, ''Migration stopped during '' @ js_phase s @
            ''. Diagnostics withheld; no automatic cleanup or cutover attempted.'', js_history s))"

end
