(* ===== verification/Isolation.thy ===== *)
theory Isolation
  imports Copy_Job
begin

text \<open>
  The isolation job, src/infra/azure-shared-postgres/isolate_eventharbor.py: it reads the inventory of
  the EventHarbor database, takes a backup and reads it back, hands the objects of the public schema to
  one new role in a single transaction, and verifies the logins of both applications.  It is built from
  the operations of the copy job; conditions over values read from JSON are jobs, because every access
  may raise.
\<close>

section \<open>Conditions over values of Python\<close>

definition hashable :: "json \<Rightarrow> bool" where
  "hashable v = (case v of JArr _ \<Rightarrow> False | JObj _ \<Rightarrow> False | _ \<Rightarrow> True)"

text \<open>\<open>v in {...}\<close>: a value that cannot be hashed raises.\<close>

definition in_set :: "json \<Rightarrow> json list \<Rightarrow> bool job" where
  "in_set v vs = (if hashable v then ret (list_ex (py_eq v) vs) else raise ValueOrTypeError)"

definition negate :: "bool job \<Rightarrow> bool job" where
  "negate m = bind m (\<lambda>b. ret (\<not> b))"

text \<open>\<open>or\<close> and \<open>and\<close>, which do not look at their second operand when the first decides.\<close>

definition either :: "bool job \<Rightarrow> bool job \<Rightarrow> bool job" where
  "either m n = bind m (\<lambda>b. if b then ret True else n)"

definition both :: "bool job \<Rightarrow> bool job \<Rightarrow> bool job" where
  "both m n = bind m (\<lambda>b. if b then n else ret False)"

fun any_of :: "('a \<Rightarrow> bool job) \<Rightarrow> 'a list \<Rightarrow> bool job" where
  "any_of f [] = ret False"
| "any_of f (x # xs) = bind (f x) (\<lambda>b. if b then ret True else any_of f xs)"

definition field_is :: "json \<Rightarrow> string \<Rightarrow> json \<Rightarrow> bool job" where
  "field_is v k w = bind (item v k) (\<lambda>x. ret (py_eq x w))"

definition field_in :: "json \<Rightarrow> string \<Rightarrow> json list \<Rightarrow> bool job" where
  "field_in v k ws = bind (item v k) (\<lambda>x. in_set x ws)"

definition field_true :: "json \<Rightarrow> string \<Rightarrow> bool job" where
  "field_true v k = bind (item v k) (\<lambda>x. ret (py_truthy x))"

definition items_of :: "json \<Rightarrow> string \<Rightarrow> json list job" where
  "items_of v k = bind (item v k) elements"

text \<open>\<open>if condition: raise SafeError(message)\<close>.\<close>

definition refuse_if :: "bool job \<Rightarrow> string \<Rightarrow> unit job" where
  "refuse_if condition message = bind condition (\<lambda>b. require (\<not> b) message)"

definition names :: "string list \<Rightarrow> json list" where
  "names ss = map JStr ss"

section \<open>The inventory\<close>

definition DATABASE :: string where
  "DATABASE = ''eventharbor''"

definition ROLE :: string where
  "ROLE = ''eventharbor_app''"

definition OTHER_DATABASE :: string where
  "OTHER_DATABASE = ''pulseexchange''"

definition OTHER_ROLE :: string where
  "OTHER_ROLE = ''pulseexchange_app''"

definition INVENTORY_SQL :: string where
  "INVENTORY_SQL =
     join_lines [
       [],
       ''SELECT json_build_object('',
       '' '' @ quoted ''database'' @ '', current_database(), '' @ quoted ''current_user'' @ '', current_user,'',
       '' '' @ quoted ''owner'' @
         '', (SELECT pg_get_userbyid(datdba) FROM pg_database WHERE datname=current_database()),'',
       '' '' @ quoted ''schemas'' @ '', (SELECT coalesce(json_agg(json_build_object('' @ quoted ''name'' @
         '',nspname,'',
       ''     '' @ quoted ''owner'' @ '',pg_get_userbyid(nspowner)) ORDER BY nspname),'' @ quoted ''[]'' @
         ''::json)'',
       ''     FROM pg_namespace WHERE nspname NOT LIKE '' @ quoted (''pg'' @ [CHR 0x5C] @ ''_%'') @ '' ESCAPE '' @
         quoted ([CHR 0x5C]) @ '' AND nspname<>'' @ quoted ''information_schema'' @ ''),'',
       '' '' @ quoted ''extensions'' @ '', (SELECT coalesce(json_agg(extname ORDER BY extname),'' @ quoted ''[]'' @
         ''::json) FROM pg_extension),'',
       '' '' @ quoted ''large_objects'' @ '', (SELECT count(*) FROM pg_largeobject_metadata),'',
       '' '' @ quoted ''relations'' @ '', (SELECT coalesce(json_agg(json_build_object('' @ quoted ''oid'' @
         '',c.oid,'' @ quoted ''name'' @ '',c.relname,'',
       ''     '' @ quoted ''kind'' @ '',c.relkind,'' @ quoted ''owner'' @
         '',pg_get_userbyid(c.relowner)) ORDER BY c.oid),'' @ quoted ''[]'' @ ''::json)'',
       ''     FROM pg_class c JOIN pg_namespace n ON n.oid=c.relnamespace WHERE n.nspname='' @ quoted ''public'' @
         ''),'',
       '' '' @ quoted ''types'' @ '', (SELECT coalesce(json_agg(json_build_object('' @ quoted ''oid'' @
         '',t.oid,'' @ quoted ''name'' @ '',t.typname,'',
       ''     '' @ quoted ''kind'' @ '',t.typtype,'' @ quoted ''category'' @ '',t.typcategory,'' @
         quoted ''relation'' @ '',t.typrelid,'',
       ''     '' @ quoted ''element'' @ '',t.typelem,'' @ quoted ''owner'' @
         '',pg_get_userbyid(t.typowner)) ORDER BY t.oid),'' @ quoted ''[]'' @ ''::json)'',
       ''     FROM pg_type t JOIN pg_namespace n ON n.oid=t.typnamespace WHERE n.nspname='' @ quoted ''public'' @
         ''),'',
       '' '' @ quoted ''routines'' @ '', (SELECT coalesce(json_agg(json_build_object('' @ quoted ''oid'' @
         '',p.oid,'' @ quoted ''name'' @ '',p.proname,'',
       ''     '' @ quoted ''kind'' @ '',p.prokind,'' @ quoted ''security_definer'' @ '',p.prosecdef,'' @
         quoted ''owner'' @ '',pg_get_userbyid(p.proowner))'',
       ''     ORDER BY p.oid),'' @ quoted ''[]'' @
         ''::json) FROM pg_proc p JOIN pg_namespace n ON n.oid=p.pronamespace'',
       ''     WHERE n.nspname='' @ quoted ''public'' @ ''),'',
       '' '' @ quoted ''role_exists'' @ '', EXISTS(SELECT 1 FROM pg_roles WHERE rolname='' @
         quoted ''eventharbor_app'' @ ''));'',
       []]"

fun relation_ids :: "json list \<Rightarrow> json list job" where
  "relation_ids [] = ret []"
| "relation_ids (i # is) =
     bind (field_in i ''kind'' (names [''r'', ''p'', ''v'', ''m''])) (\<lambda>b.
       if b then bind (item i ''oid'') (\<lambda>oid. if hashable oid then bind (relation_ids is) (\<lambda>ids. ret (oid # ids))
         else raise ValueOrTypeError)
       else relation_ids is)"

definition supported_type :: "json list \<Rightarrow> json \<Rightarrow> bool job" where
  "supported_type ids i =
     either (field_is i ''kind'' (JStr ''e''))
      (either (both (field_is i ''kind'' (JStr ''c'')) (field_in i ''relation'' ids))
        (both (field_is i ''category'' (JStr ''A'')) (negate (field_is i ''element'' (JInt 0)))))"

definition foreign_owner :: "json \<Rightarrow> json list \<Rightarrow> string \<Rightarrow> bool job" where
  "foreign_owner inventory owners grp =
     bind (items_of inventory grp) (any_of (\<lambda>i. negate (field_in i ''owner'' owners)))"

definition validate_applying :: "json \<Rightarrow> unit job" where
  "validate_applying inventory =
     bind (refuse_if (field_true inventory ''role_exists'')
       ''Application role already exists. Inspect or verify; never overwrite its password or grants.'') (\<lambda>_.
     bind (item inventory ''owner'') (\<lambda>owner. bind (item inventory ''current_user'') (\<lambda>current_user.
     if \<not> hashable owner \<or> \<not> hashable current_user then raise ValueOrTypeError
     else refuse_if (any_of (foreign_owner inventory [owner, current_user, JStr ''pg_database_owner''])
         [''schemas'', ''relations'', ''types'', ''routines''])
       ''Unexpected object ownership requires review before transfer.'')))"

definition validate_inventory :: "json \<Rightarrow> bool \<Rightarrow> unit job" where
  "validate_inventory inventory applying =
     bind (refuse_if (negate (field_is inventory ''database'' (JStr DATABASE)))
       ''Isolation must connect to the existing EventHarbor database.'') (\<lambda>_.
     bind (refuse_if (either (negate (field_is inventory ''extensions'' (JArr [JStr ''plpgsql'']))) (field_true inventory ''large_objects''))
       ''Unexpected extensions or large objects require separate review.'') (\<lambda>_.
     bind (items_of inventory ''schemas'') (\<lambda>schemas.
     bind (for_each (\<lambda>i. item i ''name'') schemas) (\<lambda>schema_names.
     bind (require (py_eq (JArr schema_names) (JArr [JStr ''public'']))
       ''Only the existing public application schema is supported.'') (\<lambda>_.
     bind (items_of inventory ''relations'') (\<lambda>relations.
     bind (refuse_if (negate (any_of (\<lambda>i. both (field_is i ''name'' (JStr ''alembic_version'')) (field_is i ''kind'' (JStr ''r''))) relations))
       ''Expected EventHarbor migration-version table is missing.'') (\<lambda>_.
     bind (refuse_if (any_of (\<lambda>i. negate (field_in i ''kind'' (names [''r'', ''p'', ''S'', ''v'', ''m'', ''i'', ''I'']))) relations)
       ''Unsupported public-schema relation requires separate review.'') (\<lambda>_.
     bind (relation_ids relations) (\<lambda>ids.
     bind (items_of inventory ''types'') (\<lambda>types.
     bind (for_each (\<lambda>i. refuse_if (negate (supported_type ids i))
       ''Only enums and automatically generated relation/array types are supported.'') types) (\<lambda>_.
     bind (items_of inventory ''routines'') (\<lambda>routines.
     bind (refuse_if (any_of (\<lambda>i. either (negate (field_in i ''kind'' (names [''f'', ''p'']))) (field_true i ''security_definer'')) routines)
       ''Aggregates, window functions or security-definer routines require separate review.'') (\<lambda>_.
     only_if applying (validate_applying inventory))))))))))))))"

section \<open>The backup\<close>

definition isolation_sessions_query :: "string \<Rightarrow> string" where
  "isolation_sessions_query run_id =
     ''SELECT count(*) FROM pg_stat_activity WHERE datname='' @ quoted ''eventharbor'' @
     '' AND pid<>pg_backend_pid() AND application_name<>'' @ literal (''shared-pg-'' @ run_id) @ '';''"

definition isolation_frozen :: "world \<Rightarrow> pg \<Rightarrow> unit job" where
  "isolation_frozen wd p =
     bind (sql_json wd p (isolation_sessions_query (pg_run_id p)) None)
       (\<lambda>count. require (\<not> py_truthy count)
          ''EventHarbor still has other database sessions. Stop every writer and job first.'')"

definition isolation_suffix :: "string \<Rightarrow> string \<Rightarrow> job_exn + string" where
  "isolation_suffix run_id name =
     (if name \<in> {''eventharbor-before-isolation.dump'', ''manifest.json''}
      then Inr (''/shared-postgres/'' @ run_id @ ''/eventharbor-isolation/'' @ name)
      else Inl (SafeError ''Unexpected EventHarbor backup filename.''))"

definition verified_messages :: download_messages where
  "verified_messages = \<lparr>dm_claim = ''EventHarbor backup size or checksum is invalid.'',
     dm_length = ''Stored EventHarbor backup has an unexpected length.'',
     dm_exceeds = ''Stored EventHarbor backup exceeds the expected size.'',
     dm_digest = ''Stored EventHarbor backup failed actual-byte checksum verification.''\<rparr>"

definition download_verified :: "world \<Rightarrow> private_blob \<Rightarrow> string \<Rightarrow> json \<Rightarrow> json \<Rightarrow> unit job" where
  "download_verified wd b path expected_size expected_sha256 =
     download_checked wd b verified_messages ''eventharbor-before-isolation.dump'' path expected_size expected_sha256"

definition isolation_dump :: "world \<Rightarrow> string" where
  "isolation_dump wd = wd_directory wd @ ''/eventharbor-before-isolation.dump''"

definition isolation_download :: "world \<Rightarrow> string" where
  "isolation_download wd = wd_directory wd @ ''/verified-eventharbor.dump''"

definition isolation_record :: "string \<Rightarrow> json \<Rightarrow> string \<Rightarrow> int \<Rightarrow> json \<Rightarrow> json" where
  "isolation_record run_id inventory checksum dump_bytes manifest =
     JObj [(''format'', JInt 1), (''purpose'', JStr ''eventharbor-before-isolation''), (''run_id'', JStr run_id),
       (''host'', JStr TARGET_HOST), (''database'', JStr DATABASE), (''inventory'', inventory), (''dump_sha256'', JStr checksum),
       (''dump_bytes'', JInt dump_bytes), (''source_manifest'', manifest)]"

text \<open>
  \<open>backup_before_change\<close> in three parts: the dump of one snapshot, the stored copy and its read-back,
  and the second look.  The run identifier is that of the connection.
\<close>

definition take_backup :: "world \<Rightarrow> pg \<Rightarrow> json job" where
  "take_backup wd p =
     with_snapshot wd p (\<lambda>snapshot.
       bind (pg_manifest wd p snapshot) (\<lambda>manifest.
       bind (dump_to wd [] (isolation_dump wd) ''EventHarbor backup is empty or exceeds the reviewed size limit.'' p snapshot) (\<lambda>_.
       bind (isolation_frozen wd p) (\<lambda>_.
       ret manifest))))"

definition keep_backup :: "world \<Rightarrow> pg \<Rightarrow> private_blob \<Rightarrow> json \<Rightarrow> json \<Rightarrow> string job" where
  "keep_backup wd p blob inventory manifest =
     bind (upload wd blob (isolation_dump wd) ''eventharbor-before-isolation.dump'') (\<lambda>checksum.
     bind (get_file (isolation_dump wd)) (\<lambda>file.
     let dump_bytes = (case file of None \<Rightarrow> 0 | Some c \<Rightarrow> int (length c));
         manifest_path = wd_directory wd @ ''/manifest.json'' in
     bind (download_verified wd blob (isolation_download wd) (JInt dump_bytes) (JStr checksum)) (\<lambda>_.
     bind (native wd [''pg_restore'', ''--list'', isolation_download wd]
       (database_env wd (pg_database p) (pg_run_id p) True) None None) (\<lambda>_.
     bind (put_file manifest_path
       (Some (wd_dumps wd (isolation_record (pg_run_id p) inventory checksum dump_bytes manifest)))) (\<lambda>_.
     bind (upload wd blob manifest_path ''manifest.json'') (\<lambda>_.
     ret checksum))))))"

definition backup_before_change :: "world \<Rightarrow> pg \<Rightarrow> environment \<Rightarrow> json \<Rightarrow> (json \<times> string) job" where
  "backup_before_change wd p environment inventory =
     bind (private_blob_init environment (pg_run_id p) (isolation_suffix (pg_run_id p))) (\<lambda>blob.
     bind (require_private wd blob) (\<lambda>_.
     bind (take_backup wd p) (\<lambda>manifest.
     bind (keep_backup wd p blob inventory manifest) (\<lambda>checksum.
     bind (with_snapshot wd p (\<lambda>snapshot. bind (pg_manifest wd p snapshot) (\<lambda>again. require_same manifest again True))) (\<lambda>_.
     bind (isolation_frozen wd p) (\<lambda>_.
     ret (manifest, checksum)))))))"

section \<open>The change\<close>

definition ownership_sql :: "string \<Rightarrow> string" where
  "ownership_sql run_id =
     join_lines [
       [CHR 0x5C] @ ''getenv isolation_password EVENTHARBOR_NEW_PASSWORD'',
       ''BEGIN;'',
       ''SET LOCAL createrole_self_grant='' @ quoted ''set'' @ '';'',
       ''SELECT pg_advisory_xact_lock(170917, 170929);'',
       ''DO $guard$'',
       ''BEGIN'',
       '' IF current_database()<>'' @ quoted ''eventharbor'' @
         '' OR EXISTS(SELECT 1 FROM pg_roles WHERE rolname='' @ quoted ''eventharbor_app'' @ '') THEN'',
       ''  RAISE EXCEPTION '' @ quoted ''Isolation target or new-role precondition failed'' @ '';'',
       '' END IF;'',
       '' IF EXISTS(SELECT 1 FROM pg_stat_activity WHERE datname='' @ quoted ''eventharbor'' @
         '' AND pid<>pg_backend_pid()'',
       ''           AND application_name<>current_setting('' @ quoted ''application_name'' @ '')) THEN'',
       ''  RAISE EXCEPTION '' @ quoted ''EventHarbor sessions are not drained'' @ '';'',
       '' END IF;'',
       ''END $guard$;'',
       ''CREATE ROLE eventharbor_app LOGIN PASSWORD :'' @ quoted ''isolation_password'',
       '' NOSUPERUSER NOCREATEDB NOCREATEROLE NOREPLICATION NOBYPASSRLS CONNECTION LIMIT 12;'',
       ''COMMENT ON ROLE eventharbor_app IS '' @ literal (''eventharbor-isolation:'' @ run_id) @ '';'',
       ''REVOKE CONNECT,TEMPORARY ON DATABASE eventharbor FROM PUBLIC;'',
       ''GRANT CONNECT,CREATE ON DATABASE eventharbor TO eventharbor_app;'',
       ''ALTER SCHEMA public OWNER TO eventharbor_app;'',
       ''REVOKE CREATE ON DATABASE eventharbor FROM eventharbor_app;'',
       ''DO $ownership$'',
       ''DECLARE item record; kind text;'',
       ''BEGIN'',
       '' FOR item IN SELECT t.typname FROM pg_type t JOIN pg_namespace n ON n.oid=t.typnamespace'',
       ''             WHERE n.nspname='' @ quoted ''public'' @ '' AND t.typtype='' @ quoted ''e'' @
         '' ORDER BY t.oid LOOP'',
       ''  EXECUTE format('' @ quoted ''ALTER TYPE public.%I OWNER TO eventharbor_app'' @ '', item.typname);'',
       '' END LOOP;'',
       '' FOR item IN SELECT c.oid,c.relname,c.relkind FROM pg_class c JOIN pg_namespace n ON n.oid=c.relnamespace'',
       ''             WHERE n.nspname='' @ quoted ''public'' @ '' AND c.relkind IN ('' @ quoted ''r'' @ '','' @
         quoted ''p'' @ '','' @ quoted ''v'' @ '','' @ quoted ''m'' @ '','' @ quoted ''S'' @ '')'',
       ''             ORDER BY CASE WHEN c.relkind='' @ quoted ''S'' @ '' THEN 1 ELSE 0 END,c.oid LOOP'',
       ''  kind := CASE item.relkind WHEN '' @ quoted ''v'' @ '' THEN '' @ quoted ''VIEW'' @ '' WHEN '' @
         quoted ''m'' @ '' THEN '' @ quoted ''MATERIALIZED VIEW'',
       ''                          WHEN '' @ quoted ''S'' @ '' THEN '' @ quoted ''SEQUENCE'' @ '' ELSE '' @
         quoted ''TABLE'' @ '' END;'',
       ''  IF (SELECT pg_get_userbyid(relowner) FROM pg_class WHERE oid=item.oid)<>'' @ quoted ''eventharbor_app'' @
         '' THEN'',
       ''   EXECUTE format('' @ quoted ''ALTER %s public.%I OWNER TO eventharbor_app'' @ '', kind, item.relname);'',
       ''  END IF;'',
       '' END LOOP;'',
       '' FOR item IN SELECT p.oid,p.proname,p.prokind,pg_get_function_identity_arguments(p.oid) AS args'',
       ''             FROM pg_proc p JOIN pg_namespace n ON n.oid=p.pronamespace'',
       ''             WHERE n.nspname='' @ quoted ''public'' @ '' AND p.prokind IN ('' @ quoted ''f'' @ '','' @
         quoted ''p'' @ '') ORDER BY p.oid LOOP'',
       ''  kind := CASE item.prokind WHEN '' @ quoted ''p'' @ '' THEN '' @ quoted ''PROCEDURE'' @ '' ELSE '' @
         quoted ''FUNCTION'' @ '' END;'',
       ''  EXECUTE format('' @ quoted ''ALTER %s public.%I(%s) OWNER TO eventharbor_app'' @
         '', kind, item.proname, item.args);'',
       '' END LOOP;'',
       ''END $ownership$;'',
       ''SET LOCAL ROLE eventharbor_app;'',
       ''REVOKE ALL ON SCHEMA public FROM PUBLIC;'',
       ''DO $enum_grants$'',
       ''DECLARE item record;'',
       ''BEGIN'',
       '' FOR item IN SELECT t.typname FROM pg_type t JOIN pg_namespace n ON n.oid=t.typnamespace'',
       ''             WHERE n.nspname='' @ quoted ''public'' @ '' AND t.typtype='' @ quoted ''e'' @
         '' ORDER BY t.oid LOOP'',
       ''  EXECUTE format('' @ quoted ''REVOKE ALL ON TYPE public.%I FROM PUBLIC'' @ '', item.typname);'',
       '' END LOOP;'',
       ''END $enum_grants$;'',
       ''REVOKE ALL ON ALL TABLES IN SCHEMA public FROM PUBLIC;'',
       ''REVOKE ALL ON ALL SEQUENCES IN SCHEMA public FROM PUBLIC;'',
       ''REVOKE ALL ON ALL ROUTINES IN SCHEMA public FROM PUBLIC;'',
       ''ALTER DEFAULT PRIVILEGES FOR ROLE eventharbor_app REVOKE ALL ON TABLES FROM PUBLIC;'',
       ''ALTER DEFAULT PRIVILEGES FOR ROLE eventharbor_app REVOKE ALL ON SEQUENCES FROM PUBLIC;'',
       ''ALTER DEFAULT PRIVILEGES FOR ROLE eventharbor_app REVOKE ALL ON ROUTINES FROM PUBLIC;'',
       ''ALTER DEFAULT PRIVILEGES FOR ROLE eventharbor_app REVOKE ALL ON TYPES FROM PUBLIC;'',
       ''RESET ROLE;'',
       ''DO $checks$'',
       ''BEGIN'',
       '' IF EXISTS(SELECT 1 FROM pg_auth_members m JOIN pg_roles r ON r.oid=m.member WHERE r.rolname='' @
         quoted ''eventharbor_app'' @ '') THEN'',
       ''  RAISE EXCEPTION '' @ quoted ''Application role has unexpected memberships'' @ '';'',
       '' END IF;'',
       '' IF EXISTS(SELECT 1 FROM pg_database WHERE datname='' @ quoted ''eventharbor'' @
         '' AND pg_get_userbyid(datdba)='' @ quoted ''eventharbor_app'' @ '') THEN'',
       ''  RAISE EXCEPTION '' @ quoted ''Database owner must remain unchanged'' @ '';'',
       '' END IF;'',
       '' IF EXISTS(SELECT 1 FROM pg_class c JOIN pg_namespace n ON n.oid=c.relnamespace'',
       ''           WHERE n.nspname='' @ quoted ''public'' @ '' AND c.relkind IN ('' @ quoted ''r'' @ '','' @
         quoted ''p'' @ '','' @ quoted ''v'' @ '','' @ quoted ''m'' @ '','' @ quoted ''S'' @ '')'',
       ''           AND pg_get_userbyid(c.relowner)<>'' @ quoted ''eventharbor_app'' @ '') THEN'',
       ''  RAISE EXCEPTION '' @ quoted ''Application object ownership verification failed'' @ '';'',
       '' END IF;'',
       ''END $checks$;'',
       ''COMMIT;'',
       []]"

section \<open>The logins\<close>

definition login_query :: string where
  "login_query =
     ''SELECT json_build_object('' @ quoted ''database'' @ '',current_database(),'' @ quoted ''role'' @
     '',current_user,'' @ quoted ''migration_rows'' @ '',(SELECT count(*) FROM public.alembic_version));''"

text \<open>\<open>v < 1\<close>.\<close>

definition below_one :: "json \<Rightarrow> bool job" where
  "below_one v =
     (case py_number v of
        None \<Rightarrow> raise ValueOrTypeError
      | Some (Finite x) \<Rightarrow> ret (x < 1)
      | Some (Infinite negative) \<Rightarrow> ret negative
      | Some NaN \<Rightarrow> ret False)"

definition verify_own_login :: "world \<Rightarrow> database \<Rightarrow> string \<Rightarrow> unit job" where
  "verify_own_login wd db run_id =
     bind (sql_json wd \<lparr>pg_database = db, pg_run_id = run_id\<rparr> login_query None) (\<lambda>result.
     refuse_if (either (negate (field_is result ''database'' (JStr (db_name db))))
         (either (negate (field_is result ''role'' (JStr (db_user db)))) (bind (item result ''migration_rows'') below_one)))
       ''Application positive-login or schema-access verification failed.'')"

fun contains_text :: "string \<Rightarrow> string \<Rightarrow> bool" where
  "contains_text x [] = (x = [])"
| "contains_text x (c # cs) = (remove_prefix x (c # cs) \<noteq> None \<or> contains_text x cs)"

definition require_denied_login :: "world \<Rightarrow> database \<Rightarrow> string \<Rightarrow> unit job" where
  "require_denied_login wd db run_id =
     bind (run_command wd \<lparr>cm_arguments = PSQL, cm_env = database_env wd db run_id True, cm_sql = Some ''SELECT 1;''\<rparr>)
       (\<lambda>r. case r of
          NativeFailed \<Rightarrow> raise (SafeError ''Cross-database test did not return a definite permission denial.'')
        | Undecodable \<Rightarrow> raise ValueOrTypeError
        | Completed code err out produced \<Rightarrow>
            require (code \<noteq> 0 \<and> contains_text ''permission denied for database'' err)
              ''Cross-database login was not rejected specifically for database permission.'')"

definition roles_query :: string where
  "roles_query =
     ''SELECT coalesce(json_agg(json_build_object('' @ quoted ''name'' @ '',rolname,'' @ quoted ''superuser'' @
     '',rolsuper,'' @ quoted ''createdb'' @ '',rolcreatedb,'' @ quoted ''createrole'' @ '',rolcreaterole,'' @
     quoted ''replication'' @ '',rolreplication,'' @ quoted ''bypassrls'' @ '',rolbypassrls,'' @ quoted ''limit'' @
     '',rolconnlimit,'' @ quoted ''memberships'' @
     '',(SELECT count(*) FROM pg_auth_members WHERE member=r.oid)) ORDER BY rolname),'' @ quoted ''[]'' @
     ''::json) FROM pg_roles r WHERE rolname IN ('' @ quoted ''eventharbor_app'' @ '','' @
     quoted ''pulseexchange_app'' @ '');''"

definition privileges_query :: string where
  "privileges_query =
     ''SELECT json_build_object('' @ quoted ''eh_to_px'' @ '',has_database_privilege('' @ quoted ''eventharbor_app'' @
     '','' @ quoted ''pulseexchange'' @ '','' @ quoted ''CONNECT'' @ ''),'' @ quoted ''px_to_eh'' @
     '',has_database_privilege('' @ quoted ''pulseexchange_app'' @ '','' @ quoted ''eventharbor'' @ '','' @
     quoted ''CONNECT'' @ '')); ''"

text \<open>\<open>len(roles)\<close>.\<close>

definition length_of :: "json \<Rightarrow> nat job" where
  "length_of v =
     (case v of
        JArr vs \<Rightarrow> ret (length vs)
      | JObj kvs \<Rightarrow> ret (length kvs)
      | JStr s \<Rightarrow> ret (length s)
      | _ \<Rightarrow> raise ValueOrTypeError)"

text \<open>\<open>{item["name"] for item in roles} != {ROLE, OTHER_ROLE}\<close>.\<close>

definition other_names :: "json \<Rightarrow> bool job" where
  "other_names roles =
     bind (elements roles) (\<lambda>rs. bind (for_each (\<lambda>i. item i ''name'') rs) (\<lambda>ns.
     if \<not> list_all hashable ns then raise ValueOrTypeError
     else ret (\<not> (list_all (\<lambda>n. list_ex (py_eq n) (names [ROLE, OTHER_ROLE])) ns \<and>
       list_all (\<lambda>r. list_ex (\<lambda>n. py_eq n r) ns) (names [ROLE, OTHER_ROLE])))))"

definition check_role :: "json \<Rightarrow> unit job" where
  "check_role i =
     bind (refuse_if (any_of (field_true i) [''superuser'', ''createdb'', ''createrole'', ''replication'', ''bypassrls'', ''memberships''])
       ''Application role has an elevated attribute or unexpected membership.'') (\<lambda>_.
     refuse_if (both (field_is i ''name'' (JStr ROLE)) (negate (field_is i ''limit'' (JInt 12))))
       ''EventHarbor application connection limit does not match the reviewed profile.'')"

definition verify_both :: "world \<Rightarrow> pg \<Rightarrow> environment \<Rightarrow> json job" where
  "verify_both wd admin environment =
     bind (new_password environment ''EVENTHARBOR_APP_PASSWORD'') (\<lambda>eh_password.
     bind (new_password environment ''TARGET_APP_PASSWORD'') (\<lambda>px_password.
     bind (sql_json wd admin roles_query None) (\<lambda>roles.
     bind (refuse_if (either (bind (length_of roles) (\<lambda>n. ret (n \<noteq> 2))) (other_names roles))
       ''Both application roles must exist before isolation verification.'') (\<lambda>_.
     bind (elements roles) (\<lambda>rs.
     bind (for_each check_role rs) (\<lambda>_.
     bind (sql_json wd admin privileges_query None) (\<lambda>privileges.
     bind (refuse_if (either (field_true privileges ''eh_to_px'') (field_true privileges ''px_to_eh''))
       ''Catalog privileges still permit cross-application database access.'') (\<lambda>_.
     let run_id = pg_run_id admin;
         eh = (pg_database admin)\<lparr>db_name := DATABASE, db_user := ROLE, db_password := eh_password\<rparr>;
         px = (pg_database admin)\<lparr>db_name := OTHER_DATABASE, db_user := OTHER_ROLE, db_password := px_password\<rparr> in
     bind (verify_own_login wd eh run_id) (\<lambda>_.
     bind (verify_own_login wd px run_id) (\<lambda>_.
     bind (require_denied_login wd (eh\<lparr>db_name := OTHER_DATABASE\<rparr>) run_id) (\<lambda>_.
     bind (require_denied_login wd (px\<lparr>db_name := DATABASE\<rparr>) run_id) (\<lambda>_.
     ret (JObj [(''mode'', JStr ''Verify''), (''verified'', JBool True), (''positive_logins'', JInt 2),
       (''denied_cross_database_logins'', JInt 2), (''changed'', JBool False)])))))))))))))"

section \<open>The job\<close>

datatype isolate_mode = IsolateInspect | IsolateApply | IsolateVerify

text \<open>The configuration, the clients and the connection of the administrator.\<close>

definition isolate_connect :: "world \<Rightarrow> environment \<Rightarrow> pg job" where
  "isolate_connect wd environment =
     (let run_id = env_get environment ''MIGRATION_RUN_ID'' in
     bind (require (run_id_ok run_id) ''A unique reviewed migration run identifier is required.'') (\<lambda>_.
     bind (require_clients wd) (\<lambda>_.
     bind (database_parse wd (env_get environment ''TARGET_ADMIN_DATABASE_URL'') False) (\<lambda>db.
     let admin = \<lparr>pg_database = db\<lparr>db_name := DATABASE\<rparr>, pg_run_id = run_id\<rparr> in
     bind (set_phase ''EventHarbor inspection'') (\<lambda>_.
     bind (require_version wd admin) (\<lambda>_.
     ret admin))))))"

definition read_inventory :: "world \<Rightarrow> pg \<Rightarrow> bool \<Rightarrow> json job" where
  "read_inventory wd admin applying =
     bind (sql_json wd admin INVENTORY_SQL None) (\<lambda>inventory.
     bind (validate_inventory inventory applying) (\<lambda>_.
     ret inventory))"

text \<open>Everything before the change, the checks that come last included.\<close>

definition isolate_prepare :: "world \<Rightarrow> environment \<Rightarrow> pg \<Rightarrow> json \<Rightarrow> (json \<times> string) job" where
  "isolate_prepare wd environment admin inventory =
     bind (set_phase ''private EventHarbor recovery backup'') (\<lambda>_.
     bind (backup_before_change wd admin environment inventory) (\<lambda>ec.
     bind (sql_json wd admin INVENTORY_SQL None) (\<lambda>latest.
     bind (require (py_eq latest inventory)
       ''Object inventory changed after the recovery backup. No permission changes were made.'') (\<lambda>_.
     bind (validate_inventory latest True) (\<lambda>_.
     bind (isolation_frozen wd admin) (\<lambda>_.
     bind (set_phase ''atomic scoped ownership and grants'') (\<lambda>_.
     ret ec)))))))"

definition isolate_change :: "world \<Rightarrow> pg \<Rightarrow> string \<Rightarrow> string job" where
  "isolate_change wd admin password =
     sql wd admin (ownership_sql (pg_run_id admin)) False None [(''EVENTHARBOR_NEW_PASSWORD'', password)] None"

definition isolate_finish :: "world \<Rightarrow> pg \<Rightarrow> string \<Rightarrow> json \<Rightarrow> unit job" where
  "isolate_finish wd admin password expected =
     bind (set_phase ''post-change data and application login verification'') (\<lambda>_.
     let app = \<lparr>pg_database = (pg_database admin)\<lparr>db_user := ROLE, db_password := password\<rparr>, pg_run_id = pg_run_id admin\<rparr> in
     bind (with_snapshot wd app (\<lambda>snapshot. bind (pg_manifest wd app snapshot) (\<lambda>again. require_same expected again True))) (\<lambda>_.
     verify_own_login wd (pg_database app) (pg_run_id admin)))"

definition apply_report :: "string \<Rightarrow> string \<Rightarrow> json" where
  "apply_report run_id checksum =
     JObj [(''mode'', JStr ''Apply''), (''changed'', JBool True), (''role'', JStr ROLE), (''connection_limit'', JInt 12),
       (''database_owner_unchanged'', JBool True), (''data_verified'', JBool True),
       (''backup_prefix'', JStr (''shared-postgres/'' @ run_id @ ''/eventharbor-isolation/'')), (''backup_sha256'', JStr checksum),
       (''consumer_credentials_changed'', JBool False), (''backup_download_verified'', JBool True),
       (''backup_archive_readable'', JBool True), (''backup_restore_tested'', JBool False),
       (''both_app_isolation_verified'', JBool False),
       (''next'', JStr ''Update every EH consumer and run Verify after PX final copy.'')]"

definition isolate_apply :: "world \<Rightarrow> environment \<Rightarrow> pg \<Rightarrow> json \<Rightarrow> json job" where
  "isolate_apply wd environment admin inventory =
     bind (require (environment ''WRITERS_FROZEN'' = Some ''true'')
       ''Apply requires WRITERS_FROZEN=true after draining every EventHarbor consumer.'') (\<lambda>_.
     bind (new_password environment ''EVENTHARBOR_APP_PASSWORD'') (\<lambda>password.
     bind (isolation_frozen wd admin) (\<lambda>_.
     bind (in_directory
       (bind (isolate_prepare wd environment admin inventory) (\<lambda>ec.
        bind (isolate_change wd admin password) (\<lambda>_.
        bind (isolate_finish wd admin password (fst ec)) (\<lambda>_.
        ret (snd ec)))))) (\<lambda>checksum.
     ret (apply_report (pg_run_id admin) checksum)))))"

definition isolate_run :: "world \<Rightarrow> isolate_mode \<Rightarrow> environment \<Rightarrow> json job" where
  "isolate_run wd mode environment =
     bind (isolate_connect wd environment) (\<lambda>admin.
     if mode = IsolateVerify then verify_both wd admin environment
     else bind (read_inventory wd admin (mode = IsolateApply)) (\<lambda>inventory.
       if mode = IsolateInspect
       then ret (JObj [(''mode'', JStr ''Inspect''), (''changed'', JBool False), (''inventory'', inventory),
         (''planned_role'', JStr ROLE), (''connection_limit'', JInt 12), (''database_owner_unchanged'', JBool True),
         (''ddl_scope'', JStr ''eventharbor.public'')])
       else isolate_apply wd environment admin inventory))"

definition isolate_main :: "world \<Rightarrow> isolate_mode \<Rightarrow> environment \<Rightarrow> int \<times> string \<times> event list" where
  "isolate_main wd mode environment =
     (case isolate_run wd mode environment initial_state of
        (Inr report, s) \<Rightarrow> (0, wd_dumps wd report, js_history s)
      | (Inl (SafeError message), s) \<Rightarrow> (1, ''EventHarbor isolation stopped during '' @ js_phase s @ '': '' @ message, js_history s)
      | (Inl _, s) \<Rightarrow> (1, ''EventHarbor isolation stopped during '' @ js_phase s @
            ''. Diagnostics withheld. Inspect state before retrying; no automatic rollback or cleanup attempted.'', js_history s))"

end
