(* ===== verification/Copy_Safety.thy ===== *)
theory Copy_Safety
  imports Copy_Job
begin

text \<open>
  What the copy job may do, for every behaviour of the outside world.  A discipline is a reflexive
  and transitive relation between the states before and after a job, together with the commands,
  requests and files that keep it; the locale proves once that every operation of the job follows
  it when the commands it issues do.  It is interpreted for the commands and requests
  that only read, for those that change one server only, and for a file that stays.
\<close>

section \<open>Disciplines\<close>

definition obeys :: "(job_state \<Rightarrow> job_state \<Rightarrow> bool) \<Rightarrow> 'a job \<Rightarrow> bool" where
  "obeys R m \<longleftrightarrow> (\<forall>s. R s (snd (m s)))"

text \<open>The values a job can return: what a continuation may rely on.\<close>

definition returns :: "'a job \<Rightarrow> 'a \<Rightarrow> bool" where
  "returns m x \<longleftrightarrow> (\<exists>s s'. m s = (Inr x, s'))"

lemma database_parse_host:
  assumes "returns (database_parse wd v source) d"
  shows "db_host d = (if source then SOURCE_HOST else TARGET_HOST)"
  using assms by (auto simp: returns_def database_parse_def Let_def raise_def ret_def split: sum.splits if_splits)

named_theorems follows "jobs that follow a discipline"

locale discipline =
  fixes R :: "job_state \<Rightarrow> job_state \<Rightarrow> bool"
    and wd :: world
    and okc :: "command \<Rightarrow> bool"
    and okq :: "http_request \<Rightarrow> bool"
    and okf :: "string \<Rightarrow> bool"
  assumes refl: "R s s"
    and trans: "R s t \<Longrightarrow> R t u \<Longrightarrow> R s u"
    and phase: "R s (s\<lparr>js_phase := ph\<rparr>)"
    and files: "okf path \<Longrightarrow> R s (s\<lparr>js_files := (js_files s)(path := content)\<rparr>)"
    and natives: "okc c \<Longrightarrow> R s (s\<lparr>js_history := js_history s @ [Native c r]\<rparr>)"
    and keepers: "okc c \<Longrightarrow> R s (s\<lparr>js_history := js_history s @ [KeeperOpened c k]\<rparr>)"
    and polls: "R s (s\<lparr>js_history := js_history s @ [KeeperPolled b]\<rparr>)"
    and requests: "okq q \<Longrightarrow> R s (s\<lparr>js_history := js_history s @ [Http q h]\<rparr>)"
begin

lemma obeys_ret [follows]: "obeys R (ret x)"
  by (simp add: obeys_def ret_def refl)

lemma obeys_raise [follows]: "obeys R (raise e)"
  by (simp add: obeys_def raise_def refl)

lemma obeys_bind [follows]:
  assumes "obeys R m" "\<And>x. obeys R (f x)"
  shows "obeys R (bind m f)"
  unfolding obeys_def
proof
  fix s
  obtain r s' where m: "m s = (r, s')" by fastforce
  then have "R s s'" using assms(1) by (metis obeys_def snd_conv)
  moreover have "R s' (snd (f x s'))" for x using assms(2) by (simp add: obeys_def)
  ultimately show "R s (snd (bind m f s))" by (auto simp: bind_def m intro: trans split: sum.splits)
qed

lemma obeys_bind_returns:
  assumes "obeys R m" "\<And>x. returns m x \<Longrightarrow> obeys R (f x)"
  shows "obeys R (bind m f)"
  unfolding obeys_def
proof
  fix s
  obtain r s' where m: "m s = (r, s')" by fastforce
  then have "R s s'" using assms(1) by (metis obeys_def snd_conv)
  moreover have "R s' (snd (f x s'))" if "r = Inr x" for x
    using assms(2)[of x] m that by (auto simp: returns_def obeys_def)
  ultimately show "R s (snd (bind m f s))" by (auto simp: bind_def m intro: trans split: sum.splits)
qed

lemma obeys_in_directory:
  assumes "\<And>s. R s (s\<lparr>js_files := (\<lambda>_. None)\<rparr>)" "obeys R m"
  shows "obeys R (in_directory m)"
  unfolding obeys_def
proof
  fix s
  have "R s (snd (m s))" using assms(2) by (simp add: obeys_def)
  from trans[OF this assms(1)] show "R s (snd (in_directory m s))" by (cases "m s") (simp add: in_directory_def)
qed

lemma obeys_require [follows]: "obeys R (require ok message)"
  by (simp add: require_def obeys_ret obeys_raise)

lemma obeys_only_if [follows]: "obeys R m \<Longrightarrow> obeys R (only_if b m)"
  by (simp add: only_if_def obeys_ret)

lemma obeys_for_each [follows]: "(\<And>x. obeys R (f x)) \<Longrightarrow> obeys R (for_each f xs)"
  by (induction xs) (auto intro!: obeys_bind obeys_ret)

lemma obeys_on_error [follows]: "obeys R m \<Longrightarrow> obeys R (on_error m g)"
  unfolding obeys_def on_error_def by (auto split: prod.splits sum.splits) (metis snd_conv)+

lemma obeys_state [follows]:
  "obeys R (set_phase ph)" "obeys R (get_file path)" "obeys R (stamp clock)" "obeys R (poll_keeper w)"
  by (simp_all add: obeys_def set_phase_def get_file_def stamp_def poll_keeper_def refl phase polls Let_def)

lemma obeys_put_file [follows]: "okf path \<Longrightarrow> obeys R (put_file path content)"
  by (simp add: obeys_def put_file_def files)

lemma obeys_unlink [follows]:
  assumes "okf path" "obeys R m"
  shows "obeys R (finally_unlink path m)" "obeys R (unlink_on_error path m)"
proof -
  have step: "R s s'" if "m s = (r, s')" for s r s' using assms(2) that by (metis obeys_def snd_conv)
  have gone: "R s (s'\<lparr>js_files := (js_files s')(path := None)\<rparr>)" if "m s = (r, s')" for s r s'
    using trans[OF step[OF that] files[OF assms(1)]] .
  show "obeys R (finally_unlink path m)" "obeys R (unlink_on_error path m)"
    using gone step by (auto simp: obeys_def finally_unlink_def unlink_on_error_def split: prod.splits sum.splits)
qed

lemma obeys_world [follows]:
  "okc c \<Longrightarrow> obeys R (run_command wd c)" "okc c \<Longrightarrow> obeys R (open_keeper wd c)" "okq q \<Longrightarrow> obeys R (send wd q)"
  by (simp_all add: obeys_def run_command_def open_keeper_def send_def natives keepers requests Let_def)

lemma obeys_values [follows]:
  "obeys R (item v k)" "obeys R (mapping_items e v)" "obeys R (elements v)" "obeys R (text_of v)"
  by (auto simp: item_def mapping_items_def elements_def text_of_def intro: obeys_ret obeys_raise
      split: json.splits option.splits)

lemma obeys_native [follows]:
  assumes "okc \<lparr>cm_arguments = args, cm_env = env, cm_sql = q\<rparr>" "\<And>p. written = Some p \<Longrightarrow> okf p"
  shows "obeys R (native wd args env q written)"
  using assms unfolding native_def
  by (intro obeys_bind obeys_world) (auto intro!: follows split: native_outcome.splits option.splits)

end

section \<open>The reading operations\<close>

definition read_command :: "world \<Rightarrow> pg \<Rightarrow> string \<Rightarrow> command" where
  "read_command wd p q =
     \<lparr>cm_arguments = PSQL, cm_env = database_env wd (pg_database p) (pg_run_id p) True, cm_sql = Some q\<rparr>"

locale reading_discipline = discipline +
  assumes read_commands: "okc (read_command wd p query)"
    and version_commands: "okc \<lparr>cm_arguments = [program, ''--version''], cm_env = [(''PATH'', wd_path wd)], cm_sql = None\<rparr>"
    and dump_commands: "okc \<lparr>cm_arguments = args, cm_env = database_env wd db run_id True, cm_sql = None\<rparr>"
    and read_requests: "rq_method q \<noteq> ''PUT'' \<Longrightarrow> okq q"
begin

lemma obeys_sql [follows]:
  "(\<And>f. written = Some f \<Longrightarrow> okf f) \<Longrightarrow> obeys R (sql wd p query True snapshot [] written)"
  using read_commands[of p] unfolding sql_def Let_def
  by (auto simp: read_command_def intro!: obeys_bind obeys_require obeys_native)

lemma obeys_sql_json [follows]: "obeys R (sql_json wd p query snapshot)"
  unfolding sql_json_def by (intro obeys_on_error obeys_bind obeys_sql) (auto intro: follows split: option.splits)

lemma obeys_require_clients [follows]: "obeys R (require_clients wd)"
  unfolding require_clients_def require_client_def
  by (intro obeys_bind obeys_for_each obeys_native obeys_require obeys_ret version_commands) simp

lemma obeys_checks [follows]:
  "obeys R (require_version wd p)" "obeys R (require_frozen wd p)" "obeys R (require_absent wd p db role)"
  unfolding require_version_def require_frozen_def require_absent_def
  by (auto intro!: follows split: option.splits py_float.splits)

lemma obeys_with_snapshot [follows]:
  "(\<And>sn. obeys R (block sn)) \<Longrightarrow> obeys R (with_snapshot wd p block)"
  unfolding with_snapshot_def using read_commands[of p keeper_script, unfolded read_command_def]
  by (intro obeys_bind obeys_world) (auto intro!: follows split: keeper_outcome.splits)

lemma obeys_locale [follows]: "obeys R (pg_locale wd p)"
  unfolding pg_locale_def by (intro obeys_bind) (auto intro!: follows)

lemma obeys_any_alembic [follows]: "obeys R (any_alembic ts)"
  by (induction ts) (auto simp: is_alembic_table_def intro!: follows)

lemma obeys_table_manifest [follows]: "okf (row_file wd) \<Longrightarrow> obeys R (table_manifest wd p snapshot t)"
  unfolding table_manifest_def Let_def by (intro obeys_bind obeys_unlink(1)) (auto intro!: follows)

lemma obeys_sequence_manifest [follows]: "obeys R (sequence_manifest wd p snapshot t)"
  unfolding sequence_manifest_def by (auto intro!: follows split: list.splits)

lemma obeys_pg_manifest [follows]: "okf (row_file wd) \<Longrightarrow> obeys R (pg_manifest wd p snapshot)"
  unfolding pg_manifest_def by (intro obeys_bind obeys_for_each) (auto intro!: follows)

lemma obeys_require_same [follows]: "obeys R (require_same e a b)"
  by (auto simp: require_same_def intro: follows split: json.splits)

lemma obeys_token [follows]: "obeys R (token wd b)"
  unfolding token_def token_of_def read_limited_def Let_def
  by (auto intro!: follows read_requests split: sum.splits http_outcome.splits option.splits json.splits)

lemma obeys_blob_request:
  "(\<And>q. rq_method q = verb \<Longrightarrow> okq q) \<Longrightarrow> obeys R (blob_request wd b verb suffix data headers)"
  unfolding blob_request_def Let_def by (intro obeys_bind) (auto intro!: follows split: http_outcome.splits)

lemma obeys_blob_reads [follows]:
  "obeys R (blob_request wd b ''GET'' suffix data headers)" "obeys R (blob_request wd b ''HEAD'' suffix data headers)"
  by (auto intro!: obeys_blob_request read_requests)

lemma obeys_blob [follows]:
  "obeys R (private_blob_init environment run_id suffix)" "obeys R (require_private wd b)" "obeys R (of_result r)"
  "obeys R (blob_manifest wd b)" "obeys R (new_password environment k)" "obeys R (database_parse wd v source)"
  unfolding private_blob_init_def require_private_def of_result_def blob_manifest_def new_password_def
    database_parse_def read_limited_def Let_def
  by (auto intro!: follows split: option.splits sum.splits)

lemma obeys_download_blocks [follows]: "okf path \<Longrightarrow> obeys R (download_blocks msg path n blocks)"
  by (induction blocks) (auto simp: Let_def intro!: follows)

lemma obeys_download_checked [follows]: "okf path \<Longrightarrow> obeys R (download_checked wd b msg name path n h)"
  unfolding download_checked_def download_body_def Let_def
  by (auto intro!: follows split: json.splits option.splits)

lemma obeys_download [follows]: "okf path \<Longrightarrow> obeys R (download_dump wd b path n h)"
  unfolding download_dump_def by (rule obeys_download_checked)

lemma obeys_dump_to [follows]: "okf path \<Longrightarrow> obeys R (dump_to wd flags path msg p snapshot)"
  unfolding dump_to_def by (intro obeys_bind obeys_native dump_commands) (auto intro!: follows)

lemma obeys_pg_dump [follows]: "okf (dump_path wd) \<Longrightarrow> obeys R (pg_dump wd p snapshot)"
  unfolding pg_dump_def by (rule obeys_dump_to)

lemma obeys_backup_with [follows]:
  "okf (row_file wd) \<Longrightarrow> obeys R frozen \<Longrightarrow> (\<And>sn. obeys R (dump sn)) \<Longrightarrow> obeys R (backup_with wd p frozen dump final)"
  unfolding backup_with_def by (intro obeys_bind obeys_with_snapshot obeys_only_if) (auto intro!: follows)

lemma obeys_backup_source [follows]:
  "okf (dump_path wd) \<Longrightarrow> okf (row_file wd) \<Longrightarrow> obeys R (backup_source wd p final)"
  unfolding backup_source_def by (rule obeys_backup_with) (auto intro!: follows)

lemma obeys_inspect [follows]: "okf (row_file wd) \<Longrightarrow> obeys R (inspect_job wd source admin)"
  unfolding inspect_job_def by (intro obeys_bind obeys_with_snapshot) (auto intro!: follows)

lemma obeys_verify [follows]:
  "okf (row_file wd) \<Longrightarrow> okf (downloaded_path wd) \<Longrightarrow> obeys R (verify_job wd target blob db k)"
  unfolding verify_job_def downloaded_path_def by (intro obeys_bind obeys_with_snapshot) (auto intro!: follows)

text \<open>The modes that only read follow the discipline; the two that copy, if the copy does.\<close>

lemma obeys_mode_job_with:
  assumes "\<And>path. okf path"
    and copy: "\<And>blob db role password target. mode \<notin> {Inspect, Verify} \<Longrightarrow>
      db_host (pg_database target) = db_host (pg_database admin) \<Longrightarrow>
      obeys R (bind (prepare_copy wd environment mode source admin blob db role) (\<lambda>er.
        restore_copy wd mode source admin target db role password loc (fst er) (snd er)))"
  shows "obeys R (mode_job wd environment mode run_id source admin loc)"
  unfolding mode_job_def Let_def using assms by (auto intro!: follows copy split: option.splits prod.splits)

lemma obeys_run_with:
  assumes clear: "\<And>s. R s (s\<lparr>js_files := (\<lambda>_. None)\<rparr>)"
    and mode: "\<And>run_id source admin loc. db_host (pg_database source) = SOURCE_HOST \<Longrightarrow>
      db_host (pg_database admin) = TARGET_HOST \<Longrightarrow> obeys R (mode_job wd environment mode run_id source admin loc)"
  shows "obeys R (run wd mode environment)"
  unfolding run_def Let_def
  by (intro obeys_bind_returns) (auto intro!: follows mode obeys_in_directory clear dest!: database_parse_host)

end

section \<open>The operations that store and restore\<close>

locale backup_discipline = reading_discipline +
  assumes all_requests: "okq q"
begin

lemma obeys_upload [follows]: "obeys R (upload wd b path name)"
  unfolding upload_def by (auto intro!: follows obeys_blob_request all_requests split: option.splits)

lemma obeys_store_backup [follows]:
  "okf (wd_directory wd @ ''/manifest.json'') \<Longrightarrow> okf (downloaded_path wd) \<Longrightarrow> obeys R (store_backup wd blob mode db expected)"
  unfolding store_backup_def Let_def by (intro obeys_bind) (auto intro!: follows)

lemma obeys_prepare_copy [follows]:
  "(\<And>p. okf p) \<Longrightarrow> obeys R (prepare_copy wd environment mode source admin blob db role)"
  unfolding prepare_copy_def Let_def by (intro obeys_bind) (auto intro!: follows)

end

locale job_discipline = backup_discipline +
  fixes host :: string
  assumes target_commands: "map_of (cm_env c) ''PGHOST'' = Some host \<Longrightarrow> okc c"
    and all_files: "okf path"
    and clears: "R s (s\<lparr>js_files := (\<lambda>_. None)\<rparr>)"
begin

lemma obeys_write [follows]:
  assumes "db_host (pg_database p) = host"
  shows "obeys R (sql wd p query False None [] None)"
    "obeys R (sql wd p query False None [(''MIGRATION_NEW_PASSWORD'', password)] None)"
  using assms unfolding sql_def Let_def
  by (auto simp: blank_def database_env_def dict_set_def intro!: obeys_native target_commands)

lemma obeys_create_target [follows]:
  "db_host (pg_database p) = host \<Longrightarrow> obeys R (create_target wd p db role password loc)"
  unfolding create_target_def by (intro obeys_bind) (auto intro!: follows)

lemma obeys_all_owned [follows]: "obeys R (all_owned user ts)"
  by (induction ts) (auto simp: owned_table_def intro!: follows)

lemma obeys_analyze [follows]: "db_host (pg_database p) = host \<Longrightarrow> obeys R (analyze_user_tables wd p)"
  unfolding analyze_user_tables_def analyze_statement_def Let_def by (auto intro!: follows)

lemma obeys_pg_restore [follows]: "db_host (pg_database p) = host \<Longrightarrow> obeys R (pg_restore wd p db)"
  unfolding pg_restore_def by (intro obeys_bind obeys_native target_commands) (auto simp: database_env_def intro!: follows)

lemma obeys_total_rows [follows]: "obeys R (total_rows ts)"
  unfolding total_rows_def by (auto intro!: follows split: json.splits)

lemma obeys_finish_copy [follows]:
  "db_host (pg_database target) = host \<Longrightarrow> obeys R (finish_copy wd mode source target db expected dump_hash)"
  unfolding finish_copy_def Let_def
  by (intro obeys_bind obeys_only_if obeys_with_snapshot) (auto intro!: follows all_files)

lemma obeys_restore_copy [follows]:
  "db_host (pg_database admin) = host \<Longrightarrow> db_host (pg_database target) = host \<Longrightarrow>
   obeys R (restore_copy wd mode source admin target db role password loc expected dump_hash)"
  unfolding restore_copy_def by (intro obeys_bind) (auto intro!: follows)

lemma obeys_copy:
  "db_host (pg_database admin) = host \<Longrightarrow> db_host (pg_database target) = host \<Longrightarrow>
   obeys R (bind (prepare_copy wd environment mode source admin blob db role) (\<lambda>er.
     restore_copy wd mode source admin target db role password loc (fst er) (snd er)))"
  by (intro obeys_bind) (auto intro!: follows all_files)

lemma obeys_run: "host = TARGET_HOST \<Longrightarrow> obeys R (run wd mode environment)"
  by (intro obeys_run_with obeys_mode_job_with obeys_copy all_files clears) auto

end

section \<open>The disciplines of the job\<close>

definition emits :: "(event \<Rightarrow> bool) \<Rightarrow> job_state \<Rightarrow> job_state \<Rightarrow> bool" where
  "emits P s s' \<longleftrightarrow> (\<exists>new. js_history s' = js_history s @ new \<and> list_all P new)"

lemma emits_refl: "emits P s s" "js_history s' = js_history s \<Longrightarrow> emits P s s'"
  by (simp_all add: emits_def)

lemma emits_trans: "emits P s t \<Longrightarrow> emits P t u \<Longrightarrow> emits P s u"
  unfolding emits_def by (metis append.assoc list_all_append)

lemma emits_one: "P e \<Longrightarrow> emits P s (s\<lparr>js_history := js_history s @ [e]\<rparr>)"
  by (simp add: emits_def)

text \<open>
  A session that starts in read-only transactions, by its PGOPTIONS.  A command that names no server
  (a program asked for its version) changes nothing.
\<close>

definition read_only_session :: "command \<Rightarrow> bool" where
  "read_only_session c =
     (case map_of (cm_env c) ''PGOPTIONS'' of None \<Rightarrow> False | Some opts \<Rightarrow> ends_with READ_ONLY_OPTION opts)"

definition changes_nothing :: "command \<Rightarrow> bool" where
  "changes_nothing c \<longleftrightarrow> map_of (cm_env c) ''PGHOST'' = None \<or> read_only_session c"

text \<open>Only the given server may be changed: a session on any other is read-only.\<close>

definition writes_only :: "string \<Rightarrow> command \<Rightarrow> bool" where
  "writes_only host c \<longleftrightarrow> map_of (cm_env c) ''PGHOST'' = Some host \<or> changes_nothing c"

fun on_command :: "(command \<Rightarrow> bool) \<Rightarrow> event \<Rightarrow> bool" where
  "on_command P (Native c _) = P c"
| "on_command P (KeeperOpened c _) = P c"
| "on_command P _ = True"

fun on_request :: "(http_request \<Rightarrow> bool) \<Rightarrow> event \<Rightarrow> bool" where
  "on_request P (Http q _) = P q"
| "on_request P _ = True"

definition reading :: "event \<Rightarrow> bool" where
  "reading e \<longleftrightarrow> on_command changes_nothing e \<and> on_request (\<lambda>q. rq_method q \<noteq> ''PUT'') e"

lemma read_only_env: "read_only_session \<lparr>cm_arguments = args, cm_env = database_env wd db run_id True, cm_sql = q\<rparr>"
  by (simp add: read_only_session_def database_env_def READ_ONLY_OPTION_def ends_with_def)

lemma version_env: "changes_nothing \<lparr>cm_arguments = args, cm_env = [(''PATH'', x)], cm_sql = q\<rparr>"
  by (simp add: changes_nothing_def)

interpretation reads: reading_discipline "emits reading" wd changes_nothing "\<lambda>q. rq_method q \<noteq> ''PUT''" "\<lambda>_. True" for wd
  by unfold_locales
    (auto simp: emits_refl reading_def read_command_def read_only_env changes_nothing_def intro: emits_trans intro!: emits_one)

interpretation spares: job_discipline "emits (on_command (writes_only host))" wd "writes_only host" "\<lambda>_. True" "\<lambda>_. True" host
  for host wd
  by unfold_locales
    (auto simp: emits_refl read_command_def read_only_env writes_only_def changes_nothing_def intro: emits_trans intro!: emits_one)

interpretation stores: backup_discipline "emits (on_command changes_nothing)" wd changes_nothing "\<lambda>_. True" "\<lambda>_. True" for wd
  by unfold_locales
    (auto simp: emits_refl read_command_def read_only_env changes_nothing_def intro: emits_trans intro!: emits_one)

interpretation keeps: backup_discipline "\<lambda>s s'. js_files s' path = js_files s path" wd "\<lambda>_. True" "\<lambda>_. True" "\<lambda>p. p \<noteq> path"
  for path wd
  by unfold_locales auto

end
