(* ===== verification/Copy_Evidence.thy ===== *)
theory Copy_Evidence
  imports Copy_Safety
begin

text \<open>
  What the successful steps of the copy job leave behind in its history and its files, and the
  properties of the job: no text of a name or value escapes its quotes, a download is kept only when
  it is exact, and nothing changes on the target before the backup has been read back.
\<close>

section \<open>Successful steps\<close>

lemma bind_Inr: "bind m f s = (Inr y, s') \<longleftrightarrow> (\<exists>x s1. m s = (Inr x, s1) \<and> f x s1 = (Inr y, s'))"
  by (auto simp: bind_def split: prod.splits sum.splits)

lemma ret_Inr [simp]: "ret x s = (Inr y, s') \<longleftrightarrow> y = x \<and> s' = s"
  by (auto simp: ret_def)

lemma of_result_Inr [simp]: "of_result r s = (Inr y, s') \<longleftrightarrow> r = Inr y \<and> s' = s"
  by (auto simp: of_result_def ret_def raise_def split: sum.splits)

lemma raise_Inr [simp]: "raise e s \<noteq> (Inr y, s')"
  by (simp add: raise_def)

lemma require_Inr [simp]: "require ok m s = (Inr y, s') \<longleftrightarrow> ok \<and> s' = s"
  by (auto simp: require_def)

lemma file_Inr [simp]:
  "get_file p s = (Inr f, s') \<longleftrightarrow> f = js_files s p \<and> s' = s"
  "put_file p c s = (Inr u, s') \<longleftrightarrow> s' = s\<lparr>js_files := (js_files s)(p := c)\<rparr>"
  "set_phase ph s = (Inr u, s') \<longleftrightarrow> s' = s\<lparr>js_phase := ph\<rparr>"
  "stamp clock s = (Inr x, s') \<longleftrightarrow> x = clock (js_history s) \<and> s' = s"
  by (auto simp: get_file_def put_file_def set_phase_def stamp_def)

lemma on_error_Inr [simp]: "on_error m g s = (Inr y, s') \<longleftrightarrow> m s = (Inr y, s')"
  by (auto simp: on_error_def split: prod.splits sum.splits)

lemma obeysD: "obeys R m \<Longrightarrow> m s = (r, s') \<Longrightarrow> R s s'"
  by (metis obeys_def snd_conv)

lemma emits_mono: "emits P s s' \<Longrightarrow> e \<in> set (js_history s) \<Longrightarrow> e \<in> set (js_history s')"
  by (auto simp: emits_def)

lemma send_Inr: "send wd q s = (Inr h, s') \<Longrightarrow> Http q h \<in> set (js_history s')"
  by (auto simp: send_def Let_def)

lemma blob_request_Inr:
  assumes "blob_request wd b verb suffix data headers s = (Inr r, s')"
  shows "\<exists>q. Http q (HttpReply r) \<in> set (js_history s') \<and> rq_method q = verb \<and> rq_url q = pb_base b @ suffix \<and>
    rq_data q = data"
proof -
  from assms obtain q h s1 s2 where q: "send wd q s1 = (Inr h, s2)" "rq_method q = verb" "rq_url q = pb_base b @ suffix"
      "rq_data q = data"
    and k: "(case h of
        HttpFailed \<Rightarrow> raise (SafeError ''Private backup storage request failed; diagnostics are withheld.'')
      | HttpReply reply \<Rightarrow> ret reply) s2 = (Inr r, s')"
    unfolding blob_request_def Let_def bind_Inr by fastforce
  from k have "h = HttpReply r" "s' = s2" by (auto split: http_outcome.splits)
  then show ?thesis using send_Inr[OF q(1)] q(2-4) by blast
qed

lemma blob_request_files: "blob_request wd b verb suffix data headers s = (r, s') \<Longrightarrow> js_files s' p = js_files s p"
  using keeps.obeys_blob_request[of verb p wd b suffix data headers] by (auto dest: obeysD)

lemma upload_Inr:
  assumes "upload wd b path name s = (Inr h, s')"
  shows "\<exists>content q r suffix. js_files s path = Some content \<and> h = wd_sha256 wd content \<and>
    Http q (HttpReply r) \<in> set (js_history s') \<and> rq_method q = ''PUT'' \<and>
    pb_suffix b name = Inr suffix \<and> rq_url q = pb_base b @ suffix \<and> rq_data q = Some content"
proof -
  from assms obtain content suffix r1 s1 r2 s2 where
    c: "js_files s path = Some content" "pb_suffix b name = Inr suffix"
      "h = wd_sha256 wd content"
    and p: "blob_request wd b ''PUT'' suffix (Some content) (upload_headers wd content) s = (Inr r1, s1)"
    and g: "blob_request wd b ''HEAD'' suffix None [] s1 = (Inr r2, s')"
    by (auto simp: upload_def bind_Inr split: option.splits)
  from blob_request_Inr[OF p] obtain q where q: "Http q (HttpReply r1) \<in> set (js_history s1)" "rq_method q = ''PUT''"
    "rq_url q = pb_base b @ suffix" "rq_data q = Some content" by blast
  have "Http q (HttpReply r1) \<in> set (js_history s')"
    using emits_mono[OF obeysD[OF reads.obeys_blob_reads(2) g]] q(1) by blast
  then show ?thesis using c q by auto
qed

section \<open>Downloads\<close>

lemma download_blocks_Inr:
  assumes "download_blocks msg path n blocks s = (Inr u, s')" "js_files s path = Some w" "int (length w) \<le> n"
  shows "js_files s' path = Some (w @ concat (takeWhile (\<lambda>b. b \<noteq> []) blocks)) \<and> js_history s' = js_history s \<and>
    int (length (w @ concat (takeWhile (\<lambda>b. b \<noteq> []) blocks))) \<le> n"
  using assms
proof (induction blocks arbitrary: s w)
  case (Cons b bs)
  show ?case
  proof (cases "b = []")
    case False
    with Cons.prems have "download_blocks msg path n bs (s\<lparr>js_files := (js_files s)(path \<mapsto> w @ b)\<rparr>) = (Inr u, s')"
      "int (length (w @ b)) \<le> n" by (auto simp: bind_Inr Let_def)
    from Cons.IH[OF this(1) _ this(2)] False show ?thesis by simp
  qed (use Cons.prems in simp)
qed simp

lemma download_body_Inr:
  assumes "download_body wd b msg name path n h s = (Inr u, s')" "js_files s path = Some []" "0 \<le> n"
  shows "\<exists>q r suffix. Http q (HttpReply r) \<in> set (js_history s') \<and> rq_method q = ''GET'' \<and>
    pb_suffix b name = Inr suffix \<and> rq_url q = pb_base b @ suffix \<and> \<not> rp_breaks r \<and>
    js_files s' path = Some (reply_body r) \<and> int (length (reply_body r)) = n \<and> wd_sha256 wd (reply_body r) = h"
proof -
  from assms(1) obtain r s1 s2 suffix where
    g: "blob_request wd b ''GET'' suffix None [] s = (Inr r, s1)"
    and d: "download_blocks (dm_exceeds msg) path n (rp_blocks r) s1 = (Inr (), s')" and sfx: "pb_suffix b name = Inr suffix" and nb: "\<not> rp_breaks r"
    and chk: "int (length (case js_files s' path of None \<Rightarrow> [] | Some c \<Rightarrow> c)) = n"
      "wd_sha256 wd (case js_files s' path of None \<Rightarrow> [] | Some c \<Rightarrow> c) = h"
    by (auto simp: download_body_def bind_Inr Let_def split: if_splits)
  from blob_request_files[OF g] assms(2) have "js_files s1 path = Some []" by simp
  from download_blocks_Inr[OF d this] assms(3) have w: "js_files s' path = Some (reply_body r)" "js_history s' = js_history s1"
    by (simp_all add: reply_body_def)
  from blob_request_Inr[OF g] w nb chk sfx show ?thesis by auto
qed

lemma download_checked_Inr:
  assumes "download_checked wd b msg name path (JInt n) (JStr h) s = (Inr u, s')"
  shows "\<exists>q r suffix. Http q (HttpReply r) \<in> set (js_history s') \<and> rq_method q = ''GET'' \<and>
    pb_suffix b name = Inr suffix \<and> rq_url q = pb_base b @ suffix \<and> \<not> rp_breaks r \<and>
    js_files s' path = Some (reply_body r) \<and> int (length (reply_body r)) = n \<and> wd_sha256 wd (reply_body r) = h"
    "js_files s path = None" "0 < n" "n \<le> MAX_DUMP_BYTES" "sha256_hex_text h"
proof -
  from assms have c: "js_files s path = None" "0 < n" "n \<le> MAX_DUMP_BYTES" "sha256_hex_text h"
    and u: "unlink_on_error path (bind (put_file path (Some [])) (\<lambda>_. download_body wd b msg name path n h)) s = (Inr u, s')"
    by (auto simp: download_checked_def bind_Inr split: option.splits)
  from u have "download_body wd b msg name path n h (s\<lparr>js_files := (js_files s)(path \<mapsto> [])\<rparr>) = (Inr u, s')"
    by (auto simp: unlink_on_error_def bind_Inr split: prod.splits sum.splits)
  from download_body_Inr[OF this] c(2) show "\<exists>q r suffix. Http q (HttpReply r) \<in> set (js_history s') \<and> rq_method q = ''GET'' \<and>
    pb_suffix b name = Inr suffix \<and> rq_url q = pb_base b @ suffix \<and> \<not> rp_breaks r \<and>
    js_files s' path = Some (reply_body r) \<and> int (length (reply_body r)) = n \<and> wd_sha256 wd (reply_body r) = h" by simp
qed (use assms in \<open>auto simp: download_checked_def bind_Inr split: option.splits\<close>)

section \<open>The backup\<close>

text \<open>A run of pg_dump against the given server that ended cleanly and wrote the given file.\<close>

definition dumped :: "string \<Rightarrow> event list \<Rightarrow> string \<Rightarrow> bool" where
  "dumped host h content \<longleftrightarrow> (\<exists>c out. Native c (Completed 0 [] out (Some content)) \<in> set h \<and>
     hd (cm_arguments c) = ''pg_dump'' \<and> map_of (cm_env c) ''PGHOST'' = Some host)"

text \<open>
  The backup has been read back: what the storage returned for the name of the dump, completely, has
  the length and the SHA-256 of the file that was uploaded under that name, and that file is what
  pg_dump wrote.
\<close>

definition backup_stored :: "world \<Rightarrow> string \<Rightarrow> event list \<Rightarrow> bool" where
  "backup_stored wd host h \<longleftrightarrow> (\<exists>q r q' r' content. dumped host h content \<and>
     Http q (HttpReply r) \<in> set h \<and> rq_method q = ''PUT'' \<and> rq_data q = Some content \<and>
     Http q' (HttpReply r') \<in> set h \<and> rq_method q' = ''GET'' \<and> rq_url q' = rq_url q \<and> \<not> rp_breaks r' \<and>
     length (reply_body r') = length content \<and> wd_sha256 wd (reply_body r') = wd_sha256 wd content)"

lemma backup_stored_mono: "backup_stored wd host h \<Longrightarrow> set h \<subseteq> set h' \<Longrightarrow> backup_stored wd host h'"
  unfolding backup_stored_def dumped_def by (meson subsetD)

lemma dumped_mono: "dumped host h c \<Longrightarrow> set h \<subseteq> set h' \<Longrightarrow> dumped host h' c"
  unfolding dumped_def by (meson subsetD)

lemma emits_subset: "emits P s s' \<Longrightarrow> set (js_history s) \<subseteq> set (js_history s')"
  by (auto simp: emits_def)

lemma native_Inr:
  assumes "native wd args env q (Some p) s = (Inr out, s')"
  shows "\<exists>produced. Native \<lparr>cm_arguments = args, cm_env = env, cm_sql = q\<rparr> (Completed 0 [] out produced) \<in> set (js_history s') \<and>
    js_files s' p = produced"
  using assms by (auto simp: native_def bind_Inr run_command_def Let_def split: native_outcome.splits if_splits)

text \<open>The file at the path is what pg_dump wrote from the given server.\<close>

definition has_dump :: "string \<Rightarrow> string \<Rightarrow> job_state \<Rightarrow> bool" where
  "has_dump host path s \<longleftrightarrow> (\<exists>content. js_files s path = Some content \<and> dumped host (js_history s) content)"

lemma dump_to_Inr:
  assumes "dump_to wd flags path msg source sn s = (Inr u, s')" "db_host (pg_database source) = host"
  shows "has_dump host path s'"
proof -
  from assms(1) obtain args out where n: "native wd (''pg_dump'' # args) (database_env wd (pg_database source) (pg_run_id source) True)
      None (Some path) s = (Inr out, s')" and f: "js_files s' path \<noteq> None"
    by (auto simp: dump_to_def bind_Inr split: option.splits)
  from native_Inr[OF n] f assms(2) show ?thesis
    by (fastforce simp: has_dump_def dumped_def database_env_def)
qed

lemma with_snapshot_Inr:
  assumes "with_snapshot wd p block s = (Inr x, s')"
  shows "\<exists>sn s1 s2. block sn s1 = (Inr x, s2) \<and> js_files s1 = js_files s \<and> js_files s' = js_files s2 \<and>
    set (js_history s) \<subseteq> set (js_history s1) \<and> set (js_history s2) \<subseteq> set (js_history s')"
proof -
  from assms obtain l c k b s2 where
    "block (py_strip l) (s\<lparr>js_history := js_history s @ [KeeperOpened c k]\<rparr>) = (Inr x, s2)"
    "s' = s2\<lparr>js_history := js_history s2 @ [KeeperPolled b]\<rparr>"
    by (auto simp: with_snapshot_def bind_Inr open_keeper_def poll_keeper_def Let_def split: keeper_outcome.splits)
  then show ?thesis
    by (intro exI[of _ "py_strip l"] exI[of _ "s\<lparr>js_history := js_history s @ [KeeperOpened c k]\<rparr>"] exI[of _ s2]) auto
qed

lemma other_files: "row_file wd \<noteq> dump_path wd" "wd_directory wd @ ''/manifest.json'' \<noteq> dump_path wd"
    "downloaded_path wd \<noteq> dump_path wd"
  by (simp_all add: row_file_def dump_path_def downloaded_path_def)

text \<open>A job that keeps the dump and only reads servers keeps that the dump is what pg_dump wrote.\<close>

lemma has_dump_step:
  assumes "has_dump host path s" "m s = (r, s')" "obeys (\<lambda>s s'. js_files s' path = js_files s path) m" "obeys (emits P) m"
  shows "has_dump host path s'"
  using assms(1) obeysD[OF assms(3,2)] dumped_mono[OF _ emits_subset[OF obeysD[OF assms(4,2)]]]
  by (auto simp: has_dump_def)

lemma backup_with_Inr:
  assumes "backup_with wd source frozen dump final s = (Inr expected, s')"
    and dump: "\<And>sn s s'. dump sn s = (Inr (), s') \<Longrightarrow> has_dump host path s'"
    and path: "row_file wd \<noteq> path"
    and frozen: "obeys (\<lambda>s s'. js_files s' path = js_files s path) frozen" "obeys (emits reading) frozen"
  shows "has_dump host path s'"
proof -
  let ?second = "only_if final (bind (with_snapshot wd source (\<lambda>snapshot.
      bind (pg_manifest wd source snapshot) (\<lambda>again. require_same expected again True))) (\<lambda>_. frozen))"
  from assms(1) obtain s2 where
    first: "with_snapshot wd source (\<lambda>snapshot. bind (pg_manifest wd source snapshot) (\<lambda>expected.
       bind (dump snapshot) (\<lambda>_. bind (only_if final (bind frozen (\<lambda>_.
         bind (pg_manifest wd source snapshot) (\<lambda>again. require_same expected again True)))) (\<lambda>_.
       ret expected)))) s = (Inr expected, s2)"
    and second: "?second s2 = (Inr (), s')"
    by (auto simp: backup_with_def bind_Inr)
  from with_snapshot_Inr[OF first] obtain sn s1 s3 where
    b: "bind (pg_manifest wd source sn) (\<lambda>expected. bind (dump sn) (\<lambda>_.
       bind (only_if final (bind frozen (\<lambda>_.
         bind (pg_manifest wd source sn) (\<lambda>again. require_same expected again True)))) (\<lambda>_. ret expected))) s1 = (Inr expected, s3)"
    and f: "js_files s2 = js_files s3" "set (js_history s3) \<subseteq> set (js_history s2)" by blast
  let ?again = "\<lambda>e. only_if final (bind frozen (\<lambda>_.
         bind (pg_manifest wd source sn) (\<lambda>again. require_same e again True)))"
  from b obtain s4 s5 where d: "dump sn s4 = (Inr (), s5)" and a: "?again expected s5 = (Inr (), s3)"
    by (auto simp: bind_Inr)
  have "has_dump host path s5" by (rule dump[OF d])
  moreover have "obeys (\<lambda>s s'. js_files s' path = js_files s path) (?again expected)"
    by (intro keeps.obeys_only_if keeps.obeys_bind frozen keeps.obeys_pg_manifest keeps.obeys_require_same path)
  moreover have "obeys (emits reading) (?again expected)"
    by (intro reads.obeys_only_if reads.obeys_bind frozen reads.obeys_pg_manifest reads.obeys_require_same) simp
  ultimately have "has_dump host path s3" using has_dump_step a by blast
  then have "has_dump host path s2" using f dumped_mono by (auto simp: has_dump_def)
  moreover have "obeys (\<lambda>s s'. js_files s' path = js_files s path) ?second"
    by (intro keeps.obeys_only_if keeps.obeys_bind keeps.obeys_with_snapshot frozen keeps.obeys_pg_manifest
        keeps.obeys_require_same path)
  moreover have "obeys (emits reading) ?second"
    by (intro reads.obeys_only_if reads.obeys_bind reads.obeys_with_snapshot frozen reads.obeys_pg_manifest
        reads.obeys_require_same) simp
  ultimately show ?thesis using has_dump_step second by blast
qed

lemma backup_source_Inr:
  assumes "backup_source wd source final s = (Inr expected, s')" "db_host (pg_database source) = SOURCE_HOST"
  shows "has_dump SOURCE_HOST (dump_path wd) s'"
  by (rule backup_with_Inr[OF assms(1)[unfolded backup_source_def] _ other_files(1) keeps.obeys_checks(2) reads.obeys_checks(2)])
    (simp add: pg_dump_def dump_to_Inr[OF _ assms(2)])

text \<open>A dump that was uploaded and then downloaded under the same name, with its size and digest.\<close>

lemma backup_round_trip:
  assumes dump: "has_dump host path s" and up: "upload wd b path name s = (Inr h, s1)"
    and later: "set (js_history s1) \<subseteq> set (js_history s2)"
    and down: "download_checked wd b msg name' path' (JInt n) (JStr h) s2 = (Inr u, s')"
    and same: "pb_suffix b name' = pb_suffix b name"
    and n: "n = (case js_files s1 path of None \<Rightarrow> 0 | Some c \<Rightarrow> int (length c))"
  shows "backup_stored wd host (js_history s')"
proof -
  from dump obtain content where c: "js_files s path = Some content" "dumped host (js_history s) content"
    by (auto simp: has_dump_def)
  have kept: "n = int (length content)" using obeysD[OF keeps.obeys_upload up, of path] c(1) n by simp
  from upload_Inr[OF up] c(1) obtain q r suffix where put: "h = wd_sha256 wd content" "Http q (HttpReply r) \<in> set (js_history s1)"
    "rq_method q = ''PUT''" "pb_suffix b name = Inr suffix" "rq_url q = pb_base b @ suffix" "rq_data q = Some content" by auto
  from download_checked_Inr(1)[OF down] kept put(1,4) same obtain q' r' where get: "Http q' (HttpReply r') \<in> set (js_history s')"
    "rq_method q' = ''GET''" "rq_url q' = pb_base b @ suffix" "\<not> rp_breaks r'"
    "length (reply_body r') = length content" "wd_sha256 wd (reply_body r') = wd_sha256 wd content" by auto
  have "set (js_history s) \<subseteq> set (js_history s1)" by (rule emits_subset[OF obeysD[OF stores.obeys_upload up]])
  moreover have "set (js_history s2) \<subseteq> set (js_history s')"
    by (rule emits_subset[OF obeysD[OF stores.obeys_download_checked down]]) simp
  ultimately have "dumped host (js_history s') content" "Http q (HttpReply r) \<in> set (js_history s')"
    using dumped_mono[OF c(2)] put(2) later by blast+
  then show ?thesis unfolding backup_stored_def using put(3,5,6) get by metis
qed

lemma store_backup_Inr:
  assumes st: "store_backup wd blob mode db expected s = (Inr h, s')" and dump: "has_dump SOURCE_HOST (dump_path wd) s"
  shows "backup_stored wd SOURCE_HOST (js_history s')"
proof -
  from st obtain s1 saved u s2 v s4 where
    up: "upload wd blob (dump_path wd) ''pulseexchange.dump'' s = (Inr h, s1)"
    and up2: "upload wd blob (wd_directory wd @ ''/manifest.json'') ''manifest.json''
        (s1\<lparr>js_files := (js_files s1)(wd_directory wd @ ''/manifest.json'' \<mapsto> wd_dumps wd saved)\<rparr>) = (Inr u, s2)"
    and man: "blob_manifest wd blob (s2\<lparr>js_phase := ''stored backup round-trip verification''\<rparr>) = (Inr v, s4)"
    and down: "download_dump wd blob (downloaded_path wd)
        (JInt (case js_files s1 (dump_path wd) of None \<Rightarrow> 0 | Some c \<Rightarrow> int (length c))) (JStr h) s4 = (Inr (), s')"
    by (clarsimp simp: store_backup_def Let_def bind_Inr)
  have "set (js_history s1) \<subseteq> set (js_history s4)"
    using emits_subset[OF obeysD[OF stores.obeys_upload up2]] emits_subset[OF obeysD[OF stores.obeys_blob(4) man]] by simp
  from backup_round_trip[OF dump up this down[unfolded download_dump_def] refl] show ?thesis by simp
qed

lemma prepare_copy_Inr:
  assumes "prepare_copy wd environment mode source admin blob db role s = (Inr er, s')"
    "db_host (pg_database source) = SOURCE_HOST"
  shows "backup_stored wd SOURCE_HOST (js_history s')"
proof -
  from assms(1) obtain expected h s1 s2 s3 where b: "backup_source wd source (mode = FinalCopy) s1 = (Inr expected, s2)"
    and st: "store_backup wd blob mode db expected (s2\<lparr>js_phase := ''durable private backup upload''\<rparr>) = (Inr h, s3)"
    and f: "only_if (mode = FinalCopy) (require_frozen wd source) s3 = (Inr (), s')"
    by (auto simp: prepare_copy_def Let_def bind_Inr)
  have "has_dump SOURCE_HOST (dump_path wd) (s2\<lparr>js_phase := ''durable private backup upload''\<rparr>)"
    using backup_source_Inr[OF b assms(2)] by (simp add: has_dump_def)
  from backup_stored_mono[OF store_backup_Inr[OF st this] emits_subset[OF obeysD[OF reads.obeys_only_if[OF reads.obeys_checks(2)] f]]]
  show ?thesis .
qed

section \<open>The order of the job\<close>

text \<open>
  Between two states, every event that may change a server is allowed by the history before it: for
  the copy job, after the backup was read back.
\<close>

definition guarded :: "(event list \<Rightarrow> event \<Rightarrow> bool) \<Rightarrow> job_state \<Rightarrow> job_state \<Rightarrow> bool" where
  "guarded G s s' \<longleftrightarrow> (\<exists>new. js_history s' = js_history s @ new \<and>
     (\<forall>a e b. new = a @ e # b \<longrightarrow> \<not> on_command changes_nothing e \<longrightarrow> G (js_history s @ a) e))"

lemma guarded_same: "js_history s' = js_history s \<Longrightarrow> guarded G s s'"
  by (simp add: guarded_def)

lemma guarded_one: "on_command changes_nothing e \<Longrightarrow> guarded G s (s\<lparr>js_history := js_history s @ [e]\<rparr>)"
  by (auto simp: guarded_def append_eq_Cons_conv Cons_eq_append_conv)

lemma guarded_trans:
  assumes "guarded G s t" "guarded G t u"
  shows "guarded G s u"
proof -
  from assms obtain m n where m: "js_history t = js_history s @ m"
      "\<And>a e b. m = a @ e # b \<Longrightarrow> \<not> on_command changes_nothing e \<Longrightarrow> G (js_history s @ a) e"
    and n: "js_history u = js_history t @ n"
      "\<And>a e b. n = a @ e # b \<Longrightarrow> \<not> on_command changes_nothing e \<Longrightarrow> G (js_history t @ a) e"
    unfolding guarded_def by metis
  have "G (js_history s @ a) e" if split: "m @ n = a @ e # b" and w: "\<not> on_command changes_nothing e" for a e b
  proof -
    from split consider us where "m = a @ e # us" | us where "a = m @ us" "n = us @ e # b"
      by (auto simp: append_eq_append_conv2 Cons_eq_append_conv append_eq_Cons_conv)
    then show ?thesis
    proof cases
      case (2 us)
      then show ?thesis using n(2)[OF 2(2) w] m(1) by simp
    qed (use m(2) w in blast)
  qed
  then show ?thesis using m(1) n(1) unfolding guarded_def by (metis append.assoc)
qed

lemma guarded_after:
  assumes "\<And>a e. P e \<Longrightarrow> G (js_history s @ a) e" "emits P s s'"
  shows "guarded G s s'"
  using assms unfolding guarded_def emits_def by fastforce

definition after_backup :: "world \<Rightarrow> string \<Rightarrow> event list \<Rightarrow> event \<Rightarrow> bool" where
  "after_backup wd host pre e \<longleftrightarrow> backup_stored wd host pre"

interpretation guards: backup_discipline "guarded G" wd changes_nothing "\<lambda>_. True" "\<lambda>_. True" for G wd
  by unfold_locales (auto simp: guarded_same read_command_def read_only_env changes_nothing_def
      intro: guarded_trans intro!: guarded_one)

text \<open>After a job that establishes what the guard asks for, any job may follow.\<close>

lemma guarded_then:
  assumes "obeys (guarded G) m" "\<And>x s s' a e. m s = (Inr x, s') \<Longrightarrow> G (js_history s' @ a) e" "\<And>x. obeys (emits P) (f x)"
  shows "obeys (guarded G) (bind m f)"
  unfolding obeys_def
proof
  fix s
  obtain r s1 where m: "m s = (r, s1)" by fastforce
  have g: "guarded G s s1" by (rule obeysD[OF assms(1) m])
  show "guarded G s (snd (bind m f s))"
  proof (cases r)
    case (Inr x)
    obtain y s2 where f: "f x s1 = (y, s2)" by fastforce
    have "guarded G s1 s2" by (rule guarded_after[where P = P]) (use assms(2)[OF m[unfolded Inr]] obeysD[OF assms(3) f] in auto)
    then show ?thesis using guarded_trans[OF g] m f by (simp add: bind_def Inr)
  qed (use g m in \<open>simp add: bind_def\<close>)
qed

lemma copy_guarded:
  assumes "db_host (pg_database source) = SOURCE_HOST" "db_host (pg_database admin) = TARGET_HOST"
    "db_host (pg_database target) = TARGET_HOST"
  shows "obeys (guarded (after_backup wd SOURCE_HOST)) (bind (prepare_copy wd environment mode source admin blob db role) (\<lambda>er.
     restore_copy wd mode source admin target db role password loc (fst er) (snd er)))"
  by (rule guarded_then[OF guards.obeys_prepare_copy _ spares.obeys_restore_copy[OF assms(2,3)]])
    (auto simp: after_backup_def intro: backup_stored_mono[OF prepare_copy_Inr[OF _ assms(1)]])

lemma run_guarded: "obeys (guarded (after_backup wd SOURCE_HOST)) (run wd mode environment)"
  by (intro guards.obeys_run_with guards.obeys_mode_job_with copy_guarded) (auto intro: guarded_same)

lemma run_reading: "mode \<in> {Inspect, Verify} \<Longrightarrow> obeys (emits reading) (run wd mode environment)"
  by (intro reads.obeys_run_with reads.obeys_mode_job_with) (auto intro: emits_refl)

lemma migrate_history: "snd (snd (migrate_main wd mode environment)) = js_history (snd (run wd mode environment initial_state))"
  by (auto simp: migrate_main_def split: prod.splits sum.splits job_exn.splits)

end
