(* ===== verification/Economy.thy ===== *)
theory Economy
  imports Isolation
begin

text \<open>
  The second copy job, src/infra/azure-shared-postgres/economy_migrate.py: it copies either application
  from its original server into an empty database of the approved new server, or into a rehearsal
  database beside it.  It is a subclass of the copy job's connection and container, so its methods call
  the operations of migrate.py.
\<close>

section \<open>Projects and databases\<close>

definition APPROVED_TARGET_HOST :: string where
  "APPROVED_TARGET_HOST = ''psql-demos-economy-56sjj5b3bl7ro.postgres.database.azure.com''"

definition FOUNDATION_OWNER :: string where
  "FOUNDATION_OWNER = ''portfolio_admin''"

definition SOURCES :: "string \<Rightarrow> string option" where
  "SOURCES project =
     (if project = ''eventharbor'' then Some ''psql-eventharbor-prod-dodczqz7eaeps.postgres.database.azure.com''
      else if project = ''pulseexchange'' then Some ''psql-pulseexchange-prod-kj25jhmdlk6ik.postgres.database.azure.com''
      else None)"

definition USER_NAMESPACE :: string where
  "USER_NAMESPACE =
     ''n.nspname NOT LIKE '' @ quoted (''pg'' @ [CHR 0x5C] @ ''_%'') @ '' ESCAPE '' @ quoted ([CHR 0x5C]) @
     '' AND n.nspname<>'' @ quoted ''information_schema''"

definition parse_database :: "world \<Rightarrow> string \<Rightarrow> string \<Rightarrow> bool \<Rightarrow> database job" where
  "parse_database wd v project source =
     (let failure = SafeError ''Database URL does not match the fixed project, server, administrator and TLS scope.'' in
      case SOURCES project of
        None \<Rightarrow> raise (SafeError ''Project and exact deployed target host must be approved before using this helper.'')
      | Some source_host \<Rightarrow>
         (let host = (if source then source_host else APPROVED_TARGET_HOST);
              allowed = (if source then [project] else [''postgres'', project]) in
          case wd_urlsplit wd v of
            Inl _ \<Rightarrow> raise failure
          | Inr url \<Rightarrow>
              if su_scheme url \<notin> {''postgresql'', ''postgresql+asyncpg''} \<or> su_hostname url \<noteq> Some host \<or>
                 su_port url \<notin> {Inr None, Inr (Some 5432)} \<or> remove_slash (su_path url) \<notin> set allowed \<or>
                 blank (su_username url) \<or> blank (su_password url) \<or> su_fragment url \<noteq> [] \<or>
                 \<not> safe_ssl_query (wd_parse_qs wd (su_query url))
              then raise failure
              else let user = wd_unquote wd (the (su_username url)); password = wd_unquote wd (the (su_password url)) in
                if has_control (user @ password) \<or> (\<not> source \<and> user \<noteq> FOUNDATION_OWNER) then raise failure
                else ret \<lparr>db_host = host, db_name = (if source then project else ''postgres''), db_user = user,
                          db_password = password\<rparr>))"

section \<open>The rehearsal database\<close>

definition rehearsal_name :: "string \<Rightarrow> bool" where
  "rehearsal_name db \<longleftrightarrow> db \<in> {''eventharbor_rehearsal'', ''pulseexchange_rehearsal''}"

definition rehearsal_query :: string where
  "rehearsal_query =
     ''SELECT json_build_object('' @ quoted ''database'' @ '',current_database(),'' @ quoted ''user'' @
     '',current_user,'' @ quoted ''owner'' @ '',pg_get_userbyid(d.datdba),'' @ quoted ''database_comment'' @
     '',shobj_description(d.oid,'' @ quoted ''pg_database'' @ ''),'' @ quoted ''role_comment'' @
     '',shobj_description(r.oid,'' @ quoted ''pg_authid'' @ ''),'' @ quoted ''login'' @ '',r.rolcanlogin,'' @
     quoted ''superuser'' @ '',r.rolsuper,'' @ quoted ''createdb'' @ '',r.rolcreatedb,'' @ quoted ''createrole'' @
     '',r.rolcreaterole,'' @ quoted ''replication'' @ '',r.rolreplication,'' @ quoted ''bypassrls'' @
     '',r.rolbypassrls,'' @ quoted ''memberships'' @ '',(SELECT count(*) FROM pg_auth_members WHERE member=r.oid),'' @
     quoted ''schemas'' @ '',(SELECT coalesce(json_agg(nspname ORDER BY nspname),'' @ quoted ''[]'' @
     ''::json) FROM pg_namespace n WHERE '' @ USER_NAMESPACE @ ''),'' @ quoted ''public_owner'' @
     '',(SELECT pg_get_userbyid(nspowner) FROM pg_namespace WHERE nspname='' @ quoted ''public'' @ ''),'' @
     quoted ''admin_owner'' @ '',(SELECT pg_has_role('' @ quoted ''portfolio_admin'' @ '',nspowner,'' @
     quoted ''USAGE'' @ '') FROM pg_namespace WHERE nspname='' @ quoted ''public'' @ ''),'' @
     quoted ''admin_connect'' @ '',has_database_privilege('' @ quoted ''portfolio_admin'' @ '',d.oid,'' @
     quoted ''CONNECT'' @ ''),'' @ quoted ''admin_create'' @ '',has_database_privilege('' @
     quoted ''portfolio_admin'' @ '',d.oid,'' @ quoted ''CREATE'' @ ''),'' @ quoted ''relations'' @
     '',(SELECT count(*) FROM pg_class c JOIN pg_namespace n ON n.oid=c.relnamespace WHERE '' @ USER_NAMESPACE @
     ''),'' @ quoted ''types'' @
     '',(SELECT count(*) FROM pg_type t JOIN pg_namespace n ON n.oid=t.typnamespace WHERE '' @ USER_NAMESPACE @
     ''),'' @ quoted ''routines'' @
     '',(SELECT count(*) FROM pg_proc p JOIN pg_namespace n ON n.oid=p.pronamespace WHERE '' @ USER_NAMESPACE @
     ''),'' @ quoted ''extensions'' @ '',(SELECT coalesce(json_agg(extname ORDER BY extname),'' @ quoted ''[]'' @
     ''::json) FROM pg_extension),'' @ quoted ''large_objects'' @
     '',(SELECT count(*) FROM pg_largeobject_metadata),'' @ quoted ''event_triggers'' @
     '',(SELECT count(*) FROM pg_event_trigger),'' @ quoted ''sessions'' @
     '',(SELECT count(*) FROM pg_stat_activity WHERE datname=current_database() AND pid<>pg_backend_pid())) FROM pg_database d,pg_roles r WHERE d.datname=current_database() AND r.rolname=current_user;''"

text \<open>\<open>v[k] is True\<close>.\<close>

definition field_is_true :: "json \<Rightarrow> string \<Rightarrow> bool job" where
  "field_is_true v k = bind (item v k) (\<lambda>x. ret (x = JBool True))"

definition REHEARSAL_COUNTS :: "string list" where
  "REHEARSAL_COUNTS =
     [''superuser'', ''createdb'', ''createrole'', ''replication'', ''bypassrls'', ''memberships'', ''relations'', ''types'',
      ''routines'', ''large_objects'', ''event_triggers'', ''sessions'']"

text \<open>The condition of \<open>empty_rehearsal\<close>: whether the metadata differs anywhere from an empty, marked rehearsal.\<close>

definition not_empty_rehearsal :: "json \<Rightarrow> string \<Rightarrow> string \<Rightarrow> string \<Rightarrow> string list \<Rightarrow> bool job" where
  "not_empty_rehearsal metadata db role marker owners =
     either (negate (field_is metadata ''database'' (JStr db)))
     (either (negate (field_is metadata ''user'' (JStr role)))
     (either (negate (field_is metadata ''owner'' (JStr role)))
     (either (negate (field_is metadata ''database_comment'' (JStr marker)))
     (either (negate (field_is metadata ''role_comment'' (JStr marker)))
     (either (negate (field_is metadata ''schemas'' (JArr [JStr ''public''])))
     (either (negate (field_is metadata ''extensions'' (JArr [JStr ''plpgsql''])))
     (either (negate (field_in metadata ''public_owner'' (names owners)))
     (either (negate (field_is_true metadata ''login''))
     (either (any_of (field_true metadata) REHEARSAL_COUNTS)
       (both (field_is metadata ''public_owner'' (JStr ''azure_pg_admin'')) (negate (field_is_true metadata ''admin_owner''))))))))))))"

definition empty_rehearsal :: "world \<Rightarrow> pg \<Rightarrow> pg \<Rightarrow> bool \<Rightarrow> json job" where
  "empty_rehearsal wd self target recovery =
     (let db = db_name (pg_database target); role = db_user (pg_database target);
          marker = ''shared-postgres-helper:'' @ pg_run_id self in
     bind (require (rehearsal_name db \<and> role = db @ ''_app'' \<and> pg_run_id target = pg_run_id self \<and>
         db_user (pg_database self) = FOUNDATION_OWNER)
       ''Only the exact retained rehearsal database and application role are supported.'') (\<lambda>_.
     bind (require_version wd target) (\<lambda>_.
     bind (sql_json wd target rehearsal_query None) (\<lambda>metadata.
     bind (refuse_if (not_empty_rehearsal metadata db role marker
         (if recovery then [''azure_pg_admin''] else [''azure_pg_admin'', ''pg_database_owner'', role]))
       (''Rehearsal recovery requires the exact empty, isolated, run-marked database '' @
        ''and retained role; nothing was overwritten.'')) (\<lambda>_.
     ret metadata)))))"

definition rehearsal_guard :: "string \<Rightarrow> string \<Rightarrow> string \<Rightarrow> string \<Rightarrow> string" where
  "rehearsal_guard run_id db role owner =
     (let marker = literal (''shared-postgres-helper:'' @ run_id) in
     ''DO $guard$ BEGIN IF current_database()<>'' @ literal db @
     '' OR NOT EXISTS(SELECT 1 FROM pg_database WHERE datname=current_database() AND pg_get_userbyid(datdba)='' @
     literal role @ '' AND shobj_description(oid,'' @ quoted ''pg_database'' @ '')='' @ marker @ '')'' @
     '' OR NOT EXISTS(SELECT 1 FROM pg_roles r WHERE rolname='' @ literal role @ '' AND shobj_description(oid,'' @
     quoted ''pg_authid'' @ '')='' @ marker @
     '' AND rolcanlogin AND NOT(rolsuper OR rolcreatedb OR rolcreaterole OR rolreplication OR rolbypassrls)'' @
     '' AND NOT EXISTS(SELECT 1 FROM pg_auth_members WHERE member=r.oid))'' @
     '' OR (SELECT count(*) FROM pg_namespace n WHERE '' @ USER_NAMESPACE @ '')<>1'' @
     '' OR NOT EXISTS(SELECT 1 FROM pg_namespace WHERE nspname='' @ quoted ''public'' @
     '' AND pg_get_userbyid(nspowner)='' @ literal owner @ '')'' @
     concat (map (\<lambda>(cat, al, ns). '' OR EXISTS(SELECT 1 FROM '' @ cat @ '' '' @ al @
     '' JOIN pg_namespace n ON n.oid='' @ al @ ''.'' @ ns @ '' WHERE '' @ USER_NAMESPACE @
     '')'') [(''pg_class'', ''c'', ''relnamespace''), (''pg_type'', ''t'', ''typnamespace''), (''pg_proc'', ''p'', ''pronamespace'')]) @
     '' OR EXISTS(SELECT 1 FROM pg_extension WHERE extname<>'' @ quoted ''plpgsql'' @
     '') OR EXISTS(SELECT 1 FROM pg_largeobject_metadata)'' @
     '' OR EXISTS(SELECT 1 FROM pg_event_trigger) OR EXISTS(SELECT 1 FROM pg_stat_activity WHERE datname=current_database() AND pid<>pg_backend_pid())'' @
     '' THEN RAISE EXCEPTION '' @ quoted ''Empty rehearsal guard failed'' @ ''; END IF; END $guard$;'' @ [CHR 0x0A])"

definition rehearsal_statement :: "string \<Rightarrow> string \<Rightarrow> string \<Rightarrow> string \<Rightarrow> string" where
  "rehearsal_statement run_id db role owner =
     ''BEGIN;'' @ [CHR 0x0A] @ rehearsal_guard run_id db role owner @
     (if owner = ''azure_pg_admin''
      then ''DO $owner$ BEGIN IF current_user<>'' @ quoted ''portfolio_admin'' @ '' OR NOT pg_has_role(current_user,'' @
     quoted ''azure_pg_admin'' @ '','' @ quoted ''USAGE'' @ '') THEN RAISE EXCEPTION '' @
     quoted ''Schema owner access required'' @ ''; END IF; END $owner$;'' @ [CHR 0x0A]
      else []) @
     ''ALTER SCHEMA public OWNER TO '' @ ident role @ '';'' @ [CHR 0x0A] @ ''SET LOCAL ROLE '' @ ident role @ '';'' @ [CHR 0x0A] @
     ''REVOKE ALL ON SCHEMA public FROM PUBLIC;'' @ [CHR 0x0A] @ ''COMMIT;''"

text \<open>\<open>try: m finally: n\<close>: an exception of the second part replaces the outcome of the first.\<close>

definition finally_do :: "'a job \<Rightarrow> unit job \<Rightarrow> 'a job" where
  "finally_do m n =
     (\<lambda>s. case m s of (r, s1) \<Rightarrow> (case n s1 of (Inl e, s2) \<Rightarrow> (Inl e, s2) | (Inr _, s2) \<Rightarrow> (r, s2)))"

definition write_sql :: "world \<Rightarrow> pg \<Rightarrow> string \<Rightarrow> unit job" where
  "write_sql wd p statement = bind (sql wd p statement False None [] None) (\<lambda>_. ret ())"

text \<open>\<open>','.join(temporary)\<close>.\<close>

fun comma_list :: "string list \<Rightarrow> string" where
  "comma_list [] = []"
| "comma_list [x] = x"
| "comma_list (x # xs) = x @ '','' @ comma_list xs"

definition missing_privileges :: "json \<Rightarrow> string list job" where
  "missing_privileges metadata =
     bind (field_true metadata ''admin_connect'') (\<lambda>connect. bind (field_true metadata ''admin_create'') (\<lambda>create.
     ret ((if connect then [] else [''CONNECT'']) @ (if create then [] else [''CREATE'']))))"

definition prepare_rehearsal_schema :: "world \<Rightarrow> pg \<Rightarrow> pg \<Rightarrow> bool \<Rightarrow> unit job" where
  "prepare_rehearsal_schema wd self target recovery =
     bind (empty_rehearsal wd self target recovery) (\<lambda>metadata.
     bind (item metadata ''public_owner'') (\<lambda>x. bind (text_of x) (\<lambda>owner.
     let db = db_name (pg_database target); role = db_user (pg_database target); run_id = pg_run_id self;
         statement = rehearsal_statement run_id db role owner in
     if owner \<noteq> ''azure_pg_admin'' then write_sql wd target statement
     else bind (missing_privileges metadata) (\<lambda>temporary.
       finally_do
         (bind (only_if (temporary \<noteq> []) (write_sql wd target (''BEGIN;'' @ [CHR 0x0A] @ rehearsal_guard run_id db role owner @ ''GRANT '' @
             comma_list temporary @ '' ON DATABASE '' @ ident db @ '' TO portfolio_admin;'' @ [CHR 0x0A] @ ''COMMIT;''))) (\<lambda>_.
          write_sql wd \<lparr>pg_database = (pg_database self)\<lparr>db_name := db\<rparr>, pg_run_id = run_id\<rparr> statement))
         (only_if (temporary \<noteq> []) (write_sql wd target (''REVOKE '' @ comma_list temporary @ '' ON DATABASE '' @ ident db @
             '' FROM portfolio_admin;'')))))))"

definition economy_create_target :: "world \<Rightarrow> pg \<Rightarrow> string \<Rightarrow> string \<Rightarrow> string \<Rightarrow> json \<Rightarrow> unit job" where
  "economy_create_target wd self db role password loc =
     bind (require (rehearsal_name db \<and> role = db @ ''_app'') ''Only the exact rehearsal database and role can be created.'') (\<lambda>_.
     bind (create_target wd self db role password loc) (\<lambda>_.
     prepare_rehearsal_schema wd self
       \<lparr>pg_database = (pg_database self)\<lparr>db_name := db, db_user := role, db_password := password\<rparr>, pg_run_id = pg_run_id self\<rparr> False))"

section \<open>The foundation database\<close>

definition economy_sessions_query :: "string \<Rightarrow> string \<Rightarrow> string" where
  "economy_sessions_query name run_id =
     ''SELECT count(*) FROM pg_stat_activity WHERE datname='' @ literal name @
     '' AND pid<>pg_backend_pid() AND application_name IS DISTINCT FROM '' @ literal (''shared-pg-'' @ run_id) @ '';''"

definition economy_frozen :: "world \<Rightarrow> pg \<Rightarrow> unit job" where
  "economy_frozen wd p =
     bind (sql_json wd p (economy_sessions_query (db_name (pg_database p)) (pg_run_id p)) None)
       (\<lambda>count. require (\<not> py_truthy count)
          ''Source still has other sessions. Freeze all APIs, workers and scheduled/manual jobs first.'')"

definition foundation_query :: "string \<Rightarrow> string" where
  "foundation_query role =
     ''SELECT json_build_object('' @ quoted ''database'' @ '',current_database(),'' @ quoted ''user'' @
     '',current_user,'' @ quoted ''owner'' @
     '',(SELECT pg_get_userbyid(datdba) FROM pg_database WHERE datname=current_database()),'' @ quoted ''schemas'' @
     '',(SELECT coalesce(json_agg(nspname ORDER BY nspname),'' @ quoted ''[]'' @
     ''::json) FROM pg_namespace n WHERE '' @ USER_NAMESPACE @ ''),'' @ quoted ''public_owner'' @
     '',(SELECT pg_get_userbyid(nspowner) FROM pg_namespace WHERE nspname='' @ quoted ''public'' @ ''),'' @
     quoted ''public_owner_access'' @ '',(SELECT pg_has_role(current_user,nspowner,'' @ quoted ''USAGE'' @
     '') FROM pg_namespace WHERE nspname='' @ quoted ''public'' @ ''),'' @ quoted ''relations'' @
     '',(SELECT count(*) FROM pg_class c JOIN pg_namespace n ON n.oid=c.relnamespace WHERE '' @ USER_NAMESPACE @
     ''),'' @ quoted ''types'' @
     '',(SELECT count(*) FROM pg_type t JOIN pg_namespace n ON n.oid=t.typnamespace WHERE '' @ USER_NAMESPACE @
     ''),'' @ quoted ''routines'' @
     '',(SELECT count(*) FROM pg_proc p JOIN pg_namespace n ON n.oid=p.pronamespace WHERE '' @ USER_NAMESPACE @
     ''),'' @ quoted ''extensions'' @ '',(SELECT coalesce(json_agg(extname ORDER BY extname),'' @ quoted ''[]'' @
     ''::json) FROM pg_extension),'' @ quoted ''large_objects'' @
     '',(SELECT count(*) FROM pg_largeobject_metadata),'' @ quoted ''event_triggers'' @
     '',(SELECT count(*) FROM pg_event_trigger),'' @ quoted ''role_exists'' @
     '',EXISTS(SELECT 1 FROM pg_roles WHERE rolname='' @ literal role @ ''));''"

definition active_query :: string where
  "active_query =
     ''SELECT count(*) FROM pg_stat_activity WHERE datname=current_database() AND pid<>pg_backend_pid();''"

definition not_empty_foundation :: "json \<Rightarrow> string \<Rightarrow> bool job" where
  "not_empty_foundation metadata db =
     either (negate (field_is metadata ''database'' (JStr db)))
     (either (negate (field_is metadata ''user'' (JStr FOUNDATION_OWNER)))
     (either (negate (field_is metadata ''owner'' (JStr FOUNDATION_OWNER)))
     (either (negate (field_is metadata ''schemas'' (JArr [JStr ''public''])))
     (either (negate (field_in metadata ''public_owner'' (names [FOUNDATION_OWNER, ''pg_database_owner'', ''azure_pg_admin''])))
     (either (bind (mapping_items OtherException metadata) (\<lambda>kvs. ret (get_or_null kvs ''public_owner_access'' \<noteq> JBool True)))
     (either (negate (field_is metadata ''extensions'' (JArr [JStr ''plpgsql''])))
     (either (field_true metadata ''role_exists'')
       (any_of (field_true metadata) [''relations'', ''types'', ''routines'', ''large_objects'', ''event_triggers'']))))))))"

definition empty_foundation :: "world \<Rightarrow> pg \<Rightarrow> string \<Rightarrow> string \<Rightarrow> json \<Rightarrow> pg job" where
  "empty_foundation wd self db role loc =
     (let target = \<lparr>pg_database = (pg_database self)\<lparr>db_name := db\<rparr>, pg_run_id = pg_run_id self\<rparr> in
     bind (require (SOURCES db \<noteq> None \<and> role = db @ ''_app'')
       ''Only the exact two foundation database/application-role pairs are supported.'') (\<lambda>_.
     bind (require_version wd target) (\<lambda>_.
     bind (sql_json wd target (foundation_query role) None) (\<lambda>metadata.
     bind (refuse_if (not_empty_foundation metadata db)
       ''Destination is not an untouched empty foundation database with the exact owner and absent app role.'') (\<lambda>_.
     bind (pg_locale wd target) (\<lambda>found.
     bind (require (py_eq found loc)
       (''The empty foundation database locale/encoding differs from the source. '' @
        ''Do not overwrite or recreate it automatically.'')) (\<lambda>_.
     bind (sql_json wd target active_query None) (\<lambda>active.
     bind (require (\<not> py_truthy active)
       ''The empty destination has other sessions. Do not initialize or start the application yet.'') (\<lambda>_.
     ret target)))))))))"

definition claim_script :: "string \<Rightarrow> string \<Rightarrow> string \<Rightarrow> string" where
  "claim_script run_id db role =
     [CHR 0x5C] @ ''getenv migration_password MIGRATION_NEW_PASSWORD'' @ [CHR 0x0A] @ ''BEGIN;'' @ [CHR 0x0A] @
     ''SET LOCAL createrole_self_grant='' @ quoted ''set'' @ '';'' @ [CHR 0x0A] @
     ''SELECT pg_advisory_xact_lock(170929, '' @ (if db = ''eventharbor'' then ''1'' else ''2'') @ '');'' @
     [CHR 0x0A] @ ''DO $guard$ BEGIN'' @ [CHR 0x0A] @ ''IF current_database()<>'' @ literal db @
     '' OR current_user<>'' @ quoted ''portfolio_admin'' @ '' '' @
     ''OR (SELECT pg_get_userbyid(datdba) FROM pg_database WHERE datname=current_database())<>'' @
     quoted ''portfolio_admin'' @ '' '' @ ''OR EXISTS(SELECT 1 FROM pg_roles WHERE rolname='' @ literal role @
     '') '' @ ''OR (SELECT count(*) FROM pg_namespace n WHERE '' @ USER_NAMESPACE @ '')<>1 '' @
     ''OR NOT EXISTS(SELECT 1 FROM pg_namespace WHERE nspname='' @ quoted ''public'' @ '') '' @
     ''OR EXISTS(SELECT 1 FROM pg_namespace WHERE nspname='' @ quoted ''public'' @
     '' AND (pg_get_userbyid(nspowner) NOT IN ('' @ quoted ''portfolio_admin'' @ '','' @
     quoted ''pg_database_owner'' @ '','' @ quoted ''azure_pg_admin'' @
     '') OR NOT pg_has_role(current_user,nspowner,'' @ quoted ''USAGE'' @ ''))) '' @
     concat (map (\<lambda>(cat, al, ns). ''OR EXISTS(SELECT 1 FROM '' @ cat @ '' '' @ al @
     '' JOIN pg_namespace n ON n.oid='' @ al @ ''.'' @ ns @ '' WHERE '' @ USER_NAMESPACE @
     '') '') [(''pg_class'', ''c'', ''relnamespace''), (''pg_type'', ''t'', ''typnamespace''), (''pg_proc'', ''p'', ''pronamespace'')]) @
     ''OR EXISTS(SELECT 1 FROM pg_extension WHERE extname<>'' @ quoted ''plpgsql'' @ '') '' @
     ''OR EXISTS(SELECT 1 FROM pg_largeobject_metadata) OR EXISTS(SELECT 1 FROM pg_event_trigger) '' @
     ''OR EXISTS(SELECT 1 FROM pg_stat_activity WHERE datname=current_database() AND pid<>pg_backend_pid()) '' @
     ''THEN RAISE EXCEPTION '' @ quoted ''Empty foundation target guard failed'' @ ''; END IF; END $guard$;'' @
     [CHR 0x0A] @ ''CREATE ROLE '' @ ident role @ '' LOGIN PASSWORD :'' @ quoted ''migration_password'' @
     '' NOSUPERUSER NOCREATEDB NOCREATEROLE NOREPLICATION NOBYPASSRLS CONNECTION LIMIT 12;'' @ [CHR 0x0A] @
     ''GRANT CREATE ON DATABASE '' @ ident db @ '' TO '' @ ident role @ '';'' @ [CHR 0x0A] @
     ''ALTER SCHEMA public OWNER TO '' @ ident role @ '';'' @ [CHR 0x0A] @ ''ALTER DATABASE '' @ ident db @
     '' OWNER TO '' @ ident role @ '';'' @ [CHR 0x0A] @ ''SET LOCAL ROLE '' @ ident role @ '';'' @ [CHR 0x0A] @
     ''REVOKE CONNECT,TEMPORARY ON DATABASE '' @ ident db @ '' FROM PUBLIC;'' @ [CHR 0x0A] @
     ''REVOKE ALL ON SCHEMA public FROM PUBLIC;'' @ [CHR 0x0A] @
     ''ALTER DEFAULT PRIVILEGES REVOKE ALL ON TABLES FROM PUBLIC;'' @ [CHR 0x0A] @
     ''ALTER DEFAULT PRIVILEGES REVOKE ALL ON SEQUENCES FROM PUBLIC;'' @ [CHR 0x0A] @
     ''ALTER DEFAULT PRIVILEGES REVOKE ALL ON ROUTINES FROM PUBLIC;'' @ [CHR 0x0A] @
     ''ALTER DEFAULT PRIVILEGES REVOKE ALL ON TYPES FROM PUBLIC;'' @ [CHR 0x0A] @ ''COMMENT ON DATABASE '' @
     ident db @ '' IS '' @ literal (''economy-copy:'' @ run_id) @ '';'' @ [CHR 0x0A] @ ''COMMIT;''"

definition claim_empty_foundation :: "world \<Rightarrow> pg \<Rightarrow> string \<Rightarrow> string \<Rightarrow> string \<Rightarrow> json \<Rightarrow> unit job" where
  "claim_empty_foundation wd self db role password loc =
     bind (empty_foundation wd self db role loc) (\<lambda>target.
     bind (sql wd target (claim_script (pg_run_id self) db role) False None [(''MIGRATION_NEW_PASSWORD'', password)] None) (\<lambda>_.
     ret ()))"

section \<open>The backup\<close>

definition economy_suffix :: "string \<Rightarrow> string \<Rightarrow> string \<Rightarrow> job_exn + string" where
  "economy_suffix project run_id name =
     (let dump = project @ ''.dump''; file = (if name = ''pulseexchange.dump'' then dump else name) in
      if file \<in> {dump, ''manifest.json''} then Inr (''/economy-postgres/'' @ project @ ''/'' @ run_id @ ''/'' @ file)
      else Inl (SafeError ''Unexpected project backup filename.''))"

definition economy_blob :: "environment \<Rightarrow> string \<Rightarrow> string \<Rightarrow> private_blob job" where
  "economy_blob environment run_id project =
     bind (require (SOURCES project \<noteq> None) ''Unknown backup project.'') (\<lambda>_.
     private_blob_init environment run_id (economy_suffix project run_id))"

definition economy_dump :: "world \<Rightarrow> string \<Rightarrow> string" where
  "economy_dump wd project = wd_directory wd @ ''/'' @ project @ ''.dump''"

definition economy_download :: "world \<Rightarrow> string" where
  "economy_download wd = wd_directory wd @ ''/verified.dump''"

section \<open>The job\<close>

datatype economy_mode = EconomyInspect | EconomyRehearse | RecoverRehearsal | EconomyFinalCopy | EconomyVerify

fun economy_mode_name :: "economy_mode \<Rightarrow> string" where
  "economy_mode_name EconomyInspect = ''Inspect''"
| "economy_mode_name EconomyRehearse = ''Rehearse''"
| "economy_mode_name RecoverRehearsal = ''RecoverRehearsal''"
| "economy_mode_name EconomyFinalCopy = ''FinalCopy''"
| "economy_mode_name EconomyVerify = ''Verify''"

text \<open>What one run is about, as \<open>run\<close> computes it from the mode and the environment.\<close>

record economy_job =
  ej_mode :: economy_mode
  ej_project :: string
  ej_final :: bool
  ej_database :: string
  ej_role :: string
  ej_source_host :: string

definition economy_kind :: "economy_mode \<Rightarrow> environment \<Rightarrow> string" where
  "economy_kind mode environment =
     (case mode of
        EconomyVerify \<Rightarrow> (case environment ''VERIFY_TARGET'' of None \<Rightarrow> ''final'' | Some k \<Rightarrow> k)
      | EconomyFinalCopy \<Rightarrow> ''final''
      | _ \<Rightarrow> ''rehearsal'')"

definition economy_job_of :: "economy_mode \<Rightarrow> environment \<Rightarrow> economy_job" where
  "economy_job_of mode environment =
     (let project = env_get environment ''MIGRATION_PROJECT''; final = (economy_kind mode environment = ''final'');
          db = (if final then project else project @ ''_rehearsal'') in
      \<lparr>ej_mode = mode, ej_project = project, ej_final = final, ej_database = db, ej_role = db @ ''_app'',
       ej_source_host = (case SOURCES project of None \<Rightarrow> [] | Some h \<Rightarrow> h)\<rparr>)"

definition economy_inspect :: "world \<Rightarrow> economy_job \<Rightarrow> pg \<Rightarrow> pg \<Rightarrow> json \<Rightarrow> json job" where
  "economy_inspect wd job source admin loc =
     bind (empty_foundation wd admin (ej_project job) (ej_project job @ ''_app'') loc) (\<lambda>_.
     bind (with_snapshot wd source (pg_manifest wd source)) (\<lambda>manifest.
     ret (JObj [(''mode'', JStr (economy_mode_name (ej_mode job))), (''project'', JStr (ej_project job)), (''source_manifest'', manifest),
       (''target_host'', JStr APPROVED_TARGET_HOST), (''empty_foundation_verified'', JBool True), (''changed'', JBool False)])))"

definition economy_identity :: "economy_job \<Rightarrow> string \<Rightarrow> (string \<times> json) list" where
  "economy_identity job run_id =
     [(''format'', JInt 2), (''project'', JStr (ej_project job)), (''run_id'', JStr run_id), (''source_host'', JStr (ej_source_host job)),
      (''source_database'', JStr (ej_project job)), (''target_host'', JStr APPROVED_TARGET_HOST),
      (''target_database'', JStr (ej_database job)), (''mode'', JStr (if ej_final job then ''FinalCopy'' else ''Rehearse''))]"

definition economy_restore :: "world \<Rightarrow> economy_job \<Rightarrow> pg \<Rightarrow> unit job" where
  "economy_restore wd job target =
     bind (native wd [''pg_restore'', ''--no-password'', ''--no-owner'', ''--no-acl'', ''--no-tablespaces'', ''--exit-on-error'',
         ''--single-transaction'', ''--dbname='' @ ej_database job, economy_download wd]
       (database_env wd (pg_database target) (pg_run_id target) False) None None) (\<lambda>_. ret ())"

text \<open>RecoverRehearsal restores the saved dump first; Verify only looks.\<close>

definition economy_recover :: "world \<Rightarrow> economy_job \<Rightarrow> pg \<Rightarrow> pg \<Rightarrow> unit job" where
  "economy_recover wd job admin target =
     bind (set_phase ''empty rehearsal schema recovery'') (\<lambda>_.
     bind (prepare_rehearsal_schema wd admin target True) (\<lambda>_.
     bind (set_phase ''rehearsal recovery single transaction restore'') (\<lambda>_.
     bind (economy_restore wd job target) (\<lambda>_.
     bind (set_phase ''rehearsal recovery statistics'') (\<lambda>_.
     analyze_user_tables wd target)))))"

definition economy_verify :: "world \<Rightarrow> economy_job \<Rightarrow> pg \<Rightarrow> pg \<Rightarrow> private_blob \<Rightarrow> json job" where
  "economy_verify wd job admin target blob =
     bind (blob_manifest wd blob) (\<lambda>v.
     bind (mapping_items OtherException v) (\<lambda>record.
     bind (require (list_all (\<lambda>kv. py_eq (get_or_null record (fst kv)) (snd kv)) (economy_identity job (pg_run_id admin)))
       ''Backup manifest does not belong to this exact project, run and approved destination.'') (\<lambda>_.
     bind (download_dump wd blob (economy_download wd) (get_or_null record ''dump_bytes'') (get_or_null record ''dump_sha256'')) (\<lambda>_.
     bind (require_version wd target) (\<lambda>_.
     bind (only_if (ej_mode job = RecoverRehearsal) (economy_recover wd job admin target)) (\<lambda>_.
     bind (set_phase ''saved backup data verification'') (\<lambda>_.
     bind (with_snapshot wd target (\<lambda>snapshot.
       bind (item v ''source_manifest'') (\<lambda>expected.
       bind (pg_manifest wd target snapshot) (\<lambda>restored.
       require_same expected restored (ej_final job))))) (\<lambda>_.
     ret (JObj [(''mode'', JStr (economy_mode_name (ej_mode job))), (''project'', JStr (ej_project job)), (''verified'', JBool True),
       (''backup_download_verified'', JBool True), (''sequences_verified'', JBool (ej_final job)),
       (''changed'', JBool (ej_mode job = RecoverRehearsal))])))))))))"

definition economy_record :: "economy_job \<Rightarrow> string \<Rightarrow> string \<Rightarrow> string \<Rightarrow> int \<Rightarrow> json \<Rightarrow> json" where
  "economy_record job run_id created checksum dump_bytes expected =
     JObj [(''format'', JInt 2), (''project'', JStr (ej_project job)), (''run_id'', JStr run_id),
       (''mode'', JStr (economy_mode_name (ej_mode job))), (''created_utc'', JStr created), (''source_host'', JStr (ej_source_host job)),
       (''source_database'', JStr (ej_project job)), (''target_host'', JStr APPROVED_TARGET_HOST),
       (''target_database'', JStr (ej_database job)), (''dump_sha256'', JStr checksum), (''dump_bytes'', JInt dump_bytes),
       (''source_manifest'', expected)]"

definition economy_store :: "world \<Rightarrow> economy_job \<Rightarrow> string \<Rightarrow> private_blob \<Rightarrow> json \<Rightarrow> string job" where
  "economy_store wd job run_id blob expected =
     bind (upload wd blob (economy_dump wd (ej_project job)) (ej_project job @ ''.dump'')) (\<lambda>checksum.
     bind (stamp (wd_isoformat wd)) (\<lambda>created.
     bind (get_file (economy_dump wd (ej_project job))) (\<lambda>file.
     let dump_bytes = (case file of None \<Rightarrow> 0 | Some c \<Rightarrow> int (length c));
         record = economy_record job run_id created checksum dump_bytes expected;
         manifest_path = wd_directory wd @ ''/manifest.json'' in
     bind (put_file manifest_path (Some (wd_dumps wd record))) (\<lambda>_.
     bind (upload wd blob manifest_path ''manifest.json'') (\<lambda>_.
     bind (blob_manifest wd blob) (\<lambda>stored.
     bind (require (py_eq stored record) ''Stored manifest differs from the verified local backup record.'') (\<lambda>_.
     bind (download_dump wd blob (economy_download wd) (JInt dump_bytes) (JStr checksum)) (\<lambda>_.
     ret checksum))))))))"

definition economy_prepare :: "world \<Rightarrow> environment \<Rightarrow> economy_job \<Rightarrow> pg \<Rightarrow> pg \<Rightarrow> private_blob \<Rightarrow> json \<Rightarrow> (json \<times> string) job" where
  "economy_prepare wd environment job source admin blob loc =
     (let final = ej_final job; db = ej_database job; role = ej_role job in
     bind (only_if final (require (environment ''WRITERS_FROZEN'' = Some ''true'')
       (''FinalCopy requires WRITERS_FROZEN=true for this project'' @ [CHR 0x27] @ ''s complete writer freeze.''))) (\<lambda>_.
     bind (set_phase ''destination and source safety checks'') (\<lambda>_.
     bind (if final then bind (empty_foundation wd admin db role loc) (\<lambda>_. economy_frozen wd source)
           else require_absent wd admin db role) (\<lambda>_.
     bind (set_phase ''consistent source backup'') (\<lambda>_.
     bind (backup_with wd source (economy_frozen wd source)
       (dump_to wd [''--no-owner'', ''--no-acl''] (economy_dump wd (ej_project job))
         ''Source backup is empty or exceeds the reviewed size limit.'' source) final) (\<lambda>expected.
     bind (set_phase ''durable backup round-trip verification'') (\<lambda>_.
     bind (economy_store wd job (pg_run_id source) blob expected) (\<lambda>checksum.
     ret (expected, checksum)))))))))"

definition economy_claim :: "world \<Rightarrow> economy_job \<Rightarrow> pg \<Rightarrow> pg \<Rightarrow> string \<Rightarrow> json \<Rightarrow> unit job" where
  "economy_claim wd job source admin password loc =
     bind (set_phase ''isolated target preparation'') (\<lambda>_.
     if ej_final job
     then bind (economy_frozen wd source) (\<lambda>_. claim_empty_foundation wd admin (ej_database job) (ej_role job) password loc)
     else economy_create_target wd admin (ej_database job) (ej_role job) password loc)"

definition economy_finish :: "world \<Rightarrow> economy_job \<Rightarrow> pg \<Rightarrow> pg \<Rightarrow> json \<Rightarrow> string \<Rightarrow> json job" where
  "economy_finish wd job source target expected checksum =
     bind (set_phase ''single transaction restore'') (\<lambda>_.
     bind (economy_restore wd job target) (\<lambda>_.
     bind (set_phase ''restored table statistics'') (\<lambda>_.
     bind (analyze_user_tables wd target) (\<lambda>_.
     bind (set_phase ''restored data verification'') (\<lambda>_.
     bind (with_snapshot wd target (\<lambda>snapshot.
       bind (pg_manifest wd target snapshot) (\<lambda>restored. require_same expected restored (ej_final job)))) (\<lambda>_.
     bind (only_if (ej_final job) (bind (economy_frozen wd source) (\<lambda>_.
       with_snapshot wd source (\<lambda>snapshot.
         bind (pg_manifest wd source snapshot) (\<lambda>again. require_same expected again True))))) (\<lambda>_.
     bind (item expected ''tables'') (\<lambda>tables. bind (elements tables) (\<lambda>ts. bind (total_rows ts) (\<lambda>rows.
     ret (JObj [(''mode'', JStr (economy_mode_name (ej_mode job))), (''project'', JStr (ej_project job)), (''verified'', JBool True),
       (''target_database'', JStr (ej_database job)), (''backup_download_verified'', JBool True),
       (''sequences_verified'', JBool (ej_final job)), (''source_modified_by_helper'', JBool False),
       (''backup_prefix'', JStr (''economy-postgres/'' @ ej_project job @ ''/'' @ pg_run_id source @ ''/'')),
       (''dump_sha256'', JStr checksum), (''tables'', JInt (int (length ts))), (''rows'', rows),
       (''cutover_performed'', JBool False)])))))))))))"

definition economy_copy :: "world \<Rightarrow> environment \<Rightarrow> economy_job \<Rightarrow> pg \<Rightarrow> pg \<Rightarrow> pg \<Rightarrow> string \<Rightarrow> private_blob \<Rightarrow> json \<Rightarrow> json job" where
  "economy_copy wd environment job source admin target password blob loc =
     bind (economy_prepare wd environment job source admin blob loc) (\<lambda>ec.
     bind (economy_claim wd job source admin password loc) (\<lambda>_.
     economy_finish wd job source target (fst ec) (snd ec)))"

text \<open>The block in the temporary directory.  Verify and RecoverRehearsal do not look at the source.\<close>

definition economy_body :: "world \<Rightarrow> environment \<Rightarrow> economy_job \<Rightarrow> pg \<Rightarrow> pg \<Rightarrow> json job" where
  "economy_body wd environment job source admin =
     (let saved = (ej_mode job \<in> {EconomyVerify, RecoverRehearsal}) in
     bind (if saved then ret JNull else bind (require_version wd source) (\<lambda>_. pg_locale wd source)) (\<lambda>loc.
     if ej_mode job = EconomyInspect then economy_inspect wd job source admin loc
     else bind (new_password environment (if ej_final job then ''TARGET_APP_PASSWORD'' else ''REHEARSAL_APP_PASSWORD'')) (\<lambda>password.
       let target = \<lparr>pg_database = (pg_database admin)\<lparr>db_name := ej_database job, db_user := ej_role job, db_password := password\<rparr>,
                     pg_run_id = pg_run_id admin\<rparr> in
       bind (economy_blob environment (pg_run_id admin) (ej_project job)) (\<lambda>blob.
       bind (set_phase ''private backup validation'') (\<lambda>_.
       bind (require_private wd blob) (\<lambda>_.
       if saved then economy_verify wd job admin target blob
       else economy_copy wd environment job source admin target password blob loc))))))"

definition economy_run :: "world \<Rightarrow> economy_mode \<Rightarrow> environment \<Rightarrow> json job" where
  "economy_run wd mode environment =
     (let project = env_get environment ''MIGRATION_PROJECT''; run_id = env_get environment ''MIGRATION_RUN_ID'' in
     bind (require (run_id_ok run_id) ''A valid migration mode and unique run identifier are required.'') (\<lambda>_.
     bind (parse_database wd (env_get environment ''SOURCE_DATABASE_URL'') project True) (\<lambda>source_db.
     bind (parse_database wd (env_get environment ''TARGET_ADMIN_DATABASE_URL'') project False) (\<lambda>admin_db.
     let source = \<lparr>pg_database = source_db, pg_run_id = run_id\<rparr>; admin = \<lparr>pg_database = admin_db, pg_run_id = run_id\<rparr> in
     bind (require_clients wd) (\<lambda>_.
     bind (set_phase ''approved target inspection'') (\<lambda>_.
     bind (require_version wd admin) (\<lambda>_.
     bind (require (economy_kind mode environment \<in> {''final'', ''rehearsal''}) ''VERIFY_TARGET must be final or rehearsal.'') (\<lambda>_.
     in_directory (economy_body wd environment (economy_job_of mode environment) source admin)))))))))"

definition economy_main :: "world \<Rightarrow> economy_mode \<Rightarrow> environment \<Rightarrow> int \<times> string \<times> event list" where
  "economy_main wd mode environment =
     (case economy_run wd mode environment initial_state of
        (Inr report, s) \<Rightarrow> (0, wd_dumps wd report, js_history s)
      | (Inl (SafeError message), s) \<Rightarrow> (1, ''Economy migration stopped during '' @ js_phase s @ '': '' @ message, js_history s)
      | (Inl _, s) \<Rightarrow> (1, ''Economy migration stopped during '' @ js_phase s @
            ''. Diagnostics withheld. No automatic cleanup or cutover attempted.'', js_history s))"

end
