(* ===== verification/Scripted_World.thy ===== *)
theory Scripted_World
  imports Copy_Evidence Economy
begin

text \<open>
  A world that answers by a script, for the concrete runs of the jobs: psql answers by the number of
  events so far, storage and identity service always reply, and every digest is the same text.  The
  rules \<open>yields\<close> run a job step by step in it.
\<close>

section \<open>The world\<close>

text \<open>The answers of psql by the number of events before the question, and the stored manifest.\<close>

record script =
  sc_answers :: "(nat \<times> json) list"
  sc_stored :: json

definition cw_table :: "string \<Rightarrow> json \<Rightarrow> json" where
  "cw_table k v = JObj [(''schema'', JStr ''public''), (''name'', JStr ''alembic_version''), (k, v)]"

definition cw_sum :: string where
  "cw_sum = replicate 64 CHR ''a''"

definition cw_native :: "script \<Rightarrow> event list \<Rightarrow> command \<Rightarrow> native_outcome" where
  "cw_native sc h c =
     (if tl (cm_arguments c) = [''--version''] then Completed 0 [] ''psql (PostgreSQL) 17.2'' None
      else if hd (cm_arguments c) = ''pg_dump'' then Completed 0 [] [] (Some ''PGDMP'')
      else Completed 0 [] [CHR ''#'', char_of (length h)] (Some (''row'' @ [CHR 0x0A])))"

fun cw_loads :: "script \<Rightarrow> string \<Rightarrow> json option" where
  "cw_loads sc [c, d] = map_of (sc_answers sc) (of_char d)"
| "cw_loads sc s = (if s = ''TOKEN'' then Some (JObj [(''access_token'', JStr ''t'')]) else if s = ''MANIFEST'' then Some (sc_stored sc) else None)"

definition cw_reply :: "string \<Rightarrow> http_reply" where
  "cw_reply body = \<lparr>rp_header = (\<lambda>k. if k = ''Content-Length'' then Some (str_int (int (length body)))
       else if k = ''Content-MD5'' then Some ''md5'' else if k = ''x-ms-meta-sha256'' then Some cw_sum else None),
     rp_blocks = [body], rp_breaks = False\<rparr>"

definition cw_body :: "string \<Rightarrow> string" where
  "cw_body url =
     (if ends_with ''.dump'' url then ''PGDMP''
      else if ends_with ''.json'' url then ''MANIFEST''
      else if ends_with ''container'' url then []
      else ''TOKEN'')"

definition cw_url :: "string \<Rightarrow> split_url res" where
  "cw_url v =
     (if v = ''economy'' then Inr \<lparr>su_scheme = ''postgresql'', su_netloc = [], su_path = ''/postgres'', su_query = [], su_fragment = [],
        su_hostname = Some APPROVED_TARGET_HOST, su_username = Some FOUNDATION_OWNER, su_password = Some ''p'', su_port = Inr None\<rparr>
      else if v = ''identity'' then Inr \<lparr>su_scheme = ''http'', su_netloc = [], su_path = [], su_query = [], su_fragment = [],
        su_hostname = Some ''localhost'', su_username = None, su_password = None, su_port = Inr None\<rparr>
      else Inr \<lparr>su_scheme = ''postgresql'', su_netloc = [], su_path = (if v = ''source'' then ''/pulseexchange'' else ''/postgres''),
        su_query = [], su_fragment = [], su_hostname = Some (if v = ''source'' then SOURCE_HOST else TARGET_HOST),
        su_username = Some ''u'', su_password = Some ''p'', su_port = Inr None\<rparr>)"

definition cw_world :: "script \<Rightarrow> world" where
  "cw_world sc = \<lparr>wd_native = cw_native sc, wd_keeper = (\<lambda>h c. Line ''1-2-3''), wd_keeper_alive = (\<lambda>h. True),
     wd_http = (\<lambda>h q. HttpReply (cw_reply (cw_body (rq_url q)))), wd_formatdate = (\<lambda>h. ''today''), wd_isoformat = (\<lambda>h. ''now''), wd_path = ''/bin'',
     wd_directory = ''/tmp'', wd_loads = cw_loads sc,
     wd_dumps = (\<lambda>v. ''MANIFEST''), wd_urlsplit = cw_url, wd_parse_qs = (\<lambda>q. []), wd_unquote = (\<lambda>s. s),
     wd_urlencode = (\<lambda>q. ''q''), wd_sha256 = (\<lambda>s. cw_sum), wd_md5_base64 = (\<lambda>s. ''md5'')\<rparr>"

definition cw_env :: environment where
  "cw_env = map_of [(''MIGRATION_RUN_ID'', ''rehearsal-1''), (''SOURCE_DATABASE_URL'', ''source''),
     (''TARGET_ADMIN_DATABASE_URL'', ''target''), (''REHEARSAL_APP_PASSWORD'', replicate 32 CHR ''x''),
     (''EVENTHARBOR_APP_PASSWORD'', replicate 32 CHR ''y''), (''WRITERS_FROZEN'', ''true''),
     (''BACKUP_STORAGE_ACCOUNT'', ''backups''), (''BACKUP_CONTAINER'', ''private''), (''IDENTITY_ENDPOINT'', ''identity''),
     (''IDENTITY_HEADER'', ''h'')]"

lemma cw_world_sel [simp]:
  "wd_native (cw_world sc) = cw_native sc" "wd_keeper (cw_world sc) = (\<lambda>h c. Line ''1-2-3'')" "wd_keeper_alive (cw_world sc) = (\<lambda>h. True)"
  "wd_http (cw_world sc) = (\<lambda>h q. HttpReply (cw_reply (cw_body (rq_url q))))" "wd_directory (cw_world sc) = ''/tmp''" "wd_loads (cw_world sc) = cw_loads sc"
  "wd_urlsplit (cw_world sc) = cw_url" "wd_parse_qs (cw_world sc) q = []" "wd_unquote (cw_world sc) v = v"
  "wd_sha256 (cw_world sc) v = cw_sum" "wd_md5_base64 (cw_world sc) v = ''md5''" "wd_dumps (cw_world sc) j = ''MANIFEST''"
  "wd_isoformat (cw_world sc) = (\<lambda>h. ''now'')" "wd_formatdate (cw_world sc) = (\<lambda>h. ''today'')" "wd_urlencode (cw_world sc) u = ''q''"
  by (simp_all add: cw_world_def)

text \<open>
  A job that, from any state with the given number of events and the given files, returns the given
  value with so many events and such files.
\<close>

definition yields :: "'a job \<Rightarrow> nat \<Rightarrow> (string \<Rightarrow> string option) \<Rightarrow> 'a \<Rightarrow> nat \<Rightarrow> (string \<Rightarrow> string option) \<Rightarrow> bool" where
  "yields m n fs x k fs' \<longleftrightarrow> (\<forall>s. length (js_history s) = n \<longrightarrow> js_files s = fs \<longrightarrow>
     (\<exists>s'. m s = (Inr x, s') \<and> length (js_history s') = k \<and> js_files s' = fs'))"

definition reaches_write :: "'a job \<Rightarrow> nat \<Rightarrow> (string \<Rightarrow> string option) \<Rightarrow> bool" where
  "reaches_write m n fs \<longleftrightarrow> (\<forall>s. length (js_history s) = n \<longrightarrow> js_files s = fs \<longrightarrow>
     (\<exists>e \<in> set (js_history (snd (m s))). \<not> on_command changes_nothing e))"

lemma yields_bind: "yields m n fs x k gs \<Longrightarrow> yields (f x) k gs y j hs \<Longrightarrow> yields (bind m f) n fs y j hs"
  unfolding yields_def bind_def by fastforce

lemma reaches_bind: "yields m n fs x k gs \<Longrightarrow> reaches_write (f x) k gs \<Longrightarrow> reaches_write (bind m f) n fs"
  unfolding yields_def reaches_write_def bind_def by fastforce

lemma reaches_first:
  assumes "reaches_write m n fs" "\<And>x. obeys (emits P) (f x)"
  shows "reaches_write (bind m f) n fs"
  unfolding reaches_write_def
proof (intro allI impI)
  fix s :: job_state assume s: "length (js_history s) = n" "js_files s = fs"
  obtain r s1 where m: "m s = (r, s1)" by fastforce
  obtain e where e: "e \<in> set (js_history s1)" "\<not> on_command changes_nothing e"
    using assms(1) s m by (fastforce simp: reaches_write_def)
  have "e \<in> set (js_history (snd (f x s1)))" for x
    using emits_mono[of P s1 "snd (f x s1)" e] assms(2) e(1) by (simp add: obeys_def)
  then have "e \<in> set (js_history (snd (bind m f s)))"
    using e(1) m by (auto simp: bind_def split: sum.splits)
  then show "\<exists>e \<in> set (js_history (snd (bind m f s))). \<not> on_command changes_nothing e" using e(2) by blast
qed

lemma yields_basic:
  "yields (ret x) n fs x n fs" "ok \<Longrightarrow> yields (require ok msg) n fs () n fs" "yields (set_phase ph) n fs () n fs"
  "yields (put_file p c) n fs () n (fs(p := c))" "yields (get_file p) n fs (fs p) n fs"
  "yields (stamp (\<lambda>h. t)) n fs t n fs" "yields (only_if False m) n fs () n fs" "yields (for_each f []) n fs [] n fs"
  by (auto simp: yields_def ret_def require_def set_phase_def put_file_def get_file_def stamp_def only_if_def)

lemma yields_for_each:
  "yields (f x) n fs y k gs \<Longrightarrow> yields (for_each f xs) k gs ys j hs \<Longrightarrow> yields (for_each f (x # xs)) n fs (y # ys) j hs"
  by (auto intro!: yields_bind yields_basic)

lemma yields_on_error: "yields m n fs x k fs' \<Longrightarrow> yields (on_error m g) n fs x k fs'"
  unfolding yields_def on_error_def by fastforce

lemma yields_unlink: "yields m n fs x k fs' \<Longrightarrow> yields (finally_unlink p m) n fs x k (fs'(p := None))"
  "yields m n fs x k fs' \<Longrightarrow> yields (unlink_on_error p m) n fs x k fs'"
  unfolding yields_def finally_unlink_def unlink_on_error_def by fastforce+

lemma yields_files: "yields m n fs x k gs \<Longrightarrow> gs = hs \<Longrightarrow> yields m n fs x k hs"
  by simp

lemma yields_ret: "x = y \<Longrightarrow> yields (ret x) n fs y n fs"
  by (simp add: yields_basic)

lemma yields_query:
  assumes "n < 256" "snapshot = None \<or> snapshot = Some ''1-2-3''" "w = None \<or> w = Some p"
  shows "yields (sql (cw_world sc) c q b snapshot env w) n fs [CHR ''#'', char_of n] (Suc n)
    (case w of None \<Rightarrow> fs | Some p \<Rightarrow> fs(p \<mapsto> ''row'' @ [CHR 0x0A]))"
  using assms
  by (auto simp: yields_def sql_def PSQL_def Let_def native_def run_command_def bind_def cw_native_def put_file_def ret_def require_def
      blank_def snapshot_id_def any_hex_def lower_hex_def digit09_def code_in_def split: option.splits)

lemma yields_json:
  assumes "n < 256" "snapshot = None \<or> snapshot = Some ''1-2-3''" "map_of (sc_answers sc) n = Some v"
  shows "yields (sql_json (cw_world sc) c q snapshot) n fs v (Suc n) fs"
  unfolding sql_json_def
  by (rule yields_on_error, rule yields_bind, rule yields_query[where w = None, OF assms(1-2)])
    (use assms(1,3) in \<open>simp_all add: yields_basic\<close>)

lemma cw_line: "py_strip ''1-2-3'' = ''1-2-3''" "snapshot_id ''1-2-3''"
  by code_simp+

lemma yields_snapshot:
  assumes "yields (block ''1-2-3'') (Suc n) fs x k gs"
  shows "yields (with_snapshot (cw_world sc) p block) n fs x (Suc k) gs"
proof -
  have "yields (open_keeper (cw_world sc) c) n fs (Line ''1-2-3'') (Suc n) fs" for c
    by (simp add: yields_def open_keeper_def Let_def)
  moreover have "yields (poll_keeper (cw_world sc)) k gs True (Suc k) gs" by (simp add: yields_def poll_keeper_def Let_def)
  ultimately show ?thesis
    unfolding with_snapshot_def using assms cw_line by (auto intro!: yields_bind yields_basic simp: cw_line)
qed

lemma yields_send: "yields (send (cw_world sc) q) n fs (HttpReply (cw_reply (cw_body (rq_url q)))) (Suc n) fs"
  by (simp add: yields_def send_def Let_def)

text \<open>An environment with the identity service of this world.\<close>

definition served :: "environment \<Rightarrow> bool" where
  "served environment \<longleftrightarrow> env_get environment ''IDENTITY_ENDPOINT'' = ''identity'' \<and> env_get environment ''IDENTITY_HEADER'' = ''h'' \<and>
     env_get environment ''MIGRATION_IDENTITY_CLIENT_ID'' = []"

lemma cw_served [simp]: "served cw_env"
  by (simp add: served_def cw_env_def env_get_def)

lemma yields_token:
  assumes "served (pb_environment b)"
  shows "yields (token (cw_world sc) b) n fs ''t'' (Suc n) fs"
proof -
  have env: "env_get (pb_environment b) ''IDENTITY_ENDPOINT'' = ''identity''" "env_get (pb_environment b) ''IDENTITY_HEADER'' = ''h''"
    "env_get (pb_environment b) ''MIGRATION_IDENTITY_CLIENT_ID'' = []" using assms by (simp_all add: served_def)
  have body: "cw_body (''identity'' @ ''?'' @ ''q'') = ''TOKEN''" by code_simp
  have "read_limited 65536 (cw_reply ''TOKEN'') = ret ''TOKEN''"
    by (simp add: read_limited_def cw_reply_def reply_body_def)
  then have tok: "token_of (cw_world sc) (cw_reply ''TOKEN'') = bind (ret ''TOKEN'') (\<lambda>_. bind (ret (JStr ''t''))
      (\<lambda>x. case x of JStr t \<Rightarrow> if t = [] then raise ValueOrTypeError else ret t | _ \<Rightarrow> raise ValueOrTypeError))"
    by (simp add: token_of_def item_def bind_def ret_def)
  have "yields (token_of (cw_world sc) (cw_reply ''TOKEN'')) (Suc n) fs ''t'' (Suc n) fs"
    unfolding tok by (rule yields_bind, rule yields_basic(1))+ (simp add: yields_basic)
  then show ?thesis using assms yields_send body
    by (auto simp: token_def Let_def env cw_url_def intro!: yields_bind[OF yields_basic(2)] yields_on_error
        yields_bind[OF yields_send])
qed

lemma yields_request:
  assumes "served (pb_environment b)"
  shows "yields (blob_request (cw_world sc) b verb suffix data headers) n fs (cw_reply (cw_body (pb_base b @ suffix))) (Suc (Suc n)) fs"
  unfolding blob_request_def Let_def
  by (rule yields_bind[OF yields_token[OF assms]], rule yields_bind, simp, rule yields_basic(6), rule yields_bind[OF yields_send])
    (simp add: yields_basic)

lemma cw_json:
  assumes "map_of (sc_answers sc) n = Some v" "n < 256" "snapshot = None \<or> snapshot = Some ''1-2-3''" "k = Suc n"
  shows "yields (sql_json (cw_world sc) c q snapshot) n fs v k fs"
  using yields_json[OF assms(2,3,1)] assms(4) by simp

text \<open>The answers to the questions of one manifest, from the given event on.\<close>

definition manifest_answers :: "nat \<Rightarrow> (nat \<times> json) list" where
  "manifest_answers n =
     [(n, JInt 0), (n + 1, JArr [cw_table ''kind'' (JStr ''r'')]), (n + 2, JArr []), (n + 4, JArr []), (n + 5, JArr [JStr ''0005''])]"

definition answers_manifest :: "script \<Rightarrow> nat \<Rightarrow> bool" where
  "answers_manifest sc n \<longleftrightarrow> n < 200 \<and> list_all (\<lambda>kv. map_of (sc_answers sc) (fst kv) = Some (snd kv)) (manifest_answers n)"

definition cw_expected :: json where
  "cw_expected = JObj [(''tables'', JArr [JObj [(''schema'', JStr ''public''), (''name'', JStr ''alembic_version''),
      (''kind'', JStr ''r''), (''columns'', JArr []), (''rows'', JInt 1), (''sha256'', JStr cw_sum)]]),
    (''sequences'', JArr []), (''alembic_version'', JArr [JStr ''0005''])]"

lemma cw_items:
  "item (cw_table k v) ''schema'' = ret (JStr ''public'')" "item (cw_table k v) ''name'' = ret (JStr ''alembic_version'')"
  "mapping_items e (cw_table k v) = ret [(''schema'', JStr ''public''), (''name'', JStr ''alembic_version''), (k, v)]"
  by (simp_all add: item_def mapping_items_def cw_table_def)

lemma bind_ret: "bind (ret x) f = f x"
  by (simp add: bind_def ret_def)

lemma text_of_JStr: "text_of (JStr t) = ret t"
  by (simp add: text_of_def)

lemma cw_table_manifest:
  assumes "map_of (sc_answers sc) n = Some (JArr [])" "n < 255"
  shows "yields (table_manifest (cw_world sc) p ''1-2-3'' (cw_table ''kind'' (JStr ''r''))) n fs
     (JObj [(''schema'', JStr ''public''), (''name'', JStr ''alembic_version''), (''kind'', JStr ''r''), (''columns'', JArr []),
        (''rows'', JInt 1), (''sha256'', JStr cw_sum)]) (Suc (Suc n)) (fs(row_file (cw_world sc) := None))"
proof -
  have q: "yields (sql (cw_world sc) p query True (Some ''1-2-3'') [] (Some f)) (Suc n) gs [CHR ''#'', char_of (Suc n)] (Suc (Suc n))
      (gs(f \<mapsto> ''row'' @ [CHR 0x0A]))"
    for query f gs using yields_query[of "Suc n" "Some ''1-2-3''" "Some f" f sc p query True "[]" gs] assms(2) by simp
  have lt: "n < 256" using assms(2) by simp
  show ?thesis
    unfolding table_manifest_def Let_def cw_items bind_ret text_of_JStr
    apply (rule yields_bind, rule cw_json[OF assms(1) lt])
      apply simp_all
    apply (rule yields_files, rule yields_unlink(1))
     apply (rule yields_bind, rule yields_basic(4))
     apply (rule yields_bind, rule q)
     apply (rule yields_bind, rule yields_basic(5))
     apply (rule yields_ret)
     apply (simp add: dict_set_def file_lines_def)
    apply simp
    done
qed

lemma cw_alembic: "any_alembic [cw_table k v] = ret True"
  by (simp add: is_alembic_table_def cw_items bind_ret py_eq.simps)

lemma cw_manifest:
  assumes "answers_manifest sc n"
  shows "yields (pg_manifest (cw_world sc) p ''1-2-3'') n fs cw_expected (n + 6) (fs(row_file (cw_world sc) := None))"
proof -
  have a: "map_of (sc_answers sc) n = Some (JInt 0)" "map_of (sc_answers sc) (n + 1) = Some (JArr [cw_table ''kind'' (JStr ''r'')])"
    "map_of (sc_answers sc) (n + 2) = Some (JArr [])" "map_of (sc_answers sc) (Suc (Suc (Suc (Suc n)))) = Some (JArr [])"
    "map_of (sc_answers sc) (n + 5) = Some (JArr [JStr ''0005''])" "n < 200"
    using assms by (simp_all add: answers_manifest_def manifest_answers_def eval_nat_numeral)
  have lt: "n < 256" "Suc n < 256" "Suc (Suc n) < 255" "Suc (Suc (Suc (Suc n))) < 256" "n + 5 < 256" using a(6) by simp_all
  show ?thesis
    unfolding pg_manifest_def
    apply (rule yields_bind, rule cw_json[OF a(1) lt(1), where k = "n + 1"])
      apply simp_all
    apply (rule yields_bind, rule yields_basic(2))
     apply (simp add: py_truthy_def)
    apply (rule yields_bind, rule cw_json[OF a(2)[simplified] lt(2), where k = "n + 2"])
      apply (simp_all add: elements_def bind_ret cw_alembic del: any_alembic.simps)
    apply (rule yields_bind, rule yields_basic(2), simp)
    apply (rule yields_bind, rule yields_bind, rule cw_table_manifest[OF a(3)[simplified] lt(3)], rule yields_basic(1))
    apply (rule yields_bind, rule cw_json[OF a(4) lt(4), where k = "n + 5"])
      apply (simp_all add: bind_ret)
    apply (rule yields_bind, rule cw_json[OF a(5) lt(5), where k = "n + 6"])
      apply simp_all
    apply (rule yields_ret)
    apply (simp add: cw_expected_def)
    done
qed

lemma cw_sum_hex: "sha256_hex_text cw_sum"
  by code_simp

text \<open>A backup in this world: the path of a name, and the body that is stored there.\<close>

definition holds :: "private_blob \<Rightarrow> string \<Rightarrow> string \<Rightarrow> bool" where
  "holds b name content \<longleftrightarrow> served (pb_environment b) \<and>
     (\<exists>suffix. pb_suffix b name = Inr suffix \<and> cw_body (pb_base b @ suffix) = content)"

lemma cw_upload:
  assumes "holds b name content" "fs path = Some content"
  shows "yields (upload (cw_world sc) b path name) n fs cw_sum (n + 4) fs"
proof -
  from assms(1) obtain suffix where b: "served (pb_environment b)" "of_result (pb_suffix b name) = ret suffix"
    "cw_body (pb_base b @ suffix) = content" by (auto simp: holds_def of_result_def)
  show ?thesis
    unfolding upload_def
    apply (rule yields_bind, rule yields_basic(5))
    apply (simp only: assms(2) option.case b(2) bind_ret)
    apply (rule yields_bind, rule yields_request[OF b(1)])
    apply (rule yields_bind, rule yields_request[OF b(1)])
    apply (rule yields_bind, rule yields_basic(2))
     apply (simp only: b(3))
     apply (simp add: cw_reply_def)
    apply (simp add: yields_basic eval_nat_numeral)
    done
qed

lemma cw_manifest_read:
  assumes "holds b ''manifest.json'' ''MANIFEST''"
  shows "yields (blob_manifest (cw_world sc) b) n fs (sc_stored sc) (n + 2) fs"
proof -
  from assms obtain suffix where b: "served (pb_environment b)" "of_result (pb_suffix b ''manifest.json'') = ret suffix"
    "cw_body (pb_base b @ suffix) = ''MANIFEST''" by (auto simp: holds_def of_result_def)
  show ?thesis
    unfolding blob_manifest_def
    apply (simp only: b(2) bind_ret)
    apply (rule yields_bind, rule yields_request[OF b(1)])
    apply (simp only: b(3))
    apply (rule yields_bind[where x = "''MANIFEST''" and k = "n + 2" and gs = fs])
     apply (simp add: read_limited_def cw_reply_def reply_body_def MAX_MANIFEST_BYTES_def yields_basic)
    apply (rule yields_bind, rule yields_basic(2))
     apply (simp add: MAX_MANIFEST_BYTES_def)
    apply (simp add: yields_basic)
    done
qed

lemma cw_download:
  assumes "holds b name ''PGDMP''" "fs path = None"
  shows "yields (download_checked (cw_world sc) b msg name path (JInt 5) (JStr cw_sum)) n fs () (n + 2) (fs(path \<mapsto> ''PGDMP''))"
proof -
  from assms(1) obtain suffix where b: "served (pb_environment b)" "of_result (pb_suffix b name) = ret suffix"
    "cw_body (pb_base b @ suffix) = ''PGDMP''" by (auto simp: holds_def of_result_def)
  show ?thesis
    unfolding download_checked_def prod.case json.case
    apply (rule yields_bind, rule yields_basic(2))
     apply (simp add: cw_sum_hex MAX_DUMP_BYTES_def)
    apply (rule yields_bind, rule yields_basic(5))
    apply (simp only: assms(2) option.case)
    apply (rule yields_unlink(2))
    apply (rule yields_bind, rule yields_basic(4))
    apply (unfold download_body_def b(2) bind_ret)
    apply (rule yields_bind, rule yields_request[OF b(1)])
    apply (simp add: b(3) cw_reply_def bind_ret)
    apply (rule yields_bind, rule yields_basic(2), simp)
    apply (rule yields_bind, rule yields_bind, rule yields_basic(5), simp)
     apply (rule yields_bind, rule yields_basic(2), simp)
     apply (rule yields_bind, rule yields_basic(4), rule yields_basic(1))
    apply (rule yields_bind, rule yields_basic(5))
    apply (rule yields_files, rule yields_basic(2))
     apply simp_all
    done
qed

lemma cw_dump: "yields (dump_to (cw_world sc) flags path msg p sn) n fs () (Suc n) (fs(path \<mapsto> ''PGDMP''))"
  by (simp add: yields_def dump_to_def native_def run_command_def bind_def cw_native_def put_file_def get_file_def ret_def
      require_def Let_def MAX_DUMP_BYTES_def)

lemma cw_backup_with:
  assumes "answers_manifest sc (Suc n)" "path \<noteq> row_file (cw_world sc)"
  shows "yields (backup_with (cw_world sc) p frozen (dump_to (cw_world sc) flags path msg p) False) n (\<lambda>_. None) cw_expected (9 + n)
    ((\<lambda>_. None)(path \<mapsto> ''PGDMP''))"
proof -
  let ?block = "\<lambda>snapshot. bind (pg_manifest (cw_world sc) p snapshot) (\<lambda>expected.
      bind (dump_to (cw_world sc) flags path msg p snapshot) (\<lambda>_. bind (only_if False (bind frozen (\<lambda>_.
        bind (pg_manifest (cw_world sc) p snapshot) (\<lambda>again. require_same expected again True)))) (\<lambda>_. ret expected)))"
  have "yields (?block ''1-2-3'') (Suc n) (\<lambda>_. None) cw_expected (Suc (Suc n + 6)) ((\<lambda>_. None)(row_file (cw_world sc) := None, path \<mapsto> ''PGDMP''))"
    by (rule yields_bind[OF cw_manifest[OF assms(1)]], rule yields_bind[OF cw_dump], rule yields_bind[OF yields_basic(7)],
        rule yields_basic(1))
  from yields_snapshot[where block = ?block, OF this] show ?thesis
    unfolding backup_with_def
    apply (rule yields_bind)
    apply (rule yields_bind, rule yields_basic(7))
    apply (simp add: yields_basic)
    done
qed

lemma cw_version:
  "map_of (sc_answers sc) n = Some (JInt 170002) \<Longrightarrow> n < 256 \<Longrightarrow> yields (require_version (cw_world sc) p) n fs () (Suc n) fs"
  unfolding require_version_def
  by (rule yields_bind, rule cw_json) (auto simp: py_number_def intro!: yields_basic)

lemma cw_private:
  assumes "served (pb_environment b)" "cw_body (pb_base b @ ''?restype=container'') = []"
  shows "yields (require_private (cw_world sc) b) n fs () (Suc (Suc n)) fs"
  unfolding require_private_def
  by (rule yields_bind, rule yields_request[OF assms(1)], rule yields_basic(2))
    (use assms(2) in \<open>simp add: cw_reply_def blank_def\<close>)

lemma cw_in_directory: "reaches_write m n fs \<Longrightarrow> reaches_write (in_directory m) n fs"
  by (auto simp: reaches_write_def in_directory_def split: prod.splits) (metis snd_conv)

lemma write_env:
  "db_host db = host \<Longrightarrow> k \<noteq> ''PGOPTIONS'' \<Longrightarrow> k \<noteq> ''PGHOST'' \<Longrightarrow>
   \<not> changes_nothing \<lparr>cm_arguments = a, cm_env = dict_set k pw (database_env wd db rid False), cm_sql = q\<rparr>"
  by (auto simp: changes_nothing_def read_only_session_def database_env_def ends_with_def READ_ONLY_OPTION_def)

lemma cw_write:
  assumes "k \<noteq> ''PGOPTIONS''" "k \<noteq> ''PGHOST''"
  shows "reaches_write (sql wd p q False None [(k, pw)] None) n fs"
proof -
  have "Native \<lparr>cm_arguments = PSQL, cm_env = dict_set k pw (database_env wd (pg_database p) (pg_run_id p) False),
      cm_sql = Some q\<rparr> r \<in> set (js_history (snd (sql wd p q False None [(k, pw)] None s)))"
    if "r = wd_native wd (js_history s) \<lparr>cm_arguments = PSQL, cm_env = dict_set k pw
        (database_env wd (pg_database p) (pg_run_id p) False), cm_sql = Some q\<rparr>" for s r
    using that by (auto simp: sql_def Let_def blank_def native_def bind_def run_command_def ret_def raise_def split: native_outcome.splits)
  then show ?thesis unfolding reaches_write_def using write_env[OF refl assms] by (metis on_command.simps(1))
qed

lemma cw_settings:
  "env_get cw_env ''MIGRATION_RUN_ID'' = ''rehearsal-1''" "env_get cw_env ''SOURCE_DATABASE_URL'' = ''source''"
  "env_get cw_env ''TARGET_ADMIN_DATABASE_URL'' = ''target''" "env_get cw_env ''REHEARSAL_APP_PASSWORD'' = replicate 32 CHR ''x''"
  "env_get cw_env ''EVENTHARBOR_APP_PASSWORD'' = replicate 32 CHR ''y''" "cw_env ''WRITERS_FROZEN'' = Some ''true''"
  "env_get cw_env ''BACKUP_STORAGE_ACCOUNT'' = ''backups''" "env_get cw_env ''BACKUP_CONTAINER'' = ''private''"
  by (simp_all add: cw_env_def env_get_def)

lemma cw_client: "client_17 ''psql (PostgreSQL) 17.2''"
  by code_simp

lemma cw_clients: "yields (require_clients (cw_world sc)) n fs () (n + 3) fs"
proof -
  have client: "yields (require_client (cw_world sc) program) n fs () (Suc n) fs" for program n
    using cw_client
    by (simp add: yields_def require_client_def native_def run_command_def bind_def cw_native_def ret_def require_def Let_def)
  have "yields (for_each (require_client (cw_world sc)) [''psql'', ''pg_dump'', ''pg_restore'']) n fs [(), (), ()] (Suc (Suc (Suc n))) fs"
    by (rule yields_for_each, rule client)+ (rule yields_basic(8))
  then show ?thesis unfolding require_clients_def by (auto intro: yields_bind yields_basic simp: eval_nat_numeral)
qed

lemma cw_source:
  "database_parse (cw_world sc) ''source'' True =
     ret \<lparr>db_host = SOURCE_HOST, db_name = SOURCE_DB, db_user = ''u'', db_password = ''p''\<rparr>"
  "database_parse (cw_world sc) ''target'' False =
     ret \<lparr>db_host = TARGET_HOST, db_name = ''postgres'', db_user = ''u'', db_password = ''p''\<rparr>"
  by (simp_all add: database_parse_def Let_def cw_url_def remove_slash_def SOURCE_DB_def blank_def safe_ssl_query_def has_control_def)

end
