(* ===== verification/Isolating.thy ===== *)
theory Isolating
  imports Isolation Scripted_World
begin

text \<open>
  What the isolation job may do, for every behaviour of the outside world: the disciplines of the copy
  job carried over to its operations, what its successful steps leave in the history, and the one
  property that follows.
\<close>

section \<open>Disciplines\<close>

context reading_discipline
begin

lemma obeys_conditions [follows]:
  "obeys R m \<Longrightarrow> obeys R (negate m)"
  "obeys R m \<Longrightarrow> obeys R n \<Longrightarrow> obeys R (either m n)"
  "obeys R m \<Longrightarrow> obeys R n \<Longrightarrow> obeys R (both m n)"
  "obeys R m \<Longrightarrow> obeys R (refuse_if m msg)"
  "obeys R (in_set v vs)" "obeys R (field_is v k x)" "obeys R (field_in v k xs)" "obeys R (field_true v k)" "obeys R (items_of v k)"
  by (auto simp: negate_def either_def both_def refuse_if_def in_set_def field_is_def field_in_def field_true_def items_of_def
      intro!: follows)

lemma obeys_any_of [follows]: "(\<And>x. obeys R (f x)) \<Longrightarrow> obeys R (any_of f xs)"
  by (induction xs) (auto intro!: follows)

lemma obeys_relation_ids [follows]: "obeys R (relation_ids is)"
  by (induction "is") (auto intro!: follows)

lemma obeys_validate [follows]: "obeys R (validate_inventory v applying)"
  unfolding validate_inventory_def validate_applying_def foreign_owner_def supported_type_def
  by (intro obeys_bind obeys_only_if obeys_for_each) (auto intro!: follows)

lemma obeys_isolation_frozen [follows]: "obeys R (isolation_frozen wd p)"
  unfolding isolation_frozen_def by (intro obeys_bind) (auto intro!: follows)

lemma obeys_own_login [follows]: "obeys R (verify_own_login wd db run_id)"
  unfolding verify_own_login_def below_one_def
  by (intro obeys_bind) (auto intro!: follows split: option.splits py_float.splits)

lemma obeys_denied_login [follows]: "obeys R (require_denied_login wd db run_id)"
  unfolding require_denied_login_def
  using read_commands[of "\<lparr>pg_database = db, pg_run_id = run_id\<rparr>" "''SELECT 1;''"]
  by (intro obeys_bind obeys_world) (auto simp: read_command_def intro!: follows split: native_outcome.splits)

lemma obeys_verify_both [follows]: "obeys R (verify_both wd admin environment)"
  unfolding verify_both_def other_names_def check_role_def length_of_def Let_def
  by (intro obeys_bind obeys_for_each obeys_conditions) (auto intro!: follows split: json.splits)

lemma obeys_connect [follows]: "obeys R (isolate_connect wd environment)"
  unfolding isolate_connect_def Let_def by (intro obeys_bind) (auto intro!: follows)

lemma obeys_inventory [follows]: "obeys R (read_inventory wd p applying)"
  unfolding read_inventory_def by (intro obeys_bind) (auto intro!: follows)

lemma obeys_isolate_finish [follows]: "okf (row_file wd) \<Longrightarrow> obeys R (isolate_finish wd p password expected)"
  unfolding isolate_finish_def Let_def by (intro obeys_bind obeys_with_snapshot) (auto intro!: follows)

lemma obeys_take_backup [follows]: "okf (row_file wd) \<Longrightarrow> okf (isolation_dump wd) \<Longrightarrow> obeys R (take_backup wd p)"
  unfolding take_backup_def by (intro obeys_bind obeys_with_snapshot) (auto intro!: follows)

lemma obeys_isolate_reading: "mode \<noteq> IsolateApply \<Longrightarrow> obeys R (isolate_run wd mode environment)"
  unfolding isolate_run_def by (cases mode) (auto intro!: follows)

end

context backup_discipline
begin

lemma obeys_keep_backup [follows]:
  "(\<And>p. okf p) \<Longrightarrow> obeys R (keep_backup wd p blob inventory manifest)"
  unfolding keep_backup_def download_verified_def Let_def
  by (intro obeys_bind obeys_native dump_commands) (auto intro!: follows)

lemma obeys_isolate_prepare [follows]:
  "(\<And>p. okf p) \<Longrightarrow> obeys R (isolate_prepare wd environment p inventory)"
  unfolding isolate_prepare_def backup_before_change_def
  by (intro obeys_bind obeys_with_snapshot) (auto intro!: follows)

end

section \<open>The inventory that is accepted\<close>

definition field :: "json \<Rightarrow> string \<Rightarrow> json option" where
  "field v k = (case v of JObj kvs \<Rightarrow> map_of kvs k | _ \<Rightarrow> None)"

definition field_holds :: "json \<Rightarrow> string \<Rightarrow> (json \<Rightarrow> bool) \<Rightarrow> bool" where
  "field_holds v k P = (case field v k of None \<Rightarrow> False | Some x \<Rightarrow> P x)"

definition parts :: "json \<Rightarrow> json list" where
  "parts v =
     (case v of JArr vs \<Rightarrow> vs | JObj kvs \<Rightarrow> map (\<lambda>kv. JStr (fst kv)) kvs | JStr s \<Rightarrow> map (\<lambda>c. JStr [c]) s | _ \<Rightarrow> [])"

text \<open>
  The database is EventHarbor's, the new role does not exist, and every schema, relation, type and
  routine belongs to the owner of the database, the administrator or the role of database owners.
\<close>

definition safe_inventory :: "json \<Rightarrow> bool" where
  "safe_inventory v \<longleftrightarrow>
     field_holds v ''database'' (\<lambda>x. py_eq x (JStr DATABASE)) \<and> field_holds v ''role_exists'' (\<lambda>x. \<not> py_truthy x) \<and>
     field_holds v ''owner'' (\<lambda>owner. field_holds v ''current_user'' (\<lambda>user.
       list_all (\<lambda>g. field_holds v g (\<lambda>x. list_all (\<lambda>i. field_holds i ''owner''
           (\<lambda>ow. list_ex (py_eq ow) [owner, user, JStr ''pg_database_owner''])) (parts x)))
         [''schemas'', ''relations'', ''types'', ''routines'']))"

lemma item_Inr: "item v k s = (Inr x, s') \<longleftrightarrow> field v k = Some x \<and> s' = s"
  by (auto simp: item_def field_def split: json.splits option.splits)

lemma elements_Inr: "elements v s = (Inr xs, s') \<Longrightarrow> xs = parts v \<and> s' = s"
  by (auto simp: elements_def parts_def split: json.splits)

lemma any_of_False: "any_of f xs s = (Inr False, s') \<Longrightarrow> x \<in> set xs \<Longrightarrow> \<exists>s1 s2. f x s1 = (Inr False, s2)"
  by (induction xs arbitrary: s) (auto simp: bind_Inr split: if_splits, blast)

lemma condition_Inr:
  "negate m s = (Inr b, s') \<longleftrightarrow> m s = (Inr (\<not> b), s')"
  "refuse_if m msg s = (Inr u, s') \<longleftrightarrow> m s = (Inr False, s')"
  "field_is v k x s = (Inr b, s') \<longleftrightarrow> (\<exists>y. field v k = Some y \<and> b = py_eq y x) \<and> s' = s"
  "field_true v k s = (Inr b, s') \<longleftrightarrow> (\<exists>y. field v k = Some y \<and> b = py_truthy y) \<and> s' = s"
  by (auto simp: negate_def refuse_if_def field_is_def field_true_def bind_Inr item_Inr)

lemma items_of_Inr: "items_of v k s = (Inr xs, s') \<Longrightarrow> \<exists>y. field v k = Some y \<and> xs = parts y"
  by (auto simp: items_of_def bind_Inr item_Inr dest: elements_Inr)

lemma field_in_Inr: "field_in v k ws s = (Inr True, s') \<Longrightarrow> field_holds v k (\<lambda>x. list_ex (py_eq x) ws)"
  by (auto simp: field_in_def in_set_def field_holds_def bind_Inr item_Inr split: if_splits)

lemma foreign_owner_Inr:
  assumes "foreign_owner v owners g s = (Inr False, s')"
  shows "field_holds v g (\<lambda>x. list_all (\<lambda>i. field_holds i ''owner'' (\<lambda>ow. list_ex (py_eq ow) owners)) (parts x))"
proof -
  from assms obtain xs s1 where i: "items_of v g s = (Inr xs, s1)"
    and a: "any_of (\<lambda>i. negate (field_in i ''owner'' owners)) xs s1 = (Inr False, s')"
    by (auto simp: foreign_owner_def bind_Inr)
  have "field_holds x ''owner'' (\<lambda>ow. list_ex (py_eq ow) owners)" if "x \<in> set xs" for x
    using any_of_False[OF a that] field_in_Inr by (auto simp: condition_Inr)
  then show ?thesis using items_of_Inr[OF i] by (auto simp: field_holds_def list_all_iff)
qed

lemma validate_inventory_Inr:
  assumes "validate_inventory v True s = (Inr u, s')"
  shows "safe_inventory v"
proof -
  from assms have db: "field_holds v ''database'' (\<lambda>x. py_eq x (JStr DATABASE))"
    by (auto simp: validate_inventory_def bind_Inr condition_Inr field_holds_def)
  from assms obtain s1 where "validate_applying v s1 = (Inr u, s')"
    by (auto simp: validate_inventory_def bind_Inr only_if_def)
  then obtain owner user s2 where o: "field_holds v ''role_exists'' (\<lambda>x. \<not> py_truthy x)" "field v ''owner'' = Some owner"
      "field v ''current_user'' = Some user"
    and a: "any_of (foreign_owner v [owner, user, JStr ''pg_database_owner'']) [''schemas'', ''relations'', ''types'', ''routines''] s2
      = (Inr False, s')"
    by (auto simp: validate_applying_def bind_Inr condition_Inr item_Inr field_holds_def simp del: any_of.simps split: if_splits)
  have "field_holds v g (\<lambda>x. list_all (\<lambda>i. field_holds i ''owner''
      (\<lambda>ow. list_ex (py_eq ow) [owner, user, JStr ''pg_database_owner''])) (parts x))"
    if "g \<in> set [''schemas'', ''relations'', ''types'', ''routines'']" for g
    using any_of_False[OF a that] foreign_owner_Inr by blast
  then show ?thesis using db o unfolding safe_inventory_def by (auto simp: field_holds_def[of v "''owner''"]
      field_holds_def[of v "''current_user''"] list_all_iff)
qed

section \<open>Successful steps\<close>

text \<open>A question of a read-only session and its answer.\<close>

definition asked :: "world \<Rightarrow> pg \<Rightarrow> string \<Rightarrow> json \<Rightarrow> event \<Rightarrow> bool" where
  "asked wd p q v e \<longleftrightarrow>
     (\<exists>out produced. e = Native (read_command wd p q) (Completed 0 [] out produced) \<and> wd_loads wd out = Some v)"

lemma sql_json_Inr:
  assumes "sql_json wd p q None s = (Inr v, s')"
  shows "\<exists>e. js_history s' = js_history s @ [e] \<and> asked wd p q v e"
  using assms
  by (auto simp: sql_json_def sql_def native_def run_command_def bind_Inr blank_def Let_def asked_def read_command_def
      split: native_outcome.splits if_splits option.splits)

lemma isolation_frozen_Inr:
  assumes "isolation_frozen wd p s = (Inr u, s')"
  shows "\<exists>e count. js_history s' = js_history s @ [e] \<and> asked wd p (isolation_sessions_query (pg_run_id p)) count e \<and>
    \<not> py_truthy count"
  using assms by (auto simp: isolation_frozen_def bind_Inr dest!: sql_json_Inr)

lemma take_backup_Inr:
  assumes "take_backup wd p s = (Inr m, s')" "db_host (pg_database p) = host"
  shows "has_dump host (isolation_dump wd) s'"
proof -
  from with_snapshot_Inr[OF assms(1)[unfolded take_backup_def]] obtain sn s1 s2 where
    b: "bind (pg_manifest wd p sn) (\<lambda>manifest. bind (dump_to wd [] (isolation_dump wd)
        ''EventHarbor backup is empty or exceeds the reviewed size limit.'' p sn) (\<lambda>_. bind (isolation_frozen wd p) (\<lambda>_.
        ret manifest))) s1 = (Inr m, s2)"
    and f: "js_files s' = js_files s2" "set (js_history s2) \<subseteq> set (js_history s')" by blast
  from b obtain s3 s4 where
    d: "dump_to wd [] (isolation_dump wd) ''EventHarbor backup is empty or exceeds the reviewed size limit.'' p sn s3 = (Inr (), s4)"
    and z: "isolation_frozen wd p s4 = (Inr (), s2)" by (auto simp: bind_Inr)
  have "has_dump host (isolation_dump wd) s2"
    by (rule has_dump_step[OF dump_to_Inr[OF d assms(2)] z keeps.obeys_isolation_frozen reads.obeys_isolation_frozen])
  then show ?thesis using f dumped_mono by (auto simp: has_dump_def)
qed

lemma keep_backup_Inr:
  assumes k: "keep_backup wd p blob inventory m s = (Inr c, s')" and dump: "has_dump host (isolation_dump wd) s"
  shows "backup_stored wd host (js_history s')"
proof -
  from k obtain s1 s2 s3 s4 out u where
    up: "upload wd blob (isolation_dump wd) ''eventharbor-before-isolation.dump'' s = (Inr c, s1)"
    and down: "download_verified wd blob (isolation_download wd)
        (JInt (case js_files s1 (isolation_dump wd) of None \<Rightarrow> 0 | Some c \<Rightarrow> int (length c))) (JStr c) s1 = (Inr (), s2)"
    and nat: "native wd [''pg_restore'', ''--list'', isolation_download wd] (database_env wd (pg_database p) (pg_run_id p) True)
        None None s2 = (Inr out, s3)"
    and up2: "upload wd blob (wd_directory wd @ ''/manifest.json'') ''manifest.json'' s4 = (Inr u, s')"
    and s4: "js_history s4 = js_history s3"
    by (clarsimp simp: keep_backup_def Let_def bind_Inr)
  have "backup_stored wd host (js_history s2)"
    by (rule backup_round_trip[OF dump up _ down[unfolded download_verified_def] refl]) simp_all
  moreover have "set (js_history s2) \<subseteq> set (js_history s3)"
    by (rule emits_subset[OF obeysD[OF reads.obeys_native[OF reads.dump_commands] nat]]) simp
  moreover have "set (js_history s4) \<subseteq> set (js_history s')" by (rule emits_subset[OF obeysD[OF stores.obeys_upload up2]])
  ultimately show ?thesis using s4 backup_stored_mono by metis
qed

lemma backup_before_change_Inr:
  assumes "backup_before_change wd p environment inventory s = (Inr ec, s')" "db_host (pg_database p) = host"
  shows "backup_stored wd host (js_history s')"
proof -
  let ?again = "\<lambda>m. bind (with_snapshot wd p (\<lambda>sn. bind (pg_manifest wd p sn) (\<lambda>again. require_same m again True)))
      (\<lambda>_. isolation_frozen wd p)"
  from assms(1) obtain blob m c s1 s2 s3 where t: "take_backup wd p s1 = (Inr m, s2)"
    and k: "keep_backup wd p blob inventory m s2 = (Inr c, s3)" and a: "?again m s3 = (Inr (), s')"
    unfolding backup_before_change_def bind_Inr by fastforce
  have "obeys (emits reading) (?again m)"
    by (intro reads.obeys_bind reads.obeys_with_snapshot reads.obeys_pg_manifest reads.obeys_require_same
        reads.obeys_isolation_frozen) simp
  from backup_stored_mono[OF keep_backup_Inr[OF k take_backup_Inr[OF t assms(2)]] emits_subset[OF obeysD[OF this a]]]
  show ?thesis .
qed

section \<open>The order of the job\<close>

text \<open>
  The one event that may change a server, and what comes before it: nothing that changes a server, a
  backup that was read back, then a second look at the inventory that equals the first and is safe,
  and as the last question one that found no other session.
\<close>

definition isolation_step :: "world \<Rightarrow> environment \<Rightarrow> event list \<Rightarrow> event \<Rightarrow> bool" where
  "isolation_step wd environment pre e \<longleftrightarrow>
     environment ''WRITERS_FROZEN'' = Some ''true'' \<and> list_all (on_command changes_nothing) pre \<and>
     (\<exists>p first second inventory latest count before after r.
       db_host (pg_database p) = TARGET_HOST \<and> db_name (pg_database p) = DATABASE \<and>
       pg_run_id p = env_get environment ''MIGRATION_RUN_ID'' \<and>
       e = Native \<lparr>cm_arguments = PSQL,
           cm_env = dict_set ''EVENTHARBOR_NEW_PASSWORD'' (env_get environment ''EVENTHARBOR_APP_PASSWORD'')
             (database_env wd (pg_database p) (pg_run_id p) False),
           cm_sql = Some (ownership_sql (pg_run_id p))\<rparr> r \<and>
       pre = before @ after \<and> after \<noteq> [] \<and> backup_stored wd TARGET_HOST before \<and>
       first \<in> set before \<and> asked wd p INVENTORY_SQL inventory first \<and>
       second \<in> set after \<and> asked wd p INVENTORY_SQL latest second \<and> py_eq latest inventory \<and> safe_inventory latest \<and>
       asked wd p (isolation_sessions_query (pg_run_id p)) count (last after) \<and> \<not> py_truthy count)"

lemma isolate_prepare_Inr:
  assumes "isolate_prepare wd environment p inventory s = (Inr ec, s')" "db_host (pg_database p) = TARGET_HOST"
  shows "\<exists>before after second latest count. js_history s' = before @ after \<and> after \<noteq> [] \<and>
    backup_stored wd TARGET_HOST before \<and> set (js_history s) \<subseteq> set before \<and> second \<in> set after \<and>
    asked wd p INVENTORY_SQL latest second \<and> py_eq latest inventory \<and> safe_inventory latest \<and>
    asked wd p (isolation_sessions_query (pg_run_id p)) count (last after) \<and> \<not> py_truthy count"
proof -
  from assms(1) obtain s0 s1 s2 s3 s4 latest where
    b: "backup_before_change wd p environment inventory (s\<lparr>js_phase := s0\<rparr>) = (Inr ec, s1)"
    and l: "sql_json wd p INVENTORY_SQL None s1 = (Inr latest, s2)" "py_eq latest inventory"
    and v: "validate_inventory latest True s2 = (Inr (), s3)" and f: "isolation_frozen wd p s3 = (Inr (), s4)"
    and s': "js_history s' = js_history s4"
    by (auto simp: isolate_prepare_def bind_Inr)
  from sql_json_Inr[OF l(1)] obtain second where second: "js_history s2 = js_history s1 @ [second]" "asked wd p INVENTORY_SQL latest second"
    by blast
  from obeysD[OF reads.obeys_validate v] obtain new where new: "js_history s3 = js_history s2 @ new" by (auto simp: emits_def)
  from isolation_frozen_Inr[OF f] obtain e count where e: "js_history s4 = js_history s3 @ [e]"
    "asked wd p (isolation_sessions_query (pg_run_id p)) count e" "\<not> py_truthy count" by blast
  have "obeys (emits (on_command changes_nothing)) (backup_before_change wd p environment inventory)"
    unfolding backup_before_change_def
    by (intro stores.obeys_bind stores.obeys_with_snapshot stores.obeys_blob stores.obeys_take_backup stores.obeys_keep_backup
        stores.obeys_pg_manifest stores.obeys_require_same stores.obeys_isolation_frozen stores.obeys_ret) simp_all
  from emits_subset[OF obeysD[OF this b]] have "set (js_history s) \<subseteq> set (js_history s1)" by simp
  moreover have "backup_stored wd TARGET_HOST (js_history s1)" by (rule backup_before_change_Inr[OF b assms(2)])
  moreover have "js_history s' = js_history s1 @ [second] @ new @ [e]" using second(1) new e(1) s' by simp
  ultimately show ?thesis using second(2) l(2) validate_inventory_Inr[OF v] e(2,3)
    by (intro exI[of _ "js_history s1"] exI[of _ "[second] @ new @ [e]"] exI[of _ second] exI[of _ latest] exI[of _ count]) simp
qed

lemma isolate_connect_Inr:
  assumes "isolate_connect wd environment s = (Inr p, s')"
  shows "db_host (pg_database p) = TARGET_HOST" "db_name (pg_database p) = DATABASE"
    "pg_run_id p = env_get environment ''MIGRATION_RUN_ID''"
proof -
  from assms obtain d s1 s2 where d: "database_parse wd (env_get environment ''TARGET_ADMIN_DATABASE_URL'') False s1 = (Inr d, s2)"
    and p: "p = \<lparr>pg_database = d\<lparr>db_name := DATABASE\<rparr>, pg_run_id = env_get environment ''MIGRATION_RUN_ID''\<rparr>"
    by (auto simp: isolate_connect_def Let_def bind_Inr)
  have "db_host d = TARGET_HOST" using database_parse_host[of wd _ False d] d by (auto simp: returns_def)
  then show "db_host (pg_database p) = TARGET_HOST" "db_name (pg_database p) = DATABASE"
    "pg_run_id p = env_get environment ''MIGRATION_RUN_ID''" by (simp_all add: p)
qed

text \<open>A job after one that changes nothing: either it is not reached, or it runs.\<close>

lemma quiet_bind:
  assumes "obeys (emits P) m" "bind m f s = (r, s')"
  shows "(emits P s s' \<and> (\<exists>e. r = Inl e)) \<or> (\<exists>x s1. m s = (Inr x, s1) \<and> emits P s s1 \<and> f x s1 = (r, s'))"
proof (cases "m s")
  case (Pair y s1)
  then show ?thesis using assms obeysD[OF assms(1) Pair] by (cases y) (auto simp: bind_def)
qed

lemma in_directory_history: "in_directory m s = (r, s') \<Longrightarrow> \<exists>s1. m s = (r, s1) \<and> js_history s' = js_history s1"
  by (cases "m s") (auto simp: in_directory_def)

lemma isolate_change_history:
  "\<exists>r. js_history (snd (isolate_change wd p password s)) = js_history s @ [Native \<lparr>cm_arguments = PSQL,
     cm_env = dict_set ''EVENTHARBOR_NEW_PASSWORD'' password (database_env wd (pg_database p) (pg_run_id p) False),
     cm_sql = Some (ownership_sql (pg_run_id p))\<rparr> r]"
  by (auto simp: isolate_change_def sql_def blank_def Let_def native_def bind_def run_command_def ret_def raise_def
      split: native_outcome.splits)

text \<open>The change and what follows it, after a preparation that succeeded.\<close>

lemma change_history:
  assumes "bind (isolate_change wd p password) (\<lambda>_. bind (isolate_finish wd p password expected) (\<lambda>_. ret c)) s = (r, s')"
  shows "\<exists>out post. js_history s' = js_history s @ Native \<lparr>cm_arguments = PSQL,
     cm_env = dict_set ''EVENTHARBOR_NEW_PASSWORD'' password (database_env wd (pg_database p) (pg_run_id p) False),
     cm_sql = Some (ownership_sql (pg_run_id p))\<rparr> out # post \<and> list_all (on_command changes_nothing) post"
proof -
  obtain y s1 where c: "isolate_change wd p password s = (y, s1)" by fastforce
  have "obeys (emits (on_command changes_nothing)) (bind (isolate_finish wd p password expected) (\<lambda>_. ret c))"
    by (intro stores.obeys_bind stores.obeys_isolate_finish stores.obeys_ret) simp
  then have "emits (on_command changes_nothing) s1 s'" using assms c
    by (cases y) (auto simp: bind_def[of "isolate_change wd p password"] emits_refl dest: obeysD)
  then show ?thesis using isolate_change_history[of wd p password s] c by (auto simp: emits_def)
qed

lemma list_all_quiet: "emits (on_command changes_nothing) s s' \<Longrightarrow> list_all (on_command changes_nothing) (js_history s) \<Longrightarrow>
    list_all (on_command changes_nothing) (js_history s')"
  by (auto simp: emits_def)

lemma bind_assoc: "bind (bind m f) g = bind m (\<lambda>x. bind (f x) g)"
  by (auto simp: bind_def fun_eq_iff split: prod.splits sum.splits)

lemma bind_ret_history:
  "bind m (\<lambda>c. ret (g c)) s = (r, s') \<Longrightarrow> \<exists>y. m s = (y, s') \<and> ((\<exists>e. y = Inl e) \<longrightarrow> (\<exists>e. r = Inl e))"
  by (cases "m s") (auto simp: bind_def ret_def split: sum.splits)

text \<open>
  What a history of Apply looks like: nothing was changed and the job failed, or there was exactly one
  change, at the right moment.
\<close>

definition isolated_once :: "world \<Rightarrow> environment \<Rightarrow> bool \<Rightarrow> event list \<Rightarrow> bool" where
  "isolated_once wd environment failed h \<longleftrightarrow> (list_all (on_command changes_nothing) h \<and> failed) \<or>
     (\<exists>pre e post. h = pre @ e # post \<and> isolation_step wd environment pre e \<and> list_all (on_command changes_nothing) post)"

lemma isolate_inner_history:
  assumes n: "bind (isolate_prepare wd environment p inventory) (\<lambda>ec. bind (isolate_change wd p pw) (\<lambda>_.
      bind (isolate_finish wd p pw (fst ec)) (\<lambda>_. ret (snd ec)))) s = (y, s')"
    and quiet: "list_all (on_command changes_nothing) (js_history s)"
    and p: "db_host (pg_database p) = TARGET_HOST" "db_name (pg_database p) = DATABASE"
      "pg_run_id p = env_get environment ''MIGRATION_RUN_ID''"
    and first: "first \<in> set (js_history s)" "asked wd p INVENTORY_SQL inventory first"
    and env: "environment ''WRITERS_FROZEN'' = Some ''true''" "pw = env_get environment ''EVENTHARBOR_APP_PASSWORD''"
  shows "isolated_once wd environment (\<exists>e. y = Inl e) (js_history s')"
proof -
  have "obeys (emits (on_command changes_nothing)) (isolate_prepare wd environment p inventory)"
    by (rule stores.obeys_isolate_prepare) simp
  from quiet_bind[OF this n] consider e where "emits (on_command changes_nothing) s s'" "y = Inl e"
    | ec s4 where "isolate_prepare wd environment p inventory s = (Inr ec, s4)" "emits (on_command changes_nothing) s s4"
        "bind (isolate_change wd p pw) (\<lambda>_. bind (isolate_finish wd p pw (fst ec)) (\<lambda>_. ret (snd ec))) s4 = (y, s')"
    by blast
  then show ?thesis
  proof cases
    case 1
    then show ?thesis using list_all_quiet quiet by (simp add: isolated_once_def)
  next
    case 2
    obtain out post where post: "list_all (on_command changes_nothing) post" and h: "js_history s' = js_history s4 @
        Native \<lparr>cm_arguments = PSQL, cm_env = dict_set ''EVENTHARBOR_NEW_PASSWORD'' pw
          (database_env wd (pg_database p) (pg_run_id p) False), cm_sql = Some (ownership_sql (pg_run_id p))\<rparr> out # post"
      using change_history[OF 2(3)] by blast
    have "isolation_step wd environment (js_history s4) (Native \<lparr>cm_arguments = PSQL,
        cm_env = dict_set ''EVENTHARBOR_NEW_PASSWORD'' pw (database_env wd (pg_database p) (pg_run_id p) False),
        cm_sql = Some (ownership_sql (pg_run_id p))\<rparr> out)"
      using isolate_prepare_Inr[OF 2(1) p(1)] list_all_quiet[OF 2(2) quiet] env p first unfolding isolation_step_def by blast
    then show ?thesis using h post unfolding isolated_once_def by metis
  qed
qed

lemma isolate_apply_history:
  assumes a: "isolate_apply wd environment p inventory s = (r, s')" and quiet: "list_all (on_command changes_nothing) (js_history s)"
    and p: "db_host (pg_database p) = TARGET_HOST" "db_name (pg_database p) = DATABASE"
      "pg_run_id p = env_get environment ''MIGRATION_RUN_ID''"
    and first: "first \<in> set (js_history s)" "asked wd p INVENTORY_SQL inventory first"
  shows "isolated_once wd environment (\<exists>e. r = Inl e) (js_history s')"
proof -
  let ?inner = "\<lambda>pw. bind (isolate_prepare wd environment p inventory) (\<lambda>ec. bind (isolate_change wd p pw) (\<lambda>_.
      bind (isolate_finish wd p pw (fst ec)) (\<lambda>_. ret (snd ec))))"
  let ?start = "bind (require (environment ''WRITERS_FROZEN'' = Some ''true'')
      ''Apply requires WRITERS_FROZEN=true after draining every EventHarbor consumer.'') (\<lambda>_.
      bind (new_password environment ''EVENTHARBOR_APP_PASSWORD'') (\<lambda>pw. bind (isolation_frozen wd p) (\<lambda>_. ret pw)))"
  have b: "bind ?start (\<lambda>pw. bind (in_directory (?inner pw)) (\<lambda>c. ret (apply_report (pg_run_id p) c))) s = (r, s')"
    using a by (simp add: isolate_apply_def bind_assoc bind_ret)
  have "obeys (emits (on_command changes_nothing)) ?start"
    by (intro stores.obeys_bind stores.obeys_require stores.obeys_blob stores.obeys_isolation_frozen stores.obeys_ret)
  from quiet_bind[OF this b] consider e where "emits (on_command changes_nothing) s s'" "r = Inl e"
    | pw s1 where "?start s = (Inr pw, s1)" "emits (on_command changes_nothing) s s1"
        "bind (in_directory (?inner pw)) (\<lambda>c. ret (apply_report (pg_run_id p) c)) s1 = (r, s')" by blast
  then show ?thesis
  proof cases
    case 1
    then show ?thesis using list_all_quiet quiet by (simp add: isolated_once_def)
  next
    case 2
    have env: "environment ''WRITERS_FROZEN'' = Some ''true''" "pw = env_get environment ''EVENTHARBOR_APP_PASSWORD''"
      using 2(1) by (auto simp: bind_Inr new_password_def Let_def)
    obtain y where y: "in_directory (?inner pw) s1 = (y, s')" "(\<exists>e. y = Inl e) \<longrightarrow> (\<exists>e. r = Inl e)"
      using bind_ret_history[OF 2(3)] by blast
    obtain s3 where n: "?inner pw s1 = (y, s3)" "js_history s' = js_history s3" using in_directory_history[OF y(1)] by blast
    from isolate_inner_history[OF n(1) list_all_quiet[OF 2(2) quiet] p emits_mono[OF 2(2) first(1)] first(2) env]
    show ?thesis using n(2) y(2) by (auto simp: isolated_once_def)
  qed
qed

lemma isolate_run_apply:
  assumes "isolate_run wd IsolateApply environment initial_state = (r, s')"
  shows "isolated_once wd environment (\<exists>e. r = Inl e) (js_history s')"
proof -
  let ?start = "bind (isolate_connect wd environment) (\<lambda>p. bind (read_inventory wd p True) (\<lambda>v. ret (p, v)))"
  have b: "bind ?start (\<lambda>pv. isolate_apply wd environment (fst pv) (snd pv)) initial_state = (r, s')"
    using assms by (simp add: isolate_run_def bind_assoc bind_ret)
  have none: "list_all (on_command changes_nothing) (js_history initial_state)" by (simp add: initial_state_def)
  have "obeys (emits (on_command changes_nothing)) ?start"
    by (intro stores.obeys_bind stores.obeys_connect stores.obeys_inventory stores.obeys_ret)
  from quiet_bind[OF this b] consider e where "emits (on_command changes_nothing) initial_state s'" "r = Inl e"
    | p v s1 where "?start initial_state = (Inr (p, v), s1)" "emits (on_command changes_nothing) initial_state s1"
        "isolate_apply wd environment p v s1 = (r, s')" by fastforce
  then show ?thesis
  proof cases
    case 1
    then show ?thesis using list_all_quiet none by (simp add: isolated_once_def)
  next
    case 2
    then obtain s2 s3 where c: "isolate_connect wd environment initial_state = (Inr p, s2)"
      and v: "sql_json wd p INVENTORY_SQL None s2 = (Inr v, s3)" "validate_inventory v True s3 = (Inr (), s1)"
      by (auto simp: bind_Inr read_inventory_def)
    obtain first where "first \<in> set (js_history s3)" "asked wd p INVENTORY_SQL v first" using sql_json_Inr[OF v(1)] by force
    then have "first \<in> set (js_history s1)" "asked wd p INVENTORY_SQL v first"
      using emits_mono[OF obeysD[OF reads.obeys_validate v(2)]] by blast+
    from isolate_apply_history[OF 2(3) list_all_quiet[OF 2(2) none] isolate_connect_Inr[OF c] this] show ?thesis .
  qed
qed

section \<open>The logins\<close>

lemma contains_text_iff: "contains_text x s \<longleftrightarrow> (\<exists>a b. s = a @ x @ b)"
proof (induction s)
  case (Cons c cs)
  have "remove_prefix x (c # cs) \<noteq> None \<longleftrightarrow> (\<exists>b. c # cs = x @ b)" by (auto simp: remove_prefix_Some)
  then show ?case using Cons.IH by (simp add: Cons_eq_append_conv) (metis append_Cons append_Nil)
qed simp

text \<open>A login of the given connection that the server refused for the database.\<close>

definition refused :: "world \<Rightarrow> database \<Rightarrow> string \<Rightarrow> event list \<Rightarrow> bool" where
  "refused wd db run_id h \<longleftrightarrow> (\<exists>code err out produced before after.
     Native (read_command wd \<lparr>pg_database = db, pg_run_id = run_id\<rparr> ''SELECT 1;'') (Completed code err out produced) \<in> set h \<and>
     code \<noteq> 0 \<and> err = before @ ''permission denied for database'' @ after)"

lemma require_denied_login_Inr: "require_denied_login wd db run_id s = (Inr u, s') \<Longrightarrow> refused wd db run_id (js_history s')"
  by (auto simp: require_denied_login_def bind_Inr run_command_def Let_def refused_def read_command_def contains_text_iff
      split: native_outcome.splits)

lemma refused_mono: "refused wd db run_id h \<Longrightarrow> set h \<subseteq> set h' \<Longrightarrow> refused wd db run_id h'"
  unfolding refused_def by fast

text \<open>A login that reached its own database under its own name and found the migration table filled.\<close>

definition admitted :: "world \<Rightarrow> database \<Rightarrow> string \<Rightarrow> event list \<Rightarrow> bool" where
  "admitted wd db run_id h \<longleftrightarrow> (\<exists>e v. e \<in> set h \<and> asked wd \<lparr>pg_database = db, pg_run_id = run_id\<rparr> login_query v e \<and>
     field_holds v ''database'' (\<lambda>x. py_eq x (JStr (db_name db))) \<and> field_holds v ''role'' (\<lambda>x. py_eq x (JStr (db_user db))) \<and>
     field_holds v ''migration_rows'' (\<lambda>x. \<forall>n. py_number x = Some (Finite n) \<longrightarrow> 1 \<le> n))"

lemma below_one_Inr:
  "below_one v s = (Inr False, s') \<Longrightarrow> s' = s \<and> (\<forall>n. py_number v = Some (Finite n) \<longrightarrow> 1 \<le> n)"
  by (auto simp: below_one_def split: option.splits py_float.splits)

lemma verify_own_login_Inr:
  assumes "verify_own_login wd db run_id s = (Inr u, s')"
  shows "admitted wd db run_id (js_history s')"
proof -
  from assms obtain v s1 x y z where q: "sql_json wd \<lparr>pg_database = db, pg_run_id = run_id\<rparr> login_query None s = (Inr v, s1)"
    and c: "field v ''database'' = Some y" "py_eq y (JStr (db_name db))" "field v ''role'' = Some z" "py_eq z (JStr (db_user db))"
    and rows: "field v ''migration_rows'' = Some x" "below_one x s1 = (Inr False, s')"
    by (auto simp: verify_own_login_def bind_Inr condition_Inr item_Inr either_def split: if_splits)
  from sql_json_Inr[OF q] below_one_Inr[OF rows(2)] c rows(1) show ?thesis
    unfolding admitted_def by (force simp: field_holds_def)
qed

lemma admitted_mono: "admitted wd db run_id h \<Longrightarrow> set h \<subseteq> set h' \<Longrightarrow> admitted wd db run_id h'"
  unfolding admitted_def by fast

definition app_login :: "string \<Rightarrow> string \<Rightarrow> string \<Rightarrow> database" where
  "app_login db role password = \<lparr>db_host = TARGET_HOST, db_name = db, db_user = role, db_password = password\<rparr>"

text \<open>Each application reaches its own database and is refused at the other's.\<close>

definition separated :: "world \<Rightarrow> environment \<Rightarrow> event list \<Rightarrow> bool" where
  "separated wd environment h \<longleftrightarrow>
     (let run_id = env_get environment ''MIGRATION_RUN_ID'';
          eh = env_get environment ''EVENTHARBOR_APP_PASSWORD''; px = env_get environment ''TARGET_APP_PASSWORD'' in
      admitted wd (app_login DATABASE ROLE eh) run_id h \<and> admitted wd (app_login OTHER_DATABASE OTHER_ROLE px) run_id h \<and>
      refused wd (app_login OTHER_DATABASE ROLE eh) run_id h \<and> refused wd (app_login DATABASE OTHER_ROLE px) run_id h)"

lemma verify_both_Inr:
  assumes v: "verify_both wd p environment s = (Inr report, s')" and p: "db_host (pg_database p) = TARGET_HOST"
    "pg_run_id p = env_get environment ''MIGRATION_RUN_ID''"
  shows "separated wd environment (js_history s')"
proof -
  let ?id = "env_get environment ''MIGRATION_RUN_ID''"
  let ?eh = "env_get environment ''EVENTHARBOR_APP_PASSWORD''" and ?px = "env_get environment ''TARGET_APP_PASSWORD''"
  have login: "(pg_database p)\<lparr>db_name := d, db_user := r, db_password := pw\<rparr> = app_login d r pw" for d r pw
    using p(1) by (cases "pg_database p") (simp add: app_login_def)
  have other: "(app_login d r pw)\<lparr>db_name := d'\<rparr> = app_login d' r pw" for d r pw d' by (simp add: app_login_def)
  from v obtain s1 s2 s3 s4 where
    o: "verify_own_login wd (app_login DATABASE ROLE ?eh) ?id s1 = (Inr (), s2)"
      "verify_own_login wd (app_login OTHER_DATABASE OTHER_ROLE ?px) ?id s2 = (Inr (), s3)"
    and d: "require_denied_login wd (app_login OTHER_DATABASE ROLE ?eh) ?id s3 = (Inr (), s4)"
      "require_denied_login wd (app_login DATABASE OTHER_ROLE ?px) ?id s4 = (Inr (), s')"
    by (auto simp: verify_both_def Let_def bind_Inr login other p(2) new_password_def)
  have sub: "set (js_history s2) \<subseteq> set (js_history s3)" "set (js_history s3) \<subseteq> set (js_history s4)"
    "set (js_history s4) \<subseteq> set (js_history s')"
    by (rule emits_subset[OF obeysD[OF reads.obeys_own_login o(2)]] emits_subset[OF obeysD[OF reads.obeys_denied_login d(1)]]
        emits_subset[OF obeysD[OF reads.obeys_denied_login d(2)]])+
  then have "set (js_history s2) \<subseteq> set (js_history s')" "set (js_history s3) \<subseteq> set (js_history s')" by blast+
  then show ?thesis unfolding separated_def Let_def
    using admitted_mono[OF verify_own_login_Inr[OF o(1)]] admitted_mono[OF verify_own_login_Inr[OF o(2)]]
      refused_mono[OF require_denied_login_Inr[OF d(1)] sub(3)] require_denied_login_Inr[OF d(2)] by blast
qed

section \<open>A world for the isolation\<close>

definition iso_inventory :: json where
  "iso_inventory =
     (let own = (''owner'', JStr ''u'') in
      JObj [(''database'', JStr ''eventharbor''), (''current_user'', JStr ''u''), own,
        (''schemas'', JArr [JObj [(''name'', JStr ''public''), (''owner'', JStr ''pg_database_owner'')]]),
        (''extensions'', JArr [JStr ''plpgsql'']), (''large_objects'', JInt 0),
        (''relations'', JArr [JObj [(''oid'', JInt 1), (''name'', JStr ''alembic_version''), (''kind'', JStr ''r''), own]]),
        (''types'', JArr [JObj [(''oid'', JInt 2), (''name'', JStr ''alembic_version''), (''kind'', JStr ''c''), (''category'', JStr ''C''),
          (''relation'', JInt 1), (''element'', JInt 0), own]]),
        (''routines'', JArr []), (''role_exists'', JBool False)])"

text \<open>
  The events of Apply: clients 0 to 2, version, inventory, sessions, storage 6 and 7, the first snapshot
  8 to 17 with its dump at 15, the upload and its read-back 18 to 28, the second snapshot 29 to 36,
  sessions, inventory, sessions.
\<close>

definition iso_script :: script where
  "iso_script = \<lparr>sc_answers = [(3, JInt 170002), (4, iso_inventory), (5, JInt 0), (16, JInt 0), (37, JInt 0), (38, iso_inventory),
     (39, JInt 0)] @ manifest_answers 9 @ manifest_answers 30, sc_stored = JNull\<rparr>"

definition iso_world :: world where
  "iso_world = cw_world iso_script"

definition iso_blob :: private_blob where
  "iso_blob = \<lparr>pb_environment = cw_env, pb_run_id = ''rehearsal-1'', pb_base = ''https://backups.blob.core.windows.net/private'',
     pb_suffix = isolation_suffix ''rehearsal-1''\<rparr>"

lemma iso_bodies:
  "pb_suffix iso_blob ''eventharbor-before-isolation.dump'' = Inr ''/shared-postgres/rehearsal-1/eventharbor-isolation/eventharbor-before-isolation.dump''"
  "pb_suffix iso_blob ''manifest.json'' = Inr ''/shared-postgres/rehearsal-1/eventharbor-isolation/manifest.json''"
  "cw_body (pb_base iso_blob @ ''/shared-postgres/rehearsal-1/eventharbor-isolation/eventharbor-before-isolation.dump'') = ''PGDMP''"
  "cw_body (pb_base iso_blob @ ''/shared-postgres/rehearsal-1/eventharbor-isolation/manifest.json'') = ''MANIFEST''"
  "cw_body (pb_base iso_blob @ ''?restype=container'') = []"
  by code_simp+

lemma iso_holds: "holds iso_blob ''eventharbor-before-isolation.dump'' ''PGDMP''" "holds iso_blob ''manifest.json'' ''MANIFEST''"
  using iso_bodies unfolding holds_def by (simp_all add: iso_blob_def)

lemma iso_valid: "validate_inventory iso_inventory True = ret ()"
  by (simp add: validate_inventory_def validate_applying_def iso_inventory_def Let_def refuse_if_def negate_def either_def both_def
      field_is_def field_in_def field_true_def items_of_def item_def in_set_def hashable_def elements_def names_def foreign_owner_def
      supported_type_def DATABASE_def bind_ret require_def only_if_def py_eq.simps py_number_def py_truthy_def)

lemma iso_same: "py_eq iso_inventory iso_inventory" "require_same cw_expected cw_expected True = ret ()"
proof -
  show "py_eq iso_inventory iso_inventory" by code_simp
  have "list_all (\<lambda>k. py_eq (get_or_null e k) (get_or_null e k)) [''tables'', ''alembic_version'', ''sequences'']"
    if "cw_expected = JObj e" for e
    using that by (auto simp: cw_expected_def get_or_null_def py_eq.simps py_number_def)
  then show "require_same cw_expected cw_expected True = ret ()"
    by (auto simp: require_same_def require_def split: json.splits) (simp_all add: cw_expected_def)
qed

lemma iso_ask: "map_of (sc_answers iso_script) n = Some v \<Longrightarrow> n < 256 \<Longrightarrow> k = Suc n \<Longrightarrow> yields (sql_json iso_world c q None) n fs v k fs"
  unfolding iso_world_def by (rule cw_json) simp_all

lemma iso_answers:
  "map_of (sc_answers iso_script) 3 = Some (JInt 170002)" "map_of (sc_answers iso_script) 4 = Some iso_inventory"
  "map_of (sc_answers iso_script) 38 = Some iso_inventory"
  "n \<in> {5, 16, 37, 39} \<Longrightarrow> map_of (sc_answers iso_script) n = Some (JInt 0)"
  by (auto simp: iso_script_def)

lemma iso_manifest:
  assumes "n \<in> {9, 30}"
  shows "yields (pg_manifest iso_world p ''1-2-3'') n fs cw_expected (n + 6) (fs(''/tmp/rows.private'' := None))"
  using cw_manifest[of iso_script n p fs] assms
  by (auto simp: answers_manifest_def manifest_answers_def iso_script_def iso_world_def row_file_def)

lemma iso_frozen: "n \<in> {5, 16, 37, 39} \<Longrightarrow> k = Suc n \<Longrightarrow> yields (isolation_frozen iso_world p) n fs () k fs"
  unfolding isolation_frozen_def
  by (rule yields_bind, rule iso_ask, rule iso_answers(4)) (auto simp: py_truthy_def intro!: yields_basic)

lemma iso_take:
  "yields (take_backup iso_world p) 8 (\<lambda>_. None) cw_expected 18 ((\<lambda>_. None)(isolation_dump iso_world \<mapsto> ''PGDMP''))"
proof -
  have m: "yields (pg_manifest iso_world p ''1-2-3'') (Suc 8) (\<lambda>_. None) cw_expected 15 (\<lambda>_. None)"
    using iso_manifest[of 9 p "\<lambda>_. None"] by (simp add: fun_upd_idem)
  have d: "yields (dump_to iso_world [] path msg p ''1-2-3'') 15 fs () 16 (fs(path \<mapsto> ''PGDMP''))" for path msg fs
    using cw_dump[of iso_script "[]" path msg p "''1-2-3''" 15 fs] by (simp add: iso_world_def)
  let ?block = "\<lambda>sn. bind (pg_manifest iso_world p sn) (\<lambda>m. bind (dump_to iso_world [] (isolation_dump iso_world)
      ''EventHarbor backup is empty or exceeds the reviewed size limit.'' p sn) (\<lambda>_. bind (isolation_frozen iso_world p) (\<lambda>_. ret m)))"
  have "yields (?block ''1-2-3'') (Suc 8) (\<lambda>_. None) cw_expected 17 ((\<lambda>_. None)(isolation_dump iso_world \<mapsto> ''PGDMP''))"
    by (rule yields_bind[OF m], rule yields_bind[OF d], rule yields_bind[OF iso_frozen], simp, simp, rule yields_basic(1))
  then show ?thesis
    using yields_snapshot[of ?block 8 "\<lambda>_. None" cw_expected 17 "(\<lambda>_. None)(isolation_dump iso_world \<mapsto> ''PGDMP'')" iso_script p]
    by (simp add: take_backup_def iso_world_def)
qed

lemma iso_keep:
  "\<exists>fs. yields (keep_backup iso_world p iso_blob iso_inventory cw_expected) 18 ((\<lambda>_. None)(isolation_dump iso_world \<mapsto> ''PGDMP'')) cw_sum 29 fs"
proof -
  have paths: "isolation_dump (cw_world iso_script) = ''/tmp/eventharbor-before-isolation.dump''"
    "isolation_download (cw_world iso_script) = ''/tmp/verified-eventharbor.dump''"
    by (simp_all add: isolation_dump_def isolation_download_def)
  have l: "yields (native (cw_world iso_script) [''pg_restore'', ''--list'', path] env None None) n fs [CHR ''#'', char_of n] (Suc n) fs"
    for path env n fs
    by (simp add: yields_def native_def run_command_def bind_def cw_native_def ret_def Let_def)
  show ?thesis
    unfolding keep_backup_def Let_def iso_world_def download_verified_def paths
    apply (rule exI)
    apply (rule yields_bind, rule cw_upload[OF iso_holds(1)], simp)
    apply (rule yields_bind, rule yields_basic(5))
    apply (rule yields_bind, simp, rule cw_download[OF iso_holds(1)], simp)
    apply (simp, rule yields_bind, rule l)
    apply (rule yields_bind, rule yields_basic(4))
    apply (rule yields_bind, rule cw_upload[OF iso_holds(2)], simp)
    apply (simp, rule yields_basic(1))
    done
qed

lemma iso_prepare:
  assumes "pg_run_id p = ''rehearsal-1''"
  shows "\<exists>fs. yields (isolate_prepare iso_world cw_env p iso_inventory) 6 (\<lambda>_. None) (cw_expected, cw_sum) 40 fs"
proof -
  have names: "account_name ''backups'' \<and> container_name ''private''" by code_simp
  have blob: "private_blob_init cw_env ''rehearsal-1'' (isolation_suffix ''rehearsal-1'') = ret iso_blob"
    using names by (simp add: private_blob_init_def cw_settings require_def bind_ret iso_blob_def Let_def)
  have unshared: "yields (require_private iso_world iso_blob) 6 fs () 8 fs" for fs
    using cw_private[OF _ iso_bodies(5), where n = 6] by (simp add: iso_blob_def iso_world_def)
  from iso_keep obtain fs where keep: "yields (keep_backup iso_world p iso_blob iso_inventory cw_expected) 18
      ((\<lambda>_. None)(isolation_dump iso_world \<mapsto> ''PGDMP'')) cw_sum 29 fs" by blast
  have again: "yields (with_snapshot iso_world p (\<lambda>sn. bind (pg_manifest iso_world p sn) (\<lambda>a. require_same cw_expected a True))) 29 fs
      () 37 (fs(''/tmp/rows.private'' := None))"
    using yields_snapshot[of "\<lambda>sn. bind (pg_manifest iso_world p sn) (\<lambda>a. require_same cw_expected a True)" 29 fs "()" 36
        "fs(''/tmp/rows.private'' := None)" iso_script p]
      yields_bind[OF iso_manifest[of 30], where f = "\<lambda>a. require_same cw_expected a True"] iso_same(2)
    by (simp add: yields_basic iso_world_def)
  show ?thesis
    unfolding isolate_prepare_def backup_before_change_def assms blob bind_ret bind_assoc
    apply (rule exI)
    apply (rule yields_bind, rule yields_basic(3))
    apply (rule yields_bind, rule unshared)
    apply (rule yields_bind, rule iso_take)
    apply (rule yields_bind, rule keep)
    apply (rule yields_bind, rule again)
    apply (rule yields_bind, rule iso_frozen[where k = 38], simp, simp)
    apply (rule yields_bind, rule iso_ask[OF iso_answers(3), where k = 39], simp, simp)
    apply (rule yields_bind, rule yields_basic(2), rule iso_same(1))
    apply (simp only: iso_valid bind_ret)
    apply (rule yields_bind, rule iso_frozen[where k = 40], simp, simp)
    apply (rule yields_bind, rule yields_basic(3), rule yields_basic(1))
    done
qed

lemma iso_run: "reaches_write (isolate_run iso_world IsolateApply cw_env) 0 (\<lambda>_. None)"
proof -
  have id: "run_id_ok ''rehearsal-1''" by code_simp
  have pw: "new_password cw_env ''EVENTHARBOR_APP_PASSWORD'' = ret (replicate 32 CHR ''y'')"
    by (simp add: new_password_def cw_settings require_def bind_ret has_control_def Let_def list_ex_iff)
  have clients: "yields (require_clients iso_world) 0 fs () 3 fs" for fs
    using cw_clients[of iso_script 0] by (simp add: iso_world_def)
  have ver: "yields (require_version iso_world p) 3 fs () 4 fs" for p fs
    using cw_version[OF iso_answers(1)] by (simp add: iso_world_def)
  let ?p = "\<lparr>pg_database = \<lparr>db_host = TARGET_HOST, db_name = DATABASE, db_user = ''u'', db_password = ''p''\<rparr>, pg_run_id = ''rehearsal-1''\<rparr>"
  obtain fs where prep: "yields (isolate_prepare iso_world cw_env ?p iso_inventory) 6 (\<lambda>_. None) (cw_expected, cw_sum) 40 fs"
    using iso_prepare[of ?p] by auto
  have rest: "obeys (emits (on_command changes_nothing)) (bind (isolate_finish iso_world ?p pwd ex) (\<lambda>_. ret c))"
    for pwd ex and c :: string
    by (intro stores.obeys_bind stores.obeys_isolate_finish stores.obeys_ret) simp
  have change: "reaches_write (bind (isolate_change iso_world ?p pwd) (\<lambda>_. bind (isolate_finish iso_world ?p pwd ex) (\<lambda>_. ret c))) n fs"
    for pwd ex n fs and c :: string
    unfolding isolate_change_def
    by (rule reaches_first[where P = "on_command changes_nothing"], rule cw_write, simp, simp, rule rest)
  have connect: "yields (isolate_connect iso_world cw_env) 0 (\<lambda>_. None) ?p 4 (\<lambda>_. None)"
    unfolding isolate_connect_def Let_def cw_settings
    apply (rule yields_bind[OF yields_basic(2)[OF id]])
    apply (rule yields_bind[OF clients])
    apply (simp only: iso_world_def cw_source bind_ret)
    apply (fold iso_world_def)
    apply (rule yields_bind[OF yields_basic(3)])
    apply (simp, rule yields_bind[OF ver], rule yields_basic(1))
    done
  have inventory: "yields (read_inventory iso_world ?p True) 4 (\<lambda>_. None) iso_inventory 5 (\<lambda>_. None)"
    unfolding read_inventory_def
    by (rule yields_bind, rule iso_ask[OF iso_answers(2), where k = 5]) (simp_all add: iso_valid bind_ret yields_basic)
  have quiet: "obeys (emits (on_command changes_nothing)) (ret x :: json job)" for x by (rule stores.obeys_ret)
  have apply_job: "reaches_write (isolate_apply iso_world cw_env ?p iso_inventory) 5 (\<lambda>_. None)"
    unfolding isolate_apply_def pw bind_ret
    apply (rule reaches_bind[OF yields_basic(2)], simp add: cw_settings)
    apply (rule reaches_bind[OF iso_frozen[where k = 6]], simp, simp)
    apply (rule reaches_first[OF _ quiet])
    apply (rule cw_in_directory)
    apply (rule reaches_bind[OF prep])
    apply (rule change)
    done
  show ?thesis
    unfolding isolate_run_def
    by (rule reaches_bind[OF connect]) (simp, rule reaches_bind[OF inventory], rule apply_job)
qed

section \<open>The job\<close>

lemma isolate_history: "isolate_main wd mode environment = (code, out, h) \<Longrightarrow>
    \<exists>r s. isolate_run wd mode environment initial_state = (r, s) \<and> h = js_history s \<and> (code = 0 \<longleftrightarrow> (\<exists>v. r = Inr v))"
  by (auto simp: isolate_main_def split: prod.splits sum.splits job_exn.splits)

text \<open>
  C40.  The isolation fails closed.  Whatever the servers, the network and other clients do, and
  wherever the job stops: Inspect and Verify change nothing at all.  Apply opens at most one session
  that may change a server; it runs the one ownership transaction on the EventHarbor database, for the
  run and with the password of the environment, the writers were declared frozen, and before it come
  the read-back of the stored dump, with the length and SHA-256 of what pg_dump wrote, then a second
  inventory that equals the first and is safe to hand over, and as the last thing asked a count of
  other sessions that is zero.  When Apply exits with 0 that session took place.  When Verify exits
  with 0, each application has logged in to its own database and was refused at the other's.
\<close>

theorem isolation_fail_closed:
  assumes "isolate_main wd mode environment = (code, out, h)"
  shows "(mode \<noteq> IsolateApply \<longrightarrow> list_all reading h) \<and>
    (\<forall>pre e post. h = pre @ e # post \<longrightarrow> \<not> on_command changes_nothing e \<longrightarrow>
      isolation_step wd environment pre e \<and> list_all (on_command changes_nothing) post) \<and>
    (code = 0 \<longrightarrow> mode = IsolateApply \<longrightarrow> (\<exists>pre e post. h = pre @ e # post \<and> isolation_step wd environment pre e)) \<and>
    (code = 0 \<longrightarrow> mode = IsolateVerify \<longrightarrow> separated wd environment h)"
proof -
  obtain r s where run: "isolate_run wd mode environment initial_state = (r, s)" and h: "h = js_history s"
    and code: "code = 0 \<longleftrightarrow> (\<exists>v. r = Inr v)" using isolate_history[OF assms] by blast
  have start: "js_history initial_state = []" by (simp add: initial_state_def)
  have read: "list_all reading h" if "mode \<noteq> IsolateApply"
    using obeysD[OF reads.obeys_isolate_reading[OF that] run] by (simp add: emits_def start h)
  have once: "isolated_once wd environment (\<exists>e. r = Inl e) h" if "mode = IsolateApply"
    using isolate_run_apply run that h by blast
  have "isolation_step wd environment pre e \<and> list_all (on_command changes_nothing) post"
    if split: "h = pre @ e # post" and w: "\<not> on_command changes_nothing e" for pre e post
  proof (cases "mode = IsolateApply")
    case True
    with once obtain a x b where x: "h = a @ x # b" "isolation_step wd environment a x" "list_all (on_command changes_nothing) b"
      using split w by (auto simp: isolated_once_def)
    then have "list_all (on_command changes_nothing) a" by (simp add: isolation_step_def)
    with x split w have "a = pre \<and> x = e \<and> b = post"
      by (auto simp: append_eq_append_conv2 append_eq_Cons_conv Cons_eq_append_conv)
    with x show ?thesis by simp
  next
    case False
    then show ?thesis using read split w by (simp add: reading_def)
  qed
  moreover have "\<exists>pre e post. h = pre @ e # post \<and> isolation_step wd environment pre e" if "code = 0" "mode = IsolateApply"
    using once[OF that(2)] that(1) code by (auto simp: isolated_once_def)
  moreover have "separated wd environment h" if "code = 0" "mode = IsolateVerify"
  proof -
    from that code obtain v where "isolate_run wd IsolateVerify environment initial_state = (Inr v, s)" using run by auto
    then obtain p s1 where "isolate_connect wd environment initial_state = (Inr p, s1)" "verify_both wd p environment s1 = (Inr v, s)"
      by (auto simp: isolate_run_def bind_Inr)
    then show ?thesis using verify_both_Inr isolate_connect_Inr(1,3) h by blast
  qed
  ultimately show ?thesis using read by blast
qed

theorem isolation_fail_closed_witness:
  "\<exists>code out pre e post. isolate_main iso_world IsolateApply cw_env = (code, out, pre @ e # post) \<and>
     isolation_step iso_world cw_env pre e \<and> list_all (on_command changes_nothing) post"
proof -
  obtain code out h where m: "isolate_main iso_world IsolateApply cw_env = (code, out, h)" by (metis prod_cases3)
  have "h = js_history (snd (isolate_run iso_world IsolateApply cw_env initial_state))" using isolate_history[OF m] by auto
  moreover have "length (js_history initial_state) = 0" "js_files initial_state = (\<lambda>_. None)" by (simp_all add: initial_state_def)
  ultimately obtain e where "e \<in> set h" "\<not> on_command changes_nothing e" using iso_run by (auto simp: reaches_write_def)
  moreover from this obtain pre post where "h = pre @ e # post" by (meson split_list)
  ultimately show ?thesis using isolation_fail_closed[OF m] m by blast
qed

end
