(* ===== verification/Copying.thy ===== *)
theory Copying
  imports Scripted_World
begin

text \<open>What the copy job guarantees: quoting, exact downloads and the order of its effects, with a world in
  which a rehearsal succeeds.\<close>

section \<open>Quoting\<close>

text \<open>
  How PostgreSQL reads a quoted token after its opening quote, with standard_conforming_strings on as
  the job's sessions set it: up to the first quote that is not doubled.
\<close>

fun read_quoted :: "char \<Rightarrow> string \<Rightarrow> (string \<times> string) option" where
  "read_quoted q [] = None"
| "read_quoted q (c # cs) =
     (if c \<noteq> q then map_option (\<lambda>vr. (c # fst vr, snd vr)) (read_quoted q cs)
      else if cs \<noteq> [] \<and> hd cs = q then map_option (\<lambda>vr. (q # fst vr, snd vr)) (read_quoted q (tl cs))
      else Some ([], cs))"

lemma read_quoted_double:
  "rest = [] \<or> hd rest \<noteq> q \<Longrightarrow> read_quoted q (double_char q v @ [q] @ rest) = Some (v, rest)"
  by (induction v) (auto simp: double_char_def)

text \<open>
  Nothing escapes its quotes.  Whatever a name or a value contains, quotes included, the text
  that \<open>ident\<close> and \<open>literal\<close> put into a statement is one token: PostgreSQL reads exactly that name or
  value back and goes on with the text after it, as long as that does not begin with another quote.
\<close>

lemma quoting_exact:
  assumes "hd (rest @ '' '') \<notin> {CHR 0x22, CHR 0x27}"
  shows "literal v @ rest = CHR 0x27 # tl (literal v @ rest) \<and> read_quoted CHR 0x27 (tl (literal v @ rest)) = Some (v, rest) \<and>
    ident v @ rest = CHR 0x22 # tl (ident v @ rest) \<and> read_quoted CHR 0x22 (tl (ident v @ rest)) = Some (v, rest)"
proof -
  have "rest = [] \<or> hd rest \<notin> {CHR 0x22, CHR 0x27}" using assms by (cases rest) auto
  then have "read_quoted CHR 0x27 (double_char CHR 0x27 v @ [CHR 0x27] @ rest) = Some (v, rest)"
    "read_quoted CHR 0x22 (double_char CHR 0x22 v @ [CHR 0x22] @ rest) = Some (v, rest)"
    by (intro read_quoted_double; blast)+
  then show ?thesis by (simp add: literal_def ident_def)
qed

section \<open>Downloads\<close>

lemma download_dump_other:
  "download_dump wd b path n h s = (r, s') \<Longrightarrow> p \<noteq> path \<Longrightarrow> js_files s' p = js_files s p"
  using obeysD[OF keeps.obeys_download] by metis

lemma download_dump_Inl:
  assumes "download_dump wd b path n h s = (Inl e, s')"
  shows "js_files s' path = js_files s path"
  using assms
  by (auto simp: download_dump_def download_checked_def bind_def get_file_def require_def raise_def ret_def unlink_on_error_def
      split: json.splits option.splits if_splits prod.splits sum.splits)

text \<open>
  C38.  A downloaded backup is exact or absent.  For every size and checksum a stored manifest may
  claim and every reply of the storage: when \<open>download_dump\<close> returns, the claimed size is an integer
  between 1 and the limit, the file did not exist before, and it now holds the complete body of a
  reply, of exactly the claimed size and SHA-256.  When it raises, the file is as before, so nothing
  partial or wrong is left for the restore, and a file that was there is not overwritten.  No other
  file changes in either case.
\<close>

theorem download_exact:
  assumes "download_dump wd b path claimed_size claimed_sha s = (r, s')"
  shows "(case r of
      Inl e \<Rightarrow> js_files s' path = js_files s path
    | Inr _ \<Rightarrow> \<exists>n h q reply. claimed_size = JInt n \<and> claimed_sha = JStr h \<and> 0 < n \<and> n \<le> MAX_DUMP_BYTES \<and> sha256_hex_text h \<and>
        js_files s path = None \<and> Http q (HttpReply reply) \<in> set (js_history s') \<and> \<not> rp_breaks reply \<and>
        js_files s' path = Some (reply_body reply) \<and> int (length (reply_body reply)) = n \<and>
        wd_sha256 wd (reply_body reply) = h) \<and>
    (\<forall>p. p \<noteq> path \<longrightarrow> js_files s' p = js_files s p)"
proof (cases r)
  case (Inl e)
  then show ?thesis using download_dump_Inl assms download_dump_other[OF assms] by simp
next
  case (Inr u)
  with assms obtain n h where "claimed_size = JInt n" "claimed_sha = JStr h" by (auto simp: download_dump_def download_checked_def split: json.splits)
  with download_checked_Inr[of wd b dump_messages "''pulseexchange.dump''" path n h s u s'] assms[unfolded download_dump_def] Inr download_dump_other[OF assms] show ?thesis by fastforce
qed

section \<open>A world for a rehearsal\<close>

definition cw_answers :: "(nat \<times> json) list" where
  "cw_answers =
     [(3, JInt 170002), (4, JInt 170002),
      (5, JObj [(''encoding'', JStr ''UTF8''), (''collate'', JStr ''C''), (''ctype'', JStr ''C''), (''provider'', JStr ''c'')]),
      (8, JInt 0), (30, JInt 0)] @ manifest_answers 10"

definition cw_stored :: json where
  "cw_stored = backup_record Rehearse ''rehearsal-1'' ''now'' ''pulseexchange_rehearsal'' cw_sum 5 cw_expected"

definition rehearsal_script :: script where
  "rehearsal_script = \<lparr>sc_answers = cw_answers, sc_stored = cw_stored\<rparr>"

definition rehearsal_world :: world where
  "rehearsal_world = cw_world rehearsal_script"

lemma cw_ask:
  "map_of cw_answers n = Some v \<Longrightarrow> n < 256 \<Longrightarrow> yields (sql_json rehearsal_world c q None) n fs v (Suc n) fs"
  unfolding rehearsal_world_def by (rule cw_json) (simp_all add: rehearsal_script_def)

definition cw_blob :: private_blob where
  "cw_blob = \<lparr>pb_environment = cw_env, pb_run_id = ''rehearsal-1'', pb_base = ''https://backups.blob.core.windows.net/private'',
     pb_suffix = blob_suffix ''rehearsal-1''\<rparr>"

lemma cw_bodies:
  "pb_suffix cw_blob ''pulseexchange.dump'' = Inr ''/shared-postgres/rehearsal-1/pulseexchange.dump''"
  "pb_suffix cw_blob ''manifest.json'' = Inr ''/shared-postgres/rehearsal-1/manifest.json''"
  "cw_body (pb_base cw_blob @ ''/shared-postgres/rehearsal-1/pulseexchange.dump'') = ''PGDMP''"
  "cw_body (pb_base cw_blob @ ''/shared-postgres/rehearsal-1/manifest.json'') = ''MANIFEST''"
  "cw_body (pb_base cw_blob @ ''?restype=container'') = []"
  by code_simp+

lemma cw_holds: "holds cw_blob ''pulseexchange.dump'' ''PGDMP''" "holds cw_blob ''manifest.json'' ''MANIFEST''"
  using cw_bodies unfolding holds_def by (simp_all add: cw_blob_def)

lemma cw_download_dump:
  "fs path = None \<Longrightarrow>
   yields (download_dump (cw_world sc) cw_blob path (JInt 5) (JStr cw_sum)) n fs () (n + 2) (fs(path \<mapsto> ''PGDMP''))"
  unfolding download_dump_def by (rule cw_download[OF cw_holds(1)])

theorem download_exact_witness:
  "\<exists>s' reply. download_dump rehearsal_world cw_blob ''f'' (JInt 5) (JStr cw_sum) initial_state = (Inr (), s') \<and>
     js_files s' ''f'' = Some (reply_body reply) \<and> int (length (reply_body reply)) = 5"
proof -
  have "length (js_history initial_state) = 0" "js_files initial_state = (\<lambda>_. None)" by (simp_all add: initial_state_def)
  then obtain s' where d: "download_dump rehearsal_world cw_blob ''f'' (JInt 5) (JStr cw_sum) initial_state = (Inr (), s')"
    using cw_download_dump[of "\<lambda>_. None" "''f''" rehearsal_script 0] unfolding yields_def rehearsal_world_def by blast
  from download_exact[OF d] d show ?thesis by auto
qed

lemma cw_paths: "dump_path rehearsal_world = ''/tmp/pulseexchange.dump''" "downloaded_path rehearsal_world = ''/tmp/verified-pulseexchange.dump''"
    "row_file rehearsal_world = ''/tmp/rows.private''"
  by (simp_all add: dump_path_def downloaded_path_def row_file_def rehearsal_world_def)

definition cw_files :: "string \<Rightarrow> string option" where
  "cw_files = (\<lambda>_. None)(''/tmp/pulseexchange.dump'' \<mapsto> ''PGDMP'')"

lemma cw_answers_manifest: "sc_answers sc = cw_answers \<Longrightarrow> answers_manifest sc 10"
  by (simp add: answers_manifest_def manifest_answers_def cw_answers_def)

lemma cw_backup: "yields (backup_source rehearsal_world p False) 9 (\<lambda>_. None) cw_expected 18 cw_files"
proof -
  have "pg_dump rehearsal_world p = dump_to rehearsal_world [''--no-owner'', ''--no-acl''] ''/tmp/pulseexchange.dump''
      ''Backup is empty or exceeds the reviewed 256 MiB migration limit.'' p"
    using cw_paths by (simp add: fun_eq_iff pg_dump_def)
  then show ?thesis
    using cw_backup_with[of rehearsal_script 9 "''/tmp/pulseexchange.dump''" p] cw_answers_manifest[of rehearsal_script] cw_paths(3)
    by (simp add: backup_source_def rehearsal_script_def rehearsal_world_def cw_files_def)
qed

lemma cw_same:
  "py_eq cw_stored (backup_record Rehearse (pb_run_id cw_blob) ''now'' ''pulseexchange_rehearsal'' cw_sum 5 cw_expected)"
  by code_simp

lemma cw_store: "\<exists>fs. yields (store_backup rehearsal_world cw_blob Rehearse ''pulseexchange_rehearsal'' cw_expected) 18 cw_files cw_sum 30 fs"
  unfolding store_backup_def Let_def
  apply (rule exI)
  apply (rule yields_bind, unfold rehearsal_world_def, rule cw_upload[OF cw_holds(1)])
   apply (simp add: cw_files_def dump_path_def)
  apply (rule yields_bind, simp, rule yields_basic(6))
  apply (rule yields_bind, rule yields_basic(5))
  apply (rule yields_bind, rule yields_basic(4))
  apply (rule yields_bind, rule cw_upload[OF cw_holds(2)])
   apply simp
  apply (rule yields_bind, rule yields_basic(3))
  apply (rule yields_bind, rule cw_manifest_read[OF cw_holds(2)])
  apply (rule yields_bind, rule yields_basic(2))
   apply (use cw_same in \<open>simp add: cw_files_def dump_path_def rehearsal_script_def\<close>)
  apply (rule yields_bind, simp add: cw_files_def dump_path_def, rule cw_download_dump)
   apply (simp add: downloaded_path_def)
  apply (simp, rule yields_basic(1))
  done

lemma cw_prepare:
  "\<exists>fs. yields (prepare_copy rehearsal_world cw_env Rehearse source admin cw_blob ''pulseexchange_rehearsal'' ''pulseexchange_rehearsal_app'')
     8 (\<lambda>_. None) (cw_expected, cw_sum) 30 fs"
proof -
  from cw_store obtain fs where
    st: "yields (store_backup rehearsal_world cw_blob Rehearse ''pulseexchange_rehearsal'' cw_expected) 18 cw_files cw_sum 30 fs" by blast
  have rehearsal: "(Rehearse = FinalCopy) = False" by simp
  have absent: "yields (require_absent rehearsal_world p db role) 8 fs () 9 fs" for p db role fs
    unfolding require_absent_def using cw_ask[of 8 "JInt 0"]
    by (auto intro!: yields_bind[where k = 9] yields_basic simp: cw_answers_def py_truthy_def)
  show ?thesis
    unfolding prepare_copy_def Let_def rehearsal
    apply (rule exI)
    apply (rule yields_bind, rule yields_basic(7))
    apply (rule yields_bind, rule yields_basic(3))
    apply (rule yields_bind, rule absent)
    apply (rule yields_bind, rule yields_basic(7))
    apply (rule yields_bind, rule yields_basic(3))
    apply (rule yields_bind, rule cw_backup)
    apply (rule yields_bind, rule yields_basic(3))
    apply (rule yields_bind, rule st)
    apply (rule yields_bind, rule yields_basic(7), rule yields_basic(1))
    done
qed

lemma cw_create:
  assumes "db_host (pg_database p) = TARGET_HOST"
  shows "reaches_write (create_target rehearsal_world p db role pw loc) 30 fs"
  unfolding create_target_def require_absent_def
  apply (rule reaches_bind, rule yields_bind, rule cw_ask[where v = "JInt 0"])
     apply (simp_all add: cw_answers_def manifest_answers_def)
   apply (rule yields_basic(2), simp add: py_truthy_def)
  apply (rule reaches_first[where P = "on_command (writes_only TARGET_HOST)"], rule cw_write)
    apply simp_all
  apply (intro spares.obeys_bind spares.obeys_values spares.obeys_write(1)[OF assms] spares.obeys_ret)
  done

lemma cw_copy:
  assumes "db_host (pg_database admin) = TARGET_HOST" "db_host (pg_database target) = TARGET_HOST"
  shows "reaches_write (bind (prepare_copy rehearsal_world cw_env Rehearse source admin cw_blob ''pulseexchange_rehearsal''
      ''pulseexchange_rehearsal_app'') (\<lambda>er.
     restore_copy rehearsal_world Rehearse source admin target ''pulseexchange_rehearsal'' ''pulseexchange_rehearsal_app'' pw loc
       (fst er) (snd er))) 8 (\<lambda>_. None)"
proof -
  obtain fs where p: "yields (prepare_copy rehearsal_world cw_env Rehearse source admin cw_blob ''pulseexchange_rehearsal''
      ''pulseexchange_rehearsal_app'') 8 (\<lambda>_. None) (cw_expected, cw_sum) 30 fs" using cw_prepare by blast
  show ?thesis
    unfolding restore_copy_def
    by (rule reaches_bind[OF p], rule reaches_bind[OF yields_basic(3)],
        rule reaches_first[where P = "on_command (writes_only TARGET_HOST)", OF cw_create[OF assms(1)] spares.obeys_finish_copy[OF assms(2)]])
qed

lemma cw_mode_job:
  assumes "db_host (pg_database admin) = TARGET_HOST"
  shows "reaches_write (mode_job rehearsal_world cw_env Rehearse ''rehearsal-1'' source admin loc) 6 (\<lambda>_. None)"
proof -
  have pw: "new_password cw_env ''REHEARSAL_APP_PASSWORD'' = ret (replicate 32 CHR ''x'')"
    by (simp add: new_password_def cw_settings require_def bind_ret has_control_def Let_def list_ex_iff)
  have names: "account_name ''backups'' \<and> container_name ''private''" by code_simp
  have blob: "private_blob_init cw_env ''rehearsal-1'' (blob_suffix ''rehearsal-1'') = ret cw_blob"
    using names by (simp add: private_blob_init_def cw_settings require_def bind_ret cw_blob_def Let_def)
  have unshared: "yields (require_private rehearsal_world cw_blob) 6 fs () 8 fs" for fs
    using cw_private[OF _ cw_bodies(5), where n = 6] by (simp add: cw_blob_def rehearsal_world_def)
  show ?thesis
    apply (simp add: mode_job_def target_kind_of_def TARGETS_def pw blob bind_ret Let_def)
    apply (rule reaches_bind, rule yields_basic(3))
    apply (rule reaches_bind, rule unshared)
    apply (rule cw_copy)
     apply (simp_all add: assms)
    done
qed

lemma cw_run: "reaches_write (run rehearsal_world Rehearse cw_env) 0 (\<lambda>_. None)"
proof -
  have id: "run_id_ok ''rehearsal-1''" by code_simp
  have clients: "yields (require_clients rehearsal_world) 0 fs () 3 fs" for fs
    using cw_clients[of rehearsal_script 0] by (simp add: rehearsal_world_def)
  have ver: "yields (require_version rehearsal_world p) n fs () (Suc n) fs" if "n \<in> {3, 4}" for p n fs
    unfolding rehearsal_world_def by (rule cw_version) (use that in \<open>auto simp: rehearsal_script_def cw_answers_def\<close>)
  have loc: "\<exists>v. yields (pg_locale rehearsal_world p) 5 (\<lambda>_. None) v 6 (\<lambda>_. None)" for p
    unfolding pg_locale_def using cw_ask[of 5]
    by (intro exI, intro yields_bind[where k = 6])
      (auto simp: cw_answers_def item_def bind_ret py_eq.simps require_def intro!: yields_basic)
  obtain v where v: "yields (pg_locale rehearsal_world \<lparr>pg_database = \<lparr>db_host = SOURCE_HOST, db_name = SOURCE_DB, db_user = ''u'',
      db_password = ''p''\<rparr>, pg_run_id = ''rehearsal-1''\<rparr>) 5 (\<lambda>_. None) v 6 (\<lambda>_. None)" using loc by blast
  show ?thesis
    unfolding run_def Let_def cw_settings
    apply (rule reaches_bind[OF yields_basic(2)[OF id]])
    apply (rule reaches_bind[OF clients])
    apply (simp only: rehearsal_world_def cw_source bind_ret)
    apply (fold rehearsal_world_def)
    apply (rule reaches_bind[OF yields_basic(3)])
    apply (rule reaches_bind[OF ver], simp)
    apply (rule reaches_bind[OF ver], simp)
    apply (simp, rule reaches_bind[OF v])
    apply (rule cw_in_directory, rule cw_mode_job)
    apply simp
    done
qed

section \<open>The job\<close>

lemma copy_job_closed:
  assumes "migrate_main wd mode environment = (code, out, h)"
  shows "list_all (on_command (writes_only TARGET_HOST)) h"
    "mode \<in> {Inspect, Verify} \<Longrightarrow> list_all reading h"
    "h = pre @ e # post \<Longrightarrow> \<not> on_command changes_nothing e \<Longrightarrow> backup_stored wd SOURCE_HOST pre"
proof -
  obtain r s where run: "run wd mode environment initial_state = (r, s)" by fastforce
  have h: "h = js_history s" using migrate_history[of wd mode environment] assms run by simp
  have start: "js_history initial_state = []" by (simp add: initial_state_def)
  show "list_all (on_command (writes_only TARGET_HOST)) h"
    using obeysD[OF spares.obeys_run[OF refl] run] by (simp add: emits_def start h)
  show "list_all reading h" if "mode \<in> {Inspect, Verify}"
    using obeysD[OF run_reading[OF that] run] by (simp add: emits_def start h)
  show "backup_stored wd SOURCE_HOST pre" if "h = pre @ e # post" "\<not> on_command changes_nothing e"
    using obeysD[OF run_guarded run] that by (simp add: guarded_def after_backup_def start h)
qed

lemma rehearsal_writes: "\<exists>e \<in> set (snd (snd (migrate_main rehearsal_world Rehearse cw_env))). \<not> on_command changes_nothing e"
  using cw_run by (auto simp: migrate_history reaches_write_def initial_state_def)

end
