(* ===== verification/Economizing.thy ===== *)
theory Economizing
  imports Economy Isolating Copying
begin

text \<open>
  What the second copy job may do: the disciplines of the first carried over to its operations, the
  evidence its backup leaves, and the property that both copy jobs share.
\<close>

section \<open>Disciplines\<close>

lemma parse_database_host:
  assumes "returns (parse_database wd v project source) d"
  shows "db_host d = (if source then the (SOURCES project) else APPROVED_TARGET_HOST)"
  using assms by (auto simp: returns_def parse_database_def Let_def raise_def ret_def split: sum.splits if_splits option.splits)

context discipline
begin

lemma obeys_finally_do [follows]:
  assumes "obeys R m" "obeys R n"
  shows "obeys R (finally_do m n)"
  unfolding obeys_def
proof
  fix s
  obtain r s1 where m: "m s = (r, s1)" by fastforce
  obtain q s2 where n: "n s1 = (q, s2)" by fastforce
  have "R s s1" "R s1 s2" using assms m n by (metis obeys_def snd_conv)+
  then show "R s (snd (finally_do m n s))" using trans by (cases q) (auto simp: finally_do_def m n)
qed

end

context reading_discipline
begin

lemma obeys_field_is_true [follows]: "obeys R (field_is_true v k)"
  unfolding field_is_true_def by (intro obeys_bind) (auto intro!: follows)

lemma obeys_economy_checks [follows]:
  "obeys R (economy_frozen wd p)" "obeys R (not_empty_rehearsal v db role marker owners)" "obeys R (not_empty_foundation v db)"
  "obeys R (missing_privileges v)" "obeys R (economy_blob environment run_id project)" "obeys R (parse_database wd w project source)"
  unfolding economy_frozen_def not_empty_rehearsal_def not_empty_foundation_def missing_privileges_def economy_blob_def
    parse_database_def Let_def
  by (auto intro!: follows split: option.splits sum.splits)

lemma obeys_empty_rehearsal [follows]: "obeys R (empty_rehearsal wd self target recovery)"
  unfolding empty_rehearsal_def Let_def by (intro obeys_bind) (auto intro!: follows)

lemma obeys_empty_foundation [follows]: "obeys R (empty_foundation wd self db role loc)"
  unfolding empty_foundation_def Let_def by (intro obeys_bind) (auto intro!: follows)

lemma obeys_economy_inspect [follows]: "okf (row_file wd) \<Longrightarrow> obeys R (economy_inspect wd job source admin loc)"
  unfolding economy_inspect_def by (intro obeys_bind obeys_with_snapshot) (auto intro!: follows)

lemma obeys_economy_verify:
  assumes "\<And>p. okf p" "ej_mode job = RecoverRehearsal \<Longrightarrow> obeys R (economy_recover wd job admin target)"
  shows "obeys R (economy_verify wd job admin target blob)"
proof -
  have "obeys R (only_if (ej_mode job = RecoverRehearsal) (economy_recover wd job admin target))"
    using assms(2) by (cases "ej_mode job = RecoverRehearsal") (auto simp: only_if_def intro: follows)
  then show ?thesis unfolding economy_verify_def
    by (intro obeys_bind obeys_with_snapshot) (auto intro!: follows assms(1))
qed

text \<open>The modes that only read follow the discipline; the others, if their part does.\<close>

lemma obeys_economy_body_with:
  assumes "\<And>p. okf p"
    and verify: "\<And>target blob. ej_mode job \<in> {EconomyVerify, RecoverRehearsal} \<Longrightarrow>
      db_host (pg_database target) = db_host (pg_database admin) \<Longrightarrow> obeys R (economy_verify wd job admin target blob)"
    and copy: "\<And>target password blob loc. ej_mode job \<in> {EconomyRehearse, EconomyFinalCopy} \<Longrightarrow>
      db_host (pg_database target) = db_host (pg_database admin) \<Longrightarrow>
      returns (economy_blob environment (pg_run_id admin) (ej_project job)) blob \<Longrightarrow>
      obeys R (economy_copy wd environment job source admin target password blob loc)"
  shows "obeys R (economy_body wd environment job source admin)"
proof -
  have last: "obeys R (if ej_mode job \<in> {EconomyVerify, RecoverRehearsal} then economy_verify wd job admin target blob
      else economy_copy wd environment job source admin target password blob loc)"
    if "ej_mode job \<noteq> EconomyInspect" "db_host (pg_database target) = db_host (pg_database admin)"
      "returns (economy_blob environment (pg_run_id admin) (ej_project job)) blob" for target password blob loc
    using verify[of target blob] copy[of target blob password loc] that
    by (cases "ej_mode job") auto
  have inner: "obeys R (bind (economy_blob environment (pg_run_id admin) (ej_project job)) (\<lambda>blob.
      bind (set_phase ''private backup validation'') (\<lambda>_. bind (require_private wd blob) (\<lambda>_.
      if ej_mode job \<in> {EconomyVerify, RecoverRehearsal} then economy_verify wd job admin target blob
      else economy_copy wd environment job source admin target password blob loc))))"
    if "ej_mode job \<noteq> EconomyInspect" "db_host (pg_database target) = db_host (pg_database admin)" for target password loc
    by (rule obeys_bind_returns[OF obeys_economy_checks(5)], intro obeys_bind obeys_state obeys_blob(2) last that)
  have first: "obeys R (if ej_mode job \<in> {EconomyVerify, RecoverRehearsal} then ret JNull
      else bind (require_version wd source) (\<lambda>_. pg_locale wd source))"
    by (auto intro!: follows)
  show ?thesis
    unfolding economy_body_def Let_def
    by (rule obeys_bind[OF first])
      (auto simp del: insert_iff intro!: obeys_economy_inspect assms(1) obeys_bind[OF obeys_blob(5) inner])
qed

lemma obeys_economy_run_with:
  assumes clear: "\<And>s. R s (s\<lparr>js_files := (\<lambda>_. None)\<rparr>)"
    and body: "\<And>source admin. db_host (pg_database source) = ej_source_host (economy_job_of mode environment) \<Longrightarrow>
      db_host (pg_database admin) = APPROVED_TARGET_HOST \<Longrightarrow> pg_run_id admin = env_get environment ''MIGRATION_RUN_ID'' \<Longrightarrow>
      obeys R (economy_body wd environment (economy_job_of mode environment) source admin)"
  shows "obeys R (economy_run wd mode environment)"
proof -
  have host: "db_host d = ej_source_host (economy_job_of mode environment)"
    if "returns (parse_database wd v (env_get environment ''MIGRATION_PROJECT'') True) d" for v d
    using that by (auto simp: returns_def parse_database_def economy_job_of_def Let_def raise_def ret_def
        split: sum.splits if_splits option.splits)
  show ?thesis
    unfolding economy_run_def Let_def
    by (intro obeys_bind_returns) (auto intro!: follows body obeys_in_directory clear host dest: parse_database_host)
qed

end

context backup_discipline
begin

lemma obeys_economy_store [follows]: "(\<And>p. okf p) \<Longrightarrow> obeys R (economy_store wd job run_id blob expected)"
  unfolding economy_store_def Let_def by (intro obeys_bind) (auto intro!: follows)

lemma obeys_economy_prepare [follows]:
  "(\<And>p. okf p) \<Longrightarrow> obeys R (economy_prepare wd environment job source admin blob loc)"
  unfolding economy_prepare_def Let_def by (intro obeys_bind) (auto intro!: follows)

end

context job_discipline
begin

lemma obeys_write_sql [follows]: "db_host (pg_database p) = host \<Longrightarrow> obeys R (write_sql wd p statement)"
  unfolding write_sql_def by (intro obeys_bind) (auto intro!: follows)

lemma obeys_prepare_rehearsal [follows]:
  "db_host (pg_database self) = host \<Longrightarrow> db_host (pg_database target) = host \<Longrightarrow>
   obeys R (prepare_rehearsal_schema wd self target recovery)"
  unfolding prepare_rehearsal_schema_def Let_def by (auto intro!: follows)

lemma obeys_economy_create [follows]:
  "db_host (pg_database self) = host \<Longrightarrow> obeys R (economy_create_target wd self db role password loc)"
  unfolding economy_create_target_def by (auto intro!: follows)

lemma obeys_claim_foundation [follows]:
  assumes "db_host (pg_database self) = host"
  shows "obeys R (claim_empty_foundation wd self db role password loc)"
proof -
  have "db_host (pg_database t) = host" if "returns (empty_foundation wd self db role loc) t" for t
    using that assms by (auto simp: returns_def empty_foundation_def Let_def bind_Inr)
  then show ?thesis unfolding claim_empty_foundation_def
    by (intro obeys_bind_returns[OF obeys_empty_foundation]) (auto intro!: follows)
qed

lemma obeys_economy_restore [follows]: "db_host (pg_database p) = host \<Longrightarrow> obeys R (economy_restore wd job p)"
  unfolding economy_restore_def
  by (intro obeys_bind obeys_native target_commands) (auto simp: database_env_def intro!: follows)

lemma obeys_economy_recover [follows]:
  "db_host (pg_database admin) = host \<Longrightarrow> db_host (pg_database target) = host \<Longrightarrow>
   obeys R (economy_recover wd job admin target)"
  unfolding economy_recover_def by (auto intro!: follows)

lemma obeys_economy_rest [follows]:
  assumes "db_host (pg_database admin) = host" "db_host (pg_database target) = host"
  shows "obeys R (bind (economy_claim wd job source admin password loc) (\<lambda>_. economy_finish wd job source target expected checksum))"
proof -
  have "obeys R (economy_claim wd job source admin password loc)"
    using assms unfolding economy_claim_def by (auto intro!: follows)
  moreover have "obeys R (economy_finish wd job source target expected checksum)"
    using assms unfolding economy_finish_def
    by (intro obeys_bind obeys_only_if obeys_with_snapshot) (auto intro!: follows all_files)
  ultimately show ?thesis by (rule obeys_bind)
qed

lemma obeys_economy_run: "host = APPROVED_TARGET_HOST \<Longrightarrow> obeys R (economy_run wd mode environment)"
  by (intro obeys_economy_run_with obeys_economy_body_with all_files clears)
    (auto simp: economy_copy_def
      intro!: obeys_bind obeys_economy_prepare obeys_economy_rest obeys_economy_verify obeys_economy_recover all_files)

end

section \<open>The backup\<close>

lemma economy_blob_suffix:
  "returns (economy_blob environment run_id project) b \<Longrightarrow> pb_suffix b ''pulseexchange.dump'' = pb_suffix b (project @ ''.dump'')"
  by (auto simp: returns_def economy_blob_def private_blob_init_def economy_suffix_def Let_def bind_Inr)

lemma economy_prepare_Inr:
  assumes p: "economy_prepare wd environment job source admin blob loc s = (Inr er, s')"
    and host: "db_host (pg_database source) = host"
    and suffix: "pb_suffix blob ''pulseexchange.dump'' = pb_suffix blob (ej_project job @ ''.dump'')"
    and row: "row_file wd \<noteq> economy_dump wd (ej_project job)"
  shows "backup_stored wd host (js_history s')"
proof -
  let ?path = "economy_dump wd (ej_project job)"
  from p obtain expected checksum s1 s2 ph where
    b: "backup_with wd source (economy_frozen wd source) (dump_to wd [''--no-owner'', ''--no-acl''] ?path
        ''Source backup is empty or exceeds the reviewed size limit.'' source) (ej_final job) s1 = (Inr expected, s2)"
    and st: "economy_store wd job (pg_run_id source) blob expected (s2\<lparr>js_phase := ph\<rparr>) = (Inr checksum, s')"
    by (auto simp: economy_prepare_def Let_def bind_Inr)
  have dump: "has_dump host ?path s2"
    by (rule backup_with_Inr[OF b _ row keeps.obeys_economy_checks(1) reads.obeys_economy_checks(1)]) (rule dump_to_Inr[OF _ host])
  then have dump': "has_dump host ?path (s2\<lparr>js_phase := ph\<rparr>)" by (simp add: has_dump_def)
  from st obtain s3 saved u s4 v s5 where
    up: "upload wd blob ?path (ej_project job @ ''.dump'') (s2\<lparr>js_phase := ph\<rparr>) = (Inr checksum, s3)"
    and up2: "upload wd blob (wd_directory wd @ ''/manifest.json'') ''manifest.json''
        (s3\<lparr>js_files := (js_files s3)(wd_directory wd @ ''/manifest.json'' \<mapsto> wd_dumps wd saved)\<rparr>) = (Inr u, s4)"
    and man: "blob_manifest wd blob s4 = (Inr v, s5)"
    and down: "download_dump wd blob (economy_download wd)
        (JInt (case js_files s3 ?path of None \<Rightarrow> 0 | Some c \<Rightarrow> int (length c))) (JStr checksum) s5 = (Inr (), s')"
    by (clarsimp simp: economy_store_def Let_def bind_Inr)
  have "set (js_history s3) \<subseteq> set (js_history s5)"
    using emits_subset[OF obeysD[OF stores.obeys_upload up2]] emits_subset[OF obeysD[OF stores.obeys_blob(4) man]] by simp
  from backup_round_trip[OF dump' up this down[unfolded download_dump_def] suffix] show ?thesis by simp
qed

text \<open>
  The saved copy was read back by this run: the stored manifest belongs to exactly this job, and a
  complete reply has the size and SHA-256 that it records.
\<close>

definition saved_copy :: "world \<Rightarrow> economy_job \<Rightarrow> string \<Rightarrow> event list \<Rightarrow> bool" where
  "saved_copy wd job run_id h \<longleftrightarrow> (\<exists>q r q' r' kvs body.
     Http q (HttpReply r) \<in> set h \<and> wd_loads wd (reply_body r) = Some (JObj kvs) \<and>
     list_all (\<lambda>kv. py_eq (get_or_null kvs (fst kv)) (snd kv)) (economy_identity job run_id) \<and>
     Http q' (HttpReply r') \<in> set h \<and> \<not> rp_breaks r' \<and> body = reply_body r' \<and>
     get_or_null kvs ''dump_bytes'' = JInt (int (length body)) \<and> get_or_null kvs ''dump_sha256'' = JStr (wd_sha256 wd body))"

lemma saved_copy_mono: "saved_copy wd job run_id h \<Longrightarrow> set h \<subseteq> set h' \<Longrightarrow> saved_copy wd job run_id h'"
  unfolding saved_copy_def by (meson subsetD)

lemma blob_manifest_Inr:
  assumes "blob_manifest wd b s = (Inr v, s')"
  shows "\<exists>q r. Http q (HttpReply r) \<in> set (js_history s') \<and> wd_loads wd (reply_body r) = Some v"
proof -
  from assms obtain suffix r s1 where g: "blob_request wd b ''GET'' suffix None [] s = (Inr r, s1)"
    and l: "length (take (MAX_MANIFEST_BYTES + 1) (reply_body r)) \<le> MAX_MANIFEST_BYTES"
      "wd_loads wd (take (MAX_MANIFEST_BYTES + 1) (reply_body r)) = Some v" "s' = s1"
    by (auto simp: blob_manifest_def read_limited_def bind_Inr split: option.splits if_splits)
  then have "take (MAX_MANIFEST_BYTES + 1) (reply_body r) = reply_body r" by (simp add: min_def split: if_splits)
  then show ?thesis using blob_request_Inr[OF g] l by auto
qed

text \<open>What Verify and RecoverRehearsal do before they look at the target.\<close>

definition fetch_saved :: "world \<Rightarrow> economy_job \<Rightarrow> pg \<Rightarrow> private_blob \<Rightarrow> json job" where
  "fetch_saved wd job admin blob =
     bind (blob_manifest wd blob) (\<lambda>v.
     bind (mapping_items OtherException v) (\<lambda>kvs.
     bind (require (list_all (\<lambda>kv. py_eq (get_or_null kvs (fst kv)) (snd kv)) (economy_identity job (pg_run_id admin)))
       ''Backup manifest does not belong to this exact project, run and approved destination.'') (\<lambda>_.
     bind (download_dump wd blob (economy_download wd) (get_or_null kvs ''dump_bytes'') (get_or_null kvs ''dump_sha256'')) (\<lambda>_.
     ret v))))"

lemma mapping_items_Inr: "mapping_items e v s = (Inr kvs, s') \<longleftrightarrow> v = JObj kvs \<and> s' = s"
  by (auto simp: mapping_items_def split: json.splits)

lemma fetch_saved_Inr:
  assumes "fetch_saved wd job admin blob s = (Inr v, s')"
  shows "saved_copy wd job (pg_run_id admin) (js_history s')"
proof -
  from assms obtain kvs s1 where m: "blob_manifest wd blob s = (Inr (JObj kvs), s1)"
    and i: "list_all (\<lambda>kv. py_eq (get_or_null kvs (fst kv)) (snd kv)) (economy_identity job (pg_run_id admin))"
    and d: "download_dump wd blob (economy_download wd) (get_or_null kvs ''dump_bytes'') (get_or_null kvs ''dump_sha256'') s1 = (Inr (), s')"
    by (auto simp: fetch_saved_def bind_Inr mapping_items_Inr)
  from d obtain n h where nh: "get_or_null kvs ''dump_bytes'' = JInt n" "get_or_null kvs ''dump_sha256'' = JStr h"
    by (auto simp: download_dump_def download_checked_def split: json.splits)
  from download_checked_Inr(1)[OF d[unfolded download_dump_def nh]] obtain q' r' where
    down: "Http q' (HttpReply r') \<in> set (js_history s')" "\<not> rp_breaks r'" "int (length (reply_body r')) = n"
      "wd_sha256 wd (reply_body r') = h" by blast
  have "set (js_history s1) \<subseteq> set (js_history s')" by (rule emits_subset[OF obeysD[OF reads.obeys_download d]]) simp
  then show ?thesis using blob_manifest_Inr[OF m] i nh down unfolding saved_copy_def by blast
qed

section \<open>The order of the job\<close>

definition after_evidence :: "world \<Rightarrow> economy_mode \<Rightarrow> environment \<Rightarrow> event list \<Rightarrow> event \<Rightarrow> bool" where
  "after_evidence wd mode environment pre e \<longleftrightarrow>
     (let job = economy_job_of mode environment in
      if mode = RecoverRehearsal then saved_copy wd job (env_get environment ''MIGRATION_RUN_ID'') pre
      else backup_stored wd (ej_source_host job) pre)"

lemma economy_copy_guarded:
  assumes hosts: "db_host (pg_database source) = ej_source_host (economy_job_of mode environment)"
      "db_host (pg_database admin) = APPROVED_TARGET_HOST" "db_host (pg_database target) = APPROVED_TARGET_HOST"
    and mode: "mode \<noteq> RecoverRehearsal" and blob: "returns (economy_blob env run_id (ej_project (economy_job_of mode environment))) blob"
  shows "obeys (guarded (after_evidence wd mode environment))
    (economy_copy wd env2 (economy_job_of mode environment) source admin target password blob loc)"
proof -
  let ?job = "economy_job_of mode environment"
  have "last (row_file wd) \<noteq> last (economy_dump wd (ej_project ?job))"
    by (simp add: row_file_def economy_dump_def)
  then have row: "row_file wd \<noteq> economy_dump wd (ej_project ?job)" by metis
  have "after_evidence wd mode environment (js_history s' @ a) e"
    if "economy_prepare wd env2 ?job source admin blob loc s = (Inr x, s')" for s x s' a e
    using backup_stored_mono[OF economy_prepare_Inr[OF that hosts(1) economy_blob_suffix[OF blob] row], of "js_history s' @ a"] mode
    by (simp add: after_evidence_def)
  then show ?thesis unfolding economy_copy_def
    by (intro guarded_then[OF guards.obeys_economy_prepare]) (auto intro: spares.obeys_economy_rest[OF hosts(2,3)])
qed

lemma economy_verify_split:
  "economy_verify wd job admin target blob = bind (fetch_saved wd job admin blob) (\<lambda>v.
     bind (require_version wd target) (\<lambda>_.
     bind (only_if (ej_mode job = RecoverRehearsal) (economy_recover wd job admin target)) (\<lambda>_.
     bind (set_phase ''saved backup data verification'') (\<lambda>_.
     bind (with_snapshot wd target (\<lambda>snapshot.
       bind (item v ''source_manifest'') (\<lambda>expected.
       bind (pg_manifest wd target snapshot) (\<lambda>restored.
       require_same expected restored (ej_final job))))) (\<lambda>_.
     ret (JObj [(''mode'', JStr (economy_mode_name (ej_mode job))), (''project'', JStr (ej_project job)), (''verified'', JBool True),
       (''backup_download_verified'', JBool True), (''sequences_verified'', JBool (ej_final job)),
       (''changed'', JBool (ej_mode job = RecoverRehearsal))]))))))"
  by (simp add: economy_verify_def fetch_saved_def bind_assoc bind_ret)

lemma economy_verify_guarded:
  assumes hosts: "db_host (pg_database admin) = APPROVED_TARGET_HOST" "db_host (pg_database target) = APPROVED_TARGET_HOST"
    and mode: "mode \<in> {EconomyVerify, RecoverRehearsal}" and id: "pg_run_id admin = env_get environment ''MIGRATION_RUN_ID''"
  shows "obeys (guarded (after_evidence wd mode environment)) (economy_verify wd (economy_job_of mode environment) admin target blob)"
proof (cases "mode = RecoverRehearsal")
  case True
  let ?job = "economy_job_of mode environment"
  have fetch: "obeys (guarded (after_evidence wd mode environment)) (fetch_saved wd ?job admin blob)"
    unfolding fetch_saved_def
    by (intro guards.obeys_bind guards.obeys_blob guards.obeys_values guards.obeys_require guards.obeys_download guards.obeys_ret) simp
  have "after_evidence wd mode environment (js_history s' @ a) e" if "fetch_saved wd ?job admin blob s = (Inr v, s')" for s v s' a e
    using saved_copy_mono[OF fetch_saved_Inr[OF that], of "js_history s' @ a"] True id by (simp add: after_evidence_def)
  then show ?thesis unfolding economy_verify_split
    by (intro guarded_then[OF fetch, where P = "on_command (writes_only APPROVED_TARGET_HOST)"])
      (auto intro!: spares.obeys_bind spares.obeys_checks spares.obeys_only_if spares.obeys_economy_recover hosts spares.obeys_state
        spares.obeys_with_snapshot spares.obeys_values spares.obeys_pg_manifest spares.obeys_require_same spares.obeys_ret)
next
  case False
  then show ?thesis using mode by (intro guards.obeys_economy_verify) (auto simp: economy_job_of_def Let_def)
qed

lemma ej_mode_of [simp]: "ej_mode (economy_job_of mode environment) = mode"
  by (simp add: economy_job_of_def Let_def)

lemma economy_run_guarded: "obeys (guarded (after_evidence wd mode environment)) (economy_run wd mode environment)"
proof (rule guards.obeys_economy_run_with)
  fix source admin :: pg
  assume hosts: "db_host (pg_database source) = ej_source_host (economy_job_of mode environment)"
    "db_host (pg_database admin) = APPROVED_TARGET_HOST" and id: "pg_run_id admin = env_get environment ''MIGRATION_RUN_ID''"
  show "obeys (guarded (after_evidence wd mode environment)) (economy_body wd environment (economy_job_of mode environment) source admin)"
    by (rule guards.obeys_economy_body_with)
      (auto simp: hosts id intro!: economy_verify_guarded economy_copy_guarded)
qed (simp add: guarded_same)

lemma economy_run_reading:
  assumes "mode \<in> {EconomyInspect, EconomyVerify}"
  shows "obeys (emits reading) (economy_run wd mode environment)"
proof (rule reads.obeys_economy_run_with)
  show "obeys (emits reading) (economy_body wd environment (economy_job_of mode environment) source admin)" for source admin
    by (rule reads.obeys_economy_body_with) (use assms in \<open>auto intro!: reads.obeys_economy_verify\<close>)
qed (simp add: emits_refl)

lemma economy_history:
  "snd (snd (economy_main wd mode environment)) = js_history (snd (economy_run wd mode environment initial_state))"
  by (auto simp: economy_main_def split: prod.splits sum.splits job_exn.splits)

text \<open>
  The privileges that the administrator needs for a while are taken back in every case: when any were
  missing, the last thing \<open>prepare_rehearsal_schema\<close> does, whether it returns or raises, is to revoke
  exactly those.
\<close>

lemma write_sql_history:
  "\<exists>out. js_history (snd (write_sql wd p statement s)) = js_history s @ [Native \<lparr>cm_arguments = PSQL,
     cm_env = database_env wd (pg_database p) (pg_run_id p) False, cm_sql = Some statement\<rparr> out]"
  by (auto simp: write_sql_def sql_def blank_def Let_def native_def bind_def run_command_def ret_def raise_def
      split: native_outcome.splits)

lemma finally_do_history: "snd (finally_do m n s) = snd (n (snd (m s)))"
  by (auto simp: finally_do_def split: prod.splits sum.splits)

lemma temporary_grants_removed:
  assumes "empty_rehearsal wd self target recovery s = (Inr metadata, s1)"
    and "item metadata ''public_owner'' s1 = (Inr (JStr ''azure_pg_admin''), s1)"
    and "missing_privileges metadata s1 = (Inr temporary, s1)" "temporary \<noteq> []"
  shows "\<exists>out. last (js_history (snd (prepare_rehearsal_schema wd self target recovery s))) = Native \<lparr>cm_arguments = PSQL,
      cm_env = database_env wd (pg_database target) (pg_run_id target) False,
      cm_sql = Some (''REVOKE '' @ comma_list temporary @ '' ON DATABASE '' @ ident (db_name (pg_database target)) @
        '' FROM portfolio_admin;'')\<rparr> out"
proof -
  have after: "bind m f s0 = f x s2" if "m s0 = (Inr x, s2)" for m :: "json job" and f :: "json \<Rightarrow> unit job" and x s0 s2
    using that by (simp add: bind_def)
  have priv: "bind (missing_privileges metadata) f s1 = f temporary s1" for f :: "string list \<Rightarrow> unit job"
    using assms(3) by (simp add: bind_def)
  have revoke: "\<exists>out. last (js_history (snd (write_sql wd target q s0))) = Native \<lparr>cm_arguments = PSQL,
      cm_env = database_env wd (pg_database target) (pg_run_id target) False, cm_sql = Some q\<rparr> out" for q s0
    using write_sql_history[of wd target q s0] by auto
  show ?thesis
    unfolding prepare_rehearsal_schema_def Let_def after[where m = "empty_rehearsal wd self target recovery", OF assms(1)]
      after[where m = "item metadata ''public_owner''", OF assms(2)] text_of_JStr bind_ret
    using assms(4) by (simp add: priv finally_do_history only_if_def revoke[simplified])
qed

section \<open>Both copy jobs\<close>

text \<open>
  A history fails closed: only the target server may be changed, a run that looks changes nothing, and
  a run that copies changes a server only after the stored backup was read back.
\<close>

definition fails_closed :: "world \<Rightarrow> bool \<Rightarrow> string \<Rightarrow> (event list \<Rightarrow> bool) \<Rightarrow> event list \<Rightarrow> bool" where
  "fails_closed wd looks target evidence h \<longleftrightarrow>
     list_all (on_command (writes_only target)) h \<and> (looks \<longrightarrow> list_all reading h) \<and>
     (\<forall>pre e post. h = pre @ e # post \<longrightarrow> \<not> on_command changes_nothing e \<longrightarrow> evidence pre)"

text \<open>A world in which a rehearsal of the second job reaches the creation of its target.\<close>

definition econ_env :: environment where
  "econ_env = cw_env(''TARGET_ADMIN_DATABASE_URL'' \<mapsto> ''economy'', ''MIGRATION_PROJECT'' \<mapsto> ''pulseexchange'')"

definition econ_job :: economy_job where
  "econ_job = economy_job_of EconomyRehearse econ_env"

definition econ_script :: script where
  "econ_script = \<lparr>sc_answers = cw_answers, sc_stored = economy_record econ_job ''rehearsal-1'' ''now'' cw_sum 5 cw_expected\<rparr>"

definition econ_world :: world where
  "econ_world = cw_world econ_script"

definition econ_blob :: private_blob where
  "econ_blob = \<lparr>pb_environment = econ_env, pb_run_id = ''rehearsal-1'', pb_base = ''https://backups.blob.core.windows.net/private'',
     pb_suffix = economy_suffix ''pulseexchange'' ''rehearsal-1''\<rparr>"

lemma econ_settings:
  "env_get econ_env ''MIGRATION_PROJECT'' = ''pulseexchange''" "env_get econ_env ''MIGRATION_RUN_ID'' = ''rehearsal-1''"
  "env_get econ_env ''SOURCE_DATABASE_URL'' = ''source''" "env_get econ_env ''TARGET_ADMIN_DATABASE_URL'' = ''economy''"
  "env_get econ_env ''REHEARSAL_APP_PASSWORD'' = replicate 32 CHR ''x''"
  "env_get econ_env ''BACKUP_STORAGE_ACCOUNT'' = ''backups''" "env_get econ_env ''BACKUP_CONTAINER'' = ''private''"
  by (simp_all add: econ_env_def cw_env_def env_get_def)

lemma econ_served: "served econ_env"
  using cw_served by (simp add: served_def econ_env_def env_get_def)

lemma econ_job_sel:
  "ej_mode econ_job = EconomyRehearse" "ej_project econ_job = ''pulseexchange''" "ej_final econ_job = False"
  "ej_database econ_job = ''pulseexchange_rehearsal''" "ej_role econ_job = ''pulseexchange_rehearsal_app''"
  by (simp_all add: econ_job_def economy_job_of_def economy_kind_def econ_settings Let_def)

lemma econ_bodies:
  "pb_suffix econ_blob ''pulseexchange.dump'' = Inr ''/economy-postgres/pulseexchange/rehearsal-1/pulseexchange.dump''"
  "pb_suffix econ_blob ''manifest.json'' = Inr ''/economy-postgres/pulseexchange/rehearsal-1/manifest.json''"
  "cw_body (pb_base econ_blob @ ''/economy-postgres/pulseexchange/rehearsal-1/pulseexchange.dump'') = ''PGDMP''"
  "cw_body (pb_base econ_blob @ ''/economy-postgres/pulseexchange/rehearsal-1/manifest.json'') = ''MANIFEST''"
  "cw_body (pb_base econ_blob @ ''?restype=container'') = []"
  by code_simp+

lemma econ_holds: "holds econ_blob ''pulseexchange.dump'' ''PGDMP''" "holds econ_blob ''manifest.json'' ''MANIFEST''"
  using econ_bodies econ_served unfolding holds_def by (simp_all add: econ_blob_def)

lemma econ_ask:
  "map_of cw_answers n = Some v \<Longrightarrow> n < 256 \<Longrightarrow> k = Suc n \<Longrightarrow> yields (sql_json econ_world c q None) n fs v k fs"
  unfolding econ_world_def by (rule cw_json) (simp_all add: econ_script_def)

lemma econ_absent: "n \<in> {8, 30} \<Longrightarrow> k = Suc n \<Longrightarrow> yields (require_absent econ_world p db role) n fs () k fs"
  unfolding require_absent_def
  by (rule yields_bind, rule econ_ask[where v = "JInt 0"])
    (auto simp: cw_answers_def manifest_answers_def py_truthy_def intro!: yields_basic)

lemma econ_same:
  "py_eq (economy_record econ_job ''rehearsal-1'' ''now'' cw_sum 5 cw_expected)
     (economy_record econ_job ''rehearsal-1'' ''now'' cw_sum 5 cw_expected)"
  by code_simp

lemma econ_backup:
  "yields (backup_with econ_world p frozen (dump_to econ_world flags ''/tmp/pulseexchange.dump'' msg p) False) 9 (\<lambda>_. None) cw_expected 18 cw_files"
  using cw_backup_with[of econ_script 9 "''/tmp/pulseexchange.dump''" p] cw_answers_manifest[of econ_script]
  by (simp add: econ_script_def econ_world_def cw_files_def row_file_def)

lemma econ_store: "\<exists>fs. yields (economy_store econ_world econ_job ''rehearsal-1'' econ_blob cw_expected) 18 cw_files cw_sum 30 fs"
  unfolding economy_store_def Let_def econ_job_sel
  apply (rule exI)
  apply (rule yields_bind, unfold econ_world_def, simp, rule cw_upload[OF econ_holds(1)])
   apply (simp add: cw_files_def economy_dump_def)
  apply (rule yields_bind, simp, rule yields_basic(6))
  apply (rule yields_bind, rule yields_basic(5))
  apply (rule yields_bind, rule yields_basic(4))
  apply (rule yields_bind, rule cw_upload[OF econ_holds(2)])
   apply simp
  apply (rule yields_bind, rule cw_manifest_read[OF econ_holds(2)])
  apply (rule yields_bind, rule yields_basic(2))
   apply (use econ_same in \<open>simp add: cw_files_def economy_dump_def econ_script_def\<close>)
  apply (rule yields_bind, simp add: cw_files_def economy_dump_def download_dump_def, rule cw_download[OF econ_holds(1)])
   apply (simp add: economy_download_def)
  apply (simp, rule yields_basic(1))
  done

lemma econ_prepare:
  assumes "pg_run_id source = ''rehearsal-1''"
  shows "\<exists>fs. yields (economy_prepare econ_world env econ_job source admin econ_blob loc) 8 (\<lambda>_. None) (cw_expected, cw_sum) 30 fs"
proof -
  from econ_store obtain fs where
    st: "yields (economy_store econ_world econ_job ''rehearsal-1'' econ_blob cw_expected) 18 cw_files cw_sum 30 fs" by blast
  have path: "economy_dump econ_world ''pulseexchange'' = ''/tmp/pulseexchange.dump''" by (simp add: economy_dump_def econ_world_def)
  show ?thesis
    unfolding economy_prepare_def Let_def econ_job_sel assms path if_False
    apply (rule exI)
    apply (rule yields_bind, rule yields_basic(7))
    apply (rule yields_bind, rule yields_basic(3))
    apply (rule yields_bind, rule econ_absent[where k = 9], simp, simp)
    apply (rule yields_bind, rule yields_basic(3))
    apply (rule yields_bind, rule econ_backup)
    apply (rule yields_bind, rule yields_basic(3))
    apply (rule yields_bind, rule st, rule yields_basic(1))
    done
qed

lemma econ_create: "reaches_write (create_target econ_world p db role pw loc) 30 fs"
proof -
  have rest: "obeys (emits (on_command (writes_only (db_host (pg_database p))))) (bind (item loc k) (\<lambda>c. bind (text_of c) (\<lambda>collate.
      bind (item loc k') (\<lambda>t. bind (text_of t) (\<lambda>ctype. bind (sql econ_world p (q collate ctype) False None [] None) (\<lambda>_.
      bind (sql econ_world p q' False None [] None) (\<lambda>_. ret ())))))))" for k k' q q'
    by (intro spares.obeys_bind spares.obeys_values spares.obeys_write(1)[OF refl] spares.obeys_ret)
  show ?thesis
    unfolding create_target_def
    by (rule reaches_bind[OF econ_absent[where k = 31]], simp, simp,
        rule reaches_first[where P = "on_command (writes_only (db_host (pg_database p)))"], rule cw_write, simp, simp, rule rest)
qed

lemma econ_copy:
  assumes "pg_run_id source = ''rehearsal-1''" "db_host (pg_database admin) = APPROVED_TARGET_HOST"
    "db_host (pg_database target) = APPROVED_TARGET_HOST"
  shows "reaches_write (economy_copy econ_world env econ_job source admin target pw econ_blob loc) 8 (\<lambda>_. None)"
proof -
  obtain fs where p: "yields (economy_prepare econ_world env econ_job source admin econ_blob loc) 8 (\<lambda>_. None) (cw_expected, cw_sum) 30 fs"
    using econ_prepare[OF assms(1)] by blast
  have name: "rehearsal_name ''pulseexchange_rehearsal''" by (simp add: rehearsal_name_def)
  have schema: "obeys (emits (on_command (writes_only APPROVED_TARGET_HOST))) (prepare_rehearsal_schema econ_world admin
      \<lparr>pg_database = (pg_database admin)\<lparr>db_name := db, db_user := role, db_password := pw\<rparr>, pg_run_id = pg_run_id admin\<rparr> False)" for db role
    by (rule spares.obeys_prepare_rehearsal) (simp_all add: assms)
  have finish: "obeys (emits (on_command (writes_only APPROVED_TARGET_HOST))) (economy_finish econ_world econ_job source target ex c)" for ex c
    unfolding economy_finish_def econ_job_sel using assms(3)
    by (auto intro!: spares.obeys_bind spares.obeys_state spares.obeys_economy_restore spares.obeys_analyze spares.obeys_with_snapshot
        spares.obeys_pg_manifest spares.obeys_require_same spares.obeys_only_if spares.obeys_economy_checks spares.obeys_values
        spares.obeys_total_rows spares.obeys_ret)
  have claim: "reaches_write (economy_claim econ_world econ_job source admin pw loc) 30 fs"
    unfolding economy_claim_def economy_create_target_def econ_job_sel if_False
    apply (rule reaches_bind[OF yields_basic(3)])
    apply (rule reaches_bind[OF yields_basic(2)], simp add: name)
    apply (rule reaches_first[OF econ_create schema])
    done
  show ?thesis unfolding economy_copy_def
    by (rule reaches_bind[OF p], rule reaches_first[OF claim finish])
qed

lemma econ_run: "reaches_write (economy_run econ_world EconomyRehearse econ_env) 0 (\<lambda>_. None)"
proof -
  have id: "run_id_ok ''rehearsal-1''" and names: "account_name ''backups'' \<and> container_name ''private''" by code_simp+
  have pw: "new_password econ_env ''REHEARSAL_APP_PASSWORD'' = ret (replicate 32 CHR ''x'')"
    by (simp add: new_password_def econ_settings require_def bind_ret has_control_def Let_def list_ex_iff)
  have blob: "economy_blob econ_env ''rehearsal-1'' ''pulseexchange'' = ret econ_blob"
    using names by (simp add: economy_blob_def private_blob_init_def SOURCES_def econ_settings require_def bind_ret econ_blob_def Let_def)
  have parse: "parse_database econ_world ''source'' ''pulseexchange'' True =
      ret \<lparr>db_host = SOURCE_HOST, db_name = ''pulseexchange'', db_user = ''u'', db_password = ''p''\<rparr>"
    "parse_database econ_world ''economy'' ''pulseexchange'' False =
      ret \<lparr>db_host = APPROVED_TARGET_HOST, db_name = ''postgres'', db_user = FOUNDATION_OWNER, db_password = ''p''\<rparr>"
    by (simp_all add: parse_database_def SOURCES_def econ_world_def Let_def cw_url_def remove_slash_def SOURCE_HOST_def blank_def
        safe_ssl_query_def has_control_def FOUNDATION_OWNER_def)
  have clients: "yields (require_clients econ_world) 0 fs () 3 fs" for fs
    using cw_clients[of econ_script 0] by (simp add: econ_world_def)
  have ver: "yields (require_version econ_world p) n fs () (Suc n) fs" if "n \<in> {3, 4}" for p n fs
    unfolding econ_world_def by (rule cw_version) (use that in \<open>auto simp: econ_script_def cw_answers_def\<close>)
  have loc: "\<exists>v. yields (pg_locale econ_world p) 5 (\<lambda>_. None) v 6 (\<lambda>_. None)" for p
    unfolding pg_locale_def using econ_ask[of 5 _ 6]
    by (intro exI, intro yields_bind[where k = 6])
      (auto simp: cw_answers_def item_def bind_ret py_eq.simps require_def intro!: yields_basic)
  let ?source = "\<lparr>pg_database = \<lparr>db_host = SOURCE_HOST, db_name = ''pulseexchange'', db_user = ''u'', db_password = ''p''\<rparr>, pg_run_id = ''rehearsal-1''\<rparr>"
  obtain v where v: "yields (pg_locale econ_world ?source) 5 (\<lambda>_. None) v 6 (\<lambda>_. None)" using loc by blast
  have unshared: "yields (require_private econ_world econ_blob) 6 fs () 8 fs" for fs
    using cw_private[OF _ econ_bodies(5), where n = 6] econ_served by (simp add: econ_blob_def econ_world_def)
  have body: "reaches_write (economy_body econ_world econ_env econ_job ?source admin) 4 (\<lambda>_. None)"
    if "db_host (pg_database admin) = APPROVED_TARGET_HOST" "pg_run_id admin = ''rehearsal-1''" for admin
    using that
    apply (simp add: economy_body_def econ_job_sel pw blob bind_ret Let_def bind_assoc)
    apply (rule reaches_bind[OF ver], simp)
    apply (simp, rule reaches_bind[OF v])
    apply (rule reaches_bind[OF yields_basic(3)])
    apply (rule reaches_bind[OF unshared])
    apply (rule econ_copy)
      apply simp_all
    done
  have kind: "economy_kind EconomyRehearse econ_env \<in> {''final'', ''rehearsal''}" by (simp add: economy_kind_def)
  show ?thesis
    unfolding economy_run_def Let_def econ_settings parse bind_ret
    apply (rule reaches_bind[OF yields_basic(2)[OF id]])
    apply (rule reaches_bind[OF clients])
    apply (rule reaches_bind[OF yields_basic(3)])
    apply (rule reaches_bind[OF ver], simp)
    apply (rule reaches_bind[OF yields_basic(2)[OF kind]])
    apply (rule cw_in_directory, fold econ_job_def)
    apply (simp, rule body)
     apply simp_all
    done
qed

text \<open>
  C39.  Both copy jobs fail closed.  Whatever the servers, the network and other clients do, and
  wherever a job stops: every session that may change anything is one on the target server, so the
  source is only read; Inspect and Verify change nothing at all, neither a server nor the backup; and
  any session that may change the target is preceded by a complete read-back of the stored dump, with
  the length and SHA-256 of the file that was uploaded, which is what pg_dump wrote from the source.
  RecoverRehearsal of the second job, which takes no backup of its own, changes the target only after
  the complete download of a saved dump whose manifest names exactly this project, run and
  destination and records this length and SHA-256.
\<close>

theorem copy_jobs_fail_closed:
  assumes "migrate_main wd mode environment = (code, out, h)" "economy_main wd' mode' environment' = (code', out', h')"
  shows "fails_closed wd (mode \<in> {Inspect, Verify}) TARGET_HOST (backup_stored wd SOURCE_HOST) h \<and>
    fails_closed wd' (mode' \<in> {EconomyInspect, EconomyVerify}) APPROVED_TARGET_HOST
      (if mode' = RecoverRehearsal
       then saved_copy wd' (economy_job_of mode' environment') (env_get environment' ''MIGRATION_RUN_ID'')
       else backup_stored wd' (ej_source_host (economy_job_of mode' environment'))) h'"
proof
  show "fails_closed wd (mode \<in> {Inspect, Verify}) TARGET_HOST (backup_stored wd SOURCE_HOST) h"
    using copy_job_closed[OF assms(1)] unfolding fails_closed_def by blast
  obtain r s where run: "economy_run wd' mode' environment' initial_state = (r, s)" by fastforce
  have h: "h' = js_history s" using economy_history[of wd' mode' environment'] assms(2) run by simp
  have start: "js_history initial_state = []" by (simp add: initial_state_def)
  have "list_all (on_command (writes_only APPROVED_TARGET_HOST)) h'"
    using obeysD[OF spares.obeys_economy_run[OF refl] run] by (simp add: emits_def start h)
  moreover have "list_all reading h'" if "mode' \<in> {EconomyInspect, EconomyVerify}"
    using obeysD[OF economy_run_reading[OF that] run] by (simp add: emits_def start h)
  moreover have "after_evidence wd' mode' environment' pre e" if "h' = pre @ e # post" "\<not> on_command changes_nothing e" for pre e post
    using obeysD[OF economy_run_guarded run] that by (simp add: guarded_def start h)
  ultimately show "fails_closed wd' (mode' \<in> {EconomyInspect, EconomyVerify}) APPROVED_TARGET_HOST
      (if mode' = RecoverRehearsal
       then saved_copy wd' (economy_job_of mode' environment') (env_get environment' ''MIGRATION_RUN_ID'')
       else backup_stored wd' (ej_source_host (economy_job_of mode' environment'))) h'"
    unfolding fails_closed_def after_evidence_def Let_def by (auto split: if_splits)
qed

theorem copy_jobs_fail_closed_witness:
  "\<exists>pre e post pre' e' post'. snd (snd (migrate_main rehearsal_world Rehearse cw_env)) = pre @ e # post \<and>
     \<not> on_command changes_nothing e \<and> backup_stored rehearsal_world SOURCE_HOST pre \<and>
     snd (snd (economy_main econ_world EconomyRehearse econ_env)) = pre' @ e' # post' \<and>
     \<not> on_command changes_nothing e' \<and> backup_stored econ_world (ej_source_host econ_job) pre'"
proof -
  obtain code out h where m: "migrate_main rehearsal_world Rehearse cw_env = (code, out, h)" by (metis prod_cases3)
  obtain code' out' h' where m': "economy_main econ_world EconomyRehearse econ_env = (code', out', h')" by (metis prod_cases3)
  obtain e where e: "e \<in> set h" "\<not> on_command changes_nothing e" using rehearsal_writes m by auto
  have "\<exists>e' \<in> set h'. \<not> on_command changes_nothing e'"
    using econ_run economy_history[of econ_world EconomyRehearse econ_env] m' by (auto simp: reaches_write_def initial_state_def)
  then obtain e' where e': "e' \<in> set h'" "\<not> on_command changes_nothing e'" by blast
  obtain pre post pre' post' where "h = pre @ e # post" "h' = pre' @ e' # post'" using e(1) e'(1) by (meson split_list)
  moreover from copy_jobs_fail_closed[OF m m'] have "h = pre @ e # post \<Longrightarrow> backup_stored rehearsal_world SOURCE_HOST pre"
      "h' = pre' @ e' # post' \<Longrightarrow> backup_stored econ_world (ej_source_host econ_job) pre'"
    using e(2) e'(2) unfolding fails_closed_def econ_job_def by simp_all
  ultimately show ?thesis using m m' e(2) e'(2)
    by (intro exI[of _ pre] exI[of _ e] exI[of _ post] exI[of _ pre'] exI[of _ e'] exI[of _ post']) simp
qed

end
