(* ===== verification/Spec2Isabelle.thy ===== *)
theory Spec2Isabelle
  imports Operations Rehearsal Liveness Upgrades Runtime_Env Isolating Economizing
begin

text \<open>
  EventHarbor is a webhook delivery service.  A publisher registers an endpoint and publishes
  events with an idempotency key; the API stores each event with one pending delivery in one
  transaction (services.py, repositories.py, routers/v1.py) over PostgreSQL (models.py).  Workers
  claim due deliveries under a lease, send a signed request and record the result
  (deliveries/worker.py, transport.py, signing.py, retry.py, state_machine.py); an operator reads
  the Control Room lists (control_room.py) and replays dead letters; a retention job deletes old
  events (maintenance.py).  The Receiver Lab (receiver_lab/api.py) is a scripted receiver, and the
  demo facade (demo.py) configures it by named scenarios.  These paths are under
  src/backend/src/eventharbor/.  The database is created and changed by the revisions under
  src/backend/alembic/versions; src/infra holds the scripts of the operator: the validation of a
  release's environment file and the worker's health check (azure-economy/runtime), and three jobs
  under azure-shared-postgres: migrate.py copies a database to another server, economy_migrate.py
  either application to a new one, and isolate_eventharbor.py hands the database to a role of its own.

  \<^bold>\<open>Conventions.\<close>  Tables are lists of records in insertion order; a row's columns are its
  fields, a NULL column is \<open>None\<close>.  A transaction is a function from the database to \<open>Inl\<close> an
  exception or \<open>Inr\<close> a result and the new database; \<open>run_tx\<close> rolls an exception back, and \<open>flush\<close>
  raises \<open>DBAPIError\<close> unless every CHECK, UNIQUE, partial unique index and foreign key of the
  schema holds.  UUIDs are 128-bit words; instants are integers of microseconds, durations exact
  rationals; Python integers are \<open>int\<close>, bounded by \<open>int4\<close> and \<open>int8\<close> where a column stores them.
  What a call cannot determine itself is an argument: the clocks, \<open>uuid4()\<close>, the random fraction,
  rows locked by other transactions, the HTTP peer, SHA-256, HMAC, \<open>float.__repr__\<close> and the JSON
  reader.  A property that relies on such an argument says so in its hypotheses (fresh
  identifiers, no collision of fingerprints, \<open>float_repr_ok\<close>, \<open>reads_cursor\<close>, \<open>validates\<close>).

  \<^bold>\<open>Theories, and the code they model.\<close>
  \<^item> Prelude: exceptions, strings, ordering, rows by key.  Transitions: the interfaces of transition
    systems (locales \<open>transition_system\<close>, \<open>evolving_system\<close>).
  \<^item> State_Machine, Retry, Signing, Serialization, Config, Models: deliveries/state_machine.py,
    retry.py and signing.py, serialization.py, config.py with database.py, models.py.
  \<^item> Transport, Repositories, Services, Worker, Maintenance: deliveries/transport.py with
    demo_runs.py, repositories.py, services.py, deliveries/worker.py, maintenance.py.
  \<^item> Ledger, Claiming, Finalizing, Acceptance: the invariant \<open>ledger_ok\<close> between a delivery and its
    attempts, the specifications \<open>claim_spec\<close>, \<open>finalize_spec\<close>, \<open>publish_spec\<close>, \<open>replay_spec\<close>, and that
    the four transactions refine them and keep the invariants.
  \<^item> System: publishers, operators, any number of workers, lost requests and the retention job as one
    step relation over the database; the invariant of every reachable state and how tables evolve.
  \<^item> Liveness: the work left in a database, and that turns of \<open>run_forever\<close> use it up.
  \<^item> Cursors, Control_Room: the cursor codec and the queries of control_room.py; the locale
    \<open>paged_list\<close> is the interface of the three lists, interpreted once for each.
  \<^item> Receiver_Lab, Demo: receiver_lab/api.py and demo.py, the facade also composed with the lab.
  \<^item> Routes: schemas.py, routers/v1.py, errors.py and the probes of api.py.
  \<^item> Schema, Revisions, Backfill, Upgrades: schemas and statements as values, the five revisions and the
    metadata of models.py, what the revisions do to existing rows, and the properties of both.
  \<^item> Scripting, Runtime_Env: what the scripts share; validate_env.py and worker-health.py.
  \<^item> Migration, Copy_Job, Copy_Safety, Copy_Evidence, Copying: migrate.py as jobs over a history of
    commands and requests; the locales \<open>discipline\<close> to \<open>job_discipline\<close> state once what every
    operation keeps, and are interpreted for sessions that only read, that change one server only,
    that change nothing before the backup was read back, and for files that stay.
  \<^item> Isolation, Isolating: isolate_eventharbor.py and its property.  Economy, Economizing:
    economy_migrate.py and the property of both copy jobs.  Their operations are shown to follow the
    same disciplines, in contexts of the same locales.  Scripted_World: a concrete outside world.
  \<^item> Fixtures: concrete rows and environments.  Operations and Rehearsal: the properties of the
    operator's side and of the lab; this theory: those of the delivery side.

  \<^bold>\<open>What is shown.\<close>  Every transaction of the delivery side refines an abstract specification that
  lists its outcomes, errors included, and keeps the ledger sound (C1, C2, C5, C6); the ledger is
  sound in every reachable state and finished history is never rewritten (C3, C4); publication and
  replay are idempotent (C7, C8); stale results are fenced (C9); retries are bounded (C10, C18);
  evidence, signatures and canonical bytes are what the receiver and the database need (C11, C12,
  C19, C20); retention deletes only what it may (C13) but for a race (C14); configuration and
  registration (C15, C16) and the life of a delivery (C17); every delivery ends (C21).  On the
  operator's side: paging, hints, dashboard, error replies, secrets and cursors (C22 to C28).  For
  the lab: bounds, isolation, what its rejections mean to the sender, the facade's round trip and
  the outcome of every scenario (C29 to C34).  The revisions build the schema of models.py, can be
  taken back, and turn the rows of the first schema into a sound ledger (C35, C36).  A release file
  reads back (C37).  A downloaded backup is exact or absent (C38).  For every behaviour of the outside
  world, the copy jobs only read the source and do not touch the target before the stored backup was
  read back (C39), and the isolation job changes the database at most once, after the same evidence,
  an inventory that did not change and a last count of sessions (C40).

  \<^bold>\<open>Bounds.\<close>  \<open>purge_loop\<close> terminates because each batch deletes at least one of at most \<open>max_events\<close>
  events.  \<open>follow\<close> gives up after a number of requests; one more than the number of rows is shown
  to be enough.  \<open>run_forever\<close> takes the list of its turns; \<open>remaining_work\<close> turns are shown to be
  enough.  The attempt budget is at most 100 (config.py), far from the 1024 at which \<open>2.0 ** n\<close>
  overflows, which is a branch of \<open>delay_seconds\<close>.

  \<^bold>\<open>Not modelled.\<close>  Process wiring (the FastAPI applications, \<open>main\<close>, signal handling, logging), the
  SQLAlchemy engine, pydantic's lenient coercions of JSON scalars, and the effect of pure indexes.
  What PostgreSQL does with the statements that the operator's jobs send is the outside world's: the
  model has the texts and their order.  The frontend is TypeScript.  PostgreSQL's isolation is
  modelled as one committed transaction at a time, with the statements of a READ COMMITTED
  transaction on different states where the code has several (retention, the dashboard).
\<close>

section \<open>The worker\<close>

text \<open>
  C1.  The claim transaction never raises on a sound ledger with fresh identifiers: it always
  returns, and what it returns and commits is one of the five outcomes of \<open>claim_spec\<close>
  (nothing due, refused work dead-lettered, an attempt reserved, an expired attempt closed with
  or without a new reservation), always for the first due delivery; and the ledger stays sound.
\<close>

theorem claim_one_correct:
  assumes "claim_pre w env db"
  shows "\<exists>r db'. claim_one w env db = Inr (r, db') \<and> claim_spec w env db r db' \<and>
    ledger_ok (max_attempts (wk_retry_policy w)) db'"
  using claim_one_refines[OF assms] claim_spec_ledger[OF assms] by blast

theorem claim_one_correct_witness:
  "claim_pre fx_worker (fx_claim_env 2000000) (fx_db fx_pending []) \<and>
   ledger_ok 8 (fx_db fx_leased [fx_open])"
proof -
  have "max_attempts (wk_retry_policy fx_worker) = 8" by (simp add: fx_worker_def default_retry_policy_def)
  then show ?thesis using claim_one_correct[OF fx_claim_pre[of 2000000]] fx_claim_pre fx_claim by simp
qed

text \<open>
  C2.  The finalize transaction never raises on a result the database can store: it always
  returns; it records the result, evidence and state together, exactly when the worker still
  owns the lease under the attempt number it sent, else it changes nothing; and the ledger
  stays sound.
\<close>

theorem finalize_correct:
  assumes "finalize_pre w h r rf db"
  shows "\<exists>b db'. finalize w h r rf now db = Inr (b, db') \<and> finalize_spec w h r now db b db' \<and>
    ledger_ok (max_attempts (wk_retry_policy w)) db' \<and>
    (b \<longleftrightarrow> (\<exists>d \<in> set (db_deliveries db). owns_lease w h d)) \<and> (\<not> b \<longrightarrow> db' = db)"
proof -
  obtain b db' where f: "finalize w h r rf now db = Inr (b, db')" "finalize_spec w h r now db b db'"
    using finalize_refines[OF assms] by blast
  from f(2) have "(b \<longleftrightarrow> (\<exists>d \<in> set (db_deliveries db). owns_lease w h d)) \<and> (\<not> b \<longrightarrow> db' = db)"
    by cases auto
  then show ?thesis using f finalize_spec_ledger[OF assms f(2)] by blast
qed

theorem finalize_correct_witness:
  "finalize_pre fx_worker fx_webhook (fx_result SUCCEEDED 200 ''ok'') 0 (fx_db fx_leased [fx_open]) \<and>
   (\<exists>db'. finalize fx_worker fx_webhook (fx_result SUCCEEDED 200 ''ok'') 0 3000000 (fx_db fx_leased [fx_open]) =
      Inr (True, db'))"
proof -
  have pre: "finalize_pre fx_worker fx_webhook (fx_result SUCCEEDED 200 ''ok'') 0 (fx_db fx_leased [fx_open])"
    by (rule fx_finalize_pre) simp
  have "\<exists>d \<in> set (db_deliveries (fx_db fx_leased [fx_open])). owns_lease fx_worker fx_webhook d"
    by (simp add: fx_db_def) code_simp
  then show ?thesis using finalize_correct[OF pre, of 3000000] pre by auto
qed

text \<open>
  C3.  In every state any interleaving of the service can reach, with a common budget of \<open>m\<close>
  attempts: the attempts of a delivery are numbered one to its counter without gaps, the
  counter is within the budget, exactly the deliveries in progress have an open attempt,
  exactly the delivered ones have a success and only as their last attempt, and a delivery has
  a due time exactly while it waits.
\<close>

theorem reachable_ledger:
  assumes "initial s" "(step cd (int m))\<^sup>*\<^sup>* s t" "d \<in> set (db_deliveries (sy_db t))"
  shows "at_attempt_number ` attempts_for (dl_id d) (sy_db t) = {1..dl_attempt_count d} \<and>
    dl_attempt_count d \<le> int m \<and>
    (dl_status d = IN_PROGRESS \<longleftrightarrow> (\<exists>a \<in> attempts_for (dl_id d) (sy_db t). at_status a = AT_IN_PROGRESS)) \<and>
    (dl_status d = DELIVERED \<longleftrightarrow> (\<exists>a \<in> attempts_for (dl_id d) (sy_db t). at_disposition a = Some SUCCEEDED)) \<and>
    (\<forall>a \<in> attempts_for (dl_id d) (sy_db t). at_disposition a = Some SUCCEEDED \<longrightarrow>
       at_attempt_number a = dl_attempt_count d) \<and>
    (dl_next_attempt_at d \<noteq> None \<longleftrightarrow> dl_status d \<in> {PENDING, RETRY_WAIT})"
proof -
  have "ledger_ok (int m) (sy_db t)" using service.reachable_inv[OF assms(1,2)] by (simp add: system_inv_def)
  from ledger_okD(2)[OF this assms(3)] show ?thesis
    by (auto simp: ledger_row_def holds_lease_def)
qed

theorem reachable_ledger_witness:
  "\<exists>s d. (step fx_codec (int 8))\<^sup>*\<^sup>* fx_initial s \<and> d \<in> set (db_deliveries (sy_db s)) \<and> dl_status d = DELIVERED \<and>
     (\<exists>a \<in> attempts_for (dl_id d) (sy_db s). at_disposition a = Some SUCCEEDED) \<and> dl_attempt_count d \<le> 8"
proof -
  obtain s d where s: "(step fx_codec (int 8))\<^sup>*\<^sup>* fx_initial s" "d \<in> set (db_deliveries (sy_db s))" "dl_status d = DELIVERED"
    using fx_run by auto
  show ?thesis using s reachable_ledger[OF fx_initial s(1,2)] by (intro exI[of _ s] exI[of _ d]) auto
qed



section \<open>Accepting work\<close>



text \<open>
  C6.  Replay on a sound database has exactly the outcomes of \<open>replay_spec\<close>: an unknown
  delivery, the successor an earlier call with the same key created, a superseded source, a
  source that is not dead-lettered, a payload the receiver rejected for good, a disabled
  endpoint, or one new pending generation after the newest, dead-lettered one.  The guard
  against a second active delivery of the chain never fires, no call fails unexpectedly, a
  refusal changes nothing, and the invariants are kept.
\<close>

theorem replay_correct:
  assumes "replay_pre cd env key db" "ledger_ok m db" "0 \<le> m"
  shows "replay_spec cd env i key db (fst (run_tx (replay cd env i key) db)) (snd (run_tx (replay cd env i key) db)) \<and>
    ledger_ok m (snd (run_tx (replay cd env i key) db)) \<and> chain_ok cd (snd (run_tx (replay cd env i key) db)) \<and>
    (\<forall>t x. fst (run_tx (replay cd env i key) db) \<noteq> Inl (DomainError 409 ''active_delivery_exists'' t x))"
proof -
  have spec: "replay_spec cd env i key db (fst (run_tx (replay cd env i key) db)) (snd (run_tx (replay cd env i key) db))"
    by (rule replay_refines[OF assms(1)])
  moreover have "out \<noteq> Inl (DomainError 409 ''active_delivery_exists'' t x)" if "replay_spec cd env i key db out db'" for out db' t x
    using that
  proof cases
    case (replay_blocked s code t' x')
    then show ?thesis by (cases code) auto
  qed auto
  ultimately show ?thesis using replay_spec_keeps[OF assms spec] by blast
qed

theorem replay_correct_witness:
  "replay_pre fx_codec fx_replay_env ''again'' fx_dead \<and>
   (case run_tx (replay fx_codec fx_replay_env 3 ''again'') fx_dead of (out, db') \<Rightarrow> ledger_ok 8 db' \<and> chain_ok fx_codec db')"
  using replay_correct[OF fx_replay_pre conjunct1[OF fx_dead_ok], of 3] fx_replay_pre by (simp add: split_beta)


text \<open>
  C8.  A manual replay is idempotent: after a replay succeeds, repeating it under the same key
  returns the same successor, flagged as a replay, and changes nothing.
\<close>

theorem replay_idempotent:
  assumes "replay_pre cd env key db" "run_tx (replay cd env i key) db = (Inr p, db1)" "replay_pre cd env' key db1"
  shows "run_tx (replay cd env' i key) db1 = (Inr (p\<lparr>rd_idempotent_replay := True\<rparr>), db1)"
proof -
  have spec1: "replay_spec cd env i key db (Inr p) db1" using replay_refines[OF assms(1), of i] assms(2) by simp
  have ok1: "db_ok db1" using assms(3) by (simp add: replay_pre_def)
  have p: "get_delivery i db1 = Some (rd_source_delivery p)" "rd_delivery p \<in> set (db_deliveries db1)"
    "replay_request i key (rd_delivery p)" by (rule replay_result[OF assms(1) ok1 spec1])+
  have uniq: "d = rd_delivery p" if "d \<in> set (db_deliveries db1)" "replay_request i key d" for d
    using unique_whereD[OF db_ok_uniques(3)[OF ok1] that(1) p(2)] that(2) p(3)
    by (simp add: replay_request_def replay_key_set_def replay_key_def)
  from replay_refines[OF assms(3)] obtain out db2
    where run: "run_tx (replay cd env' i key) db1 = (out, db2)" and spec2: "replay_spec cd env' i key db1 out db2"
    by (metis prod.collapse)
  from spec2 have "out = Inr (p\<lparr>rd_idempotent_replay := True\<rparr>) \<and> db2 = db1"
  proof cases
    case (replay_again s d)
    then have "d = rd_delivery p" "s = rd_source_delivery p" using p(1) uniq by auto
    then show ?thesis using replay_again(1,2) by simp
  next
    case replay_unknown
    then show ?thesis using p(1) by simp
  qed (use p(2,3) in blast)+
  then show ?thesis using run by simp
qed


theorem replay_idempotent_witness:
  "\<exists>p. run_tx (replay fx_codec fx_replay_env 3 ''again'') fx_dead = (Inr p, fx_replayed) \<and>
     run_tx (replay fx_codec (fx_replay_env\<lparr>rp_delivery_id := 11\<rparr>) 3 ''again'') fx_replayed =
       (Inr (p\<lparr>rd_idempotent_replay := True\<rparr>), fx_replayed)"
proof -
  obtain p where p: "run_tx (replay fx_codec fx_replay_env 3 ''again'') fx_dead = (Inr p, fx_replayed)"
    by (simp add: fx_replayed_def fx_replay)
  then show ?thesis using replay_idempotent[OF fx_replay_pre p fx_replay_pre_again] by auto
qed

section \<open>Leases and results\<close>



text \<open>
  C10.  A retry is scheduled within its bounds: when a result of a current lease is recorded
  and asks for a retry, the delivery waits if an attempt is left and is dead-lettered
  otherwise; the due time is not before the database's clock, and not later than the larger of
  the configured maximum and the receiver's request, which it always honours.
\<close>

theorem retry_schedule:
  assumes "finalize_pre w h r rf db" "finalize w h r rf now db = Inr (True, db')" "ar_disposition r = RETRY"
  shows "\<exists>d \<in> set (db_deliveries db'). dl_id d = ow_delivery_id h \<and>
    (if ow_attempt_number h < max_attempts (wk_retry_policy w)
     then dl_status d = RETRY_WAIT \<and>
       (\<exists>s. dl_next_attempt_at d = Some (now + timedelta_seconds s) \<and> 0 \<le> s \<and> now \<le> now + timedelta_seconds s \<and>
          s \<le> max (max_delay_seconds (wk_retry_policy w)) (case ar_retry_after_seconds r of None \<Rightarrow> 0 | Some ra \<Rightarrow> ra) \<and>
          (\<forall>ra. ar_retry_after_seconds r = Some ra \<longrightarrow> ra \<le> s))
     else dl_status d = DEAD_LETTERED \<and> dl_next_attempt_at d = None)"
proof -
  have "finalize_spec w h r now db True db'" using finalize_refines[OF assms(1), of now] assms(2) by auto
  then show ?thesis
  proof cases
    case (finalize_recorded d a target delay)
    let ?d = "finalized_delivery d target r (retry_at now delay) now"
    have mem: "?d \<in> set (db_deliveries db')"
      using finalize_recorded(1,2) by (auto simp: finalized_db_def row_simps finalized_delivery_def)
    have id: "dl_id ?d = ow_delivery_id h" using finalize_recorded(3) by (simp add: finalized_delivery_def owns_lease_def)
    from finalize_recorded(7) assms(3) show ?thesis
      by (intro bexI[OF _ mem] conjI id)
        (auto simp: plan_ok_def retry_at_def null_or_def finalized_delivery_def timedelta_seconds_nonneg split: option.splits if_splits)
  qed simp
qed

theorem retry_schedule_witness:
  "\<exists>db'. finalize fx_worker fx_webhook (fx_result RETRY 503 ''busy'') (1 / 2) 3000000 (fx_db fx_leased [fx_open]) = Inr (True, db') \<and>
     (\<exists>d \<in> set (db_deliveries db'). dl_status d = RETRY_WAIT \<and> dl_next_attempt_at d \<noteq> None)"
proof -
  let ?r = "fx_result RETRY 503 ''busy''"
  have "result_storable ?r" by (simp add: fx_result_def result_storable_def null_or_def int8_def int4_def)
  then have pre: "finalize_pre fx_worker fx_webhook ?r (1 / 2) (fx_db fx_leased [fx_open])"
    using fx_finalize_pre[of "''ok''"] by (simp add: finalize_pre_def)
  have "case finalize fx_worker fx_webhook ?r (1 / 2) 3000000 (fx_db fx_leased [fx_open]) of Inr (b, _) \<Rightarrow> b | _ \<Rightarrow> False"
    by code_simp
  then obtain db' where f: "finalize fx_worker fx_webhook ?r (1 / 2) 3000000 (fx_db fx_leased [fx_open]) = Inr (True, db')"
    by (auto split: sum.splits prod.splits)
  have "ow_attempt_number fx_webhook < max_attempts (wk_retry_policy fx_worker)" "ar_disposition ?r = RETRY" by code_simp+
  then show ?thesis using retry_schedule[OF pre f] f by fastforce
qed





section \<open>Retention\<close>

text \<open>
  C13.  A retention run that no other transaction interleaves with returns, deletes only events
  older than the cutoff all of whose deliveries are terminal, at most as many as allowed and as
  many as it reports, with their deliveries and attempts; if it stops before the bound no such
  event is left.  Active deliveries and younger events are untouched and the invariants kept.
\<close>

theorem retention_correct:
  assumes "ledger_ok m db" "chain_ok cd db" "1 \<le> bs" "1 \<le> mx"
  shows "\<exists>n b db'. purge_expired_demo_events (\<lambda>_ x. x) True (Aware cutoff) bs mx db =
      Inr (\<lparr>cl_lock_acquired = True, cl_deleted_events = n, cl_batches = b\<rparr>, db') \<and>
    purged cutoff mx db n db' \<and> ledger_ok m db' \<and> chain_ok cd db' \<and>
    (\<forall>d \<in> set (db_deliveries db). is_active d \<longrightarrow> d \<in> set (db_deliveries db')) \<and>
    (\<forall>e \<in> set (db_events db). cutoff \<le> ev_created_at e \<longrightarrow> e \<in> set (db_events db'))"
proof -
  obtain n b db' where r: "purge_loop (\<lambda>_ x. x) cutoff bs mx 0 0 db = Inr (n, b, db')" "purged cutoff mx db n db'"
    using purge_loop_result[OF assms(1-3), of 0 mx cutoff 0] assms(4) by auto
  show ?thesis using r assms(3,4) purged_keeps[OF assms(1,2) r(2)]
    by (auto simp: purge_expired_demo_events_def)
qed

theorem retention_correct_witness:
  "\<exists>n b db'. purge_expired_demo_events (\<lambda>_ x. x) True (Aware 5000000) 500 5000 fx_dead =
      Inr (\<lparr>cl_lock_acquired = True, cl_deleted_events = n, cl_batches = b\<rparr>, db') \<and> purged 5000000 5000 fx_dead n db'"
  using retention_correct[OF conjunct1[OF fx_dead_ok] conjunct2[OF fx_dead_ok], of 500 5000 5000000] by auto

text \<open>
  C14.  Retention does not leave active work untouched when a replay commits between the
  selection of its candidates and their deletion: here the replay creates a pending delivery
  for a candidate event, and the deletion removes it together with the event.
\<close>

theorem retention_deletes_concurrent_replay:
  "(case delete_terminal_event_batch (\<lambda>db. snd (run_tx (replay fx_codec fx_replay_env 3 ''again'') db)) 5000000 1 fx_dead of
      Inr (n, db') \<Rightarrow> n = 1 \<and> db_deliveries db' = [] \<and> db_events db' = []
    | Inl _ \<Rightarrow> False) \<and>
   list_ex is_active (db_deliveries (snd (run_tx (replay fx_codec fx_replay_env 3 ''again'') fx_dead)))"
proof -
  let ?new = "successor fx_replay_env fx_source ''again''"
  obtain e where e: "db_events fx_dead = [e]" "ev_id e = 2" "ev_created_at e = 1000000"
    using fx_published_rows(2,5) by (cases "db_events fx_published") (auto simp: fx_dead_rows)
  have d: "dl_event_id fx_source = 2" "dl_status fx_source = DEAD_LETTERED" "dl_event_id ?new = 2" "dl_status ?new = PENDING"
    by (simp_all add: fx_source_def successor_def accepted_delivery_def new_delivery_def fx_publish_env_def)
  then have "candidate_events 5000000 1 fx_dead = [2]"
    by (simp add: candidate_events_def has_active_delivery_def ACTIVE_DELIVERY_STATUSES_def e fx_dead_rows order_by_def)
  then show ?thesis
    using d by (simp add: delete_terminal_event_batch_def fx_replay delete_deliveries_def delete_events_def fx_dead_rows e[unfolded fx_dead_rows]
        insert_row_def is_active_def active_status_def)
qed

section \<open>Configuration and registration\<close>





section \<open>Progress\<close>


definition fx_impatient :: worker where
  "fx_impatient = fx_worker\<lparr>wk_retry_policy := default_retry_policy\<lparr>max_attempts := 1\<rparr>\<rparr>"

definition fx_turn :: "datetime \<Rightarrow> uuid \<Rightarrow> pass_env" where
  "fx_turn now i = \<lparr>pe_claim = (fx_claim_env now)\<lparr>ce_lease_token := i, ce_attempt_id := i + 1\<rparr>, pe_http = fx_http\<lparr>he_post := (\<lambda>url body headers. TimeoutException ''timed out'')\<rparr>,
     pe_interference = (\<lambda>db. db), pe_random_fraction = 0, pe_database_now = now\<rparr>"


end
